(* ===== verification/Prelude.thy ===== *)
theory Prelude
  imports Main "HOL-Library.Word"
begin

text \<open>
  What the components share: the machine types of the C code, the two success codes, the
  named collections that carry the proofs, a locale for transition systems with an
  invariant (each component interprets it on its own steps), and a locale for the bounded
  retry loops of the MQTT and the HTTPS client.
\<close>

section \<open>Machine types\<close>

type_synonym u8 = "8 word"
type_synonym u16 = "16 word"
type_synonym u32 = "32 word"
type_synonym u64 = "64 word"

text \<open>
  \<open>cy_rslt_t\<close> is a 32 bit unsigned code and \<open>0\<close> is its success value: the source
  tests it both as \<open>result == CY_RSLT_SUCCESS\<close> and as \<open>if (result)\<close>. The status codes
  of iotc-c-lib are \<open>int\<close>, with the same convention for \<open>IOTCL_SUCCESS\<close>.
\<close>

type_synonym cy_rslt = "32 word"
type_synonym c_int = "32 word"

abbreviation CY_RSLT_SUCCESS :: cy_rslt where
  "CY_RSLT_SUCCESS \<equiv> 0"

abbreviation IOTCL_SUCCESS :: c_int where
  "IOTCL_SUCCESS \<equiv> 0"

section \<open>Collections\<close>

named_theorems inv_intros \<open>preservation lemmas, one per operation\<close>
named_theorems step_defs \<open>definitions of the operations of a component\<close>
named_theorems frame_simps \<open>what an operation leaves unchanged\<close>

section \<open>Transition systems\<close>

text \<open>
  A component is a set of start states and a step relation. The locale lifts an invariant
  of single steps to every reachable state, once for all components.
\<close>

locale transition_system =
  fixes start :: "'s \<Rightarrow> bool"
    and step :: "'s \<Rightarrow> 's \<Rightarrow> bool"
    and inv :: "'s \<Rightarrow> bool"
  assumes inv_start: "start s \<Longrightarrow> inv s"
    and inv_step: "inv s \<Longrightarrow> step s t \<Longrightarrow> inv t"
begin

lemma inv_steps:
  assumes "step\<^sup>*\<^sup>* s t" and "inv s"
  shows "inv t"
  using assms by (induction rule: rtranclp_induct) (auto intro: inv_step)

lemma inv_reachable:
  assumes "start s" and "step\<^sup>*\<^sup>* s t"
  shows "inv t"
  using assms by (blast intro: inv_start inv_steps)

end

section \<open>Bounded retry loops\<close>

text \<open>
  The shape of the loops of \<open>mqtt_subscribe\<close>, \<open>mqtt_connect\<close> and
  \<open>iotconnect_https_request\<close>: at most \<open>n\<close> attempts, stop at the first success, run
  some pause (told how many attempts are left) after a failure, and return the result of
  the last attempt. \<open>tries\<close> counts attempts in the state.
\<close>

locale bounded_retry =
  fixes attempt :: "'s \<Rightarrow> cy_rslt \<times> 's"
    and pause :: "nat \<Rightarrow> 's \<Rightarrow> 's"
    and loop :: "nat \<Rightarrow> cy_rslt \<Rightarrow> 's \<Rightarrow> cy_rslt \<times> 's"
    and tries :: "'s \<Rightarrow> nat"
  assumes loop_0: "loop 0 r s = (r, s)"
    and loop_Suc: "loop (Suc n) r s =
          (case attempt s of (r', s') \<Rightarrow>
             if r' = CY_RSLT_SUCCESS then (r', s') else loop n r' (pause n s'))"
    and tries_attempt: "tries (snd (attempt s)) = Suc (tries s)"
    and tries_pause: "tries (pause n s) = tries s"
begin

lemma loop_tries_le: "tries (snd (loop n r s)) \<le> tries s + n"
proof (induction n arbitrary: r s)
  case 0
  show ?case by (simp add: loop_0)
next
  case (Suc n)
  obtain r' s' where a: "attempt s = (r', s')" by fastforce
  with tries_attempt[of s] have t: "tries s' = Suc (tries s)" by simp
  show ?case
    using Suc.IH[of r' "pause n s'"] by (simp add: loop_Suc a t tries_pause)
qed

lemma loop_fail_tries:
  "fst (loop n r s) \<noteq> CY_RSLT_SUCCESS \<Longrightarrow> tries (snd (loop n r s)) = tries s + n"
proof (induction n arbitrary: r s)
  case 0
  show ?case by (simp add: loop_0)
next
  case (Suc n)
  obtain r' s' where a: "attempt s = (r', s')" by fastforce
  with tries_attempt[of s] have t: "tries s' = Suc (tries s)" by simp
  from Suc.prems have r': "r' \<noteq> CY_RSLT_SUCCESS"
    by (auto simp: loop_Suc a split: if_splits)
  with Suc.prems have "fst (loop n r' (pause n s')) \<noteq> CY_RSLT_SUCCESS"
    by (simp add: loop_Suc a)
  from Suc.IH[OF this] show ?case
    by (simp add: loop_Suc a r' t tries_pause)
qed

lemma loop_first_success:
  "fst (attempt s) = CY_RSLT_SUCCESS \<Longrightarrow> loop (Suc n) r s = attempt s"
  by (cases "attempt s") (simp add: loop_Suc)

lemma loop_inv:
  assumes "P s"
    and "\<And>s. P s \<Longrightarrow> P (snd (attempt s))"
    and "\<And>n s. P s \<Longrightarrow> P (pause n s)"
  shows "P (snd (loop n r s))"
  using assms(1)
proof (induction n arbitrary: r s)
  case 0
  then show ?case by (simp add: loop_0)
next
  case (Suc n)
  obtain r' s' where a: "attempt s = (r', s')" by fastforce
  with assms(2)[OF Suc.prems] have "P s'" by simp
  then show ?case
    using Suc.IH[OF assms(3)] by (simp add: loop_Suc a)
qed

end

section \<open>Counting in traces\<close>

abbreviation count_if :: "('a \<Rightarrow> bool) \<Rightarrow> 'a list \<Rightarrow> nat" where
  "count_if P xs \<equiv> length (filter P xs)"

end
