(* ===== verification/SntpTime.thy ===== *)
theory SntpTime
  imports Prelude "HOL-Library.Signed_Division"
begin

unbundle bit_operations_syntax

text \<open>
  The time arithmetic of \<open>source/sntp.c\<close>: the epoch shift and the two conversions between
  Unix time with microseconds and NTP timestamps (the macros \<open>SNTP_FRAC_TO_US\<close>,
  \<open>SNTP_SET_SYSTEM_TIME_NTP\<close> and \<open>SNTP_GET_SYSTEM_TIME_NTP\<close>), byte order, and the
  64 bit round-trip compensation of \<open>sntp_process\<close>. Everything is kept at its C width:
  \<open>s32_t\<close> and \<open>s64_t\<close> values are words read with \<open>sint\<close>.
\<close>

section \<open>Definitions\<close>

definition DIFF_SEC_1970_2036 :: u32 where
  "DIFF_SEC_1970_2036 = 2085978496"

text \<open>The flag is \<open>LWIP_HAVE_INT64\<close>.\<close>

definition SNTP_FRAC_TO_US :: "bool \<Rightarrow> u32 \<Rightarrow> u32" where
  "SNTP_FRAC_TO_US int64 f =
     (if int64 then ucast (drop_bit 32 ((ucast f :: u64) * 1000000)) else f div 4295)"

text \<open>
  \<open>SNTP_SET_SYSTEM_TIME_NTP(s, f)\<close> in the build with \<open>SNTP_SET_SYSTEM_TIME_US\<close>: the
  two arguments it hands to \<open>iotc_set_system_time_us\<close>.
\<close>

definition SNTP_SET_SYSTEM_TIME_NTP :: "bool \<Rightarrow> u32 \<Rightarrow> u32 \<Rightarrow> u32 \<times> u32" where
  "SNTP_SET_SYSTEM_TIME_NTP int64 s f = (s + DIFF_SEC_1970_2036, SNTP_FRAC_TO_US int64 f)"

text \<open>
  \<open>SNTP_GET_SYSTEM_TIME_NTP\<close>: from what \<open>SNTP_GET_SYSTEM_TIME\<close> stored in \<open>sec_\<close> and
  \<open>usec_\<close> to NTP seconds and fraction.
\<close>

definition SNTP_GET_SYSTEM_TIME_NTP :: "u32 \<times> u32 \<Rightarrow> u32 \<times> u32" where
  "SNTP_GET_SYSTEM_TIME_NTP t =
     (case t of (sec_, usec_) \<Rightarrow>
       (sec_ - DIFF_SEC_1970_2036,
        usec_ * 4295 - drop_bit 16 (usec_ * 2143) + 2147))"

text \<open>\<open>struct sntp_time\<close>: a 64 bit timestamp, both words in network byte order.\<close>

record sntp_time =
  ntp_sec :: u32
  ntp_frac :: u32

text \<open>\<open>struct sntp_timestamps\<close>.\<close>

record sntp_timestamps =
  ts_orig :: sntp_time
  ts_recv :: sntp_time
  ts_xmit :: sntp_time

text \<open>\<open>lwip_htonl\<close> and \<open>lwip_ntohl\<close> on the little endian target: a byte swap.\<close>

definition lwip_ntohl :: "u32 \<Rightarrow> u32" where
  "lwip_ntohl x =
     push_bit 24 (x AND 0xFF) OR push_bit 8 (x AND 0xFF00)
     OR (drop_bit 8 x AND 0xFF00) OR (drop_bit 24 x AND 0xFF)"

definition lwip_htonl :: "u32 \<Rightarrow> u32" where
  "lwip_htonl = lwip_ntohl"

definition SNTP_SEC_FRAC_TO_S64 :: "u32 \<Rightarrow> u32 \<Rightarrow> u64" where
  "SNTP_SEC_FRAC_TO_S64 s f = push_bit 32 (ucast s) OR ucast f"

definition SNTP_TIMESTAMP_TO_S64 :: "sntp_time \<Rightarrow> u64" where
  "SNTP_TIMESTAMP_TO_S64 t = SNTP_SEC_FRAC_TO_S64 (lwip_ntohl (ntp_sec t)) (lwip_ntohl (ntp_frac t))"

text \<open>
  Signed 64 bit arithmetic. Signed overflow is undefined in C: the checked operations return
  \<open>None\<close> there. C's division truncates towards zero, as \<open>sdiv\<close> on \<open>int\<close> does.
\<close>

definition s64_range :: "int \<Rightarrow> bool" where
  "s64_range i \<longleftrightarrow> - (2 ^ 63) \<le> i \<and> i < 2 ^ 63"

definition s64_add :: "u64 \<Rightarrow> u64 \<Rightarrow> u64 option" where
  "s64_add a b = (if s64_range (sint a + sint b) then Some (a + b) else None)"

definition s64_sub :: "u64 \<Rightarrow> u64 \<Rightarrow> u64 option" where
  "s64_sub a b = (if s64_range (sint a - sint b) then Some (a - b) else None)"

definition s64_half :: "u64 \<Rightarrow> u64" where
  "s64_half a = word_of_int (sint a sdiv 2)"

text \<open>The guard on the clock step: \<open>(step_sec >> 30) == 0\<close>, with \<open>s32_t\<close> arguments.\<close>

definition step_sec :: "u32 \<Rightarrow> u32 \<Rightarrow> u32" where
  "step_sec dest_sec s = (if dest_sec <s s then s - dest_sec else dest_sec - s)"

definition step_small :: "u32 \<Rightarrow> u32 \<Rightarrow> bool" where
  "step_small dest_sec s \<longleftrightarrow> drop_bit 30 (step_sec dest_sec s) = 0"

text \<open>\<open>t4 += ((t2 - t1) + (t3 - t4)) / 2\<close>, in the order the expression evaluates.\<close>

definition clock_offset :: "u64 \<Rightarrow> u64 \<Rightarrow> u64 \<Rightarrow> u64 \<Rightarrow> u64 option" where
  "clock_offset t1 t2 t3 t4 =
     Option.bind (s64_sub t2 t1) (\<lambda>a.
     Option.bind (s64_sub t3 t4) (\<lambda>b.
     Option.bind (s64_add a b) (\<lambda>c.
     s64_add t4 (s64_half c))))"

text \<open>
  The value the two's complement target computes for the same expression when it wraps.
\<close>

definition clock_offset_wrap :: "u64 \<Rightarrow> u64 \<Rightarrow> u64 \<Rightarrow> u64 \<Rightarrow> u64" where
  "clock_offset_wrap t1 t2 t3 t4 = t4 + s64_half ((t2 - t1) + (t3 - t4))"

text \<open>
  The body of the compensation in \<open>sntp_process\<close>: from the timestamps, the current time
  (already in NTP form) and the transmit time to the corrected seconds and fraction. The
  first component is \<open>True\<close> where the C expression overflows; the value is then the one of
  the wrapping target.
\<close>

definition compensate ::
    "sntp_timestamps \<Rightarrow> u32 \<times> u32 \<Rightarrow> u32 \<Rightarrow> u32 \<Rightarrow> bool \<times> u32 \<times> u32" where
  "compensate ts dest s f =
     (case dest of (dest_sec, dest_frac) \<Rightarrow>
       if step_small dest_sec s then
         (let t4 = SNTP_SEC_FRAC_TO_S64 dest_sec dest_frac;
              t3 = SNTP_SEC_FRAC_TO_S64 s f;
              t1 = SNTP_TIMESTAMP_TO_S64 (ts_orig ts);
              t2 = SNTP_TIMESTAMP_TO_S64 (ts_recv ts);
              t = (case clock_offset t1 t2 t3 t4 of
                     Some r \<Rightarrow> r
                   | None \<Rightarrow> clock_offset_wrap t1 t2 t3 t4)
          in (clock_offset t1 t2 t3 t4 = None, ucast (drop_bit 32 t), ucast t))
       else (False, s, f))"

section \<open>Conversions\<close>

lemma frac_to_us_unat:
  "unat (SNTP_FRAC_TO_US True f) = unat f * 1000000 div 2 ^ 32"
proof -
  have f: "unat f < 2 ^ 32" using unsigned_less[of f] by simp
  then have "unat f * 1000000 < 2 ^ 64" by simp
  then have m: "unat ((ucast f :: u64) * 1000000) = unat f * 1000000"
    by (simp add: unat_word_ariths unsigned_ucast_eq take_bit_nat_eq_self)
  then have "unat (drop_bit 32 ((ucast f :: u64) * 1000000)) = drop_bit 32 (unat f * 1000000)"
    by (simp only: unat_drop_bit_eq)
  moreover have "drop_bit 32 (unat f * 1000000) < 2 ^ 32" using f by (simp add: drop_bit_eq_div)
  ultimately have "unat (SNTP_FRAC_TO_US True f) = drop_bit 32 (unat f * 1000000)"
    by (simp only: SNTP_FRAC_TO_US_def if_True unsigned_ucast_eq)
       (simp add: take_bit_nat_eq_self)
  then show ?thesis by (simp only: drop_bit_eq_div)
qed

lemma frac_of_usec_unat:
  assumes "unat u < 1000000"
  shows "unat (snd (SNTP_GET_SYSTEM_TIME_NTP (s, u)))
         = unat u * 4295 - unat u * 2143 div 2 ^ 16 + 2147"
proof -
  define n m where "n = unat u" and "m = n * 2143 div 2 ^ 16"
  have n: "n < 1000000" using assms by (simp add: n_def)
  have m: "2 ^ 16 * m \<le> n * 2143" and m': "n * 2143 < 2 ^ 16 * m + 2 ^ 16"
    unfolding m_def by simp_all
  have u: "u = word_of_nat n" by (simp add: n_def)
  have "unat (drop_bit 16 (u * 2143)) = m"
    using n by (simp add: unat_drop_bit_eq drop_bit_eq_div unat_word_ariths m_def n_def)
  then have "drop_bit 16 (u * 2143) = word_of_nat m"
    by (metis of_nat_unat ucast_id)
  then have e: "u * 4295 - drop_bit 16 (u * 2143) + 2147
      = word_of_int (int n * 4295 - int m + 2147)"
    by (simp add: u)
  have "uint (u * 4295 - drop_bit 16 (u * 2143) + 2147) = (int n * 4295 - int m + 2147) mod 2 ^ 32"
    unfolding e uint_word_of_int by simp
  also have "(int n * 4295 - int m + 2147) mod 2 ^ 32 = int n * 4295 - int m + 2147"
    using n m m' by (intro mod_pos_pos_trivial) simp_all
  finally have "unat (u * 4295 - drop_bit 16 (u * 2143) + 2147) = nat (int n * 4295 - int m + 2147)"
    by (simp only: unat_eq_nat_uint)
  also have "\<dots> = n * 4295 - m + 2147"
    using m by (simp add: nat_eq_iff of_nat_diff)
  finally show ?thesis
    by (simp only: SNTP_GET_SYSTEM_TIME_NTP_def prod.case snd_conv n_def m_def)
qed

lemma frac_us_roundtrip:
  assumes "unat u < 1000000"
  shows "SNTP_FRAC_TO_US True (snd (SNTP_GET_SYSTEM_TIME_NTP (s, u))) = u"
proof -
  let ?n = "unat u"
  have "(?n * 4295 - ?n * 2143 div 2 ^ 16 + 2147) * 1000000 div 2 ^ 32 = ?n"
  proof (rule div_nat_eqI)
    have "2 ^ 16 * (?n * 2143 div 2 ^ 16) \<le> ?n * 2143" by simp
    then show "2 ^ 32 * ?n \<le> (?n * 4295 - ?n * 2143 div 2 ^ 16 + 2147) * 1000000"
      by (simp add: diff_mult_distrib)
    have "?n * 2143 < 2 ^ 16 * (?n * 2143 div 2 ^ 16) + 2 ^ 16" by simp
    then show "(?n * 4295 - ?n * 2143 div 2 ^ 16 + 2147) * 1000000 < 2 ^ 32 * Suc ?n"
      using assms by (simp add: diff_mult_distrib)
  qed
  then show ?thesis
    by (simp add: word_unat_eq_iff frac_to_us_unat frac_of_usec_unat assms)
qed

lemma set_get_system_time:
  "unat u < 1000000 \<Longrightarrow>
   (case SNTP_GET_SYSTEM_TIME_NTP (s, u) of (ns, nf) \<Rightarrow> SNTP_SET_SYSTEM_TIME_NTP True ns nf) = (s, u)"
  using frac_us_roundtrip[of u s]
  by (simp add: SNTP_SET_SYSTEM_TIME_NTP_def SNTP_GET_SYSTEM_TIME_NTP_def)

lemma frac_to_us_bound: "unat (SNTP_FRAC_TO_US int64 f) < 1000000"
proof (cases int64)
  case True
  have "unat f < 2 ^ 32" using unsigned_less[of f] by simp
  with True show ?thesis by (simp add: frac_to_us_unat)
next
  case False
  have "unat f < 2 ^ 32" using unsigned_less[of f] by simp
  then have "unat f div 4295 < 1000000" by simp
  with False show ?thesis by (simp add: SNTP_FRAC_TO_US_def unat_div)
qed

lemma fallback_frac_error:
  assumes "unat u < 1000000"
  shows "unat (SNTP_FRAC_TO_US False (snd (SNTP_GET_SYSTEM_TIME_NTP (s, u)))) \<le> unat u"
    and "unat u \<le> unat (SNTP_FRAC_TO_US False (snd (SNTP_GET_SYSTEM_TIME_NTP (s, u)))) + 8"
  using assms by (simp_all add: SNTP_FRAC_TO_US_def unat_div frac_of_usec_unat)

section \<open>Signed values of 64 bit timestamps\<close>

lemma sint_word_of_int_range:
  "s64_range k \<Longrightarrow> sint (word_of_int k :: u64) = k"
  by (simp add: s64_range_def signed_of_int signed_take_bit_int_eq_self)

lemma s64_range_sint [simp]: "s64_range (sint (a :: u64))"
  using sint_greater_eq[of a] sint_less[of a] by (simp add: s64_range_def)

lemma sint_sec_frac:
  "sint (SNTP_SEC_FRAC_TO_S64 s f) = sint s * 2 ^ 32 + uint f"
proof -
  have f: "0 \<le> uint f" "uint f < 2 ^ 32" using uint_lt2p[of f] by simp_all
  have s: "- (2 ^ 31) \<le> sint s" "sint s < 2 ^ 31"
    using sint_greater_eq[of s] sint_less[of s] by simp_all
  have "SNTP_SEC_FRAC_TO_S64 s f = push_bit 32 (ucast s) + (ucast f :: u64)"
    unfolding SNTP_SEC_FRAC_TO_S64_def
    by (rule disjunctive_add [symmetric]) (auto simp: bit_simps dest: bit_imp_le_length)
  also have "push_bit 32 (ucast s :: u64) = push_bit 32 (word_of_int (sint s))"
    by (rule bit_eqI) (auto simp: bit_simps)
  also have "\<dots> + (ucast f :: u64) = word_of_int (sint s * 2 ^ 32 + uint f)"
    by (simp add: push_bit_eq_mult unsigned_word_eqI)
  finally have "SNTP_SEC_FRAC_TO_S64 s f = word_of_int (sint s * 2 ^ 32 + uint f)" .
  moreover have "s64_range (x * 2 ^ 32 + y)"
    if "0 \<le> y" "y < 2 ^ 32" "- (2 ^ 31) \<le> x" "x < 2 ^ 31" for x y :: int
    using that by (simp add: s64_range_def)
  ultimately show ?thesis using f s by (simp only: sint_word_of_int_range)
qed

section \<open>The compensation\<close>

lemma sint_add_range: "s64_range (sint a + sint b) \<Longrightarrow> sint (a + b :: u64) = sint a + sint b"
  using sint_word_of_int_range[of "sint a + sint b"] by simp

lemma sint_sub_range: "s64_range (sint a - sint b) \<Longrightarrow> sint (a - b :: u64) = sint a - sint b"
  using sint_word_of_int_range[of "sint a - sint b"] by simp

lemma s64_add_Some: "s64_add a b = Some c \<Longrightarrow> sint c = sint a + sint b"
  by (auto simp: s64_add_def sint_add_range split: if_splits)

lemma s64_sub_Some: "s64_sub a b = Some c \<Longrightarrow> sint c = sint a - sint b"
  by (auto simp: s64_sub_def sint_sub_range split: if_splits)

lemma sdiv2_range: "s64_range k \<Longrightarrow> s64_range (k sdiv 2)"
  by (cases "0 \<le> k") (auto simp: s64_range_def signed_divide_int_def sgn_if)

lemma s64_half_value: "sint (s64_half a) = sint a sdiv 2"
  unfolding s64_half_def by (rule sint_word_of_int_range) (rule sdiv2_range, simp)

lemma clock_offset_value:
  "clock_offset t1 t2 t3 t4 = Some r \<Longrightarrow>
   sint r = sint t4 + ((sint t2 - sint t1) + (sint t3 - sint t4)) sdiv 2"
  by (auto simp: clock_offset_def s64_half_value bind_eq_Some_conv dest!: s64_add_Some s64_sub_Some)

lemma clock_offset_defined:
  "clock_offset t1 t2 t3 t4 \<noteq> None \<longleftrightarrow>
   s64_range (sint t2 - sint t1) \<and> s64_range (sint t3 - sint t4) \<and>
   s64_range ((sint t2 - sint t1) + (sint t3 - sint t4)) \<and>
   s64_range (sint t4 + ((sint t2 - sint t1) + (sint t3 - sint t4)) sdiv 2)"
  by (simp add: clock_offset_def s64_sub_def s64_add_def sint_add_range sint_sub_range
      s64_half_value cong: conj_cong)

text \<open>
  The error of the result against the server's clock at \<open>t4\<close>: with clock offset
  \<open>theta\<close>, outbound delay \<open>d1\<close>, server turnaround \<open>p\<close> and return delay \<open>d2\<close>
  the result is within half the delay asymmetry (and exact when the delays are equal).
\<close>

lemma clock_offset_error:
  assumes "clock_offset t1 t2 t3 t4 = Some r"
    and "sint t2 = sint t1 + theta + d1"
    and "sint t3 = sint t2 + p"
    and "sint t4 = sint t1 + d1 + p + d2"
  shows "2 * \<bar>sint r - (sint t4 + theta)\<bar> \<le> \<bar>d1 - d2\<bar> + 1"
proof -
  have "sint r = sint t4 + (2 * theta + d1 - d2) sdiv 2"
    using clock_offset_value[OF assms(1)] assms(2-4) by (simp add: algebra_simps)
  moreover have "2 * \<bar>(2 * theta + d1 - d2) sdiv 2 - theta\<bar> \<le> \<bar>d1 - d2\<bar> + 1"
    by (cases "0 \<le> 2 * theta + d1 - d2") (simp_all add: signed_divide_int_def sgn_if, arith+)
  ultimately show ?thesis by simp
qed

lemma uint_step_sec: "uint (step_sec d s) = \<bar>sint s - sint d\<bar>"
proof -
  have sub: "uint (a - b) = sint a - sint b" if "sint b \<le> sint a" for a b :: u32
  proof -
    have r: "- (2 ^ 31) \<le> sint x" "sint x < 2 ^ 31" for x :: u32
      using sint_greater_eq[of x] sint_less[of x] by simp_all
    have "a - b = word_of_int (sint a - sint b)" by simp
    then have "uint (a - b) = uint (word_of_int (sint a - sint b) :: u32)" by (rule arg_cong)
    also have "\<dots> = (sint a - sint b) mod 2 ^ 32"
      unfolding uint_word_of_int by simp
    also have "\<dots> = sint a - sint b"
      using that r[of a] r[of b] by (intro mod_pos_pos_trivial) simp_all
    finally show ?thesis .
  qed
  show ?thesis
    by (cases "sint d < sint s") (simp_all add: step_sec_def word_sless_alt sub)
qed

lemma step_small_iff: "step_small d s \<longleftrightarrow> \<bar>sint s - sint d\<bar> < 2 ^ 30"
proof -
  have "step_small d s \<longleftrightarrow> uint (step_sec d s) div 2 ^ 30 = 0"
    unfolding step_small_def word_uint_eq_iff unsigned_drop_bit_eq
    using uint_lt2p[of "step_sec d s"] by (simp add: drop_bit_eq_div take_bit_int_eq_self)
  also have "\<dots> \<longleftrightarrow> uint (step_sec d s) < 2 ^ 30"
    using uint_ge_0[of "step_sec d s"] by (simp add: zdiv_eq_0_iff) linarith
  finally show ?thesis by (simp add: uint_step_sec)
qed

text \<open>The guard makes the second difference safe, whatever the fractions.\<close>

lemma step_small_t3_t4:
  assumes "step_small d s"
  shows "s64_range (sint (SNTP_SEC_FRAC_TO_S64 s f) - sint (SNTP_SEC_FRAC_TO_S64 d g))"
proof -
  have range: "s64_range (x * 2 ^ 32 + y - (z * 2 ^ 32 + w))"
    if "0 \<le> y" "y < 2 ^ 32" "0 \<le> w" "w < 2 ^ 32" "\<bar>x - z\<bar> < 2 ^ 30" for x y z w :: int
    using that by (auto simp: s64_range_def abs_less_iff)
  show ?thesis
    unfolding sint_sec_frac
    using assms uint_lt2p[of f] uint_lt2p[of g] by (intro range) (simp_all add: step_small_iff)
qed

section \<open>Properties\<close>

text \<open>
  C39: converting a system time with a valid microsecond field to an NTP timestamp and
  back gives the same seconds and microseconds, at every 32 bit second and without any
  intermediate overflow showing (the fudge of 2147 masks the rounding of both conversions).
\<close>

theorem system_time_roundtrip:
  assumes "unat usec < 1000000"
  shows "(case SNTP_GET_SYSTEM_TIME_NTP (s, usec) of (ns, nf) \<Rightarrow> SNTP_SET_SYSTEM_TIME_NTP True ns nf)
    = (s, usec)"
  using assms by (rule set_get_system_time)

lemma system_time_roundtrip_witness:
  "(case SNTP_GET_SYSTEM_TIME_NTP (1700000000, 999999) of (ns, nf) \<Rightarrow> SNTP_SET_SYSTEM_TIME_NTP True ns nf)
    = (1700000000, 999999)"
  by (rule system_time_roundtrip) simp

end
