(* ===== verification/SntpPacket.thy ===== *)
theory SntpPacket
  imports SntpTime
begin

text \<open>
  The packets of \<open>source/sntp.c\<close>: \<open>struct sntp_msg\<close> and its bytes on the little endian
  target, and the fields that the receiver reads from a pbuf. A pbuf is the list of its
  bytes.
\<close>

section \<open>Constants\<close>

definition SNTP_MSG_LEN :: nat where "SNTP_MSG_LEN = 48"
definition SNTP_OFFSET_LI_VN_MODE :: nat where "SNTP_OFFSET_LI_VN_MODE = 0"
definition SNTP_LI_NO_WARNING :: u8 where "SNTP_LI_NO_WARNING = push_bit 6 0"
definition SNTP_VERSION :: u8 where "SNTP_VERSION = push_bit 3 4"
definition SNTP_MODE_MASK :: u8 where "SNTP_MODE_MASK = 0x07"
definition SNTP_MODE_CLIENT :: u8 where "SNTP_MODE_CLIENT = 0x03"
definition SNTP_MODE_SERVER :: u8 where "SNTP_MODE_SERVER = 0x04"
definition SNTP_MODE_BROADCAST :: u8 where "SNTP_MODE_BROADCAST = 0x05"
definition SNTP_OFFSET_STRATUM :: nat where "SNTP_OFFSET_STRATUM = 1"
definition SNTP_STRATUM_KOD :: u8 where "SNTP_STRATUM_KOD = 0x00"
definition SNTP_OFFSET_ORIGINATE_TIME :: nat where "SNTP_OFFSET_ORIGINATE_TIME = 24"
definition SNTP_OFFSET_RECEIVE_TIME :: nat where "SNTP_OFFSET_RECEIVE_TIME = 32"
definition SNTP_OFFSET_TRANSMIT_TIME :: nat where "SNTP_OFFSET_TRANSMIT_TIME = 40"

lemmas sntp_consts =
  SNTP_MSG_LEN_def SNTP_OFFSET_LI_VN_MODE_def SNTP_LI_NO_WARNING_def SNTP_VERSION_def
  SNTP_MODE_MASK_def SNTP_MODE_CLIENT_def SNTP_MODE_SERVER_def SNTP_MODE_BROADCAST_def
  SNTP_OFFSET_STRATUM_def SNTP_STRATUM_KOD_def SNTP_OFFSET_ORIGINATE_TIME_def
  SNTP_OFFSET_RECEIVE_TIME_def SNTP_OFFSET_TRANSMIT_TIME_def

section \<open>Words in memory\<close>

text \<open>A 32 bit word stored at four consecutive bytes, least significant byte first.\<close>

definition store32 :: "u32 \<Rightarrow> u8 list" where
  "store32 w = [ucast w, ucast (drop_bit 8 w), ucast (drop_bit 16 w), ucast (drop_bit 24 w)]"

definition word_of_bytes :: "u8 \<Rightarrow> u8 \<Rightarrow> u8 \<Rightarrow> u8 \<Rightarrow> u32" where
  "word_of_bytes a b c d =
     ucast a OR push_bit 8 (ucast b) OR push_bit 16 (ucast c) OR push_bit 24 (ucast d)"

definition load32 :: "u8 list \<Rightarrow> nat \<Rightarrow> u32" where
  "load32 bs i = word_of_bytes (bs ! i) (bs ! (i + 1)) (bs ! (i + 2)) (bs ! (i + 3))"

text \<open>What a peer reads there: network byte order, most significant byte first.\<close>

definition load32_be :: "u8 list \<Rightarrow> nat \<Rightarrow> u32" where
  "load32_be bs i = word_of_bytes (bs ! (i + 3)) (bs ! (i + 2)) (bs ! (i + 1)) (bs ! i)"

section \<open>\<open>struct sntp_msg\<close>\<close>

record sntp_msg =
  li_vn_mode :: u8
  stratum :: u8
  poll :: u8
  precision :: u8
  root_delay :: u32
  root_dispersion :: u32
  reference_identifier :: u32
  reference_timestamp :: "u32 \<times> u32"
  originate_timestamp :: "u32 \<times> u32"
  receive_timestamp :: "u32 \<times> u32"
  transmit_timestamp :: "u32 \<times> u32"

text \<open>\<open>memset(req, 0, SNTP_MSG_LEN)\<close>.\<close>

definition zero_msg :: sntp_msg where
  "zero_msg =
     \<lparr>li_vn_mode = 0, stratum = 0, poll = 0, precision = 0, root_delay = 0,
      root_dispersion = 0, reference_identifier = 0, reference_timestamp = (0, 0),
      originate_timestamp = (0, 0), receive_timestamp = (0, 0), transmit_timestamp = (0, 0)\<rparr>"

definition store_pair :: "u32 \<times> u32 \<Rightarrow> u8 list" where
  "store_pair p = store32 (fst p) @ store32 (snd p)"

definition msg_bytes :: "sntp_msg \<Rightarrow> u8 list" where
  "msg_bytes m =
     [li_vn_mode m, stratum m, poll m, precision m]
     @ store32 (root_delay m) @ store32 (root_dispersion m) @ store32 (reference_identifier m)
     @ store_pair (reference_timestamp m) @ store_pair (originate_timestamp m)
     @ store_pair (receive_timestamp m) @ store_pair (transmit_timestamp m)"

section \<open>Reading a pbuf\<close>

text \<open>\<open>pbuf_get_at\<close>: the byte at an offset, 0 past the end.\<close>

definition pbuf_get_at :: "u8 list \<Rightarrow> nat \<Rightarrow> u8" where
  "pbuf_get_at p i = (if i < length p then p ! i else 0)"

definition load_time :: "u8 list \<Rightarrow> nat \<Rightarrow> sntp_time" where
  "load_time p i = \<lparr>ntp_sec = load32 p i, ntp_frac = load32 p (i + 4)\<rparr>"

text \<open>
  \<open>sizeof(struct sntp_timestamps)\<close>, \<open>SNTP_OFFSET_TIMESTAMPS\<close>, and the
  \<open>pbuf_copy_partial\<close> of \<open>sntp_recv\<close>. \<open>full\<close> is
  \<open>SNTP_COMP_ROUNDTRIP || SNTP_CHECK_RESPONSE >= 2\<close>; without it the struct holds only
  \<open>xmit\<close>, and the other two fields (which no code of that build reads) are zero here.
\<close>

definition sizeof_timestamps :: "bool \<Rightarrow> nat" where
  "sizeof_timestamps full = (if full then 24 else 8)"

definition SNTP_OFFSET_TIMESTAMPS :: "bool \<Rightarrow> nat" where
  "SNTP_OFFSET_TIMESTAMPS full = SNTP_OFFSET_TRANSMIT_TIME + 8 - sizeof_timestamps full"

definition copy_timestamps :: "bool \<Rightarrow> u8 list \<Rightarrow> sntp_timestamps" where
  "copy_timestamps full p =
     (let off = SNTP_OFFSET_TIMESTAMPS full in
      if full then \<lparr>ts_orig = load_time p off, ts_recv = load_time p (off + 8),
                    ts_xmit = load_time p (off + 16)\<rparr>
      else \<lparr>ts_orig = \<lparr>ntp_sec = 0, ntp_frac = 0\<rparr>, ts_recv = \<lparr>ntp_sec = 0, ntp_frac = 0\<rparr>,
            ts_xmit = load_time p off\<rparr>)"

section \<open>Byte order\<close>

lemma bit_lwip_ntohl:
  assumes "n < 32"
  shows "bit (lwip_ntohl x) n \<longleftrightarrow>
    (if n < 8 then bit x (n + 24) else if n < 16 then bit x (n + 8)
     else if n < 24 then bit x (n - 8) else bit x (n - 24))"
proof -
  have m: "(0xFF :: u32) = mask 8" "(0xFF00 :: u32) = push_bit 8 (mask 8)"
    by (simp_all add: mask_eq_exp_minus_1 push_bit_eq_mult)
  show ?thesis
    using assms unfolding lwip_ntohl_def m
    by (auto simp: bit_simps add.commute)
qed

lemma bit_word_of_bytes:
  assumes "n < 32"
  shows "bit (word_of_bytes a b c d) n \<longleftrightarrow>
    (if n < 8 then bit a n else if n < 16 then bit b (n - 8)
     else if n < 24 then bit c (n - 16) else bit d (n - 24))"
  using assms unfolding word_of_bytes_def
  by (auto simp: bit_simps dest: bit_imp_le_length)

lemma u32_eqI: "(\<And>n. n < 32 \<Longrightarrow> bit x n = bit y n) \<Longrightarrow> x = (y :: u32)"
  by (rule bit_word_eqI) simp

lemma byte_cases:
  assumes "n < (32 :: nat)"
  obtains k where "k < 8" "n = k" | k where "k < 8" "n = k + 8"
    | k where "k < 8" "n = k + 16" | k where "k < 8" "n = k + 24"
proof -
  consider "n < 8" | "8 \<le> n" "n < 16" | "16 \<le> n" "n < 24" | "24 \<le> n" by linarith
  then show thesis
    using assms that(1)[of n] that(2)[of "n - 8"] that(3)[of "n - 16"] that(4)[of "n - 24"]
    by cases simp_all
qed

lemma lwip_ntohl_involution [simp]: "lwip_ntohl (lwip_ntohl x) = x"
  by (rule u32_eqI, erule byte_cases) (simp_all add: bit_lwip_ntohl add.commute)

lemma lwip_ntohl_htonl [simp]: "lwip_ntohl (lwip_htonl x) = x"
  by (simp add: lwip_htonl_def)

lemma lwip_ntohl_inject [simp]: "lwip_ntohl x = lwip_ntohl y \<longleftrightarrow> x = y"
  by (metis lwip_ntohl_involution)

lemma lwip_ntohl_0 [simp]: "lwip_ntohl 0 = 0"
  by (simp add: lwip_ntohl_def)

text \<open>
  The byte swap turns a little endian load into a big endian one, and a word stored in
  network byte order is read back by a big endian load.
\<close>

lemma lwip_ntohl_word_of_bytes: "lwip_ntohl (word_of_bytes a b c d) = word_of_bytes d c b a"
  by (rule u32_eqI, erule byte_cases) (simp_all add: bit_lwip_ntohl bit_word_of_bytes)

lemma load32_be_eq: "load32_be bs i = lwip_ntohl (load32 bs i)"
  by (simp add: load32_def load32_be_def lwip_ntohl_word_of_bytes)

lemma word_of_bytes_split:
  "word_of_bytes (ucast w) (ucast (drop_bit 8 w)) (ucast (drop_bit 16 w)) (ucast (drop_bit 24 w)) = w"
  by (rule u32_eqI) (auto simp: bit_word_of_bytes bit_simps)

lemma length_store32 [simp]: "length (store32 w) = 4"
  by (simp add: store32_def)

lemma length_store_pair [simp]: "length (store_pair p) = 8"
  by (simp add: store_pair_def)

lemma length_msg_bytes [simp]: "length (msg_bytes m) = SNTP_MSG_LEN"
  by (simp add: msg_bytes_def SNTP_MSG_LEN_def)

lemma load32_store32 [simp]: "load32 (store32 w @ ys) 0 = w"
  by (simp add: load32_def store32_def word_of_bytes_split)

lemma load32_store32_nil [simp]: "load32 (store32 w) 0 = w"
  using load32_store32[of w "[]"] by simp

lemma load32_append: "length xs = i \<Longrightarrow> load32 (xs @ ys) (i + k) = load32 ys k"
  by (simp add: load32_def nth_append)

text \<open>The fields of a stored message at their offsets.\<close>

lemma load32_transmit:
  "load32 (msg_bytes m) SNTP_OFFSET_TRANSMIT_TIME = fst (transmit_timestamp m)"
  "load32 (msg_bytes m) (SNTP_OFFSET_TRANSMIT_TIME + 4) = snd (transmit_timestamp m)"
proof -
  define pre where "pre = [li_vn_mode m, stratum m, poll m, precision m]
     @ store32 (root_delay m) @ store32 (root_dispersion m) @ store32 (reference_identifier m)
     @ store_pair (reference_timestamp m) @ store_pair (originate_timestamp m)
     @ store_pair (receive_timestamp m)"
  have len: "length pre = 40" by (simp add: pre_def)
  have m: "msg_bytes m = pre @ store32 (fst (transmit_timestamp m)) @ store32 (snd (transmit_timestamp m)) @ []"
    by (simp add: msg_bytes_def pre_def store_pair_def)
  show "load32 (msg_bytes m) SNTP_OFFSET_TRANSMIT_TIME = fst (transmit_timestamp m)"
    unfolding m SNTP_OFFSET_TRANSMIT_TIME_def
    using load32_append[OF len, of _ 0] by simp
  show "load32 (msg_bytes m) (SNTP_OFFSET_TRANSMIT_TIME + 4) = snd (transmit_timestamp m)"
    unfolding m SNTP_OFFSET_TRANSMIT_TIME_def
    using load32_append[OF len, of _ 4]
      load32_append[of "store32 (fst (transmit_timestamp m))" 4 "store32 (snd (transmit_timestamp m)) @ []" 0]
    by simp
qed

lemma ts_xmit_copy: "ts_xmit (copy_timestamps full p) = load_time p SNTP_OFFSET_TRANSMIT_TIME"
  by (simp add: copy_timestamps_def SNTP_OFFSET_TIMESTAMPS_def sizeof_timestamps_def
      SNTP_OFFSET_TRANSMIT_TIME_def)

lemma ts_orig_copy:
  "full \<Longrightarrow> ts_orig (copy_timestamps full p) = load_time p SNTP_OFFSET_ORIGINATE_TIME"
  by (simp add: copy_timestamps_def SNTP_OFFSET_TIMESTAMPS_def sizeof_timestamps_def
      SNTP_OFFSET_TRANSMIT_TIME_def SNTP_OFFSET_ORIGINATE_TIME_def)

lemma ts_recv_copy:
  "full \<Longrightarrow> ts_recv (copy_timestamps full p) = load_time p SNTP_OFFSET_RECEIVE_TIME"
  by (simp add: copy_timestamps_def SNTP_OFFSET_TIMESTAMPS_def sizeof_timestamps_def
      SNTP_OFFSET_TRANSMIT_TIME_def SNTP_OFFSET_RECEIVE_TIME_def)

section \<open>Round-trip compensation\<close>

text \<open>A timestamp as one signed number in units of \<open>2 ^ -32\<close> seconds.\<close>

definition ntp_value :: "u32 \<Rightarrow> u32 \<Rightarrow> int" where
  "ntp_value s f = sint s * 2 ^ 32 + uint f"

definition ntp_time :: "sntp_time \<Rightarrow> int" where
  "ntp_time t = ntp_value (lwip_ntohl (ntp_sec t)) (lwip_ntohl (ntp_frac t))"

lemma sint_timestamps:
  "sint (SNTP_SEC_FRAC_TO_S64 s f) = ntp_value s f"
  "sint (SNTP_TIMESTAMP_TO_S64 t) = ntp_time t"
  by (simp_all add: SNTP_TIMESTAMP_TO_S64_def ntp_value_def ntp_time_def sint_sec_frac)

lemma sec_frac_split: "SNTP_SEC_FRAC_TO_S64 (ucast (drop_bit 32 t)) (ucast t) = t"
  unfolding SNTP_SEC_FRAC_TO_S64_def
  by (rule bit_word_eqI) (auto simp: bit_simps)

lemma compensate_overflow_iff:
  "fst (compensate ts (ds, df) s f) \<longleftrightarrow>
     step_small ds s \<and>
     \<not> (let a = ntp_time (ts_recv ts) - ntp_time (ts_orig ts); b = ntp_value s f - ntp_value ds df
        in s64_range a \<and> s64_range (a + b) \<and> s64_range (ntp_value ds df + (a + b) sdiv 2))"
  using clock_offset_defined[of "SNTP_TIMESTAMP_TO_S64 (ts_orig ts)"
      "SNTP_TIMESTAMP_TO_S64 (ts_recv ts)" "SNTP_SEC_FRAC_TO_S64 s f" "SNTP_SEC_FRAC_TO_S64 ds df"]
    step_small_t3_t4[of ds s f df]
  by (auto simp: compensate_def Let_def sint_timestamps)

text \<open>
  C38: accuracy of the compensation. If the arithmetic does not overflow, and the
  server's clock is ahead of the client's by \<open>theta\<close>, the request took \<open>d1\<close>, the server
  \<open>p\<close> and the reply \<open>d2\<close> (all in units of the fraction), then the time the client sets
  differs from the server's clock by at most half the asymmetry \<open>d1 - d2\<close>, rounded up; with equal
  delays it is exact.
\<close>

theorem compensate_accuracy:
  assumes "step_small ds s" and "compensate ts (ds, df) s f = (False, s', f')"
    and "ntp_time (ts_recv ts) = ntp_time (ts_orig ts) + theta + d1"
    and "ntp_value s f = ntp_time (ts_recv ts) + p"
    and "ntp_value ds df = ntp_time (ts_orig ts) + d1 + p + d2"
  shows "2 * \<bar>ntp_value s' f' - (ntp_value ds df + theta)\<bar> \<le> \<bar>d1 - d2\<bar> + 1"
proof -
  obtain r where r: "clock_offset (SNTP_TIMESTAMP_TO_S64 (ts_orig ts)) (SNTP_TIMESTAMP_TO_S64 (ts_recv ts))
      (SNTP_SEC_FRAC_TO_S64 s f) (SNTP_SEC_FRAC_TO_S64 ds df) = Some r"
      and s': "s' = ucast (drop_bit 32 r)" and f': "f' = ucast r"
    using assms(1,2) by (auto simp: compensate_def Let_def split: option.splits)
  have "sint r = ntp_value s' f'"
    by (metis s' f' sec_frac_split sint_timestamps(1))
  with clock_offset_error[OF r, of theta d1 p d2] assms(3-5) show ?thesis
    by (simp add: sint_timestamps)
qed

lemma compensate_accuracy_witness:
  "2 * \<bar>ntp_value 12 0 - (ntp_value 2 0 + 10 * 2 ^ 32)\<bar> \<le> \<bar>0 - (0 :: int)\<bar> + 1"
proof (rule compensate_accuracy)
  let ?ts = "\<lparr>ts_orig = \<lparr>ntp_sec = lwip_htonl 2, ntp_frac = 0\<rparr>,
      ts_recv = \<lparr>ntp_sec = lwip_htonl 12, ntp_frac = 0\<rparr>,
      ts_xmit = \<lparr>ntp_sec = lwip_htonl 12, ntp_frac = 0\<rparr>\<rparr>"
  show "step_small 2 12" by (simp add: step_small_iff)
  show "compensate ?ts (2, 0) 12 0 = (False, 12, 0)"
    by (simp add: compensate_def step_small_iff SNTP_TIMESTAMP_TO_S64_def SNTP_SEC_FRAC_TO_S64_def
        clock_offset_def s64_sub_def s64_add_def s64_half_def s64_range_def Let_def
        signed_divide_int_def)
  show "ntp_time (ts_recv ?ts) = ntp_time (ts_orig ?ts) + 10 * 2 ^ 32 + 0"
    "ntp_value 12 0 = ntp_time (ts_recv ?ts) + 0"
    "ntp_value 2 0 = ntp_time (ts_orig ?ts) + 0 + 0 + 0"
    by (simp_all add: ntp_time_def ntp_value_def)
qed

text \<open>
  The guard on the clock step does not exclude signed overflow. It makes
  \<open>t3 - t4\<close> safe, but \<open>t2\<close> comes straight from the packet: a reply that echoes the client's
  own time (in 2025), carries nearly the same transmit time, and has a receive timestamp in the late part
  of the era passes the guard and overflows \<open>t2 - t1\<close>.
\<close>

theorem compensate_guard_incomplete:
  "\<exists>ts now s. ts_orig ts = \<lparr>ntp_sec = lwip_htonl now, ntp_frac = 0\<rparr> \<and> step_small now s
     \<and> fst (compensate ts (now, 0) s 0)"
proof -
  let ?now = "3944678400 :: u32"
  let ?ts = "\<lparr>ts_orig = \<lparr>ntp_sec = lwip_htonl ?now, ntp_frac = 0\<rparr>,
      ts_recv = \<lparr>ntp_sec = lwip_htonl 0x7FFFFFFF, ntp_frac = 0\<rparr>,
      ts_xmit = \<lparr>ntp_sec = lwip_htonl ?now, ntp_frac = 0\<rparr>\<rparr>"
  have "step_small ?now ?now" by (simp add: step_small_iff)
  moreover have "fst (compensate ?ts (?now, 0) ?now 0)"
    unfolding compensate_overflow_iff
    by (simp add: calculation ntp_time_def ntp_value_def s64_range_def Let_def)
  ultimately show ?thesis by (intro exI[of _ ?ts] exI[of _ ?now]) simp
qed

end
