(* ===== verification/MtbClock.thy ===== *)
theory MtbClock
  imports SntpTime
begin

text \<open>
  \<open>iotc_set_system_time_us\<close> of \<open>source/iotc_mtb_time.c\<close>, the callback that
  \<open>source/sntp.c\<close> is compiled to call, with the two things both files share: the state that
  the callback writes and the trace of calls into code outside the repository.

  Calls that return nothing the code looks at are events of the trace. Calls whose result
  the code uses are parameters: an environment gives their result as a function of the trace so far,
  so any behaviour of lwIP, the RTC driver and the resolver is covered by quantifying over
  environments. A failed assertion is an event too: the debug build stops there, a build without
  assertions goes on, and the trace shows both.
\<close>

section \<open>Events\<close>

text \<open>IPv4 build of lwIP: \<open>ip_addr_t\<close> is a 32 bit word and the any address is 0.\<close>

type_synonym ip_addr = "32 word"

abbreviation IP_ADDR_ANY :: ip_addr where
  "IP_ADDR_ANY \<equiv> 0"

text \<open>The functions of \<open>sntp.c\<close> that are handed to \<open>sys_timeout\<close>.\<close>

datatype handler = H_sntp_request | H_sntp_try_next_server | H_sntp_retry

text \<open>What \<open>dns_gethostbyname\<close> returns: \<open>ERR_OK\<close> with an address, \<open>ERR_INPROGRESS\<close>, or an error.\<close>

datatype dns_result = Dns_ok ip_addr | Dns_inprogress | Dns_error

datatype net_event =
    Assert_failed string
  | Signed_overflow
  | Enter_critical
  | Exit_critical
  | Rtc_get bool
  | Rtc_init cy_rslt
  | Rtc_set_instance
  | Rtc_write u32 cy_rslt
  | Get_system_time u32 u32
  | Sys_timeout u32 handler
  | Sys_untimeout handler
  | Timer_fired handler
  | Pbuf_alloc bool
  | Pbuf_free
  | Udp_new bool
  | Udp_recv
  | Udp_set_broadcast
  | Udp_bind u16
  | Udp_sendto bool "u8 list" ip_addr u16
  | Udp_remove
  | Dns_gethostbyname string dns_result
  | Dns_found "ip_addr option"
  | Task_delay nat

record net_env =
  env_rtc_get :: "net_event list \<Rightarrow> bool"
  env_rtc_init :: "net_event list \<Rightarrow> cy_rslt"
  env_rtc_write :: "net_event list \<Rightarrow> u32 \<Rightarrow> cy_rslt"
  env_system_time :: "net_event list \<Rightarrow> u32 \<times> u32"
  env_pbuf_alloc :: "net_event list \<Rightarrow> bool"
  env_udp_new :: "net_event list \<Rightarrow> bool"
  env_dns :: "net_event list \<Rightarrow> string \<Rightarrow> dns_result"

section \<open>State\<close>

record clock_state =
  trace :: "net_event list"
  callback_received :: bool

definition emit :: "net_event \<Rightarrow> 'z clock_state_scheme \<Rightarrow> 'z clock_state_scheme" where
  "emit e s = s\<lparr>trace := trace s @ [e]\<rparr>"

text \<open>\<open>LWIP_ASSERT\<close> and \<open>CY_ASSERT\<close>.\<close>

definition check_assert :: "string \<Rightarrow> bool \<Rightarrow> 'z clock_state_scheme \<Rightarrow> 'z clock_state_scheme" where
  "check_assert msg ok s = (if ok then s else emit (Assert_failed msg) s)"

section \<open>The callback\<close>

text \<open>
  \<open>hal3\<close> is the build condition \<open>MTB_HAL_API_VERSION >= 3\<close>. The time handed to the RTC is
  \<open>gmtime(&secs_time_t)\<close>, named in the event by its argument.
\<close>

definition iotc_set_system_time_us ::
    "bool \<Rightarrow> net_env \<Rightarrow> u32 \<Rightarrow> u32 \<Rightarrow> 'z clock_state_scheme \<Rightarrow> 'z clock_state_scheme" where
  "iotc_set_system_time_us hal3 env secs us s =
     (let s = emit Enter_critical s;
          (s, result) =
            (if hal3 then
               (let ok = env_rtc_get env (trace s);
                    s = emit (Rtc_get ok) s;
                    s = check_assert ''NULL != mtb_time_rtc_ptr'' ok s;
                    result = env_rtc_write env (trace s) secs
                in (emit (Rtc_write secs result) s, result))
             else
               (let result = env_rtc_init env (trace s);
                    s = emit (Rtc_init result) s;
                    s = check_assert ''CY_RSLT_SUCCESS == result'' (result = CY_RSLT_SUCCESS) s;
                    s = emit Rtc_set_instance s;
                    result = env_rtc_write env (trace s) secs
                in (emit (Rtc_write secs result) s, result)));
          s = check_assert ''CY_RSLT_SUCCESS == result'' (result = CY_RSLT_SUCCESS) s;
          s = s\<lparr>callback_received := True\<rparr>
      in emit Exit_critical s)"

lemma trace_emit: "trace (emit e s) = trace s @ [e]"
  by (simp add: emit_def)

lemma callback_received_emit [simp]: "callback_received (emit e s) = callback_received s"
  by (simp add: emit_def)

lemma callback_received_check_assert [simp]:
  "callback_received (check_assert m ok s) = callback_received s"
  by (simp add: check_assert_def)

lemma callback_received_set_time [simp]:
  "callback_received (iotc_set_system_time_us hal3 env secs us s)"
  by (simp add: iotc_set_system_time_us_def Let_def split: prod.split)

text \<open>Only the trace and the flag change: any further fields of the state are kept.\<close>

lemma more_emit [simp]: "clock_state.more (emit e s) = clock_state.more s"
  by (simp add: emit_def)

lemma more_check_assert [simp]: "clock_state.more (check_assert m ok s) = clock_state.more s"
  by (simp add: check_assert_def)

lemma more_set_time [simp]:
  "clock_state.more (iotc_set_system_time_us hal3 env secs us s) = clock_state.more s"
  by (simp add: iotc_set_system_time_us_def Let_def split: prod.split)

end
