(* ===== verification/Sntp.thy ===== *)
theory Sntp
  imports SntpPacket MtbClock
begin

unbundle bit_operations_syntax

text \<open>
  The state and the functions of \<open>source/sntp.c\<close>. The compile time options of lwIP are the
  fields of a configuration, so one definition covers every \<open>#if\<close> branch. The state has the
  file's static variables. \<open>sntp_pcb\<close> is whether the pointer is set; server indices are
  \<open>nat\<close> (the configuration check keeps \<open>SNTP_MAX_SERVERS\<close> within \<open>u8_t\<close>).
\<close>

section \<open>Configuration\<close>

record sntp_cfg =
  SNTP_MAX_SERVERS :: nat
  SNTP_CHECK_RESPONSE :: nat
  SNTP_COMP_ROUNDTRIP :: bool
  SNTP_SERVER_DNS :: bool
  SNTP_SERVER_ADDRESS :: "string option"
  SNTP_MONITOR_SERVER_REACHABILITY :: bool
  SNTP_RETRY_TIMEOUT_EXP :: bool
  SNTP_RETRY_TIMEOUT :: u32
  SNTP_RETRY_TIMEOUT_MAX :: u32
  SNTP_UPDATE_DELAY :: u32
  SNTP_RECV_TIMEOUT :: u32
  SNTP_STARTUP_DELAY :: bool
  SNTP_STARTUP_DELAY_FUNC :: u32
  SNTP_PORT :: u16
  LWIP_HAVE_INT64 :: bool
  HAL_API_3 :: bool

text \<open>
  What the preprocessor checks (\<open>#error\<close> lines) and what the \<open>u8_t\<close> loop indices need.
\<close>

definition cfg_ok :: "sntp_cfg \<Rightarrow> bool" where
  "cfg_ok c \<longleftrightarrow>
     0 < SNTP_MAX_SERVERS c \<and> SNTP_MAX_SERVERS c < 256
     \<and> (SNTP_COMP_ROUNDTRIP c \<longrightarrow> LWIP_HAVE_INT64 c)
     \<and> (SNTP_SERVER_ADDRESS c \<noteq> None \<longrightarrow> SNTP_SERVER_DNS c)
     \<and> 15000 \<le> SNTP_UPDATE_DELAY c"

definition SNTP_SUPPORT_MULTIPLE_SERVERS :: "sntp_cfg \<Rightarrow> bool" where
  "SNTP_SUPPORT_MULTIPLE_SERVERS c \<longleftrightarrow> SNTP_MAX_SERVERS c > 1"

definition full_timestamps :: "sntp_cfg \<Rightarrow> bool" where
  "full_timestamps c \<longleftrightarrow> SNTP_COMP_ROUNDTRIP c \<or> SNTP_CHECK_RESPONSE c \<ge> 2"

definition SNTP_OPMODE_POLL :: u8 where "SNTP_OPMODE_POLL = 0"
definition SNTP_OPMODE_LISTENONLY :: u8 where "SNTP_OPMODE_LISTENONLY = 1"

text \<open>\<open>#define sntp_try_next_server sntp_retry\<close> when there is one server.\<close>

definition try_next_handler :: "sntp_cfg \<Rightarrow> handler" where
  "try_next_handler c =
     (if SNTP_SUPPORT_MULTIPLE_SERVERS c then H_sntp_try_next_server else H_sntp_retry)"

section \<open>State\<close>

record sntp_server =
  srv_name :: "string option"
  srv_addr :: ip_addr
  srv_reachability :: u8

record sntp_state = clock_state +
  sntp_opmode :: u8
  sntp_pcb :: bool
  sntp_servers :: "sntp_server list"
  sntp_set_servers_from_dhcp :: u8
  sntp_current_server :: nat
  sntp_retry_timeout :: u32
  sntp_last_server_address :: ip_addr
  sntp_last_timestamp_sent :: "u32 \<times> u32"

text \<open>Static storage: everything zero.\<close>

definition sntp_initial :: "sntp_cfg \<Rightarrow> sntp_state" where
  "sntp_initial c =
     \<lparr>trace = [], callback_received = False, sntp_opmode = 0, sntp_pcb = False,
      sntp_servers = replicate (SNTP_MAX_SERVERS c)
        \<lparr>srv_name = None, srv_addr = IP_ADDR_ANY, srv_reachability = 0\<rparr>,
      sntp_set_servers_from_dhcp = 0, sntp_current_server = 0, sntp_retry_timeout = 0,
      sntp_last_server_address = IP_ADDR_ANY, sntp_last_timestamp_sent = (0, 0)\<rparr>"

definition current_server :: "'z sntp_state_scheme \<Rightarrow> sntp_server" where
  "current_server s = sntp_servers s ! sntp_current_server s"

definition update_server ::
    "nat \<Rightarrow> (sntp_server \<Rightarrow> sntp_server) \<Rightarrow> 'z sntp_state_scheme \<Rightarrow> 'z sntp_state_scheme" where
  "update_server i f s = s\<lparr>sntp_servers := (sntp_servers s)[i := f (sntp_servers s ! i)]\<rparr>"

text \<open>\<open>sntp_retry_timeout\<close> is a macro for the constant when the timeout does not grow.\<close>

definition cur_retry_timeout :: "sntp_cfg \<Rightarrow> 'z sntp_state_scheme \<Rightarrow> u32" where
  "cur_retry_timeout c s =
     (if SNTP_RETRY_TIMEOUT_EXP c then sntp_retry_timeout s else SNTP_RETRY_TIMEOUT c)"

definition SNTP_RESET_RETRY_TIMEOUT ::
    "sntp_cfg \<Rightarrow> 'z sntp_state_scheme \<Rightarrow> 'z sntp_state_scheme" where
  "SNTP_RESET_RETRY_TIMEOUT c s =
     (if SNTP_RETRY_TIMEOUT_EXP c then s\<lparr>sntp_retry_timeout := SNTP_RETRY_TIMEOUT c\<rparr> else s)"

section \<open>Processing a received timestamp\<close>

definition sntp_process ::
    "sntp_cfg \<Rightarrow> net_env \<Rightarrow> sntp_timestamps \<Rightarrow> 'z sntp_state_scheme \<Rightarrow> 'z sntp_state_scheme" where
  "sntp_process c env ts s =
     (let s_sec = lwip_ntohl (ntp_sec (ts_xmit ts));
          s_frac = lwip_ntohl (ntp_frac (ts_xmit ts));
          (s, s_sec, s_frac) =
            (if SNTP_COMP_ROUNDTRIP c \<and>
                (SNTP_CHECK_RESPONSE c \<ge> 2 \<longrightarrow>
                   ntp_sec (ts_recv ts) \<noteq> 0 \<or> ntp_frac (ts_recv ts) \<noteq> 0) then
               (let now = env_system_time env (trace s);
                    s = emit (Get_system_time (fst now) (snd now)) s;
                    (ovf, s_sec, s_frac) =
                      compensate ts (SNTP_GET_SYSTEM_TIME_NTP now) s_sec s_frac;
                    s = (if ovf then emit Signed_overflow s else s)
                in (s, s_sec, s_frac))
             else (s, s_sec, s_frac));
          (u_sec, u_us) = SNTP_SET_SYSTEM_TIME_NTP (LWIP_HAVE_INT64 c) s_sec s_frac
      in iotc_set_system_time_us (HAL_API_3 c) env u_sec u_us s)"

section \<open>Sending a request\<close>

definition sntp_initialize_request ::
    "sntp_cfg \<Rightarrow> net_env \<Rightarrow> 'z sntp_state_scheme \<Rightarrow> sntp_msg \<times> 'z sntp_state_scheme" where
  "sntp_initialize_request c env s =
     (let req = zero_msg
                  \<lparr>li_vn_mode := SNTP_LI_NO_WARNING OR SNTP_VERSION OR SNTP_MODE_CLIENT\<rparr>
      in if full_timestamps c then
           (let now = env_system_time env (trace s);
                s = emit (Get_system_time (fst now) (snd now)) s;
                (secs, frac) = SNTP_GET_SYSTEM_TIME_NTP now;
                sec = lwip_htonl secs;
                frac = lwip_htonl frac;
                s = (if SNTP_CHECK_RESPONSE c \<ge> 2
                     then s\<lparr>sntp_last_timestamp_sent := (sec, frac)\<rparr> else s)
            in (req\<lparr>transmit_timestamp := (sec, frac)\<rparr>, s))
         else (req, s))"

definition sntp_retry :: "sntp_cfg \<Rightarrow> 'z sntp_state_scheme \<Rightarrow> 'z sntp_state_scheme" where
  "sntp_retry c s =
     (let s = emit (Sys_timeout (cur_retry_timeout c s) H_sntp_request) s
      in if SNTP_RETRY_TIMEOUT_EXP c then
           (let new_retry_timeout = push_bit 1 (sntp_retry_timeout s)
            in if new_retry_timeout \<le> SNTP_RETRY_TIMEOUT_MAX c
                  \<and> new_retry_timeout > sntp_retry_timeout s
               then s\<lparr>sntp_retry_timeout := new_retry_timeout\<rparr> else s)
         else s)"

definition sntp_send_request ::
    "sntp_cfg \<Rightarrow> net_env \<Rightarrow> ip_addr \<Rightarrow> 'z sntp_state_scheme \<Rightarrow> 'z sntp_state_scheme" where
  "sntp_send_request c env server_addr s =
     (let ok = env_pbuf_alloc env (trace s);
          s = emit (Pbuf_alloc ok) s
      in if ok then
           (let (sntpmsg, s) = sntp_initialize_request c env s;
                s = emit (Udp_sendto (sntp_pcb s) (msg_bytes sntpmsg) server_addr (SNTP_PORT c)) s;
                s = emit Pbuf_free s;
                s = (if SNTP_MONITOR_SERVER_REACHABILITY c
                     then update_server (sntp_current_server s)
                            (srv_reachability_update (push_bit 1)) s
                     else s);
                s = emit (Sys_timeout (SNTP_RECV_TIMEOUT c) (try_next_handler c)) s
            in if SNTP_CHECK_RESPONSE c \<ge> 1
               then s\<lparr>sntp_last_server_address := server_addr\<rparr> else s)
         else emit (Sys_timeout (SNTP_RETRY_TIMEOUT c) H_sntp_request) s)"

definition sntp_request ::
    "sntp_cfg \<Rightarrow> net_env \<Rightarrow> 'z sntp_state_scheme \<Rightarrow> 'z sntp_state_scheme" where
  "sntp_request c env s =
     (let fail = emit (Sys_timeout (SNTP_RETRY_TIMEOUT c) (try_next_handler c)) in
      case (if SNTP_SERVER_DNS c then srv_name (current_server s) else None) of
        Some name \<Rightarrow>
          (let s = update_server (sntp_current_server s) (srv_addr_update (\<lambda>_. IP_ADDR_ANY)) s;
               res = env_dns env (trace s) name;
               s = emit (Dns_gethostbyname name res) s
           in case res of
                Dns_inprogress \<Rightarrow> s
              | Dns_ok addr \<Rightarrow>
                  sntp_send_request c env addr
                    (update_server (sntp_current_server s) (srv_addr_update (\<lambda>_. addr)) s)
              | Dns_error \<Rightarrow> fail s)
      | None \<Rightarrow>
          (let addr = srv_addr (current_server s)
           in if addr = IP_ADDR_ANY then fail s else sntp_send_request c env addr s))"

section \<open>Changing servers\<close>

text \<open>
  The \<open>for\<close> loop of \<open>sntp_try_next_server\<close>; the first argument is the number of iterations
  left. The flag says whether the loop returned with a new server.
\<close>

fun next_server_loop ::
    "sntp_cfg \<Rightarrow> nat \<Rightarrow> 'z sntp_state_scheme \<Rightarrow> bool \<times> 'z sntp_state_scheme" where
  "next_server_loop c 0 s = (False, s)"
| "next_server_loop c (Suc n) s =
     (let s = s\<lparr>sntp_current_server := sntp_current_server s + 1\<rparr>;
          s = (if sntp_current_server s \<ge> SNTP_MAX_SERVERS c
               then s\<lparr>sntp_current_server := 0\<rparr> else s)
      in if srv_addr (current_server s) \<noteq> IP_ADDR_ANY
            \<or> SNTP_SERVER_DNS c \<and> srv_name (current_server s) \<noteq> None
         then (True, s) else next_server_loop c n s)"

definition sntp_try_next_server ::
    "sntp_cfg \<Rightarrow> net_env \<Rightarrow> 'z sntp_state_scheme \<Rightarrow> 'z sntp_state_scheme" where
  "sntp_try_next_server c env s =
     (if SNTP_SUPPORT_MULTIPLE_SERVERS c then
        (let old_server = sntp_current_server s in
         case next_server_loop c (SNTP_MAX_SERVERS c - 1) s of
           (True, s) \<Rightarrow> sntp_request c env (SNTP_RESET_RETRY_TIMEOUT c s)
         | (False, s) \<Rightarrow> sntp_retry c (s\<lparr>sntp_current_server := old_server\<rparr>))
      else sntp_retry c s)"

section \<open>Receiving\<close>

text \<open>\<open>err\<close> of \<open>sntp_recv\<close>.\<close>

datatype recv_err = ERR_OK | ERR_ARG | ERR_TIMEOUT | SNTP_ERR_KOD

text \<open>The checks of \<open>sntp_recv\<close>, up to \<open>pbuf_free\<close>.\<close>

definition sntp_check ::
    "sntp_cfg \<Rightarrow> u8 list \<Rightarrow> ip_addr \<Rightarrow> u16 \<Rightarrow> 'z sntp_state_scheme \<Rightarrow> recv_err" where
  "sntp_check c p addr port s =
     (if SNTP_CHECK_RESPONSE c \<ge> 1 \<longrightarrow>
         (sntp_opmode s \<noteq> SNTP_OPMODE_POLL \<or> addr = sntp_last_server_address s)
         \<and> port = SNTP_PORT c then
        if length p = SNTP_MSG_LEN then
          (let mode = pbuf_get_at p SNTP_OFFSET_LI_VN_MODE AND SNTP_MODE_MASK in
           if sntp_opmode s = SNTP_OPMODE_POLL \<and> mode = SNTP_MODE_SERVER
              \<or> sntp_opmode s = SNTP_OPMODE_LISTENONLY \<and> mode = SNTP_MODE_BROADCAST then
             if pbuf_get_at p SNTP_OFFSET_STRATUM = SNTP_STRATUM_KOD then SNTP_ERR_KOD
             else
               (let ts = copy_timestamps (full_timestamps c) p in
                if SNTP_CHECK_RESPONSE c \<ge> 2 \<and>
                   (ntp_sec (ts_orig ts) \<noteq> fst (sntp_last_timestamp_sent s)
                    \<or> ntp_frac (ts_orig ts) \<noteq> snd (sntp_last_timestamp_sent s))
                then ERR_ARG else ERR_OK)
           else ERR_TIMEOUT)
        else ERR_ARG
      else ERR_TIMEOUT)"

definition sntp_recv ::
    "sntp_cfg \<Rightarrow> net_env \<Rightarrow> u8 list \<Rightarrow> ip_addr \<Rightarrow> u16
       \<Rightarrow> 'z sntp_state_scheme \<Rightarrow> 'z sntp_state_scheme" where
  "sntp_recv c env p addr port s =
     (let err = sntp_check c p addr port s;
          s = emit Pbuf_free s
      in case err of
           ERR_OK \<Rightarrow>
             (let s = sntp_process c env (copy_timestamps (full_timestamps c) p) s;
                  s = (if SNTP_MONITOR_SERVER_REACHABILITY c
                       then update_server (sntp_current_server s)
                              (srv_reachability_update (\<lambda>r. r OR 1)) s
                       else s)
              in if sntp_opmode s = SNTP_OPMODE_POLL then
                   (let s = emit (Sys_untimeout (try_next_handler c)) s;
                        s = emit (Sys_untimeout H_sntp_request) s;
                        s = SNTP_RESET_RETRY_TIMEOUT c s
                    in emit (Sys_timeout (SNTP_UPDATE_DELAY c) H_sntp_request) s)
                 else s)
         | SNTP_ERR_KOD \<Rightarrow>
             (if sntp_opmode s = SNTP_OPMODE_POLL then sntp_try_next_server c env s else s)
         | _ \<Rightarrow> s)"

definition sntp_dns_found ::
    "sntp_cfg \<Rightarrow> net_env \<Rightarrow> ip_addr option \<Rightarrow> 'z sntp_state_scheme \<Rightarrow> 'z sntp_state_scheme" where
  "sntp_dns_found c env ipaddr s =
     (case ipaddr of
        Some a \<Rightarrow>
          sntp_send_request c env a
            (update_server (sntp_current_server s) (srv_addr_update (\<lambda>_. a)) s)
      | None \<Rightarrow> sntp_try_next_server c env s)"

section \<open>The interface of the module\<close>

definition sntp_setservername ::
    "sntp_cfg \<Rightarrow> nat \<Rightarrow> string option \<Rightarrow> 'z sntp_state_scheme \<Rightarrow> 'z sntp_state_scheme" where
  "sntp_setservername c idx server s =
     (if idx < SNTP_MAX_SERVERS c then update_server idx (srv_name_update (\<lambda>_. server)) s else s)"

definition sntp_getservername :: "sntp_cfg \<Rightarrow> nat \<Rightarrow> 'z sntp_state_scheme \<Rightarrow> string option" where
  "sntp_getservername c idx s =
     (if idx < SNTP_MAX_SERVERS c then srv_name (sntp_servers s ! idx) else None)"

definition sntp_setserver ::
    "sntp_cfg \<Rightarrow> nat \<Rightarrow> ip_addr option \<Rightarrow> 'z sntp_state_scheme \<Rightarrow> 'z sntp_state_scheme" where
  "sntp_setserver c idx server s =
     (if idx < SNTP_MAX_SERVERS c then
        (let s = (case server of
                    Some a \<Rightarrow> update_server idx (srv_addr_update (\<lambda>_. a)) s
                  | None \<Rightarrow> update_server idx (srv_addr_update (\<lambda>_. IP_ADDR_ANY)) s)
         in if SNTP_SERVER_DNS c then update_server idx (srv_name_update (\<lambda>_. None)) s else s)
      else s)"

definition sntp_getserver :: "sntp_cfg \<Rightarrow> nat \<Rightarrow> 'z sntp_state_scheme \<Rightarrow> ip_addr" where
  "sntp_getserver c idx s =
     (if idx < SNTP_MAX_SERVERS c then srv_addr (sntp_servers s ! idx) else IP_ADDR_ANY)"

definition sntp_init :: "sntp_cfg \<Rightarrow> net_env \<Rightarrow> 'z sntp_state_scheme \<Rightarrow> 'z sntp_state_scheme" where
  "sntp_init c env s =
     (let s = (case SNTP_SERVER_ADDRESS c of
                 Some a \<Rightarrow> sntp_setservername c 0 (Some a) s
               | None \<Rightarrow> s)
      in if \<not> sntp_pcb s then
           (let ok = env_udp_new env (trace s);
                s = emit (Udp_new ok) s;
                s = s\<lparr>sntp_pcb := ok\<rparr>;
                s = check_assert ''Failed to allocate udp pcb for sntp client'' ok s
            in if ok then
                 (let s = emit Udp_recv s
                  in if sntp_opmode s = SNTP_OPMODE_POLL then
                       (let s = SNTP_RESET_RETRY_TIMEOUT c s
                        in if SNTP_STARTUP_DELAY c
                           then emit (Sys_timeout (SNTP_STARTUP_DELAY_FUNC c) H_sntp_request) s
                           else sntp_request c env s)
                     else if sntp_opmode s = SNTP_OPMODE_LISTENONLY then
                       emit (Udp_bind (SNTP_PORT c)) (emit Udp_set_broadcast s)
                     else s)
               else s)
         else s)"

definition sntp_stop :: "sntp_cfg \<Rightarrow> 'z sntp_state_scheme \<Rightarrow> 'z sntp_state_scheme" where
  "sntp_stop c s =
     (if sntp_pcb s then
        (let s = (if SNTP_MONITOR_SERVER_REACHABILITY c
                  then s\<lparr>sntp_servers := map (srv_reachability_update (\<lambda>_. 0)) (sntp_servers s)\<rparr>
                  else s);
             s = emit (Sys_untimeout H_sntp_request) s;
             s = emit (Sys_untimeout (try_next_handler c)) s;
             s = emit Udp_remove s
         in s\<lparr>sntp_pcb := False\<rparr>)
      else s)"

definition sntp_enabled :: "'z sntp_state_scheme \<Rightarrow> u8" where
  "sntp_enabled s = (if sntp_pcb s then 1 else 0)"

definition sntp_setoperatingmode :: "u8 \<Rightarrow> 'z sntp_state_scheme \<Rightarrow> 'z sntp_state_scheme" where
  "sntp_setoperatingmode operating_mode s =
     (let s = check_assert ''Invalid operating mode''
                (operating_mode \<le> SNTP_OPMODE_LISTENONLY) s;
          s = check_assert ''Operating mode must not be set while SNTP client is running''
                (\<not> sntp_pcb s) s
      in s\<lparr>sntp_opmode := operating_mode\<rparr>)"

definition sntp_getoperatingmode :: "'z sntp_state_scheme \<Rightarrow> u8" where
  "sntp_getoperatingmode s = sntp_opmode s"

definition sntp_getreachability :: "sntp_cfg \<Rightarrow> nat \<Rightarrow> 'z sntp_state_scheme \<Rightarrow> u8" where
  "sntp_getreachability c idx s =
     (if idx < SNTP_MAX_SERVERS c then srv_reachability (sntp_servers s ! idx) else 0)"

definition sntp_servermode_dhcp :: "bool \<Rightarrow> 'z sntp_state_scheme \<Rightarrow> 'z sntp_state_scheme" where
  "sntp_servermode_dhcp set_servers_from_dhcp s =
     (let new_mode = (if set_servers_from_dhcp then 1 else 0)
      in if sntp_set_servers_from_dhcp s \<noteq> new_mode
         then s\<lparr>sntp_set_servers_from_dhcp := new_mode\<rparr> else s)"

text \<open>
  The two loops of \<open>dhcp_set_ntp_servers\<close>: the offered addresses fill the table from index
  \<open>i\<close> up to its size, the remaining entries are cleared.
\<close>

fun dhcp_set_loop ::
    "sntp_cfg \<Rightarrow> nat \<Rightarrow> ip_addr list \<Rightarrow> 'z sntp_state_scheme \<Rightarrow> 'z sntp_state_scheme" where
  "dhcp_set_loop c i [] s = s"
| "dhcp_set_loop c i (a # as) s =
     (if i < SNTP_MAX_SERVERS c
      then dhcp_set_loop c (Suc i) as (sntp_setserver c i (Some a) s) else s)"

fun dhcp_clear_loop :: "sntp_cfg \<Rightarrow> nat list \<Rightarrow> 'z sntp_state_scheme \<Rightarrow> 'z sntp_state_scheme" where
  "dhcp_clear_loop c [] s = s"
| "dhcp_clear_loop c (i # is) s = dhcp_clear_loop c is (sntp_setserver c i None s)"

definition dhcp_set_ntp_servers ::
    "sntp_cfg \<Rightarrow> ip_addr list \<Rightarrow> 'z sntp_state_scheme \<Rightarrow> 'z sntp_state_scheme" where
  "dhcp_set_ntp_servers c server s =
     (if sntp_set_servers_from_dhcp s \<noteq> 0 \<and> length server \<noteq> 0 then
        dhcp_clear_loop c [length server..<SNTP_MAX_SERVERS c] (dhcp_set_loop c 0 server s)
      else s)"

end
