(* ===== verification/SntpProps.thy ===== *)
theory SntpProps
  imports Sntp
begin

unbundle bit_operations_syntax

text \<open>
  Lemmas about the SNTP client: what each operation leaves unchanged, the effect of each
  operation on the pending callbacks and on the clock, the server rotation against a
  reference, the step relation and its invariant.
\<close>

section \<open>Frames\<close>

lemma emit_frame [simp]:
  "sntp_opmode (emit e s) = sntp_opmode s"
  "sntp_pcb (emit e s) = sntp_pcb s"
  "sntp_servers (emit e s) = sntp_servers s"
  "sntp_set_servers_from_dhcp (emit e s) = sntp_set_servers_from_dhcp s"
  "sntp_current_server (emit e s) = sntp_current_server s"
  "sntp_retry_timeout (emit e s) = sntp_retry_timeout s"
  "sntp_last_server_address (emit e s) = sntp_last_server_address s"
  "sntp_last_timestamp_sent (emit e s) = sntp_last_timestamp_sent s"
  by (simp_all add: emit_def)

lemma check_assert_frame [simp]:
  "sntp_opmode (check_assert m ok s) = sntp_opmode s"
  "sntp_pcb (check_assert m ok s) = sntp_pcb s"
  "sntp_servers (check_assert m ok s) = sntp_servers s"
  "sntp_set_servers_from_dhcp (check_assert m ok s) = sntp_set_servers_from_dhcp s"
  "sntp_current_server (check_assert m ok s) = sntp_current_server s"
  "sntp_retry_timeout (check_assert m ok s) = sntp_retry_timeout s"
  "sntp_last_server_address (check_assert m ok s) = sntp_last_server_address s"
  "sntp_last_timestamp_sent (check_assert m ok s) = sntp_last_timestamp_sent s"
  by (simp_all add: check_assert_def)

lemma set_time_frame [simp]:
  "sntp_opmode (iotc_set_system_time_us h env u v s) = sntp_opmode s"
  "sntp_pcb (iotc_set_system_time_us h env u v s) = sntp_pcb s"
  "sntp_servers (iotc_set_system_time_us h env u v s) = sntp_servers s"
  "sntp_set_servers_from_dhcp (iotc_set_system_time_us h env u v s) = sntp_set_servers_from_dhcp s"
  "sntp_current_server (iotc_set_system_time_us h env u v s) = sntp_current_server s"
  "sntp_retry_timeout (iotc_set_system_time_us h env u v s) = sntp_retry_timeout s"
  "sntp_last_server_address (iotc_set_system_time_us h env u v s) = sntp_last_server_address s"
  "sntp_last_timestamp_sent (iotc_set_system_time_us h env u v s) = sntp_last_timestamp_sent s"
  by (simp_all add: iotc_set_system_time_us_def Let_def split: prod.split)

lemma update_server_frame [simp]:
  "trace (update_server i f s) = trace s"
  "callback_received (update_server i f s) = callback_received s"
  "sntp_opmode (update_server i f s) = sntp_opmode s"
  "sntp_pcb (update_server i f s) = sntp_pcb s"
  "length (sntp_servers (update_server i f s)) = length (sntp_servers s)"
  "sntp_set_servers_from_dhcp (update_server i f s) = sntp_set_servers_from_dhcp s"
  "sntp_current_server (update_server i f s) = sntp_current_server s"
  "sntp_retry_timeout (update_server i f s) = sntp_retry_timeout s"
  "sntp_last_server_address (update_server i f s) = sntp_last_server_address s"
  "sntp_last_timestamp_sent (update_server i f s) = sntp_last_timestamp_sent s"
  by (simp_all add: update_server_def)

lemma reset_frame [simp]:
  "trace (SNTP_RESET_RETRY_TIMEOUT c s) = trace s"
  "callback_received (SNTP_RESET_RETRY_TIMEOUT c s) = callback_received s"
  "sntp_opmode (SNTP_RESET_RETRY_TIMEOUT c s) = sntp_opmode s"
  "sntp_pcb (SNTP_RESET_RETRY_TIMEOUT c s) = sntp_pcb s"
  "sntp_servers (SNTP_RESET_RETRY_TIMEOUT c s) = sntp_servers s"
  "sntp_set_servers_from_dhcp (SNTP_RESET_RETRY_TIMEOUT c s) = sntp_set_servers_from_dhcp s"
  "sntp_current_server (SNTP_RESET_RETRY_TIMEOUT c s) = sntp_current_server s"
  "sntp_last_server_address (SNTP_RESET_RETRY_TIMEOUT c s) = sntp_last_server_address s"
  "sntp_last_timestamp_sent (SNTP_RESET_RETRY_TIMEOUT c s) = sntp_last_timestamp_sent s"
  by (simp_all add: SNTP_RESET_RETRY_TIMEOUT_def)

lemma init_request_frame [simp]:
  "sntp_opmode (snd (sntp_initialize_request c env s)) = sntp_opmode s"
  "sntp_pcb (snd (sntp_initialize_request c env s)) = sntp_pcb s"
  "sntp_servers (snd (sntp_initialize_request c env s)) = sntp_servers s"
  "sntp_set_servers_from_dhcp (snd (sntp_initialize_request c env s)) = sntp_set_servers_from_dhcp s"
  "sntp_current_server (snd (sntp_initialize_request c env s)) = sntp_current_server s"
  "sntp_retry_timeout (snd (sntp_initialize_request c env s)) = sntp_retry_timeout s"
  "sntp_last_server_address (snd (sntp_initialize_request c env s)) = sntp_last_server_address s"
  "callback_received (snd (sntp_initialize_request c env s)) = callback_received s"
  by (simp_all add: sntp_initialize_request_def Let_def split: prod.split)

lemma retry_frame [simp]:
  "sntp_opmode (sntp_retry c s) = sntp_opmode s"
  "sntp_pcb (sntp_retry c s) = sntp_pcb s"
  "sntp_servers (sntp_retry c s) = sntp_servers s"
  "sntp_current_server (sntp_retry c s) = sntp_current_server s"
  "callback_received (sntp_retry c s) = callback_received s"
  by (simp_all add: sntp_retry_def Let_def)

lemma send_frame [simp]:
  "sntp_opmode (sntp_send_request c env a s) = sntp_opmode s"
  "sntp_pcb (sntp_send_request c env a s) = sntp_pcb s"
  "length (sntp_servers (sntp_send_request c env a s)) = length (sntp_servers s)"
  "sntp_current_server (sntp_send_request c env a s) = sntp_current_server s"
  "sntp_retry_timeout (sntp_send_request c env a s) = sntp_retry_timeout s"
  "callback_received (sntp_send_request c env a s) = callback_received s"
  by (simp_all add: sntp_send_request_def Let_def case_prod_unfold)

lemma request_frame [simp]:
  "sntp_opmode (sntp_request c env s) = sntp_opmode s"
  "sntp_pcb (sntp_request c env s) = sntp_pcb s"
  "length (sntp_servers (sntp_request c env s)) = length (sntp_servers s)"
  "sntp_current_server (sntp_request c env s) = sntp_current_server s"
  "sntp_retry_timeout (sntp_request c env s) = sntp_retry_timeout s"
  "callback_received (sntp_request c env s) = callback_received s"
  by (simp_all add: sntp_request_def Let_def split: option.split dns_result.split)

lemma next_loop_frame:
  "next_server_loop c n s = (b, t) \<Longrightarrow>
     trace t = trace s \<and> sntp_opmode t = sntp_opmode s \<and> sntp_pcb t = sntp_pcb s
     \<and> sntp_servers t = sntp_servers s \<and> sntp_retry_timeout t = sntp_retry_timeout s
     \<and> callback_received t = callback_received s"
proof (induction n arbitrary: s)
  case 0
  then show ?case by simp
next
  case (Suc n)
  then show ?case
    by (auto simp: Let_def current_server_def split: if_splits dest!: Suc.IH)
qed

lemma try_next_frame [simp]:
  "sntp_opmode (sntp_try_next_server c env s) = sntp_opmode s"
  "sntp_pcb (sntp_try_next_server c env s) = sntp_pcb s"
  "length (sntp_servers (sntp_try_next_server c env s)) = length (sntp_servers s)"
  "callback_received (sntp_try_next_server c env s) = callback_received s"
  by (auto simp: sntp_try_next_server_def Let_def dest!: next_loop_frame split: prod.split bool.split)

section \<open>Pending callbacks\<close>

text \<open>
  lwIP's timers are one-shot: \<open>sys_timeout\<close> arms one, \<open>sys_untimeout\<close> removes one entry for
  that handler if there is one, firing removes the one that fires. \<open>armed\<close> reads the number
  of armed timers off the trace, \<open>dns_pending\<close> the number of resolver callbacks still owed.
\<close>

fun armed_step :: "handler \<Rightarrow> nat \<Rightarrow> net_event \<Rightarrow> nat" where
  "armed_step h n (Sys_timeout ms h') = (if h' = h then n + 1 else n)"
| "armed_step h n (Sys_untimeout h') = (if h' = h then n - 1 else n)"
| "armed_step h n (Timer_fired h') = (if h' = h then n - 1 else n)"
| "armed_step h n _ = n"

definition armed :: "handler \<Rightarrow> net_event list \<Rightarrow> nat" where
  "armed h tr = foldl (armed_step h) 0 tr"

fun dns_step :: "nat \<Rightarrow> net_event \<Rightarrow> nat" where
  "dns_step n (Dns_gethostbyname nm r) = (if r = Dns_inprogress then n + 1 else n)"
| "dns_step n (Dns_found a) = n - 1"
| "dns_step n _ = n"

definition dns_pending :: "net_event list \<Rightarrow> nat" where
  "dns_pending tr = foldl dns_step 0 tr"

definition pending :: "net_event list \<Rightarrow> nat" where
  "pending tr =
     armed H_sntp_request tr + armed H_sntp_try_next_server tr + armed H_sntp_retry tr
     + dns_pending tr"

lemma armed_snoc [simp]: "armed h (tr @ [e]) = armed_step h (armed h tr) e"
  by (simp add: armed_def)

lemma dns_pending_snoc [simp]: "dns_pending (tr @ [e]) = dns_step (dns_pending tr) e"
  by (simp add: dns_pending_def)

text \<open>Events that neither arm nor cancel anything.\<close>

fun quiet :: "net_event \<Rightarrow> bool" where
  "quiet (Sys_timeout ms h) = False"
| "quiet (Sys_untimeout h) = False"
| "quiet (Timer_fired h) = False"
| "quiet (Dns_gethostbyname nm r) = (r \<noteq> Dns_inprogress)"
| "quiet (Dns_found a) = False"
| "quiet _ = True"

lemma armed_quiet: "quiet e \<Longrightarrow> armed_step h n e = n"
  by (cases e) auto

lemma dns_quiet: "quiet e \<Longrightarrow> dns_step n e = n"
  by (cases e) auto

lemma pending_quiet [simp]: "quiet e \<Longrightarrow> pending (trace (emit e s)) = pending (trace s)"
  by (simp add: pending_def armed_quiet dns_quiet trace_emit)

lemma pending_timeout [simp]: "pending (trace (emit (Sys_timeout ms h) s)) = Suc (pending (trace s))"
  by (cases h) (simp_all add: pending_def trace_emit)

lemma pending_dns [simp]:
  "pending (trace (emit (Dns_gethostbyname nm Dns_inprogress) s)) = Suc (pending (trace s))"
  by (simp add: pending_def trace_emit)

lemma pending_fired:
  "armed h (trace s) > 0 \<Longrightarrow> pending (trace s) = Suc (pending (trace (emit (Timer_fired h) s)))"
  by (cases h) (simp_all add: pending_def trace_emit)

lemma pending_found:
  "dns_pending (trace s) > 0 \<Longrightarrow> pending (trace s) = Suc (pending (trace (emit (Dns_found a) s)))"
  by (simp add: pending_def trace_emit)

lemma pending_untimeout: "pending (trace s) \<le> Suc (pending (trace (emit (Sys_untimeout h) s)))"
  by (cases h) (simp_all add: pending_def trace_emit)

lemma pending_check_assert [simp]: "pending (trace (check_assert m ok s)) = pending (trace s)"
  by (simp add: check_assert_def)

lemma pending_set_time [simp]:
  "pending (trace (iotc_set_system_time_us h env u v s)) = pending (trace s)"
  by (simp add: iotc_set_system_time_us_def Let_def)

lemma pending_init_request [simp]:
  "pending (trace (snd (sntp_initialize_request c env s))) = pending (trace s)"
  by (simp add: sntp_initialize_request_def Let_def split: prod.split)

lemma pending_process [simp]:
  "pending (trace (sntp_process c env ts s)) = pending (trace s)"
  by (simp add: sntp_process_def Let_def case_prod_unfold)

text \<open>
  Every way of making a request leaves exactly one more callback pending than before: the
  client cannot fall silent, and nothing is cancelled.
\<close>

lemma pending_retry [simp]: "pending (trace (sntp_retry c s)) = Suc (pending (trace s))"
  by (simp add: sntp_retry_def Let_def)

lemma pending_send [simp]:
  "pending (trace (sntp_send_request c env a s)) = Suc (pending (trace s))"
  by (simp add: sntp_send_request_def Let_def case_prod_unfold)

lemma pending_request [simp]:
  "pending (trace (sntp_request c env s)) = Suc (pending (trace s))"
  by (auto simp: sntp_request_def Let_def split: option.split dns_result.split)

lemma pending_try_next [simp]:
  "pending (trace (sntp_try_next_server c env s)) = Suc (pending (trace s))"
  by (auto simp: sntp_try_next_server_def Let_def dest!: next_loop_frame split: prod.split bool.split)

section \<open>Clock writes\<close>

fun clock_write_of :: "net_event \<Rightarrow> u32 list" where
  "clock_write_of (Rtc_write u r) = [u]"
| "clock_write_of _ = []"

definition clock_writes :: "net_event list \<Rightarrow> u32 list" where
  "clock_writes tr = concat (map clock_write_of tr)"

lemma clock_writes_emit [simp]:
  "clock_writes (trace (emit e s)) = clock_writes (trace s) @ clock_write_of e"
  by (simp add: clock_writes_def trace_emit)

lemma clock_writes_check_assert [simp]:
  "clock_writes (trace (check_assert m ok s)) = clock_writes (trace s)"
  by (simp add: check_assert_def)

lemma clock_writes_set_time [simp]:
  "clock_writes (trace (iotc_set_system_time_us h env u v s)) = clock_writes (trace s) @ [u]"
  by (simp add: iotc_set_system_time_us_def Let_def)

lemma clock_writes_init_request [simp]:
  "clock_writes (trace (snd (sntp_initialize_request c env s))) = clock_writes (trace s)"
  by (simp add: sntp_initialize_request_def Let_def split: prod.split)

lemma clock_writes_retry [simp]: "clock_writes (trace (sntp_retry c s)) = clock_writes (trace s)"
  by (simp add: sntp_retry_def Let_def)

lemma clock_writes_send [simp]:
  "clock_writes (trace (sntp_send_request c env a s)) = clock_writes (trace s)"
  by (simp add: sntp_send_request_def Let_def case_prod_unfold)

lemma clock_writes_request [simp]:
  "clock_writes (trace (sntp_request c env s)) = clock_writes (trace s)"
  by (auto simp: sntp_request_def Let_def split: option.split dns_result.split)

lemma clock_writes_try_next [simp]:
  "clock_writes (trace (sntp_try_next_server c env s)) = clock_writes (trace s)"
  by (auto simp: sntp_try_next_server_def Let_def dest!: next_loop_frame split: prod.split bool.split)

lemma process_frame [simp]:
  "sntp_opmode (sntp_process c env ts s) = sntp_opmode s"
  "sntp_pcb (sntp_process c env ts s) = sntp_pcb s"
  "sntp_servers (sntp_process c env ts s) = sntp_servers s"
  "sntp_current_server (sntp_process c env ts s) = sntp_current_server s"
  "sntp_retry_timeout (sntp_process c env ts s) = sntp_retry_timeout s"
  "callback_received (sntp_process c env ts s)"
  by (simp_all add: sntp_process_def Let_def case_prod_unfold)

lemma clock_writes_process_plain:
  "\<not> SNTP_COMP_ROUNDTRIP c \<Longrightarrow>
   clock_writes (trace (sntp_process c env ts s))
     = clock_writes (trace s) @ [lwip_ntohl (ntp_sec (ts_xmit ts)) + DIFF_SEC_1970_2036]"
  by (simp add: sntp_process_def Let_def SNTP_SET_SYSTEM_TIME_NTP_def)

lemma clock_writes_process:
  "\<exists>u. clock_writes (trace (sntp_process c env ts s)) = clock_writes (trace s) @ [u]"
  by (simp add: sntp_process_def Let_def case_prod_unfold)

text \<open>Processing a reply touches no timer.\<close>

lemma process_quiet: "\<exists>es. trace (sntp_process c env ts s) = trace s @ es \<and> list_all quiet es"
  by (simp add: sntp_process_def iotc_set_system_time_us_def check_assert_def trace_emit Let_def case_prod_unfold)

lemma armed_append_quiet: "list_all quiet es \<Longrightarrow> armed h (tr @ es) = armed h tr"
  by (induction es rule: rev_induct) (simp_all add: armed_quiet flip: append_assoc)

lemma armed_app: "armed h (tr @ es) = foldl (armed_step h) (armed h tr) es"
  by (simp add: armed_def)

lemma clock_writes_app: "clock_writes (tr @ es) = clock_writes tr @ clock_writes es"
  by (simp add: clock_writes_def)

lemma armed_process [simp]: "armed h (trace (sntp_process c env ts s)) = armed h (trace s)"
  using process_quiet[of c env ts s] by (auto simp: armed_append_quiet)

section \<open>Server rotation\<close>

definition configured :: "sntp_cfg \<Rightarrow> 'z sntp_state_scheme \<Rightarrow> nat \<Rightarrow> bool" where
  "configured c s i \<longleftrightarrow>
     srv_addr (sntp_servers s ! i) \<noteq> IP_ADDR_ANY
     \<or> SNTP_SERVER_DNS c \<and> srv_name (sntp_servers s ! i) \<noteq> None"

lemma find_map: "find P (map f xs) = map_option f (find (\<lambda>x. P (f x)) xs)"
  by (induction xs) auto

lemma next_server_loop_spec:
  "sntp_current_server s < SNTP_MAX_SERVERS c \<Longrightarrow>
   next_server_loop c n s =
     (case find (\<lambda>k. configured c s ((sntp_current_server s + k) mod SNTP_MAX_SERVERS c)) [1..<Suc n] of
        Some k \<Rightarrow> (True, s\<lparr>sntp_current_server := (sntp_current_server s + k) mod SNTP_MAX_SERVERS c\<rparr>)
      | None \<Rightarrow> (False, s\<lparr>sntp_current_server := (sntp_current_server s + n) mod SNTP_MAX_SERVERS c\<rparr>))"
proof (induction n arbitrary: s)
  case 0
  then show ?case by simp
next
  case (Suc n)
  define M where "M = SNTP_MAX_SERVERS c"
  define cur where "cur = sntp_current_server s"
  define s1 where "s1 = s\<lparr>sntp_current_server := (cur + 1) mod M\<rparr>"
  have cur: "cur < M" using Suc.prems by (simp add: cur_def M_def)
  have adv: "(let t = s\<lparr>sntp_current_server := sntp_current_server s + 1\<rparr>
              in if sntp_current_server t \<ge> SNTP_MAX_SERVERS c
                 then t\<lparr>sntp_current_server := 0\<rparr> else t) = s1"
    using cur by (auto simp: s1_def Let_def cur_def M_def le_Suc_eq mod_Suc)
  have loop: "next_server_loop c (Suc n) s =
      (if configured c s ((cur + 1) mod M) then (True, s1) else next_server_loop c n s1)"
    unfolding next_server_loop.simps Let_def adv[unfolded Let_def]
    by (simp add: configured_def current_server_def s1_def)
  have s1: "sntp_current_server s1 = (cur + 1) mod M" "configured c s1 = configured c s"
    by (simp_all add: s1_def configured_def fun_eq_iff)
  have shift: "(Suc cur mod M + k) mod M = Suc (cur + k) mod M" for k
    using mod_add_left_eq[of "Suc cur" M k] by simp
  have up: "[1..<Suc (Suc n)] = 1 # map Suc [1..<Suc n]"
    by (simp add: upt_conv_Cons map_Suc_upt del: upt_Suc)
  have "(cur + 1) mod M < M" using cur by simp
  then show ?case
    unfolding loop up
    using Suc.IH[of s1] s1
    by (auto simp: find_map shift cur_def[symmetric] M_def[symmetric] s1_def simp del: upt_Suc
        split: option.split)
qed

lemma try_next_current:
  assumes "sntp_current_server s < SNTP_MAX_SERVERS c"
  shows "sntp_current_server (sntp_try_next_server c env s) =
    (case find (\<lambda>k. configured c s ((sntp_current_server s + k) mod SNTP_MAX_SERVERS c))
            [1..<SNTP_MAX_SERVERS c] of
       Some k \<Rightarrow> (sntp_current_server s + k) mod SNTP_MAX_SERVERS c
     | None \<Rightarrow> sntp_current_server s)"
proof -
  have "Suc (SNTP_MAX_SERVERS c - 1) = SNTP_MAX_SERVERS c" using assms by simp
  then show ?thesis
    using assms
    by (auto simp: sntp_try_next_server_def SNTP_SUPPORT_MULTIPLE_SERVERS_def next_server_loop_spec
        simp del: upt_Suc split: option.split)
qed

section \<open>The retry timeout\<close>

lemma retry_timeout_step:
  assumes "SNTP_RETRY_TIMEOUT_EXP c"
  shows "unat (sntp_retry_timeout (sntp_retry c s)) =
    (if 2 * unat (sntp_retry_timeout s) \<le> unat (SNTP_RETRY_TIMEOUT_MAX c)
     then 2 * unat (sntp_retry_timeout s) else unat (sntp_retry_timeout s))"
proof -
  let ?r = "sntp_retry_timeout s"
  have lt: "unat ?r < 2 ^ 32" "unat (SNTP_RETRY_TIMEOUT_MAX c) < 2 ^ 32"
    using unsigned_less[of ?r] unsigned_less[of "SNTP_RETRY_TIMEOUT_MAX c"] by simp_all
  have m: "unat (2 * ?r) = (2 * unat ?r) mod 2 ^ 32" by (simp add: unat_word_ariths)
  have val: "unat (sntp_retry_timeout (sntp_retry c s)) =
      (if unat (2 * ?r) \<le> unat (SNTP_RETRY_TIMEOUT_MAX c) \<and> unat ?r < unat (2 * ?r)
       then unat (2 * ?r) else unat ?r)"
    using assms
    by (simp add: sntp_retry_def Let_def word_le_nat_alt word_less_nat_alt push_bit_eq_mult mult.commute)
  show ?thesis
  proof (cases "2 * unat ?r < 2 ^ 32")
    case True
    then have "unat (2 * ?r) = 2 * unat ?r" by (simp add: m)
    then show ?thesis by (auto simp: val)
  next
    case False
    then have "(2 * unat ?r) mod 2 ^ 32 = 2 * unat ?r - 2 ^ 32"
      using lt(1) by (simp add: mod_if)
    then have "\<not> unat ?r < unat (2 * ?r)" using False lt(1) by (simp add: m)
    then show ?thesis using False lt by (simp add: val)
  qed
qed

text \<open>The timeout after \<open>n\<close> retries: doubled as long as the maximum allows.\<close>

lemma retry_backoff_aux:
  assumes "SNTP_RETRY_TIMEOUT_EXP c"
    and "unat (sntp_retry_timeout s) = R" and "0 < R" and "R \<le> unat (SNTP_RETRY_TIMEOUT_MAX c)"
  shows "\<exists>k\<le>n. unat (sntp_retry_timeout ((sntp_retry c ^^ n) s)) = R * 2 ^ k
           \<and> R * 2 ^ k \<le> unat (SNTP_RETRY_TIMEOUT_MAX c)
           \<and> (k < n \<longrightarrow> unat (SNTP_RETRY_TIMEOUT_MAX c) < R * 2 ^ Suc k)"
proof (induction n)
  case 0
  then show ?case using assms by simp
next
  case (Suc n)
  then obtain k where k: "k \<le> n"
      "unat (sntp_retry_timeout ((sntp_retry c ^^ n) s)) = R * 2 ^ k"
      "R * 2 ^ k \<le> unat (SNTP_RETRY_TIMEOUT_MAX c)"
      "k < n \<longrightarrow> unat (SNTP_RETRY_TIMEOUT_MAX c) < R * 2 ^ Suc k" by blast
  let ?t = "sntp_retry_timeout ((sntp_retry c ^^ Suc n) s)"
  have t: "unat ?t = (if R * 2 ^ Suc k \<le> unat (SNTP_RETRY_TIMEOUT_MAX c)
      then R * 2 ^ Suc k else R * 2 ^ k)"
    using retry_timeout_step[OF assms(1), of "(sntp_retry c ^^ n) s"] k(2) by simp
  show ?case
  proof (cases "R * 2 ^ Suc k \<le> unat (SNTP_RETRY_TIMEOUT_MAX c)")
    case True
    with k have "k = n" by force
    then show ?thesis using True t by (intro exI[of _ "Suc n"]) simp
  next
    case False
    then show ?thesis using k t by (intro exI[of _ k]) simp
  qed
qed

section \<open>Steps of the module\<close>

text \<open>
  The module runs when lwIP fires one of its armed timers, delivers a packet to its open pcb
  or answers a pending name query, and when the application calls its interface. The contract of
  \<open>sntp_setoperatingmode\<close> (asserted in the code) is the premise of that step.
\<close>

fun run_handler ::
    "sntp_cfg \<Rightarrow> net_env \<Rightarrow> handler \<Rightarrow> 'z sntp_state_scheme \<Rightarrow> 'z sntp_state_scheme" where
  "run_handler c env H_sntp_request s = sntp_request c env s"
| "run_handler c env H_sntp_try_next_server s = sntp_try_next_server c env s"
| "run_handler c env H_sntp_retry s = sntp_retry c s"

inductive sntp_step :: "sntp_cfg \<Rightarrow> net_env \<Rightarrow> 'z sntp_state_scheme \<Rightarrow> 'z sntp_state_scheme \<Rightarrow> bool"
  for c env where
  timer: "armed h (trace s) > 0 \<Longrightarrow>
     sntp_step c env s (run_handler c env h (emit (Timer_fired h) s))"
| packet: "sntp_pcb s \<Longrightarrow> sntp_step c env s (sntp_recv c env p addr port s)"
| resolved: "dns_pending (trace s) > 0 \<Longrightarrow>
     sntp_step c env s (sntp_dns_found c env a (emit (Dns_found a) s))"
| init: "sntp_step c env s (sntp_init c env s)"
| stop: "sntp_step c env s (sntp_stop c s)"
| setmode: "m \<le> SNTP_OPMODE_LISTENONLY \<Longrightarrow> \<not> sntp_pcb s \<Longrightarrow>
     sntp_step c env s (sntp_setoperatingmode m s)"
| setserver: "sntp_step c env s (sntp_setserver c i a s)"
| setname: "sntp_step c env s (sntp_setservername c i nm s)"
| dhcpmode: "sntp_step c env s (sntp_servermode_dhcp b s)"
| dhcp: "sntp_step c env s (dhcp_set_ntp_servers c as s)"

inductive_cases sntp_stepE: "sntp_step c env s t"

section \<open>The invariant\<close>

definition retry_ok :: "sntp_cfg \<Rightarrow> u32 \<Rightarrow> bool" where
  "retry_ok c r \<longleftrightarrow>
     (SNTP_RETRY_TIMEOUT_EXP c \<longrightarrow>
        r = 0 \<or> SNTP_RETRY_TIMEOUT c \<le> r \<and> r \<le> max (SNTP_RETRY_TIMEOUT c) (SNTP_RETRY_TIMEOUT_MAX c))"

definition table_ok :: "sntp_cfg \<Rightarrow> 'z sntp_state_scheme \<Rightarrow> bool" where
  "table_ok c s \<longleftrightarrow>
     length (sntp_servers s) = SNTP_MAX_SERVERS c
     \<and> sntp_current_server s < SNTP_MAX_SERVERS c
     \<and> sntp_opmode s \<le> SNTP_OPMODE_LISTENONLY"

definition live :: "'z sntp_state_scheme \<Rightarrow> bool" where
  "live s \<longleftrightarrow> (sntp_pcb s \<and> sntp_opmode s = SNTP_OPMODE_POLL \<longrightarrow> 0 < pending (trace s))"

definition sntp_inv :: "sntp_cfg \<Rightarrow> 'z sntp_state_scheme \<Rightarrow> bool" where
  "sntp_inv c s \<longleftrightarrow> table_ok c s \<and> retry_ok c (sntp_retry_timeout s) \<and> live s"

lemma retry_ok_retry: "retry_ok c (sntp_retry_timeout s) \<Longrightarrow> retry_ok c (sntp_retry_timeout (sntp_retry c s))"
  by (auto simp: retry_ok_def sntp_retry_def Let_def max_def)

lemma retry_ok_reset: "retry_ok c (sntp_retry_timeout s) \<Longrightarrow> retry_ok c (sntp_retry_timeout (SNTP_RESET_RETRY_TIMEOUT c s))"
  by (auto simp: retry_ok_def SNTP_RESET_RETRY_TIMEOUT_def max_def)

lemma retry_ok_try_next:
  "retry_ok c (sntp_retry_timeout s) \<Longrightarrow> retry_ok c (sntp_retry_timeout (sntp_try_next_server c env s))"
  by (auto simp: sntp_try_next_server_def Let_def dest!: next_loop_frame
      intro!: retry_ok_retry retry_ok_reset split: prod.split bool.split)

lemma inv_request:
  "table_ok c s \<Longrightarrow> retry_ok c (sntp_retry_timeout s) \<Longrightarrow> sntp_inv c (sntp_request c env s)"
  by (simp add: sntp_inv_def table_ok_def live_def)

lemma inv_send:
  "table_ok c s \<Longrightarrow> retry_ok c (sntp_retry_timeout s) \<Longrightarrow> sntp_inv c (sntp_send_request c env a s)"
  by (simp add: sntp_inv_def table_ok_def live_def)

lemma inv_retry:
  "table_ok c s \<Longrightarrow> retry_ok c (sntp_retry_timeout s) \<Longrightarrow> sntp_inv c (sntp_retry c s)"
  by (simp add: sntp_inv_def table_ok_def live_def retry_ok_retry)

lemma find_Some_bound: "find P xs = Some k \<Longrightarrow> k \<in> set xs"
  by (induction xs) (auto split: if_splits)

lemma inv_try_next:
  assumes "table_ok c s" and "retry_ok c (sntp_retry_timeout s)"
  shows "sntp_inv c (sntp_try_next_server c env s)"
proof -
  have "sntp_current_server (sntp_try_next_server c env s) < SNTP_MAX_SERVERS c"
    using assms(1)
    by (subst try_next_current) (auto simp: table_ok_def split: option.split)
  then show ?thesis
    using assms by (simp add: sntp_inv_def table_ok_def live_def retry_ok_try_next)
qed

lemma table_ok_cong:
  "length (sntp_servers t) = length (sntp_servers s) \<Longrightarrow>
   sntp_current_server t = sntp_current_server s \<Longrightarrow> sntp_opmode t = sntp_opmode s \<Longrightarrow>
   table_ok c t = table_ok c s"
  by (simp add: table_ok_def)

lemma opmode_le [simp]:
  "SNTP_OPMODE_POLL \<le> SNTP_OPMODE_LISTENONLY" "SNTP_OPMODE_POLL \<noteq> SNTP_OPMODE_LISTENONLY"
  "SNTP_OPMODE_LISTENONLY \<noteq> SNTP_OPMODE_POLL"
  by (simp_all add: SNTP_OPMODE_POLL_def SNTP_OPMODE_LISTENONLY_def)

lemma inv_recv:
  assumes "sntp_inv c s"
  shows "sntp_inv c (sntp_recv c env p addr port s)"
proof -
  let ?s = "emit Pbuf_free s"
  have s: "table_ok c ?s" "retry_ok c (sntp_retry_timeout ?s)"
    using assms by (simp_all add: sntp_inv_def table_ok_def)
  show ?thesis
  proof (cases "sntp_check c p addr port s")
    case ERR_OK
    have "retry_ok c (SNTP_RETRY_TIMEOUT c)"
      by (auto simp: retry_ok_def max_def)
    with assms show ?thesis
      by (simp add: sntp_recv_def ERR_OK Let_def sntp_inv_def table_ok_def live_def
          SNTP_RESET_RETRY_TIMEOUT_def)
  next
    case SNTP_ERR_KOD
    with s show ?thesis
      by (cases "sntp_opmode s = SNTP_OPMODE_POLL")
        (simp_all add: sntp_recv_def inv_try_next, simp_all add: sntp_inv_def live_def)
  qed (use assms in \<open>simp_all add: sntp_recv_def sntp_inv_def table_ok_def live_def\<close>)
qed

lemma inv_dns_found:
  assumes "sntp_inv c s"
  shows "sntp_inv c (sntp_dns_found c env a (emit (Dns_found a) s))"
proof -
  have "table_ok c (emit (Dns_found a) s)" "retry_ok c (sntp_retry_timeout s)"
    using assms by (simp_all add: sntp_inv_def table_ok_def)
  then show ?thesis
    by (auto simp: sntp_dns_found_def table_ok_def intro!: inv_send inv_try_next split: option.split)
qed

lemma inv_handler:
  assumes "sntp_inv c s"
  shows "sntp_inv c (run_handler c env h (emit (Timer_fired h) s))"
proof -
  have "table_ok c (emit (Timer_fired h) s)" "retry_ok c (sntp_retry_timeout (emit (Timer_fired h) s))"
    using assms by (simp_all add: sntp_inv_def table_ok_def)
  then show ?thesis
    by (cases h) (simp_all add: inv_request inv_try_next inv_retry)
qed

text \<open>Operations on the server table and the mode do not touch the rest.\<close>

lemma setserver_frame [simp]:
  "trace (sntp_setserver c i a s) = trace s"
  "sntp_opmode (sntp_setserver c i a s) = sntp_opmode s"
  "sntp_pcb (sntp_setserver c i a s) = sntp_pcb s"
  "length (sntp_servers (sntp_setserver c i a s)) = length (sntp_servers s)"
  "sntp_current_server (sntp_setserver c i a s) = sntp_current_server s"
  "sntp_retry_timeout (sntp_setserver c i a s) = sntp_retry_timeout s"
  "callback_received (sntp_setserver c i a s) = callback_received s"
  by (simp_all add: sntp_setserver_def Let_def split: option.split)

lemma setservername_frame [simp]:
  "trace (sntp_setservername c i a s) = trace s"
  "sntp_opmode (sntp_setservername c i a s) = sntp_opmode s"
  "sntp_pcb (sntp_setservername c i a s) = sntp_pcb s"
  "length (sntp_servers (sntp_setservername c i a s)) = length (sntp_servers s)"
  "sntp_current_server (sntp_setservername c i a s) = sntp_current_server s"
  "sntp_retry_timeout (sntp_setservername c i a s) = sntp_retry_timeout s"
  "callback_received (sntp_setservername c i a s) = callback_received s"
  by (simp_all add: sntp_setservername_def)

lemma servermode_frame [simp]:
  "trace (sntp_servermode_dhcp b s) = trace s"
  "sntp_opmode (sntp_servermode_dhcp b s) = sntp_opmode s"
  "sntp_pcb (sntp_servermode_dhcp b s) = sntp_pcb s"
  "sntp_servers (sntp_servermode_dhcp b s) = sntp_servers s"
  "sntp_current_server (sntp_servermode_dhcp b s) = sntp_current_server s"
  "sntp_retry_timeout (sntp_servermode_dhcp b s) = sntp_retry_timeout s"
  by (simp_all add: sntp_servermode_dhcp_def Let_def)

lemma inv_cong:
  "trace t = trace s \<Longrightarrow> sntp_opmode t = sntp_opmode s \<Longrightarrow> sntp_pcb t = sntp_pcb s \<Longrightarrow>
   length (sntp_servers t) = length (sntp_servers s) \<Longrightarrow>
   sntp_current_server t = sntp_current_server s \<Longrightarrow>
   sntp_retry_timeout t = sntp_retry_timeout s \<Longrightarrow> sntp_inv c t = sntp_inv c s"
  by (simp add: sntp_inv_def table_ok_def live_def)

lemma inv_setserver [simp]: "sntp_inv c (sntp_setserver c i a s) = sntp_inv c s"
  by (rule inv_cong) simp_all

lemma inv_setservername [simp]: "sntp_inv c (sntp_setservername c i a s) = sntp_inv c s"
  by (rule inv_cong) simp_all

lemma inv_servermode [simp]: "sntp_inv c (sntp_servermode_dhcp b s) = sntp_inv c s"
  by (rule inv_cong) simp_all

lemma inv_dhcp_set_loop [simp]: "sntp_inv c (dhcp_set_loop c i as s) = sntp_inv c s"
  by (induction c i as s rule: dhcp_set_loop.induct) simp_all

lemma inv_dhcp_clear_loop [simp]: "sntp_inv c (dhcp_clear_loop c is s) = sntp_inv c s"
  by (induction c "is" s rule: dhcp_clear_loop.induct) simp_all

lemma inv_dhcp [simp]: "sntp_inv c (dhcp_set_ntp_servers c as s) = sntp_inv c s"
  by (simp add: dhcp_set_ntp_servers_def)

lemma inv_setmode:
  "sntp_inv c s \<Longrightarrow> m \<le> SNTP_OPMODE_LISTENONLY \<Longrightarrow> \<not> sntp_pcb s \<Longrightarrow>
   sntp_inv c (sntp_setoperatingmode m s)"
  by (simp add: sntp_setoperatingmode_def sntp_inv_def table_ok_def live_def check_assert_def)

lemma inv_stop: "sntp_inv c s \<Longrightarrow> sntp_inv c (sntp_stop c s)"
  by (simp add: sntp_stop_def Let_def sntp_inv_def table_ok_def live_def)

lemma inv_init:
  assumes "sntp_inv c s"
  shows "sntp_inv c (sntp_init c env s)"
proof -
  define s0 where "s0 = (case SNTP_SERVER_ADDRESS c of
      Some a \<Rightarrow> sntp_setservername c 0 (Some a) s | None \<Rightarrow> s)"
  have s0: "sntp_inv c s0" using assms by (simp add: s0_def split: option.split)
  then have parts: "table_ok c s0" "retry_ok c (sntp_retry_timeout s0)" "live s0"
    by (simp_all add: sntp_inv_def)
  have reset: "retry_ok c (SNTP_RETRY_TIMEOUT c)"
    by (auto simp: retry_ok_def max_def)
  show ?thesis
    unfolding sntp_init_def s0_def[symmetric] Let_def
    using parts reset s0
    by (auto simp: table_ok_def SNTP_RESET_RETRY_TIMEOUT_def intro!: inv_request)
      (auto simp: sntp_inv_def table_ok_def live_def SNTP_OPMODE_POLL_def SNTP_OPMODE_LISTENONLY_def)
qed

lemma inv_initial: "cfg_ok c \<Longrightarrow> sntp_inv c (sntp_initial c)"
  by (simp add: sntp_inv_def table_ok_def retry_ok_def live_def sntp_initial_def cfg_ok_def)

lemma sntp_step_inv: "sntp_step c env s t \<Longrightarrow> sntp_inv c s \<Longrightarrow> sntp_inv c t"
  by (induction rule: sntp_step.induct)
    (simp_all add: inv_handler inv_recv inv_dns_found inv_init inv_stop inv_setmode)

interpretation sntp_system: transition_system
  "\<lambda>s. cfg_ok c \<and> s = sntp_initial c" "sntp_step c env" "sntp_inv c" for c env
  by unfold_locales (auto intro: inv_initial sntp_step_inv)

section \<open>Acceptance of a reply\<close>

text \<open>What a genuine reply is, stated on the bytes of the packet.\<close>

definition genuine_reply ::
    "sntp_cfg \<Rightarrow> u8 list \<Rightarrow> ip_addr \<Rightarrow> u16 \<Rightarrow> 'z sntp_state_scheme \<Rightarrow> bool" where
  "genuine_reply c p addr port s \<longleftrightarrow>
     length p = 48
     \<and> (p ! 0) AND 7 = (if sntp_opmode s = SNTP_OPMODE_POLL then 4 else 5)
     \<and> p ! 1 \<noteq> 0
     \<and> sntp_opmode s \<le> SNTP_OPMODE_LISTENONLY
     \<and> (SNTP_CHECK_RESPONSE c \<ge> 1 \<longrightarrow> port = SNTP_PORT c)
     \<and> (SNTP_CHECK_RESPONSE c \<ge> 1 \<and> sntp_opmode s = SNTP_OPMODE_POLL
          \<longrightarrow> addr = sntp_last_server_address s)
     \<and> (SNTP_CHECK_RESPONSE c \<ge> 2
          \<longrightarrow> (load32 p 24, load32 p 28) = sntp_last_timestamp_sent s)"

lemma opmode_cases:
  "m \<le> SNTP_OPMODE_LISTENONLY \<longleftrightarrow> m = SNTP_OPMODE_POLL \<or> m = SNTP_OPMODE_LISTENONLY"
proof -
  have "m \<le> (1 :: u8) \<longleftrightarrow> m = 0 \<or> m = 1"
    by (auto simp: word_le_nat_alt word_unat_eq_iff le_Suc_eq)
  then show ?thesis by (simp add: SNTP_OPMODE_POLL_def SNTP_OPMODE_LISTENONLY_def)
qed

lemma sntp_check_ok: "sntp_check c p addr port s = ERR_OK \<longleftrightarrow> genuine_reply c p addr port s"
proof (cases "length p = 48")
  case False
  then show ?thesis
    by (simp add: sntp_check_def genuine_reply_def SNTP_MSG_LEN_def)
next
  case True
  then show ?thesis
    by (auto simp: sntp_check_def genuine_reply_def sntp_consts pbuf_get_at_def Let_def
        opmode_cases full_timestamps_def ts_orig_copy load_time_def prod_eq_iff)
qed

lemma genuine_cases:
  "genuine_reply c p addr port s \<Longrightarrow> sntp_check c p addr port s = ERR_OK"
  "\<not> genuine_reply c p addr port s \<Longrightarrow> sntp_check c p addr port s \<noteq> ERR_OK"
  by (simp_all add: sntp_check_ok)

lemma last_emit: "last (trace (emit e s)) = e"
  by (simp add: trace_emit)

lemma clock_writes_recv:
  "if genuine_reply c p addr port s
   then clock_writes (trace (sntp_recv c env p addr port s)) =
        clock_writes (trace (sntp_process c env (copy_timestamps (full_timestamps c) p) (emit Pbuf_free s)))
   else clock_writes (trace (sntp_recv c env p addr port s)) = clock_writes (trace s)"
proof (cases "sntp_check c p addr port s")
  case ERR_OK
  then have "genuine_reply c p addr port s" by (simp add: sntp_check_ok)
  then show ?thesis by (simp add: sntp_recv_def ERR_OK Let_def)
next
  case SNTP_ERR_KOD
  then have "\<not> genuine_reply c p addr port s" using sntp_check_ok[of c p addr port s] by simp
  then show ?thesis by (simp add: sntp_recv_def SNTP_ERR_KOD Let_def)
qed (use sntp_check_ok[of c p addr port s] in \<open>simp_all add: sntp_recv_def\<close>)

section \<open>A concrete run\<close>

text \<open>
  A configuration with two servers and the response checks compiled in, an environment in which
  every call succeeds, and the client after its first request. The witnesses use them.
\<close>

definition example_cfg :: sntp_cfg where
  "example_cfg =
     \<lparr>SNTP_MAX_SERVERS = 2, SNTP_CHECK_RESPONSE = 2, SNTP_COMP_ROUNDTRIP = False,
      SNTP_SERVER_DNS = True, SNTP_SERVER_ADDRESS = None,
      SNTP_MONITOR_SERVER_REACHABILITY = True, SNTP_RETRY_TIMEOUT_EXP = True,
      SNTP_RETRY_TIMEOUT = 15000, SNTP_RETRY_TIMEOUT_MAX = 150000,
      SNTP_UPDATE_DELAY = 3600000, SNTP_RECV_TIMEOUT = 15000, SNTP_STARTUP_DELAY = False,
      SNTP_STARTUP_DELAY_FUNC = 0, SNTP_PORT = 123, LWIP_HAVE_INT64 = True, HAL_API_3 = False\<rparr>"

definition example_env :: net_env where
  "example_env =
     \<lparr>env_rtc_get = (\<lambda>_. True), env_rtc_init = (\<lambda>_. 0), env_rtc_write = (\<lambda>_ _. 0),
      env_system_time = (\<lambda>_. (1700000000, 500000)), env_pbuf_alloc = (\<lambda>_. True),
      env_udp_new = (\<lambda>_. True), env_dns = (\<lambda>_ _. Dns_ok 0x0100000A)\<rparr>"

definition example_named :: sntp_state where
  "example_named = sntp_setservername example_cfg 0 (Some ''time'') (sntp_initial example_cfg)"

definition example_running :: sntp_state where
  "example_running = sntp_init example_cfg example_env example_named"

definition example_reply :: "u8 list" where
  "example_reply = [0x24, 1] @ replicate 22 0 @ store_pair (sntp_last_timestamp_sent example_running)
     @ replicate 8 0 @ [0xE9, 0, 0, 1, 0, 0, 0, 0]"

definition example_kod :: "u8 list" where
  "example_kod = [0x24, 0] @ replicate 46 0"

lemma example_cfg_fields [simp]:
  "SNTP_MAX_SERVERS example_cfg = 2" "SNTP_CHECK_RESPONSE example_cfg = 2"
  "SNTP_COMP_ROUNDTRIP example_cfg = False" "SNTP_SERVER_DNS example_cfg = True"
  "SNTP_RETRY_TIMEOUT_EXP example_cfg = True" "SNTP_PORT example_cfg = 123"
  by (simp_all add: example_cfg_def)

lemmas example_defs =
  example_cfg_def example_env_def example_named_def example_running_def
lemmas sntp_defs =
  sntp_init_def sntp_setservername_def sntp_request_def sntp_send_request_def
  sntp_initialize_request_def sntp_initial_def update_server_def current_server_def
  SNTP_RESET_RETRY_TIMEOUT_def try_next_handler_def SNTP_SUPPORT_MULTIPLE_SERVERS_def
  full_timestamps_def check_assert_def Let_def

lemma example_cfg_ok: "cfg_ok example_cfg"
  by (simp add: cfg_ok_def example_cfg_def)

lemma example_steps:
  "(sntp_step example_cfg example_env)\<^sup>*\<^sup>* (sntp_initial example_cfg) example_running"
proof -
  have "sntp_step example_cfg example_env (sntp_initial example_cfg) example_named"
    unfolding example_named_def by (rule sntp_step.setname)
  moreover have "sntp_step example_cfg example_env example_named example_running"
    unfolding example_running_def by (rule sntp_step.init)
  ultimately show ?thesis by (rule converse_rtranclp_into_rtranclp[OF _ r_into_rtranclp])
qed

lemma example_running_state:
  "sntp_pcb example_running" "sntp_opmode example_running = SNTP_OPMODE_POLL"
  "sntp_last_server_address example_running = 0x0100000A"
  "sntp_current_server example_running = 0"
  "sntp_retry_timeout example_running = 15000"
  "sntp_last_timestamp_sent example_running = (lwip_htonl (1700000000 - DIFF_SEC_1970_2036),
     lwip_htonl (snd (SNTP_GET_SYSTEM_TIME_NTP (0, 500000))))"
  by (simp_all add: example_defs sntp_defs SNTP_OPMODE_POLL_def SNTP_GET_SYSTEM_TIME_NTP_def)

lemma example_running_inv: "sntp_inv example_cfg example_running"
  using sntp_system.inv_reachable[OF _ example_steps] example_cfg_ok by simp

lemma example_reply_genuine:
  "genuine_reply example_cfg example_reply 0x0100000A 123 example_running"
proof -
  have "load32 example_reply 24 = fst (sntp_last_timestamp_sent example_running)"
    "load32 example_reply 28 = snd (sntp_last_timestamp_sent example_running)"
    using load32_append[of "[0x24, 1] @ replicate 22 0" 24 _ 0]
      load32_append[of "[0x24, 1] @ replicate 22 0 @ store32 (fst (sntp_last_timestamp_sent example_running))" 28 _ 0]
    by (simp_all add: example_reply_def store_pair_def)
  then show ?thesis
    by (simp add: genuine_reply_def example_running_state example_cfg_def prod_eq_iff
        example_reply_def)
qed

lemma example_kod_check:
  "sntp_check example_cfg example_kod 0x0100000A 123 example_running = SNTP_ERR_KOD"
  by (simp add: sntp_check_def example_running_state example_cfg_def example_kod_def
      pbuf_get_at_def sntp_consts)

section \<open>Properties\<close>

text \<open>
  C19: in every state that the module can reach from static initialisation (timers firing,
  packets, resolver answers, any interface calls) the server table has its configured
  size, the current server index is inside it, the mode is one of the two defined ones and
  the retry timeout is unset or between its initial value and its maximum.
\<close>

theorem sntp_table_invariant:
  assumes "cfg_ok c" and "(sntp_step c env)\<^sup>*\<^sup>* (sntp_initial c) s"
  shows "length (sntp_servers s) = SNTP_MAX_SERVERS c
    \<and> sntp_current_server s < SNTP_MAX_SERVERS c
    \<and> sntp_opmode s \<le> SNTP_OPMODE_LISTENONLY
    \<and> retry_ok c (sntp_retry_timeout s)"
  using sntp_system.inv_reachable[of c "sntp_initial c" env s] assms
  by (simp add: sntp_inv_def table_ok_def)

lemma sntp_table_invariant_witness:
  "length (sntp_servers example_running) = 2 \<and> sntp_current_server example_running < 2
   \<and> sntp_opmode example_running \<le> SNTP_OPMODE_LISTENONLY
   \<and> retry_ok example_cfg (sntp_retry_timeout example_running)"
  using sntp_table_invariant[OF example_cfg_ok example_steps] by (simp add: example_cfg_def)

text \<open>
  C6: the polling client never falls silent. In every reachable state in which it runs in poll
  mode at least one timer of the module or one resolver answer is outstanding, so there is
  always a callback that will make it act again.
\<close>

theorem sntp_never_silent:
  assumes "cfg_ok c" and "(sntp_step c env)\<^sup>*\<^sup>* (sntp_initial c) s"
    and "sntp_pcb s" and "sntp_opmode s = SNTP_OPMODE_POLL"
  shows "0 < pending (trace s)"
  using sntp_system.inv_reachable[of c "sntp_initial c" env s] assms
  by (simp add: sntp_inv_def live_def)

lemma sntp_never_silent_witness: "0 < pending (trace example_running)"
  by (rule sntp_never_silent[OF example_cfg_ok example_steps example_running_state(1,2)])

text \<open>
  C14: a received packet writes the clock, exactly once, if and only if it is a genuine
  reply: 48 bytes, the mode that belongs to the operating mode, a nonzero stratum, and (as far as
  the response checks are compiled in) from the port and server the last request went to, with
  the originate timestamp of that request. Any other packet leaves the clock alone.
\<close>

theorem sntp_recv_clock:
  "if genuine_reply c p addr port s
   then \<exists>u. clock_writes (trace (sntp_recv c env p addr port s)) = clock_writes (trace s) @ [u]
   else clock_writes (trace (sntp_recv c env p addr port s)) = clock_writes (trace s)"
  using clock_writes_recv[of c p addr port s env]
    clock_writes_process[of c env "copy_timestamps (full_timestamps c) p" "emit Pbuf_free s"]
  by (auto split: if_splits)

text \<open>
  C15: what a genuine reply does, in both modes. It frees the packet and writes the clock once, without round-trip
  compensation with the big endian word at offset 40 shifted to the Unix epoch; it marks the current
  server reachable. In poll mode it then cancels one receive timeout and one request timer, resets the
  retry timeout, and arms exactly one timer, the next request after the update delay, as the last thing it
  does; in the other mode no timer is touched and the retry timeout stays.
\<close>

theorem sntp_recv_accepts:
  assumes "genuine_reply c p addr port s" and "sntp_inv c s"
  shows "let t = sntp_recv c env p addr port s; poll = (sntp_opmode s = SNTP_OPMODE_POLL) in
    (\<exists>es. trace t = trace s @ Pbuf_free # es
         @ (if poll then [Sys_untimeout (try_next_handler c), Sys_untimeout H_sntp_request,
                          Sys_timeout (SNTP_UPDATE_DELAY c) H_sntp_request] else [])
       \<and> list_all quiet es)
    \<and> armed H_sntp_request (trace t)
        = (if poll then armed H_sntp_request (trace s) - 1 + 1 else armed H_sntp_request (trace s))
    \<and> armed (try_next_handler c) (trace t)
        = (if poll then armed (try_next_handler c) (trace s) - 1 else armed (try_next_handler c) (trace s))
    \<and> (\<exists>w. clock_writes (trace t) = clock_writes (trace s) @ [w]
         \<and> (SNTP_COMP_ROUNDTRIP c \<or> w = load32_be p 40 + DIFF_SEC_1970_2036))
    \<and> callback_received t
    \<and> cur_retry_timeout c t = (if poll then SNTP_RETRY_TIMEOUT c else cur_retry_timeout c s)
    \<and> (if SNTP_MONITOR_SERVER_REACHABILITY c
       then sntp_getreachability c (sntp_current_server s) t
          = (sntp_getreachability c (sntp_current_server s) s OR 1)
       else sntp_servers t = sntp_servers s)"
proof -
  have ok: "sntp_check c p addr port s = ERR_OK" using assms(1) by (simp add: sntp_check_ok)
  have i: "sntp_current_server s < length (sntp_servers s)" "sntp_current_server s < SNTP_MAX_SERVERS c"
    using assms(2) by (auto simp: sntp_inv_def table_ok_def)
  let ?ts = "copy_timestamps (full_timestamps c) p"
  let ?u = "sntp_process c env ?ts (emit Pbuf_free s)"
  have w: "lwip_ntohl (ntp_sec (ts_xmit ?ts)) = load32_be p 40"
    by (simp add: ts_xmit_copy load_time_def load32_be_eq SNTP_OFFSET_TRANSMIT_TIME_def)
  obtain es where es: "trace ?u = trace s @ Pbuf_free # es" "list_all quiet es"
    using process_quiet[of c env ?ts "emit Pbuf_free s"] by (auto simp: trace_emit)
  have cw: "\<exists>w. clock_writes (trace ?u) = clock_writes (trace s) @ [w]
      \<and> (SNTP_COMP_ROUNDTRIP c \<or> w = load32_be p 40 + DIFF_SEC_1970_2036)"
    using clock_writes_process[of c env ?ts "emit Pbuf_free s"]
    by (cases "SNTP_COMP_ROUNDTRIP c") (simp_all add: clock_writes_process_plain w)
  have ar: "armed h (trace ?u) = armed h (trace s)" for h
    using armed_process[of h c env ?ts "emit Pbuf_free s"] by (simp add: trace_emit)
  let ?v = "if SNTP_MONITOR_SERVER_REACHABILITY c
    then update_server (sntp_current_server ?u) (srv_reachability_update (\<lambda>r. r OR 1)) ?u else ?u"
  have v': "trace ?v = trace ?u" "callback_received ?v" "sntp_opmode ?v = sntp_opmode s"
      "sntp_retry_timeout ?v = sntp_retry_timeout s"
      "if SNTP_MONITOR_SERVER_REACHABILITY c
       then sntp_getreachability c (sntp_current_server s) ?v = (sntp_getreachability c (sntp_current_server s) s OR 1)
       else sntp_servers ?v = sntp_servers s"
    using i by (simp_all add: sntp_getreachability_def update_server_def)
  obtain v where v: "v = ?v" by blast
  note f = v'[folded v]
  have t: "sntp_recv c env p addr port s = (if sntp_opmode s = SNTP_OPMODE_POLL
      then emit (Sys_timeout (SNTP_UPDATE_DELAY c) H_sntp_request) (SNTP_RESET_RETRY_TIMEOUT c
        (emit (Sys_untimeout H_sntp_request) (emit (Sys_untimeout (try_next_handler c)) v))) else v)"
    unfolding v using v'(3) by (simp add: sntp_recv_def ok Let_def)
  have h: "try_next_handler c \<noteq> H_sntp_request" by (simp add: try_next_handler_def)
  show ?thesis
  proof (cases "sntp_opmode s = SNTP_OPMODE_POLL")
    case True
    let ?t = "sntp_recv c env p addr port s"
    have tr: "trace ?t = trace ?u @ [Sys_untimeout (try_next_handler c), Sys_untimeout H_sntp_request,
        Sys_timeout (SNTP_UPDATE_DELAY c) H_sntp_request]"
      using True f(1) by (simp add: t trace_emit)
    have "armed k (trace ?t) = (if k = H_sntp_request then armed k (trace s) - 1 + 1
        else if k = try_next_handler c then armed k (trace s) - 1 else armed k (trace s))" for k
      using h by (simp add: tr armed_app trace_emit)
    moreover have "clock_writes (trace ?t) = clock_writes (trace ?u)" by (simp add: tr clock_writes_app) (simp add: clock_writes_def)
    moreover have "callback_received ?t" "sntp_servers ?t = sntp_servers v"
        "cur_retry_timeout c ?t = SNTP_RETRY_TIMEOUT c"
      using True f(2) by (simp_all add: t cur_retry_timeout_def SNTP_RESET_RETRY_TIMEOUT_def)
    moreover have "sntp_getreachability c i ?t = sntp_getreachability c i v" for i
      using True by (simp add: t sntp_getreachability_def SNTP_RESET_RETRY_TIMEOUT_def)
    ultimately show ?thesis using f(5) True es cw h tr unfolding Let_def by simp
  next
    case False
    then have "sntp_recv c env p addr port s = v" by (simp add: t)
    then show ?thesis using f es cw ar False by (simp add: cur_retry_timeout_def)
  qed
qed

lemma sntp_recv_accepts_witness:
  "clock_writes (trace (sntp_recv example_cfg example_env example_reply 0x0100000A 123 example_running))
     = clock_writes (trace example_running) @ [load32_be example_reply 40 + DIFF_SEC_1970_2036]"
  using sntp_recv_accepts[OF example_reply_genuine example_running_inv, of example_env]
  by (auto simp: example_cfg_def Let_def)

text \<open>
  C16: a reply to the request that was just sent is accepted. After
  \<open>sntp_send_request\<close> to a server, in poll mode, any 48 byte packet from that server and
  the SNTP port with server mode and nonzero stratum that echoes the request's transmit
  timestamp as its originate timestamp is a genuine reply, at every check level.
\<close>

theorem sntp_echo_accepted:
  assumes "env_pbuf_alloc env (trace s)" and "sntp_opmode s = SNTP_OPMODE_POLL"
  shows "\<exists>req. let t = sntp_send_request c env addr s in
     Udp_sendto (sntp_pcb s) req addr (SNTP_PORT c) \<in> set (trace t) \<and> length req = 48
     \<and> (\<forall>p. length p = 48 \<longrightarrow> (p ! 0) AND 7 = 4 \<longrightarrow> p ! 1 \<noteq> 0
          \<longrightarrow> load32 p 24 = load32 req 40 \<longrightarrow> load32 p 28 = load32 req 44
          \<longrightarrow> genuine_reply c p addr (SNTP_PORT c) t)"
proof -
  let ?s = "emit (Pbuf_alloc True) s"
  define msg where "msg = fst (sntp_initialize_request c env ?s)"
  define s1 where "s1 = snd (sntp_initialize_request c env ?s)"
  define t where "t = sntp_send_request c env addr s"
  have sent: "Udp_sendto (sntp_pcb s) (msg_bytes msg) addr (SNTP_PORT c) \<in> set (trace t)"
    using assms(1)
    by (simp add: t_def sntp_send_request_def Let_def case_prod_unfold msg_def trace_emit)
  have stamp: "sntp_last_timestamp_sent s1 = transmit_timestamp msg" if "2 \<le> SNTP_CHECK_RESPONSE c"
    using that
    by (simp add: s1_def msg_def sntp_initialize_request_def full_timestamps_def Let_def
        split: prod.split)
  have t: "sntp_last_timestamp_sent t = sntp_last_timestamp_sent s1"
    "1 \<le> SNTP_CHECK_RESPONSE c \<Longrightarrow> sntp_last_server_address t = addr"
    "sntp_opmode t = SNTP_OPMODE_POLL"
    using assms by (simp_all add: t_def s1_def sntp_send_request_def Let_def case_prod_unfold)
  have req: "load32 (msg_bytes msg) 40 = fst (transmit_timestamp msg)"
    "load32 (msg_bytes msg) 44 = snd (transmit_timestamp msg)"
    using load32_transmit[of msg] by (simp_all add: SNTP_OFFSET_TRANSMIT_TIME_def)
  have "genuine_reply c p addr (SNTP_PORT c) t"
    if "length p = 48" "(p ! 0) AND 7 = 4" "p ! 1 \<noteq> 0"
      "load32 p 24 = load32 (msg_bytes msg) 40" "load32 p 28 = load32 (msg_bytes msg) 44" for p
    using that t stamp by (auto simp: genuine_reply_def req prod_eq_iff)
  then show ?thesis
    using sent by (intro exI[of _ "msg_bytes msg"]) (simp add: t_def[symmetric] Let_def SNTP_MSG_LEN_def)
qed

lemma sntp_echo_accepted_witness:
  "\<exists>req. Udp_sendto True req 0x0100000A 123
     \<in> set (trace (sntp_send_request example_cfg example_env 0x0100000A example_running))
     \<and> length req = 48"
proof -
  have "env_pbuf_alloc example_env (trace example_running)" by (simp add: example_env_def)
  from sntp_echo_accepted[OF this example_running_state(2), of example_cfg "0x0100000A"]
  show ?thesis by (auto simp: Let_def example_cfg_def example_running_state)
qed

text \<open>
  C17: after \<open>sntp_try_next_server\<close> the current server is the first configured one in
  cyclic order after the old one, and the old one itself when no other server is configured.
\<close>

theorem sntp_rotation:
  assumes "sntp_current_server s < SNTP_MAX_SERVERS c"
  shows "sntp_current_server (sntp_try_next_server c env s) =
    (case find (\<lambda>k. configured c s ((sntp_current_server s + k) mod SNTP_MAX_SERVERS c))
            [1..<SNTP_MAX_SERVERS c] of
       Some k \<Rightarrow> (sntp_current_server s + k) mod SNTP_MAX_SERVERS c
     | None \<Rightarrow> sntp_current_server s)"
  using assms by (rule try_next_current)

lemma sntp_rotation_witness:
  "sntp_current_server (sntp_try_next_server example_cfg example_env
     (sntp_setserver example_cfg 1 (Some 0x0200000A) example_running)) = 1"
proof -
  let ?s = "sntp_setserver example_cfg 1 (Some 0x0200000A) example_running"
  have "length (sntp_servers example_running) = 2"
    using example_running_inv by (simp add: sntp_inv_def table_ok_def example_cfg_def)
  then have "configured example_cfg ?s 1"
    by (simp add: configured_def sntp_setserver_def update_server_def)
  moreover have "sntp_current_server ?s < SNTP_MAX_SERVERS example_cfg"
    by (simp add: example_running_state)
  moreover have "[1..<SNTP_MAX_SERVERS example_cfg] = [1]"
    by (simp add: upt_rec)
  ultimately show ?thesis
    using sntp_rotation[of ?s example_cfg example_env]
    by (simp add: example_running_state)
qed

text \<open>
  C18: exponential backoff. Starting from a timeout \<open>R\<close> within the maximum, \<open>n\<close>
  successive retries leave it at \<open>R\<close> doubled \<open>k \<le> n\<close> times, where doubling stops short of
  \<open>n\<close> only when the next doubling would pass the maximum; 32 bit overflow never shrinks it.
\<close>

theorem sntp_retry_backoff:
  assumes "SNTP_RETRY_TIMEOUT_EXP c" and "unat (sntp_retry_timeout s) = R"
    and "0 < R" and "R \<le> unat (SNTP_RETRY_TIMEOUT_MAX c)"
  shows "\<exists>k\<le>n. unat (sntp_retry_timeout ((sntp_retry c ^^ n) s)) = R * 2 ^ k
    \<and> R * 2 ^ k \<le> unat (SNTP_RETRY_TIMEOUT_MAX c)
    \<and> (k < n \<longrightarrow> unat (SNTP_RETRY_TIMEOUT_MAX c) < R * 2 ^ Suc k)"
  using assms by (rule retry_backoff_aux)

lemma sntp_retry_backoff_witness:
  "\<exists>k\<le>5. unat (sntp_retry_timeout ((sntp_retry example_cfg ^^ 5) example_running)) = 15000 * 2 ^ k
     \<and> 15000 * 2 ^ k \<le> (150000 :: nat)"
  using sntp_retry_backoff[of example_cfg example_running 15000 5]
  by (simp add: example_running_state example_cfg_def) blast

text \<open>
  C37: the callbacks that kiss-of-death packets add are not cancelled by
  \<open>sntp_stop\<close>. Each kiss-of-death makes the client act at once while the receive timeout of the
  request stays armed, so two of them leave at least three callbacks outstanding, and
  \<open>sntp_stop\<close> removes at most one per handler: a stopped client still has one pending.
\<close>

theorem sntp_kod_outlives_stop:
  assumes "sntp_inv c s" and "sntp_pcb s" and "sntp_opmode s = SNTP_OPMODE_POLL"
    and "sntp_check c p1 a1 q1 s = SNTP_ERR_KOD"
    and "sntp_check c p2 a2 q2 (sntp_recv c env p1 a1 q1 s) = SNTP_ERR_KOD"
  shows "let t = sntp_stop c (sntp_recv c env p2 a2 q2 (sntp_recv c env p1 a1 q1 s))
    in \<not> sntp_pcb t \<and> 0 < pending (trace t)"
proof -
  define s1 where "s1 = sntp_recv c env p1 a1 q1 s"
  define s2 where "s2 = sntp_recv c env p2 a2 q2 s1"
  have s1: "pending (trace s1) = Suc (pending (trace s))" "sntp_pcb s1" "sntp_opmode s1 = SNTP_OPMODE_POLL"
    using assms by (simp_all add: s1_def sntp_recv_def Let_def)
  have s2: "pending (trace s2) = Suc (pending (trace s1))" "sntp_pcb s2"
    using assms(5)[folded s1_def] s1 by (simp_all add: s2_def sntp_recv_def Let_def)
  have "0 < pending (trace s)" using assms(1-3) by (simp add: sntp_inv_def live_def)
  then have "3 \<le> pending (trace s2)" using s1 s2 by simp
  moreover have "pending (trace s2) \<le> pending (trace (sntp_stop c s2)) + 2"
  proof -
    have drop: "pending (trace u) \<le> pending (trace (emit (Sys_untimeout h) (emit (Sys_untimeout g) u))) + 2"
      for u h g
      using pending_untimeout[of u g] pending_untimeout[of "emit (Sys_untimeout g) u" h] by simp
    let ?m = "if SNTP_MONITOR_SERVER_REACHABILITY c
      then s2\<lparr>sntp_servers := map (srv_reachability_update (\<lambda>_. 0)) (sntp_servers s2)\<rparr> else s2"
    show ?thesis
      using s2(2) drop[of ?m "try_next_handler c" H_sntp_request]
      by (simp add: sntp_stop_def Let_def split: if_splits)
  qed
  ultimately have "0 < pending (trace (sntp_stop c s2))" by simp
  moreover have "\<not> sntp_pcb (sntp_stop c s2)" by (simp add: sntp_stop_def Let_def)
  ultimately show ?thesis by (simp add: s1_def s2_def Let_def)
qed

lemma sntp_kod_outlives_stop_witness:
  "let r = sntp_recv example_cfg example_env example_kod 0x0100000A 123
   in \<not> sntp_pcb (sntp_stop example_cfg (r (r example_running)))
      \<and> 0 < pending (trace (sntp_stop example_cfg (r (r example_running))))"
proof -
  let ?t = "sntp_recv example_cfg example_env example_kod 0x0100000A 123 example_running"
  have "sntp_opmode ?t = SNTP_OPMODE_POLL" "sntp_last_server_address ?t = 0x0100000A"
    unfolding sntp_recv_def example_kod_check
    by (simp_all add: example_defs sntp_defs sntp_try_next_server_def sntp_retry_def
        SNTP_OPMODE_POLL_def SNTP_GET_SYSTEM_TIME_NTP_def numeral_2_eq_2)
  then have "sntp_check example_cfg example_kod 0x0100000A 123 ?t = SNTP_ERR_KOD"
    by (simp add: sntp_check_def example_cfg_def example_kod_def pbuf_get_at_def sntp_consts)
  from sntp_kod_outlives_stop[OF example_running_inv example_running_state(1,2) example_kod_check this]
  show ?thesis by (simp add: Let_def)
qed

text \<open>
  A request is 48 bytes: no warning, version 4, client mode in the first byte, then
  zeros, and at offset 40 in network byte order the transmit timestamp, which is the current NTP
  time in the builds that check or use it and zero otherwise.
\<close>

theorem sntp_request_layout:
  "let bytes = msg_bytes (fst (sntp_initialize_request c env s));
       now = (if full_timestamps c then SNTP_GET_SYSTEM_TIME_NTP (env_system_time env (trace s))
              else (0, 0))
   in length bytes = 48 \<and> bytes ! 0 = 0x23 \<and> take 39 (drop 1 bytes) = replicate 39 0
      \<and> load32_be bytes 40 = fst now \<and> load32_be bytes 44 = snd now"
proof -
  let ?m = "fst (sntp_initialize_request c env s)"
  have fields: "li_vn_mode ?m = 0x23" "stratum ?m = 0" "poll ?m = 0" "precision ?m = 0"
    "root_delay ?m = 0" "root_dispersion ?m = 0" "reference_identifier ?m = 0"
    "reference_timestamp ?m = (0, 0)" "originate_timestamp ?m = (0, 0)" "receive_timestamp ?m = (0, 0)"
    by (simp_all add: sntp_initialize_request_def zero_msg_def Let_def sntp_consts split: prod.split)
  have stamp: "transmit_timestamp ?m =
      (if full_timestamps c
       then map_prod lwip_htonl lwip_htonl (SNTP_GET_SYSTEM_TIME_NTP (env_system_time env (trace s)))
       else (0, 0))"
    by (simp add: sntp_initialize_request_def zero_msg_def Let_def split: prod.split)
  have bytes: "msg_bytes ?m = 0x23 # replicate 39 0 @ store_pair (transmit_timestamp ?m)"
    by (simp add: msg_bytes_def fields store_pair_def store32_def numeral_eq_Suc)
  have be: "load32_be (msg_bytes ?m) 40 = lwip_ntohl (fst (transmit_timestamp ?m))"
    "load32_be (msg_bytes ?m) 44 = lwip_ntohl (snd (transmit_timestamp ?m))"
    using load32_transmit[of ?m] by (simp_all add: load32_be_eq SNTP_OFFSET_TRANSMIT_TIME_def)
  have "take 39 (drop 1 (msg_bytes ?m)) = replicate 39 0"
    unfolding bytes by simp
  moreover have "msg_bytes ?m ! 0 = 0x23"
    unfolding bytes by simp
  ultimately show ?thesis
    by (simp add: Let_def SNTP_MSG_LEN_def be stamp)
qed

end
