(* ===== verification/MtbTime.thy ===== *)
theory MtbTime
  imports SntpProps
begin

unbundle bit_operations_syntax

text \<open>
  \<open>iotc_mtb_time_obtain\<close> of \<open>source/iotc_mtb_time.c\<close>: start the SNTP client and wait, one second
  at a time, for the first server to become reachable. While the calling task sleeps the lwIP
  thread runs: what it does during the \<open>i\<close>-th second is a list of inputs to the SNTP module.
\<close>

section \<open>What the lwIP thread does\<close>

datatype net_input =
    In_timer handler
  | In_packet "u8 list" ip_addr u16
  | In_dns "ip_addr option"

fun deliver :: "sntp_cfg \<Rightarrow> net_env \<Rightarrow> net_input \<Rightarrow> sntp_state \<Rightarrow> sntp_state" where
  "deliver c env (In_timer h) s =
     (if armed h (trace s) > 0 then run_handler c env h (emit (Timer_fired h) s) else s)"
| "deliver c env (In_packet p a q) s = (if sntp_pcb s then sntp_recv c env p a q s else s)"
| "deliver c env (In_dns a) s =
     (if dns_pending (trace s) > 0 then sntp_dns_found c env a (emit (Dns_found a) s) else s)"

definition deliver_all :: "sntp_cfg \<Rightarrow> net_env \<Rightarrow> net_input list \<Rightarrow> sntp_state \<Rightarrow> sntp_state" where
  "deliver_all c env is s = fold (deliver c env) is s"

section \<open>Obtaining the time\<close>

definition IOTC_MTB_TIME_MAX_TRIES :: nat where "IOTC_MTB_TIME_MAX_TRIES = 15"

text \<open>The body of one waiting iteration: sleep a second, the network acts.\<close>

definition sleep_second ::
    "sntp_cfg \<Rightarrow> net_env \<Rightarrow> (nat \<Rightarrow> net_input list) \<Rightarrow> nat \<Rightarrow> sntp_state \<Rightarrow> sntp_state" where
  "sleep_second c env inputs i s = deliver_all c env (inputs i) (emit (Task_delay 1000) s)"

text \<open>
  The \<open>for\<close> loop; the third argument is the number of iterations that \<open>i < MAX_TRIES\<close> still
  allows. The result is \<open>reachable\<close>.
\<close>

fun wait_reachable ::
    "sntp_cfg \<Rightarrow> net_env \<Rightarrow> (nat \<Rightarrow> net_input list) \<Rightarrow> nat \<Rightarrow> nat \<Rightarrow> sntp_state \<Rightarrow> u8 \<times> sntp_state" where
  "wait_reachable c env inputs 0 i s = (sntp_getreachability c 0 s, s)"
| "wait_reachable c env inputs (Suc n) i s =
     (let reachable = sntp_getreachability c 0 s
      in if reachable \<noteq> 0 then (reachable, s)
         else wait_reachable c env inputs n (Suc i) (sleep_second c env inputs i s))"

definition iotc_mtb_time_obtain ::
    "sntp_cfg \<Rightarrow> net_env \<Rightarrow> (nat \<Rightarrow> net_input list) \<Rightarrow> nat \<Rightarrow> string option
       \<Rightarrow> sntp_state \<Rightarrow> c_int \<times> sntp_state" where
  "iotc_mtb_time_obtain c env inputs max_tries server s =
     (let s = sntp_setoperatingmode SNTP_OPMODE_POLL s;
          s = sntp_setservername c 0 server s;
          s = sntp_init c env s;
          (reachable, s) = wait_reachable c env inputs max_tries 0 s
      in if reachable = 0 then (-1, s)
         else if \<not> callback_received s then (-1, s)
         else (0, s))"

section \<open>Reachability means that the clock was set\<close>

definition reach_inv :: "sntp_state \<Rightarrow> bool" where
  "reach_inv s \<longleftrightarrow>
     (\<forall>srv \<in> set (sntp_servers s). srv_reachability srv \<noteq> 0
        \<longrightarrow> callback_received s \<and> clock_writes (trace s) \<noteq> [])"

lemma reach_invI:
  assumes "reach_inv s"
    and "callback_received s \<and> clock_writes (trace s) \<noteq> []
           \<Longrightarrow> callback_received t \<and> clock_writes (trace t) \<noteq> []"
    and "\<And>srv. srv \<in> set (sntp_servers t) \<Longrightarrow> srv_reachability srv \<noteq> 0
           \<Longrightarrow> \<exists>srv' \<in> set (sntp_servers s). srv_reachability srv' \<noteq> 0"
  shows "reach_inv t"
  using assms unfolding reach_inv_def by blast

lemma set_update_server:
  "srv \<in> set (sntp_servers (update_server i f s)) \<Longrightarrow>
   srv \<in> set (sntp_servers s) \<or> i < length (sntp_servers s) \<and> srv = f (sntp_servers s ! i)"
  by (cases "i < length (sntp_servers s)")
    (auto simp: update_server_def list_update_beyond dest: set_update_subset_insert[THEN subsetD])

lemma reach_inv_update [inv_intros]:
  assumes "reach_inv s" and "\<And>v. srv_reachability v = 0 \<Longrightarrow> srv_reachability (f v) = 0"
  shows "reach_inv (update_server i f s)"
proof (rule reach_invI[OF assms(1)])
  fix srv assume "srv \<in> set (sntp_servers (update_server i f s))" and r: "srv_reachability srv \<noteq> 0"
  then consider "srv \<in> set (sntp_servers s)"
    | "i < length (sntp_servers s)" "srv = f (sntp_servers s ! i)"
    by (blast dest: set_update_server)
  then show "\<exists>srv' \<in> set (sntp_servers s). srv_reachability srv' \<noteq> 0"
  proof cases
    case 2
    with r assms(2) have "srv_reachability (sntp_servers s ! i) \<noteq> 0" by blast
    with 2 show ?thesis by (blast intro: nth_mem)
  qed (use r in blast)
qed simp

lemma reach_inv_emit [simp, inv_intros]: "reach_inv s \<Longrightarrow> reach_inv (emit e s)"
  by (auto simp: reach_inv_def)

lemma reach_inv_cong:
  "reach_inv s \<Longrightarrow> sntp_servers t = sntp_servers s \<Longrightarrow> callback_received t = callback_received s \<Longrightarrow>
   clock_writes (trace t) = clock_writes (trace s) \<Longrightarrow> reach_inv t"
  by (simp add: reach_inv_def)

lemma reach_inv_retry [inv_intros]: "reach_inv s \<Longrightarrow> reach_inv (sntp_retry c s)"
  by (erule reach_inv_cong) simp_all

lemma reach_inv_reset [inv_intros]: "reach_inv s \<Longrightarrow> reach_inv (SNTP_RESET_RETRY_TIMEOUT c s)"
  by (erule reach_inv_cong) simp_all

lemma reach_inv_set_current [inv_intros]: "reach_inv s \<Longrightarrow> reach_inv (s\<lparr>sntp_current_server := i\<rparr>)"
  by (erule reach_inv_cong) simp_all

lemma reach_inv_init_request [inv_intros]: "reach_inv s \<Longrightarrow> reach_inv (snd (sntp_initialize_request c env s))"
  by (erule reach_inv_cong) simp_all

lemma reach_inv_last_address [inv_intros]: "reach_inv s \<Longrightarrow> reach_inv (s\<lparr>sntp_last_server_address := a\<rparr>)"
  by (erule reach_inv_cong) simp_all

lemma reach_inv_send [inv_intros]:
  assumes "reach_inv s"
  shows "reach_inv (sntp_send_request c env a s)"
  using assms
  by (auto simp: sntp_send_request_def Let_def case_prod_unfold
      intro!: inv_intros)

lemma reach_inv_request [inv_intros]: "reach_inv s \<Longrightarrow> reach_inv (sntp_request c env s)"
  by (auto simp: sntp_request_def Let_def intro!: inv_intros split: option.split dns_result.split)

lemma reach_inv_next_loop: "reach_inv s \<Longrightarrow> next_server_loop c n s = (b, t) \<Longrightarrow> reach_inv t"
  by (erule reach_inv_cong) (auto dest: next_loop_frame)

lemma reach_inv_try_next [inv_intros]: "reach_inv s \<Longrightarrow> reach_inv (sntp_try_next_server c env s)"
  by (auto simp: sntp_try_next_server_def Let_def
      intro!: inv_intros intro: reach_inv_next_loop split: prod.split bool.split)

lemma reach_inv_full:
  "callback_received s \<Longrightarrow> clock_writes (trace s) \<noteq> [] \<Longrightarrow> reach_inv s"
  by (simp add: reach_inv_def)

lemma reach_inv_recv:
  assumes "reach_inv s"
  shows "reach_inv (sntp_recv c env p addr port s)"
proof (cases "sntp_check c p addr port s")
  case ERR_OK
  have "clock_writes (trace (sntp_process c env ts u)) \<noteq> []" for ts and u :: sntp_state
    using clock_writes_process[of c env ts u] by auto
  then show ?thesis
    by (intro reach_inv_full) (simp_all add: sntp_recv_def ERR_OK Let_def)
next
  case SNTP_ERR_KOD
  then show ?thesis
    using assms by (simp add: sntp_recv_def Let_def reach_inv_try_next)
qed (use assms in \<open>simp_all add: sntp_recv_def\<close>)

lemma reach_inv_handler: "reach_inv s \<Longrightarrow> reach_inv (run_handler c env h (emit e s))"
  by (cases h) (simp_all add: reach_inv_request reach_inv_try_next reach_inv_retry)

lemma reach_inv_dns: "reach_inv s \<Longrightarrow> reach_inv (sntp_dns_found c env a (emit e s))"
  by (auto simp: sntp_dns_found_def intro!: inv_intros split: option.split)

lemma reach_inv_deliver: "reach_inv s \<Longrightarrow> reach_inv (deliver c env i s)"
  by (cases i) (simp_all add: reach_inv_handler reach_inv_recv reach_inv_dns)

lemma reach_inv_deliver_all: "reach_inv s \<Longrightarrow> reach_inv (deliver_all c env is s)"
  unfolding deliver_all_def by (induction "is" arbitrary: s) (auto intro: reach_inv_deliver)

lemma reach_inv_init: "reach_inv s \<Longrightarrow> reach_inv (sntp_init c env s)"
proof -
  assume "reach_inv s"
  define s0 where "s0 = (case SNTP_SERVER_ADDRESS c of
      Some a \<Rightarrow> sntp_setservername c 0 (Some a) s | None \<Rightarrow> s)"
  have "reach_inv s0"
    using \<open>reach_inv s\<close>
    by (auto simp: s0_def sntp_setservername_def intro!: inv_intros split: option.split)
  moreover have "reach_inv (u\<lparr>sntp_pcb := b\<rparr>)" if "reach_inv u" for u b
    using that by (rule reach_inv_cong) simp_all
  ultimately show ?thesis
    unfolding sntp_init_def s0_def[symmetric] Let_def check_assert_def
    by (auto intro!: inv_intros)
qed

lemma reach_inv_setmode: "reach_inv s \<Longrightarrow> reach_inv (sntp_setoperatingmode m s)"
  by (erule reach_inv_cong) (simp_all add: sntp_setoperatingmode_def Let_def check_assert_def)

lemma reach_inv_setname: "reach_inv s \<Longrightarrow> reach_inv (sntp_setservername c i n s)"
  by (auto simp: sntp_setservername_def intro!: inv_intros)

lemma reach_inv_sleep: "reach_inv s \<Longrightarrow> reach_inv (sleep_second c env inputs i s)"
  by (simp add: sleep_second_def reach_inv_deliver_all)

section \<open>The waiting loop against its interface\<close>

text \<open>
  What the loop needs from the SNTP module: an invariant that sleeping keeps and under which a
  nonzero reachability means that the clock callback has run.
\<close>

locale time_source =
  fixes reach :: "'s \<Rightarrow> u8"
    and received :: "'s \<Rightarrow> bool"
    and good :: "'s \<Rightarrow> bool"
    and sleep :: "nat \<Rightarrow> 's \<Rightarrow> 's"
    and wait :: "nat \<Rightarrow> nat \<Rightarrow> 's \<Rightarrow> u8 \<times> 's"
  assumes wait_0: "wait 0 i s = (reach s, s)"
    and wait_Suc: "wait (Suc n) i s =
          (if reach s \<noteq> 0 then (reach s, s) else wait n (Suc i) (sleep i s))"
    and good_sleep: "good s \<Longrightarrow> good (sleep i s)"
    and reach_received: "good s \<Longrightarrow> reach s \<noteq> 0 \<Longrightarrow> received s"
begin

lemma wait_good: "good s \<Longrightarrow> good (snd (wait n i s))"
  by (induction n arbitrary: i s) (auto simp: wait_0 wait_Suc good_sleep)

lemma wait_result: "fst (wait n i s) = reach (snd (wait n i s))"
  by (induction n arbitrary: i s) (auto simp: wait_0 wait_Suc)

lemma wait_received: "good s \<Longrightarrow> fst (wait n i s) \<noteq> 0 \<Longrightarrow> received (snd (wait n i s))"
  using wait_good[of s n i] reach_received[of "snd (wait n i s)"] by (simp add: wait_result)

text \<open>The loop stops at the first second after which the server is reachable.\<close>

lemma wait_unfold:
  "\<exists>k\<le>n. wait n i s = (reach ((\<lambda>j. fold sleep [i..<i + j] s) k), fold sleep [i..<i + k] s)
     \<and> (\<forall>j<k. reach (fold sleep [i..<i + j] s) = 0)
     \<and> (k < n \<longrightarrow> reach (fold sleep [i..<i + k] s) \<noteq> 0)"
proof (induction n arbitrary: i s)
  case 0
  then show ?case by (simp add: wait_0)
next
  case (Suc n)
  show ?case
  proof (cases "reach s \<noteq> 0")
    case True
    then show ?thesis by (intro exI[of _ 0]) (simp add: wait_Suc)
  next
    case False
    from Suc.IH[of "Suc i" "sleep i s"] obtain k where k: "k \<le> n"
        "wait n (Suc i) (sleep i s) = (reach (fold sleep [Suc i..<Suc i + k] (sleep i s)),
           fold sleep [Suc i..<Suc i + k] (sleep i s))"
        "\<forall>j<k. reach (fold sleep [Suc i..<Suc i + j] (sleep i s)) = 0"
        "k < n \<longrightarrow> reach (fold sleep [Suc i..<Suc i + k] (sleep i s)) \<noteq> 0"
      by blast
    have step: "fold sleep [Suc i..<Suc i + j] (sleep i s) = fold sleep [i..<i + Suc j] s" for j
      by (simp add: upt_conv_Cons del: upt_Suc)
    have "\<forall>j<Suc k. reach (fold sleep [i..<i + j] s) = 0"
    proof (intro allI impI)
      fix j assume "j < Suc k"
      then show "reach (fold sleep [i..<i + j] s) = 0"
        using k(3) False unfolding step by (cases j) simp_all
    qed
    then show ?thesis
      using False k unfolding step by (intro exI[of _ "Suc k"]) (simp add: wait_Suc)
  qed
qed

end

definition clock_good :: "sntp_cfg \<Rightarrow> sntp_state \<Rightarrow> bool" where
  "clock_good c s \<longleftrightarrow> reach_inv s \<and> length (sntp_servers s) = SNTP_MAX_SERVERS c"

lemma length_servers_deliver [simp]:
  "length (sntp_servers (deliver c env i s)) = length (sntp_servers s)"
proof (cases i)
  case (In_timer h)
  then show ?thesis by (cases h) simp_all
next
  case (In_packet p a q)
  then show ?thesis
    by (simp add: sntp_recv_def Let_def split: recv_err.split)
next
  case (In_dns a)
  then show ?thesis by (simp add: sntp_dns_found_def split: option.split)
qed

lemma length_servers_deliver_all [simp]:
  "length (sntp_servers (deliver_all c env is s)) = length (sntp_servers s)"
  unfolding deliver_all_def by (induction "is" arbitrary: s) simp_all

interpretation sntp_time: time_source
  "sntp_getreachability c 0" "\<lambda>s. callback_received s \<and> clock_writes (trace s) \<noteq> []"
  "clock_good c" "sleep_second c env inputs" "wait_reachable c env inputs" for c env inputs
proof unfold_locales
  fix s i
  assume "clock_good c s"
  then show "clock_good c (sleep_second c env inputs i s)"
    by (simp add: clock_good_def reach_inv_sleep) (simp add: sleep_second_def)
next
  fix s
  assume "clock_good c s" and "sntp_getreachability c 0 s \<noteq> 0"
  then show "callback_received s \<and> clock_writes (trace s) \<noteq> []"
    by (auto simp: clock_good_def reach_inv_def sntp_getreachability_def split: if_splits)
qed (simp_all add: Let_def)

text \<open>The state in which the loop starts.\<close>

definition time_started ::
    "sntp_cfg \<Rightarrow> net_env \<Rightarrow> string option \<Rightarrow> sntp_state \<Rightarrow> sntp_state" where
  "time_started c env server s =
     sntp_init c env (sntp_setservername c 0 server (sntp_setoperatingmode SNTP_OPMODE_POLL s))"

lemma obtain_unfold:
  "iotc_mtb_time_obtain c env inputs n server s =
     (let w = wait_reachable c env inputs n 0 (time_started c env server s)
      in (if fst w = 0 \<or> \<not> callback_received (snd w) then - 1 else 0, snd w))"
  by (simp add: iotc_mtb_time_obtain_def time_started_def Let_def case_prod_unfold)

lemma length_servers_init [simp]:
  "length (sntp_servers (sntp_init c env s)) = length (sntp_servers s)"
  by (simp add: sntp_init_def Let_def split: option.split)

lemma servers_setmode [simp]: "sntp_servers (sntp_setoperatingmode m s) = sntp_servers s"
  by (simp add: sntp_setoperatingmode_def Let_def)

lemma good_started: "clock_good c s \<Longrightarrow> clock_good c (time_started c env server s)"
  by (simp add: clock_good_def time_started_def reach_inv_init reach_inv_setname reach_inv_setmode)

lemma good_initial: "clock_good c (sntp_initial c)"
  by (simp add: clock_good_def reach_inv_def sntp_initial_def)

section \<open>The trace only grows\<close>

lemma in_emit [simp]: "e \<in> set (trace (emit x s)) \<longleftrightarrow> e = x \<or> e \<in> set (trace s)"
  by (auto simp: trace_emit)

lemma in_check_assert [simp]:
  "e \<in> set (trace (check_assert m ok s)) \<longleftrightarrow> \<not> ok \<and> e = Assert_failed m \<or> e \<in> set (trace s)"
  by (simp add: check_assert_def)

lemma in_set_time: "e \<in> set (trace s) \<Longrightarrow> e \<in> set (trace (iotc_set_system_time_us h env u v s))"
  by (simp add: iotc_set_system_time_us_def Let_def)

lemma in_init_request: "e \<in> set (trace s) \<Longrightarrow> e \<in> set (trace (snd (sntp_initialize_request c env s)))"
  by (simp add: sntp_initialize_request_def Let_def split: prod.split)

lemma in_retry: "e \<in> set (trace s) \<Longrightarrow> e \<in> set (trace (sntp_retry c s))"
  by (simp add: sntp_retry_def Let_def)

lemma in_send: "e \<in> set (trace s) \<Longrightarrow> e \<in> set (trace (sntp_send_request c env a s))"
  by (simp add: sntp_send_request_def Let_def case_prod_unfold in_init_request)

lemma in_request: "e \<in> set (trace s) \<Longrightarrow> e \<in> set (trace (sntp_request c env s))"
  by (auto simp: sntp_request_def Let_def intro!: in_send split: option.split dns_result.split)

lemma in_try_next: "e \<in> set (trace s) \<Longrightarrow> e \<in> set (trace (sntp_try_next_server c env s))"
  by (auto simp: sntp_try_next_server_def Let_def dest!: next_loop_frame
      intro!: in_retry in_request split: prod.split bool.split)

lemma in_process: "e \<in> set (trace s) \<Longrightarrow> e \<in> set (trace (sntp_process c env ts s))"
  by (simp add: sntp_process_def Let_def case_prod_unfold in_set_time)

lemma in_recv: "e \<in> set (trace s) \<Longrightarrow> e \<in> set (trace (sntp_recv c env p a q s))"
  by (cases "sntp_check c p a q s") (simp_all add: sntp_recv_def Let_def in_process in_try_next)

lemma in_dns_found: "e \<in> set (trace s) \<Longrightarrow> e \<in> set (trace (sntp_dns_found c env a s))"
  by (simp add: sntp_dns_found_def in_send in_try_next split: option.split)

lemma in_init: "e \<in> set (trace s) \<Longrightarrow> e \<in> set (trace (sntp_init c env s))"
  by (simp add: sntp_init_def Let_def in_request split: option.split)

lemma in_deliver: "e \<in> set (trace s) \<Longrightarrow> e \<in> set (trace (deliver c env i s))"
proof (cases i)
  case (In_timer h)
  assume "e \<in> set (trace s)"
  then show ?thesis
    by (cases h) (simp_all add: In_timer in_request in_try_next in_retry)
qed (simp_all add: in_recv in_dns_found)

lemma in_sleep: "e \<in> set (trace s) \<Longrightarrow> e \<in> set (trace (sleep_second c env inputs i s))"
proof -
  have all: "e \<in> set (trace u) \<Longrightarrow> e \<in> set (trace (fold (deliver c env) is u))" for "is" u
    by (induction "is" arbitrary: u) (simp_all add: in_deliver)
  assume "e \<in> set (trace s)"
  then show ?thesis by (simp add: sleep_second_def deliver_all_def all)
qed

lemma in_wait: "e \<in> set (trace s) \<Longrightarrow> e \<in> set (trace (snd (wait_reachable c env inputs n i s)))"
  by (induction n arbitrary: i s) (simp_all add: Let_def in_sleep)

lemma pcb_deliver: "sntp_pcb (deliver c env i s) = sntp_pcb s"
proof (cases i)
  case (In_timer h)
  then show ?thesis by (cases h) simp_all
next
  case (In_packet p a q)
  then show ?thesis by (simp add: sntp_recv_def Let_def split: recv_err.split)
next
  case (In_dns a)
  then show ?thesis by (simp add: sntp_dns_found_def split: option.split)
qed

lemma pcb_sleep: "sntp_pcb (sleep_second c env inputs i s) = sntp_pcb s"
proof -
  have "sntp_pcb (fold (deliver c env) is u) = sntp_pcb u" for "is" u
    by (induction "is" arbitrary: u) (simp_all add: pcb_deliver)
  then show ?thesis by (simp add: sleep_second_def deliver_all_def)
qed

lemma pcb_wait: "sntp_pcb (snd (wait_reachable c env inputs n i s)) = sntp_pcb s"
  by (induction n arbitrary: i s) (simp_all add: Let_def pcb_sleep)

lemma pcb_init: "env_udp_new env = (\<lambda>_. True) \<Longrightarrow> sntp_pcb (sntp_init c env s)"
  by (simp add: sntp_init_def Let_def split: option.split)

section \<open>A concrete run\<close>

lemma genuine_reach:
  assumes "genuine_reply c p a q s" and "SNTP_MONITOR_SERVER_REACHABILITY c"
    and "sntp_current_server s < length (sntp_servers s)" and "sntp_current_server s < SNTP_MAX_SERVERS c"
  shows "sntp_getreachability c (sntp_current_server s) (sntp_recv c env p a q s) \<noteq> 0"
proof -
  have "sntp_check c p a q s = ERR_OK" using assms(1) by (simp add: sntp_check_ok)
  moreover have "(r OR 1 :: u8) \<noteq> 0" for r
  proof -
    have "bit (r OR 1) 0" by (simp add: bit_simps)
    then show ?thesis by (metis bit_0_eq bot_apply bot_bool_def)
  qed
  ultimately show ?thesis
    using assms(2-4)
    by (simp add: sntp_recv_def Let_def sntp_getreachability_def SNTP_RESET_RETRY_TIMEOUT_def
        update_server_def)
qed

definition example_inputs :: "nat \<Rightarrow> net_input list" where
  "example_inputs i = [In_packet example_reply 0x0100000A 123]"

lemma example_started:
  "time_started example_cfg example_env (Some ''time'') (sntp_initial example_cfg) = example_running"
  by (simp add: time_started_def example_running_def example_named_def sntp_setoperatingmode_def
      sntp_initial_def SNTP_OPMODE_POLL_def Let_def check_assert_def)

lemma example_obtained:
  "sntp_getreachability example_cfg 0
     (snd (iotc_mtb_time_obtain example_cfg example_env example_inputs 15 (Some ''time'')
        (sntp_initial example_cfg))) \<noteq> 0"
proof -
  let ?s = "emit (Task_delay 1000) example_running"
  have len: "length (sntp_servers example_running) = 2"
    using example_running_inv by (simp add: sntp_inv_def table_ok_def)
  have "genuine_reply example_cfg example_reply 0x0100000A 123 ?s"
    using example_reply_genuine by (simp add: genuine_reply_def)
  from genuine_reach[OF this, of example_env]
  have "sntp_getreachability example_cfg 0 (sleep_second example_cfg example_env example_inputs 0 example_running) \<noteq> 0"
    by (simp add: len example_running_state sleep_second_def deliver_all_def example_inputs_def
        example_cfg_def)
  then show ?thesis
    by (simp add: obtain_unfold Let_def example_started numeral_eq_Suc)
qed

section \<open>Properties\<close>

text \<open>
  C40: \<open>iotc_mtb_time_obtain\<close> returns 0 exactly when the first server is reachable at the
  end, and then the clock callback has run and the RTC has been written: whatever packets,
  timers and resolver answers arrive while it waits, the branch that reports a missing callback is
  never the reason for its failure.
\<close>

theorem time_obtain_result:
  assumes "clock_good c s" and "iotc_mtb_time_obtain c env inputs n server s = (r, t)"
  shows "if sntp_getreachability c 0 t = 0 then r = - 1
    else r = 0 \<and> callback_received t \<and> clock_writes (trace t) \<noteq> []"
proof -
  let ?w = "wait_reachable c env inputs n 0 (time_started c env server s)"
  have t: "t = snd ?w" and r: "r = (if fst ?w = 0 \<or> \<not> callback_received (snd ?w) then - 1 else 0)"
    using assms(2) by (auto simp: obtain_unfold Let_def)
  have "fst ?w = sntp_getreachability c 0 t"
    by (simp add: t sntp_time.wait_result)
  moreover have "fst ?w \<noteq> 0 \<Longrightarrow> callback_received t \<and> clock_writes (trace t) \<noteq> []"
    unfolding t by (rule sntp_time.wait_received[OF good_started[OF assms(1)]])
  ultimately show ?thesis by (auto simp: r t)
qed

lemma time_obtain_result_witness:
  "fst (iotc_mtb_time_obtain example_cfg example_env example_inputs 15 (Some ''time'')
     (sntp_initial example_cfg)) = 0"
  using time_obtain_result[OF good_initial surjective_pairing,
      of example_cfg example_env example_inputs 15 "Some ''time''"] example_obtained
  by simp

text \<open>
  The waiting is bounded. The call sleeps \<open>k\<close> times one second for some \<open>k\<close> at most the
  maximum number of tries; the server was unreachable after each shorter wait, and \<open>k\<close> is less than
  the maximum only because the server is reachable after \<open>k\<close> seconds.
\<close>

theorem time_obtain_waits:
  "\<exists>k\<le>n. let after = (\<lambda>j. fold (sleep_second c env inputs) [0..<j] (time_started c env server s))
     in snd (iotc_mtb_time_obtain c env inputs n server s) = after k
        \<and> list_all (\<lambda>j. sntp_getreachability c 0 (after j) = 0) [0..<k]
        \<and> (if k < n then sntp_getreachability c 0 (after k) \<noteq> 0 else k = n)"
proof -
  obtain k where "k \<le> n" and w: "wait_reachable c env inputs n 0 (time_started c env server s) =
      (sntp_getreachability c 0 (fold (sleep_second c env inputs) [0..<0 + k] (time_started c env server s)),
       fold (sleep_second c env inputs) [0..<0 + k] (time_started c env server s))"
    and before: "\<forall>j<k. sntp_getreachability c 0
      (fold (sleep_second c env inputs) [0..<0 + j] (time_started c env server s)) = 0"
    and last: "k < n \<longrightarrow> sntp_getreachability c 0
      (fold (sleep_second c env inputs) [0..<0 + k] (time_started c env server s)) \<noteq> 0"
    using sntp_time.wait_unfold[of n c env inputs 0 "time_started c env server s"] by blast
  then show ?thesis
    by (intro exI[of _ k]) (simp add: obtain_unfold Let_def list_all_iff)
qed

text \<open>
  Calling \<open>iotc_mtb_time_obtain\<close> a second time, for instance because the first call
  returned -1, violates the assertion of \<open>sntp_setoperatingmode\<close> that the client is not running: the first call
  leaves the client running and nothing stops it.
\<close>

theorem time_obtain_not_repeatable:
  assumes "env_udp_new env = (\<lambda>_. True)"
  shows "let t = snd (iotc_mtb_time_obtain c env inputs n server s)
    in sntp_pcb t
       \<and> Assert_failed ''Operating mode must not be set while SNTP client is running''
           \<in> set (trace (snd (iotc_mtb_time_obtain c env inputs' n' server' t)))"
proof -
  define t where "t = snd (iotc_mtb_time_obtain c env inputs n server s)"
  let ?e = "Assert_failed ''Operating mode must not be set while SNTP client is running''"
  have pcb: "sntp_pcb t"
    using assms by (simp add: t_def obtain_unfold Let_def pcb_wait time_started_def pcb_init)
  then have "?e \<in> set (trace (sntp_setoperatingmode SNTP_OPMODE_POLL t))"
    by (simp add: sntp_setoperatingmode_def Let_def)
  then have "?e \<in> set (trace (time_started c env server' t))"
    by (simp add: time_started_def in_init)
  then have "?e \<in> set (trace (snd (iotc_mtb_time_obtain c env inputs' n' server' t)))"
    by (simp add: obtain_unfold Let_def in_wait)
  with pcb show ?thesis by (simp add: t_def Let_def)
qed

lemma time_obtain_not_repeatable_witness:
  "Assert_failed ''Operating mode must not be set while SNTP client is running''
     \<in> set (trace (snd (iotc_mtb_time_obtain example_cfg example_env (\<lambda>_. []) 15 (Some ''b'')
          (snd (iotc_mtb_time_obtain example_cfg example_env (\<lambda>_. []) 15 (Some ''a'')
             (sntp_initial example_cfg))))))"
proof -
  have "env_udp_new example_env = (\<lambda>_. True)" by (simp add: example_env_def)
  from time_obtain_not_repeatable[OF this] show ?thesis by (simp add: Let_def)
qed

end
