(* ===== verification/SdkBase.thy ===== *)
theory SdkBase
  imports Prelude "HOL-Library.Monad_Syntax"
begin

text \<open>
  What the modules of the SDK share (\<open>source/iotconnect.c\<close>, \<open>iotc_mqtt_client.c\<close>,
  \<open>iotc_mqtt_mq.c\<close>, \<open>iotc_http_client.c\<close>, \<open>iotc_ota.c\<close>): the types of the public headers, the calls into
  libraries outside the repository, and the memory.

  Every call into a library is an event of the log. Its result is a parameter: an
  environment gives it as a function of the log so far and the call, so a theorem for all environments
  covers every behaviour of the libraries. Undefined behaviour of C (a call through a null
  pointer, \<open>strlen\<close> of a null pointer, freeing a block that is not live) is an event too.
  A function that may not return has type \<open>option\<close>, \<open>None\<close> being "does not return".
\<close>

section \<open>Types of the headers\<close>

text \<open>\<open>IotConnectConnectionStatus\<close> and \<open>IotConnectConnectionType\<close> of \<open>include/iotconnect.h\<close>.\<close>

datatype IotConnectConnectionStatus =
    IOTC_CS_UNDEFINED | IOTC_CS_MQTT_CONNECTED | IOTC_CS_MQTT_DISCONNECTED

datatype IotConnectConnectionType = IOTC_CT_UNDEFINED | IOTC_CT_AWS | IOTC_CT_AZURE

text \<open>
  Function pointers: the callbacks of the SDK by name, those of the application by number.
\<close>

datatype inbound_cb = On_mqtt_c2d_message | On_mqtt_mq_message | User_inbound nat
datatype status_cb = Default_on_connection_status | User_status nat
datatype ota_cb = Iotc_ota_callback | User_ota nat
datatype command_cb = On_command_intercept | User_command nat

type_synonym addr = nat

text \<open>
  Text in memory: the bytes up to the first NUL are what a C string function reads.
\<close>

definition c_string :: "string \<Rightarrow> string" where
  "c_string bs = takeWhile (\<lambda>c. c \<noteq> CHR 0x00) bs"

section \<open>Calls and events\<close>

text \<open>The broker, TLS and connect parameters that \<open>iotc_mqtt_client_init\<close> prepares.\<close>

datatype root_ca =
    Ca_configured string | IOTCL_AMAZON_ROOT_CA1 | IOTCL_CERT_DIGICERT_GLOBAL_ROOT_G2

record security_info =
  sni_host_name :: string
  sni_host_name_size :: nat
  sec_root_ca :: root_ca
  client_cert :: string
  client_cert_size :: nat
  private_key :: string
  private_key_size :: nat

record broker_info =
  broker_hostname :: string
  broker_port :: nat

record connect_info =
  ci_client_id :: string
  ci_username :: "string option"
  ci_username_len :: nat
  ci_clean_session :: bool
  ci_keep_alive_sec :: nat

record publish_info =
  pi_qos :: nat
  pi_topic :: string
  pi_payload :: string

text \<open>
  What the SDK sets of \<open>IotclClientConfig\<close>, apart from the constants: the instance type and the send callback
  \<open>iotconnect_sdk_mqtt_send_cb\<close>.
\<close>

record iotcl_client_config =
  icl_cpid :: string
  icl_duid :: string
  icl_ota_cb :: "nat option"
  icl_cmd_cb :: "command_cb option"

datatype sdk_call =
    Cy_mqtt_init
  | Cy_mqtt_create security_info broker_info
  | Cy_mqtt_register_event_callback "nat option"
  | Cy_mqtt_connect "nat option" connect_info
  | Cy_mqtt_subscribe "nat option" string nat
  | Cy_mqtt_publish "nat option" publish_info
  | Cy_mqtt_disconnect "nat option"
  | Cy_mqtt_delete "nat option"
  | Cy_mqtt_deinit
  | Cy_http_client_init
  | Cy_http_client_create string nat nat
  | Cy_http_client_connect nat
  | Cy_http_client_write_header bool "string option" "(string \<times> string) list"
  | Cy_http_client_send string
  | Cy_http_client_disconnect
  | Cy_http_client_delete
  | Cy_http_client_deinit
  | Iotcl_dra_discovery_init_url_with_host string string string
  | Iotcl_dra_discovery_init_url_azure string string
  | Iotcl_dra_discovery_parse string
  | Iotcl_dra_identity_build_url string
  | Iotcl_dra_identity_configure_library_mqtt string
  | Iotcl_init bool iotcl_client_config
  | Cy_ota_storage_init
  | Cy_ota_storage_image_validate nat
  | Cy_ota_agent_start root_ca nat nat "addr option" "addr option" ota_cb

datatype sdk_event =
    Ret sdk_call cy_rslt
  | Rtos_delay nat
  | Status_callback status_cb IotConnectConnectionStatus
  | Message_callback inbound_cb string string
  | Alloc nat bool
  | Free addr
  | Iotcl_free string
  | Iotcl_deinit
  | Dra_url_deinit string
  | C2d_process_event string
  | Command_callback nat "string option"
  | Notify_give nat
  | Notify_take nat
  | Ota_callback nat
  | System_reset
  | Diag string cy_rslt
  | Print string
  | Fault string

text \<open>Error codes of the libraries that the SDK names: nonzero constants. The type is enumerated, so that
  \<open>codes_ok\<close>, which quantifies over it, computes.\<close>

datatype sdk_code =
    CY_RSLT_MODULE_MQTT_ERROR
  | CY_RSLT_MODULE_MQTT_BADARG
  | IOTCL_ERR_PARSING_ERROR
  | IOTCL_ERR_BAD_VALUE
  | IOTCL_ERR_MISSING_VALUE
  | IOTCL_ERR_CONFIG_ERROR
  | IOTCL_ERR_FAILED

instantiation sdk_code :: enum
begin

definition enum_sdk_code where
  "enum_sdk_code =
     [CY_RSLT_MODULE_MQTT_ERROR, CY_RSLT_MODULE_MQTT_BADARG, IOTCL_ERR_PARSING_ERROR, IOTCL_ERR_BAD_VALUE,
      IOTCL_ERR_MISSING_VALUE, IOTCL_ERR_CONFIG_ERROR, IOTCL_ERR_FAILED]"

definition enum_all_sdk_code where
  "enum_all_sdk_code P \<longleftrightarrow> list_all P (enum_class.enum :: sdk_code list)"

definition enum_ex_sdk_code where
  "enum_ex_sdk_code P \<longleftrightarrow> list_ex P (enum_class.enum :: sdk_code list)"

instance
proof
  show univ: "(UNIV :: sdk_code set) = set enum_class.enum"
    by (auto simp: enum_sdk_code_def intro: sdk_code.exhaust)
  show "distinct (enum_class.enum :: sdk_code list)" by (simp add: enum_sdk_code_def)
  show "enum_class.enum_all P \<longleftrightarrow> Ball UNIV P" for P :: "sdk_code \<Rightarrow> bool"
    using univ by (auto simp: enum_all_sdk_code_def list_all_iff)
  show "enum_class.enum_ex P \<longleftrightarrow> Bex UNIV P" for P :: "sdk_code \<Rightarrow> bool"
    using univ by (auto simp: enum_ex_sdk_code_def list_ex_iff)
qed

end

record sdk_env =
  env_code :: "sdk_code \<Rightarrow> cy_rslt"
  env_ret :: "sdk_event list \<Rightarrow> sdk_call \<Rightarrow> cy_rslt"
  env_alloc :: "sdk_event list \<Rightarrow> nat \<Rightarrow> bool"
  env_mqtt_handle :: "sdk_event list \<Rightarrow> nat option"
  env_rand :: "sdk_event list \<Rightarrow> nat"
  env_http_body :: "sdk_event list \<Rightarrow> string"

definition codes_ok :: "sdk_env \<Rightarrow> bool" where
  "codes_ok env \<longleftrightarrow> (\<forall>c. env_code env c \<noteq> CY_RSLT_SUCCESS)"

section \<open>Log and memory\<close>

record sdk_base =
  log :: "sdk_event list"
  heap :: "addr \<rightharpoonup> string"
  next_addr :: addr

definition sdk_emit :: "sdk_event \<Rightarrow> 'z sdk_base_scheme \<Rightarrow> 'z sdk_base_scheme" where
  "sdk_emit e s = s\<lparr>log := log s @ [e]\<rparr>"

text \<open>A call of a library function that returns a result code.\<close>

definition call ::
    "sdk_env \<Rightarrow> sdk_call \<Rightarrow> 'z sdk_base_scheme \<Rightarrow> cy_rslt \<times> 'z sdk_base_scheme" where
  "call env c s = (let r = env_ret env (log s) c in (r, sdk_emit (Ret c r) s))"

text \<open>
  \<open>malloc\<close> and \<open>iotcl_malloc\<close> of a block that is then filled with the given bytes: a fresh
  address or \<open>NULL\<close>.
\<close>

definition alloc ::
    "sdk_env \<Rightarrow> string \<Rightarrow> 'z sdk_base_scheme \<Rightarrow> addr option \<times> 'z sdk_base_scheme" where
  "alloc env bs s =
     (let ok = env_alloc env (log s) (length bs);
          s = sdk_emit (Alloc (length bs) ok) s
      in if ok then (Some (next_addr s),
                     s\<lparr>heap := (heap s)(next_addr s \<mapsto> bs), next_addr := Suc (next_addr s)\<rparr>)
         else (None, s))"

text \<open>\<open>iotcl_strdup\<close>: a copy of the C string with its terminator; \<open>NULL\<close> for \<open>NULL\<close>.\<close>

definition iotcl_strdup ::
    "sdk_env \<Rightarrow> string option \<Rightarrow> 'z sdk_base_scheme \<Rightarrow> addr option \<times> 'z sdk_base_scheme" where
  "iotcl_strdup env str s =
     (case str of None \<Rightarrow> (None, s) | Some cs \<Rightarrow> alloc env (c_string cs @ [CHR 0x00]) s)"

text \<open>\<open>free\<close> and \<open>iotcl_free\<close>.\<close>

definition c_free :: "addr \<Rightarrow> 'z sdk_base_scheme \<Rightarrow> 'z sdk_base_scheme" where
  "c_free a s =
     (let s = sdk_emit (Free a) s
      in if heap s a = None then sdk_emit (Fault ''free of a block that is not live'') s
         else s\<lparr>heap := (heap s)(a := None)\<rparr>)"

text \<open>The bytes behind a pointer that is about to be read.\<close>

definition read_block :: "addr option \<Rightarrow> 'z sdk_base_scheme \<Rightarrow> string \<times> 'z sdk_base_scheme" where
  "read_block p s =
     (case Option.bind p (heap s) of
        Some bs \<Rightarrow> (bs, s)
      | None \<Rightarrow> ([], sdk_emit (Fault ''read of a block that is not live'') s))"

text \<open>\<open>strlen\<close> of a pointer that may be null.\<close>

definition c_strlen :: "string option \<Rightarrow> 'z sdk_base_scheme \<Rightarrow> nat \<times> 'z sdk_base_scheme" where
  "c_strlen str s =
     (case str of None \<Rightarrow> (0, sdk_emit (Fault ''strlen of a null pointer'') s)
                | Some cs \<Rightarrow> (length (c_string cs), s))"

text \<open>The memory is consistent: every live block is below the next fresh address.\<close>

definition heap_ok :: "'z sdk_base_scheme \<Rightarrow> bool" where
  "heap_ok s \<longleftrightarrow> (\<forall>a. heap s a \<noteq> None \<longrightarrow> a < next_addr s)"

definition faults :: "sdk_event list \<Rightarrow> string list" where
  "faults es = concat (map (\<lambda>e. case e of Fault m \<Rightarrow> [m] | _ \<Rightarrow> []) es)"

text \<open>The blocks behind a pointer.\<close>

definition opt_list :: "'a option \<Rightarrow> 'a list" where
  "opt_list p = (case p of Some a \<Rightarrow> [a] | None \<Rightarrow> [])"

section \<open>Lemmas\<close>

lemma log_sdk_emit: "log (sdk_emit e s) = log s @ [e]"
  by (simp add: sdk_emit_def)

lemma sdk_emit_frame [simp]:
  "heap (sdk_emit e s) = heap s" "next_addr (sdk_emit e s) = next_addr s"
  "sdk_base.more (sdk_emit e s) = sdk_base.more s"
  by (simp_all add: sdk_emit_def)

lemma call_frame [simp]:
  "heap (snd (call env c s)) = heap s" "next_addr (snd (call env c s)) = next_addr s"
  "sdk_base.more (snd (call env c s)) = sdk_base.more s"
  by (simp_all add: call_def Let_def)

lemma faults_append [simp]: "faults (xs @ ys) = faults xs @ faults ys"
  by (simp add: faults_def)

lemma faults_Nil [simp]: "faults [] = []"
  by (simp add: faults_def)

lemma faults_Cons: "faults (e # es) = (case e of Fault m \<Rightarrow> [m] | _ \<Rightarrow> []) @ faults es"
  by (simp add: faults_def)

lemma faults_sdk_emit [simp]:
  "faults (log (sdk_emit e s)) = faults (log s) @ (case e of Fault m \<Rightarrow> [m] | _ \<Rightarrow> [])"
  by (simp add: log_sdk_emit faults_Cons)

lemma faults_call [simp]: "faults (log (snd (call env c s))) = faults (log s)"
  by (simp add: call_def Let_def)

lemma heap_ok_sdk_emit [simp]: "heap_ok (sdk_emit e s) = heap_ok s"
  by (simp add: heap_ok_def)

lemma heap_ok_alloc: "heap_ok s \<Longrightarrow> heap_ok (snd (alloc env bs s))"
  by (auto simp: alloc_def Let_def heap_ok_def less_Suc_eq)

lemma heap_ok_strdup: "heap_ok s \<Longrightarrow> heap_ok (snd (iotcl_strdup env str s))"
  by (simp add: iotcl_strdup_def heap_ok_alloc split: option.split)

lemma heap_ok_free: "heap_ok s \<Longrightarrow> heap_ok (c_free a s)"
  by (simp add: c_free_def Let_def heap_ok_def)

lemma more_alloc [simp]: "sdk_base.more (snd (alloc env bs s)) = sdk_base.more s"
  by (simp add: alloc_def Let_def)

lemma more_strdup [simp]: "sdk_base.more (snd (iotcl_strdup env str s)) = sdk_base.more s"
  by (simp add: iotcl_strdup_def split: option.split)

lemma more_free [simp]: "sdk_base.more (c_free a s) = sdk_base.more s"
  by (simp add: c_free_def Let_def)

text \<open>An allocation succeeds with a fresh block, or changes no memory.\<close>

lemma alloc_cases:
  assumes "alloc env bs s = (p, t)"
  obtains "p = Some (next_addr s)" "heap t = (heap s)(next_addr s \<mapsto> bs)"
      "next_addr t = Suc (next_addr s)" "faults (log t) = faults (log s)"
  | "p = None" "heap t = heap s" "next_addr t = next_addr s" "faults (log t) = faults (log s)"
  using assms by (auto simp: alloc_def Let_def split: if_splits)

lemma heap_ok_fresh: "heap_ok s \<Longrightarrow> heap s (next_addr s) = None"
  by (auto simp: heap_ok_def)

lemma free_live:
  "heap s a \<noteq> None \<Longrightarrow> heap (c_free a s) = (heap s)(a := None) \<and> next_addr (c_free a s) = next_addr s
     \<and> faults (log (c_free a s)) = faults (log s)"
  by (simp add: c_free_def Let_def)

lemma c_string_terminated [simp]: "c_string (c_string x @ [CHR 0x00]) = c_string x"
  by (induction x) (simp_all add: c_string_def)

lemma c_string_snoc: "c_string (x @ [CHR 0x00]) = c_string x"
  by (induction x) (simp_all add: c_string_def)

lemma c_string_idem [simp]: "c_string (c_string x) = c_string x"
  by (auto simp: c_string_def takeWhile_eq_all_conv dest: set_takeWhileD)

section \<open>Counting library calls\<close>

definition count_calls :: "(sdk_call \<Rightarrow> cy_rslt \<Rightarrow> bool) \<Rightarrow> sdk_event list \<Rightarrow> nat" where
  "count_calls P es = count_if (\<lambda>e. case e of Ret c r \<Rightarrow> P c r | _ \<Rightarrow> False) es"

lemma count_calls_Nil [simp]: "count_calls P [] = 0"
  by (simp add: count_calls_def)

lemma count_calls_emit [simp]:
  "count_calls P (log (sdk_emit e s)) =
     count_calls P (log s) + (case e of Ret c r \<Rightarrow> if P c r then 1 else 0 | _ \<Rightarrow> 0)"
  by (simp add: count_calls_def log_sdk_emit split: sdk_event.split)

lemma count_calls_call [simp]:
  "count_calls P (log (snd (call env c s))) =
     count_calls P (log s) + (if P c (fst (call env c s)) then 1 else 0)"
  by (simp add: call_def Let_def)

lemma count_calls_alloc [simp]: "count_calls P (log (snd (alloc env bs s))) = count_calls P (log s)"
  by (simp add: alloc_def Let_def)

lemma count_calls_free [simp]: "count_calls P (log (c_free a s)) = count_calls P (log s)"
  by (simp add: c_free_def Let_def)

lemma count_calls_strlen [simp]: "count_calls P (log (snd (c_strlen p s))) = count_calls P (log s)"
  by (simp add: c_strlen_def split: option.split)

end
