(* ===== verification/MqttMq.thy ===== *)
theory MqttMq
  imports SdkBase
begin

text \<open>
  The inbound message queue, \<open>source/iotc_mqtt_mq.c\<close>: the MQTT thread copies each message into
  memory of its own and puts the copy into an RTOS queue, the application thread takes the
  messages out and hands them to a callback.

  The RTOS queue is code outside the repository: a record of its functions is an argument
  of the definitions, and \<open>queue_laws\<close> is what a bounded FIFO queue of the RTOS does while
  nobody else uses it. Blocking for ever is the result \<open>None\<close>. A function pointer is
  called through \<open>invoke\<close>, which says what each callback does to the state.
\<close>

section \<open>Messages and the RTOS queue\<close>

text \<open>\<open>IotcMqMessage\<close>.\<close>

record mq_msg =
  m_topic :: "addr option"
  m_message :: "addr option"
  m_len :: nat

record 'q rtos_queue_api =
  cy_rtos_init_queue :: "nat \<Rightarrow> 'q \<Rightarrow> cy_rslt \<times> 'q"
  cy_rtos_put_queue :: "mq_msg \<Rightarrow> nat \<Rightarrow> 'q \<Rightarrow> cy_rslt \<times> 'q"
  cy_rtos_get_queue :: "nat \<Rightarrow> 'q \<Rightarrow> (cy_rslt \<times> mq_msg \<times> 'q) option"
  cy_rtos_count_queue :: "'q \<Rightarrow> cy_rslt \<times> nat"
  cy_rtos_deinit_queue :: "'q \<Rightarrow> cy_rslt \<times> 'q"
  CY_RTOS_QUEUE_EMPTY :: cy_rslt

text \<open>
  \<open>items\<close> is what a handle holds (\<open>None\<close> for a handle that is not a queue), \<open>cap\<close> its size.
  A successful \<open>init\<close> makes an empty queue; \<open>put\<close> appends when there is room and changes nothing when it
  fails; \<open>get\<close> takes the oldest message, and on an empty queue fails after the timeout, or blocks
  for ever when the timeout is 0; \<open>deinit\<close> destroys the queue.
\<close>

definition queue_laws ::
    "'q rtos_queue_api \<Rightarrow> ('q \<Rightarrow> mq_msg list option) \<Rightarrow> ('q \<Rightarrow> nat) \<Rightarrow> bool" where
  "queue_laws api items cap \<longleftrightarrow>
     CY_RTOS_QUEUE_EMPTY api \<noteq> CY_RSLT_SUCCESS
     \<and> (\<forall>n q q'. cy_rtos_init_queue api n q = (CY_RSLT_SUCCESS, q')
          \<longrightarrow> items q' = Some [] \<and> cap q' = n)
     \<and> (\<forall>m t q xs r q'. items q = Some xs \<longrightarrow> cy_rtos_put_queue api m t q = (r, q') \<longrightarrow>
          cap q' = cap q \<and>
          (if length xs < cap q then r = CY_RSLT_SUCCESS \<and> items q' = Some (xs @ [m])
           else r \<noteq> CY_RSLT_SUCCESS \<and> items q' = Some xs))
     \<and> (\<forall>t q x xs. items q = Some (x # xs) \<longrightarrow>
          (\<exists>q'. cy_rtos_get_queue api t q = Some (CY_RSLT_SUCCESS, x, q')
             \<and> items q' = Some xs \<and> cap q' = cap q))
     \<and> (\<forall>t q. items q = Some [] \<longrightarrow> t \<noteq> 0 \<longrightarrow>
          (\<exists>r m q'. cy_rtos_get_queue api t q = Some (r, m, q') \<and> r \<noteq> CY_RSLT_SUCCESS
             \<and> items q' = Some [] \<and> cap q' = cap q))
     \<and> (\<forall>q. items q = Some [] \<longrightarrow> cy_rtos_get_queue api 0 q = None)
     \<and> (\<forall>q. items q \<noteq> None \<longrightarrow> items (snd (cy_rtos_deinit_queue api q)) = None)"

section \<open>State\<close>

definition IOTC_MQ_PUT_TIMEOUT :: nat where "IOTC_MQ_PUT_TIMEOUT = 100"

record 'q mq_state = sdk_base +
  cy_queue :: 'q
  is_initialized :: bool
  client_msg_cb :: "inbound_cb option"

section \<open>Operations\<close>

definition iotc_mq_destroy_message ::
    "mq_msg \<Rightarrow> ('q, 'z) mq_state_scheme \<Rightarrow> mq_msg \<times> ('q, 'z) mq_state_scheme" where
  "iotc_mq_destroy_message msg s =
     (let (msg, s) = (case m_topic msg of
                        Some a \<Rightarrow> (msg\<lparr>m_topic := None\<rparr>, c_free a s)
                      | None \<Rightarrow> (msg, s));
          (msg, s) = (case m_message msg of
                        Some a \<Rightarrow> (msg\<lparr>m_message := None\<rparr>, c_free a s)
                      | None \<Rightarrow> (msg, s))
      in (msg\<lparr>m_len := 0\<rparr>, s))"

text \<open>
  The pointers are the bytes they point to. The block for the message is filled by the
  \<open>memcpy\<close>, which must not read past the end of the source.
\<close>

definition iotc_mq_create_message ::
    "sdk_env \<Rightarrow> string option \<Rightarrow> string \<Rightarrow> nat \<Rightarrow> ('q, 'z) mq_state_scheme
       \<Rightarrow> bool \<times> mq_msg \<times> ('q, 'z) mq_state_scheme" where
  "iotc_mq_create_message env topic message message_len s =
     (let (t, s) = iotcl_strdup env topic s;
          (m, s) = alloc env (take message_len message) s;
          msg = \<lparr>m_topic = t, m_message = m, m_len = 0\<rparr>
      in if t = None \<or> m = None then
           (let (msg, s) = iotc_mq_destroy_message msg s in (False, msg, s))
         else
           (let s = (if length message < message_len
                     then sdk_emit (Fault ''memcpy past the end of the message'') s else s)
            in (True, msg\<lparr>m_len := message_len\<rparr>, s)))"

definition iotc_mq_init ::
    "'q rtos_queue_api \<Rightarrow> nat \<Rightarrow> ('q, 'z) mq_state_scheme \<Rightarrow> cy_rslt \<times> ('q, 'z) mq_state_scheme" where
  "iotc_mq_init api queue_size s =
     (let (result, q) = cy_rtos_init_queue api queue_size (cy_queue s)
      in (result, s\<lparr>cy_queue := q, is_initialized := True\<rparr>))"

definition iotc_mq_register ::
    "inbound_cb option \<Rightarrow> ('q, 'z) mq_state_scheme \<Rightarrow> ('q, 'z) mq_state_scheme" where
  "iotc_mq_register cb s = s\<lparr>client_msg_cb := cb\<rparr>"

definition iotc_mq_on_mqtt_inbound_message ::
    "sdk_env \<Rightarrow> 'q rtos_queue_api \<Rightarrow> string option \<Rightarrow> string option \<Rightarrow> nat
       \<Rightarrow> ('q, 'z) mq_state_scheme \<Rightarrow> ('q, 'z) mq_state_scheme" where
  "iotc_mq_on_mqtt_inbound_message env api topic message message_len s =
     (case (topic, message) of
        (Some tp, Some msg_bytes) \<Rightarrow>
          if message_len = 0 then s
          else if client_msg_cb s = None then s
          else
            (let (ok, msg, s) = iotc_mq_create_message env topic msg_bytes message_len s
             in if \<not> ok then s
                else
                  (let (result, q) = cy_rtos_put_queue api msg IOTC_MQ_PUT_TIMEOUT (cy_queue s);
                       s = s\<lparr>cy_queue := q\<rparr>
                   in if result \<noteq> CY_RSLT_SUCCESS then snd (iotc_mq_destroy_message msg s) else s))
      | _ \<Rightarrow> s)"

text \<open>
  The call \<open>client_msg_cb(msg.topic, msg.message, msg.message_len)\<close>: the callback reads the topic as a C
  string and \<open>message_len\<close> bytes of the message.
\<close>

definition call_client ::
    "(inbound_cb \<Rightarrow> string \<Rightarrow> string \<Rightarrow> ('q, 'z) mq_state_scheme \<Rightarrow> ('q, 'z) mq_state_scheme option)
       \<Rightarrow> mq_msg \<Rightarrow> ('q, 'z) mq_state_scheme \<Rightarrow> ('q, 'z) mq_state_scheme option" where
  "call_client invoke msg s =
     (case client_msg_cb s of
        None \<Rightarrow> Some (sdk_emit (Fault ''call through a null pointer'') s)
      | Some cb \<Rightarrow>
          (let (tp, s) = read_block (m_topic msg) s;
               (pl, s) = read_block (m_message msg) s
           in invoke cb (c_string tp) (take (m_len msg) pl) s))"

text \<open>
  The branch of \<open>iotc_mq_process\<close> for any other result. It returns in every case; what it prints is
  the result of the count, which has replaced the error of \<open>cy_rtos_get_queue\<close>.
\<close>

definition report_get_error ::
    "'q rtos_queue_api \<Rightarrow> ('q, 'z) mq_state_scheme \<Rightarrow> ('q, 'z) mq_state_scheme" where
  "report_get_error api s =
     (let (result, num_waiting) = cy_rtos_count_queue api (cy_queue s)
      in if result = CY_RSLT_SUCCESS then
           (if num_waiting \<noteq> 0
            then sdk_emit (Diag ''Got error while getting messages from the message queue'' result) s
            else s)
         else sdk_emit (Diag ''cy_rtos_get_num_waiting error'' result) s)"

partial_function (option) process_loop ::
    "'q rtos_queue_api
       \<Rightarrow> (inbound_cb \<Rightarrow> string \<Rightarrow> string \<Rightarrow> ('q, 'z) mq_state_scheme \<Rightarrow> ('q, 'z) mq_state_scheme option)
       \<Rightarrow> nat \<Rightarrow> ('q, 'z) mq_state_scheme \<Rightarrow> ('q, 'z) mq_state_scheme option" where
  "process_loop api invoke timeout_ms s =
     Option.bind (cy_rtos_get_queue api timeout_ms (cy_queue s)) (\<lambda>r.
       let result = fst r; msg = fst (snd r); s = s\<lparr>cy_queue := snd (snd r)\<rparr> in
       if result = CY_RTOS_QUEUE_EMPTY api then Some s
       else if result = CY_RSLT_SUCCESS then
         Option.bind (call_client invoke msg s) (\<lambda>s. process_loop api invoke timeout_ms s)
       else Some (report_get_error api s))"

definition iotc_mq_process ::
    "'q rtos_queue_api
       \<Rightarrow> (inbound_cb \<Rightarrow> string \<Rightarrow> string \<Rightarrow> ('q, 'z) mq_state_scheme \<Rightarrow> ('q, 'z) mq_state_scheme option)
       \<Rightarrow> nat \<Rightarrow> ('q, 'z) mq_state_scheme \<Rightarrow> ('q, 'z) mq_state_scheme option" where
  "iotc_mq_process api invoke timeout_ms s =
     (if client_msg_cb s = None then Some s else process_loop api invoke timeout_ms s)"

partial_function (option) iotc_mq_flush ::
    "'q rtos_queue_api \<Rightarrow> ('q, 'z) mq_state_scheme \<Rightarrow> ('q, 'z) mq_state_scheme option" where
  "iotc_mq_flush api s =
     Option.bind (cy_rtos_get_queue api 1 (cy_queue s)) (\<lambda>r.
       let result = fst r; msg = fst (snd r); s = s\<lparr>cy_queue := snd (snd r)\<rparr> in
       if result = CY_RSLT_SUCCESS then iotc_mq_flush api (snd (iotc_mq_destroy_message msg s))
       else Some s)"

definition iotc_mq_deregister ::
    "'q rtos_queue_api \<Rightarrow> ('q, 'z) mq_state_scheme \<Rightarrow> ('q, 'z) mq_state_scheme option" where
  "iotc_mq_deregister api s =
     Option.bind (iotc_mq_flush api s) (\<lambda>s. Some (s\<lparr>client_msg_cb := None\<rparr>))"

definition iotc_mq_deinit ::
    "'q rtos_queue_api \<Rightarrow> ('q, 'z) mq_state_scheme \<Rightarrow> ('q, 'z) mq_state_scheme option" where
  "iotc_mq_deinit api s =
     Option.bind (iotc_mq_deregister api s) (\<lambda>s.
     Option.bind (iotc_mq_flush api s) (\<lambda>s.
       if is_initialized s then
         Some (s\<lparr>is_initialized := False, cy_queue := snd (cy_rtos_deinit_queue api (cy_queue s))\<rparr>)
       else Some s))"

end
