(* ===== verification/MqttClient.thy ===== *)
theory MqttClient
  imports MqttMq
begin

text \<open>
  The MQTT client, \<open>source/iotc_mqtt_client.c\<close>: its static variables, the event callback that
  the MQTT library calls, and the functions that connect, publish and disconnect. The fields of the message queue
  come first in the state only because the callback of the application, which \<open>invoke\<close>
  stands for, works on them; no function of this file touches them itself.
\<close>

section \<open>Configuration and state\<close>

definition MAX_SUBSCRIBE_RETRIES :: nat where "MAX_SUBSCRIBE_RETRIES = 3"
definition MQTT_SUBSCRIBE_RETRY_INTERVAL_MS :: nat where "MQTT_SUBSCRIBE_RETRY_INTERVAL_MS = 1000"
definition IOTC_MAX_MQTT_CONN_RETRIES :: nat where "IOTC_MAX_MQTT_CONN_RETRIES = 150"
definition IOTC_MQTT_CONN_RETRY_INTERVAL_MS :: nat where "IOTC_MQTT_CONN_RETRY_INTERVAL_MS = 5000"

text \<open>
  What the client reads of \<open>IotclMqttConfig\<close>, which iotc-c-lib owns; \<open>NULL\<close> is \<open>None\<close>.
\<close>

record iotcl_mqtt_config =
  mc_host :: "string option"
  mc_client_id :: "string option"
  mc_username :: "string option"
  mc_sub_c2d :: "string option"
  mc_pub_rpt :: "string option"
  mc_pub_ack :: "string option"

text \<open>\<open>IotConnectX509Config\<close> and \<open>IotConnectMqttConfig\<close>.\<close>

record IotConnectX509Config =
  server_ca_cert :: "string option"
  device_cert :: "string option"
  device_key :: "string option"
  device_key_size :: nat

record IotConnectMqttConfig =
  mqtt_connection_type :: IotConnectConnectionType
  mqtt_x509_config :: IotConnectX509Config
  mqtt_inbound_cb :: "inbound_cb option"
  mqtt_status_cb :: "status_cb option"

text \<open>The static variables, and the MQTT configuration that iotc-c-lib holds.\<close>

record 'q mqtt_state = "'q mq_state" +
  mqtt_connection :: "nat option"
  is_connected :: bool
  is_disconnect_requested :: bool
  is_mqtt_initialized :: bool
  mqtt_inbound_msg_cb :: "inbound_cb option"
  client_status_cb :: "status_cb option"
  iotcl_mc :: "iotcl_mqtt_config option"

section \<open>Events from the MQTT library\<close>

text \<open>
  A received message: its topic is \<open>topic_len\<close> bytes in the network buffer of the library,
  and \<open>r_topic_tail\<close> is what follows there up to the first NUL.
\<close>

record received_msg =
  r_topic :: string
  r_topic_tail :: string
  r_payload :: string

datatype mqtt_event =
    CY_MQTT_EVENT_TYPE_DISCONNECT
  | CY_MQTT_EVENT_TYPE_SUBSCRIPTION_MESSAGE_RECEIVE received_msg
  | CY_MQTT_EVENT_TYPE_OTHER

text \<open>
  The status callback: the event says that it was called, and the default of \<open>iotconnect.c\<close>, which the SDK
  passes when the application has none, prints a line.
\<close>

definition default_on_connection_status :: "IotConnectConnectionStatus \<Rightarrow> 'z sdk_base_scheme \<Rightarrow> 'z sdk_base_scheme" where
  "default_on_connection_status status =
     sdk_emit (Print (case status of
         IOTC_CS_MQTT_CONNECTED \<Rightarrow> ''IoTConnect Client Connected notification.''
       | IOTC_CS_MQTT_DISCONNECTED \<Rightarrow> ''IoTConnect Client Disconnected notification.''
       | IOTC_CS_UNDEFINED \<Rightarrow> ''IoTConnect Client ERROR notification''))"

definition call_status_cb ::
    "status_cb \<Rightarrow> IotConnectConnectionStatus \<Rightarrow> 'z sdk_base_scheme \<Rightarrow> 'z sdk_base_scheme" where
  "call_status_cb cb status s =
     (let s = sdk_emit (Status_callback cb status) s
      in case cb of
           Default_on_connection_status \<Rightarrow> default_on_connection_status status s
         | User_status n \<Rightarrow> s)"

text \<open>
  The callback is called with \<open>received_msg->topic\<close>, not with the terminated copy: as a C
  string that is the topic together with the bytes behind it.
\<close>

definition mqtt_event_callback ::
    "sdk_env
       \<Rightarrow> (inbound_cb \<Rightarrow> string \<Rightarrow> string \<Rightarrow> ('q, 'z) mqtt_state_scheme \<Rightarrow> ('q, 'z) mqtt_state_scheme option)
       \<Rightarrow> mqtt_event \<Rightarrow> ('q, 'z) mqtt_state_scheme \<Rightarrow> ('q, 'z) mqtt_state_scheme option" where
  "mqtt_event_callback env invoke event s =
     (case event of
        CY_MQTT_EVENT_TYPE_DISCONNECT \<Rightarrow>
          (let s = s\<lparr>is_connected := False\<rparr>
           in Some (case client_status_cb s of
                      Some cb \<Rightarrow> call_status_cb cb IOTC_CS_MQTT_DISCONNECTED s
                    | None \<Rightarrow> s))
      | CY_MQTT_EVENT_TYPE_SUBSCRIPTION_MESSAGE_RECEIVE r \<Rightarrow>
          (case mqtt_inbound_msg_cb s of
             Some cb \<Rightarrow>
               if \<not> is_disconnect_requested s then
                 (case alloc env (r_topic r @ [CHR 0x00]) s of
                    (None, s) \<Rightarrow> Some s
                  | (Some topic_str, s) \<Rightarrow>
                      Option.bind (invoke cb (c_string (r_topic r @ r_topic_tail r)) (r_payload r) s)
                        (\<lambda>s. Some ((c_free topic_str s)\<lparr>is_disconnect_requested := False\<rparr>)))
               else Some (s\<lparr>is_disconnect_requested := False\<rparr>)
           | None \<Rightarrow> Some (s\<lparr>is_disconnect_requested := False\<rparr>))
      | CY_MQTT_EVENT_TYPE_OTHER \<Rightarrow> Some s)"

section \<open>Subscribing and connecting\<close>

text \<open>The \<open>for\<close> loop of \<open>mqtt_subscribe\<close>; the \<open>nat\<close> is the number of attempts left.\<close>

fun subscribe_loop ::
    "sdk_env \<Rightarrow> string \<Rightarrow> nat \<Rightarrow> nat \<Rightarrow> cy_rslt \<Rightarrow> ('q, 'z) mqtt_state_scheme
       \<Rightarrow> cy_rslt \<times> ('q, 'z) mqtt_state_scheme" where
  "subscribe_loop env topic qos 0 result s = (result, s)"
| "subscribe_loop env topic qos (Suc n) result s =
     (case call env (Cy_mqtt_subscribe (mqtt_connection s) topic qos) s of (result, s) \<Rightarrow>
        if result = CY_RSLT_SUCCESS then (result, s)
        else subscribe_loop env topic qos n result
               (sdk_emit (Rtos_delay MQTT_SUBSCRIBE_RETRY_INTERVAL_MS) s))"

definition mqtt_subscribe ::
    "sdk_env \<Rightarrow> iotcl_mqtt_config \<Rightarrow> nat \<Rightarrow> ('q, 'z) mqtt_state_scheme
       \<Rightarrow> cy_rslt \<times> ('q, 'z) mqtt_state_scheme" where
  "mqtt_subscribe env mc qos s =
     (let (topic_len, s) = c_strlen (mc_sub_c2d mc) s;
          topic = take topic_len (case mc_sub_c2d mc of Some t \<Rightarrow> t | None \<Rightarrow> [])
      in subscribe_loop env topic qos MAX_SUBSCRIBE_RETRIES 1 s)"

text \<open>
  The \<open>for\<close> loop of \<open>mqtt_connect\<close>. The flag is the build option
  \<open>IOTC_NO_EXPONENTIAL_BACKOFF\<close>.
\<close>

definition connect_backoff :: "sdk_env \<Rightarrow> bool \<Rightarrow> 'z sdk_base_scheme \<Rightarrow> nat" where
  "connect_backoff env no_backoff s =
     (if no_backoff then IOTC_MQTT_CONN_RETRY_INTERVAL_MS
      else env_rand env (log s) mod IOTC_MQTT_CONN_RETRY_INTERVAL_MS + 1)"

fun connect_loop ::
    "sdk_env \<Rightarrow> bool \<Rightarrow> connect_info \<Rightarrow> nat \<Rightarrow> cy_rslt \<Rightarrow> ('q, 'z) mqtt_state_scheme
       \<Rightarrow> cy_rslt \<times> ('q, 'z) mqtt_state_scheme" where
  "connect_loop env no_backoff info 0 result s = (result, s)"
| "connect_loop env no_backoff info (Suc n) result s =
     (case call env (Cy_mqtt_connect (mqtt_connection s) info) s of (result, s) \<Rightarrow>
        if result = CY_RSLT_SUCCESS then (result, s)
        else connect_loop env no_backoff info n result
               (sdk_emit (Rtos_delay (connect_backoff env no_backoff s)) s))"

definition mqtt_connect ::
    "sdk_env \<Rightarrow> bool \<Rightarrow> iotcl_mqtt_config \<Rightarrow> ('q, 'z) mqtt_state_scheme
       \<Rightarrow> cy_rslt \<times> ('q, 'z) mqtt_state_scheme" where
  "mqtt_connect env no_backoff mc s =
     (let (client_id_len, s) = c_strlen (mc_client_id mc) s;
          (username_len, s) = (if mc_username mc \<noteq> None then c_strlen (mc_username mc) s else (0, s));
          info = \<lparr>ci_client_id = take client_id_len (case mc_client_id mc of Some i \<Rightarrow> i | None \<Rightarrow> []),
                  ci_username = mc_username mc, ci_username_len = username_len,
                  ci_clean_session = True, ci_keep_alive_sec = 55\<rparr>
      in connect_loop env no_backoff info IOTC_MAX_MQTT_CONN_RETRIES CY_RSLT_SUCCESS s)"

section \<open>Disconnecting\<close>

definition iotc_cleanup_mqtt ::
    "sdk_env \<Rightarrow> ('q, 'z) mqtt_state_scheme \<Rightarrow> cy_rslt \<times> ('q, 'z) mqtt_state_scheme" where
  "iotc_cleanup_mqtt env s =
     (let ret = CY_RSLT_SUCCESS;
          s = s\<lparr>is_connected := False\<rparr>;
          (ret, s) =
            (if mqtt_connection s \<noteq> None then
               (let (result, s) = call env (Cy_mqtt_disconnect (mqtt_connection s)) s;
                    (ret, s) =
                      (if result \<noteq> CY_RSLT_SUCCESS
                       then (if ret = CY_RSLT_SUCCESS then result else CY_RSLT_SUCCESS,
                             s\<lparr>is_disconnect_requested := False\<rparr>)
                       else (ret, s));
                    (result, s) = call env (Cy_mqtt_delete (mqtt_connection s)) s;
                    s = s\<lparr>mqtt_connection := None\<rparr>
                in (if ret = CY_RSLT_SUCCESS then result else CY_RSLT_SUCCESS, s))
             else (ret, s));
          (ret, s) =
            (if is_mqtt_initialized s then
               (let (result, s) = call env Cy_mqtt_deinit s;
                    s = s\<lparr>is_mqtt_initialized := False\<rparr>
                in (if ret = CY_RSLT_SUCCESS then result else CY_RSLT_SUCCESS, s))
             else (ret, s))
      in (ret, s\<lparr>mqtt_inbound_msg_cb := None, client_status_cb := None\<rparr>))"

definition iotc_mqtt_client_disconnect ::
    "sdk_env \<Rightarrow> ('q, 'z) mqtt_state_scheme \<Rightarrow> cy_rslt \<times> ('q, 'z) mqtt_state_scheme" where
  "iotc_mqtt_client_disconnect env s = iotc_cleanup_mqtt env (s\<lparr>is_disconnect_requested := True\<rparr>)"

definition iotc_mqtt_client_is_connected :: "('q, 'z) mqtt_state_scheme \<Rightarrow> bool" where
  "iotc_mqtt_client_is_connected s = is_connected s"

section \<open>Publishing\<close>

definition iotc_mqtt_client_publish ::
    "sdk_env \<Rightarrow> string option \<Rightarrow> string option \<Rightarrow> nat \<Rightarrow> ('q, 'z) mqtt_state_scheme
       \<Rightarrow> cy_rslt \<times> ('q, 'z) mqtt_state_scheme" where
  "iotc_mqtt_client_publish env topic payload qos s =
     (let (topic_len, s) = c_strlen topic s;
          (payload_len, s) = c_strlen payload s;
          publish_info = \<lparr>pi_qos = qos,
            pi_topic = take topic_len (case topic of Some t \<Rightarrow> t | None \<Rightarrow> []),
            pi_payload = take payload_len (case payload of Some p \<Rightarrow> p | None \<Rightarrow> [])\<rparr>;
          (result, s) = call env (Cy_mqtt_publish (mqtt_connection s) publish_info) s
      in if result \<noteq> CY_RSLT_SUCCESS then (result, s) else (CY_RSLT_SUCCESS, s))"

section \<open>Initialising\<close>

text \<open>
  What the lines before \<open>cy_mqtt_init\<close> do. The \<open>if\<close> has lost its body and guards the next
  assignment.
\<close>

definition init_reset ::
    "iotcl_mqtt_config \<Rightarrow> ('q, 'z) mqtt_state_scheme \<Rightarrow> ('q, 'z) mqtt_state_scheme" where
  "init_reset mc s =
     (let s = (if mc_sub_c2d mc = None then s\<lparr>mqtt_inbound_msg_cb := None\<rparr> else s)
      in s\<lparr>client_status_cb := None, is_connected := False, is_disconnect_requested := False\<rparr>)"

definition select_root_ca :: "IotConnectMqttConfig \<Rightarrow> root_ca option" where
  "select_root_ca c =
     (case server_ca_cert (mqtt_x509_config c) of
        Some ca \<Rightarrow> Some (Ca_configured ca)
      | None \<Rightarrow>
          (case mqtt_connection_type c of
             IOTC_CT_AWS \<Rightarrow> Some IOTCL_AMAZON_ROOT_CA1
           | IOTC_CT_AZURE \<Rightarrow> Some IOTCL_CERT_DIGICERT_GLOBAL_ROOT_G2
           | _ \<Rightarrow> None))"

text \<open>\<open>cy_mqtt_create\<close> stores the handle when it succeeds.\<close>

definition create_client ::
    "sdk_env \<Rightarrow> security_info \<Rightarrow> broker_info \<Rightarrow> ('q, 'z) mqtt_state_scheme
       \<Rightarrow> cy_rslt \<times> ('q, 'z) mqtt_state_scheme" where
  "create_client env sec broker s =
     (let handle = env_mqtt_handle env (log s);
          (result, s) = call env (Cy_mqtt_create sec broker) s
      in (result, if result = CY_RSLT_SUCCESS then s\<lparr>mqtt_connection := handle\<rparr> else s))"

text \<open>The security and broker parameters: every \<open>strlen\<close> of the code is one here.\<close>

definition prepare_credentials ::
    "iotcl_mqtt_config \<Rightarrow> IotConnectMqttConfig \<Rightarrow> root_ca \<Rightarrow> nat \<Rightarrow> ('q, 'z) mqtt_state_scheme
       \<Rightarrow> security_info \<times> ('q, 'z) mqtt_state_scheme" where
  "prepare_credentials mc c ca host_len s =
     (let x = mqtt_x509_config c;
          str = (\<lambda>p. case p of Some t \<Rightarrow> t | None \<Rightarrow> []);
          (cert_len, s) = c_strlen (device_cert x) s;
          (key_size, s) =
            (if device_key_size x = 0
             then (let (n, s) = c_strlen (device_key x) s in (n + 1, s))
             else (device_key_size x, s))
      in (\<lparr>sni_host_name = take host_len (str (mc_host mc)), sni_host_name_size = host_len + 1,
           sec_root_ca = ca, client_cert = str (device_cert x), client_cert_size = cert_len + 1,
           private_key = str (device_key x), private_key_size = key_size\<rparr>, s))"

definition iotc_mqtt_client_init ::
    "sdk_env \<Rightarrow> bool \<Rightarrow> IotConnectMqttConfig \<Rightarrow> ('q, 'z) mqtt_state_scheme
       \<Rightarrow> cy_rslt \<times> ('q, 'z) mqtt_state_scheme" where
  "iotc_mqtt_client_init env no_backoff c s =
     (case iotcl_mc s of
        None \<Rightarrow> (env_code env CY_RSLT_MODULE_MQTT_ERROR, s)
      | Some mc \<Rightarrow>
          (let s = init_reset mc s;
               (result, s) = call env Cy_mqtt_init s
           in if result \<noteq> CY_RSLT_SUCCESS then (result, snd (iotc_cleanup_mqtt env s))
              else
                (let s = s\<lparr>is_mqtt_initialized := True\<rparr>;
                     (host_len, s) = c_strlen (mc_host mc) s;
                     broker = \<lparr>broker_hostname = take host_len (case mc_host mc of Some h \<Rightarrow> h | None \<Rightarrow> []),
                               broker_port = 8883\<rparr>
                 in case select_root_ca c of
                      None \<Rightarrow> (env_code env CY_RSLT_MODULE_MQTT_BADARG, s)
                    | Some ca \<Rightarrow>
                        (let (sec, s) = prepare_credentials mc c ca host_len s;
                             (result, s) = create_client env sec broker s
                         in if result \<noteq> CY_RSLT_SUCCESS then (result, snd (iotc_cleanup_mqtt env s))
                            else
                              (let (result, s) =
                                     call env (Cy_mqtt_register_event_callback (mqtt_connection s)) s
                               in if result \<noteq> CY_RSLT_SUCCESS then (result, snd (iotc_cleanup_mqtt env s))
                                  else
                                    (let (result, s) = mqtt_connect env no_backoff mc s
                                     in if result \<noteq> CY_RSLT_SUCCESS
                                        then (result, snd (iotc_cleanup_mqtt env s))
                                        else
                                          (let (result, s) = mqtt_subscribe env mc 1 s
                                           in if result \<noteq> CY_RSLT_SUCCESS
                                              then (result, snd (iotc_cleanup_mqtt env s))
                                              else (result, s\<lparr>is_connected := True,
                                                     client_status_cb := mqtt_status_cb c,
                                                     mqtt_inbound_msg_cb := mqtt_inbound_cb c\<rparr>))))))))"

end
