(* ===== verification/MqttMqProps.thy ===== *)
theory MqttMqProps
  imports MqttMq
begin

text \<open>
  Lemmas about the message queue: an abstraction of the queue to the list of (topic, payload)
  pairs it holds, the invariant that ties the queued pointers to the memory, the effect of every operation
  on both, and the step relation of the module. \<open>message_consumer\<close> is the interface between
  the queue and the callback that consumes the messages, \<open>message_sink\<close> the case of a callback that makes one output of each.
\<close>

section \<open>Abstraction and invariant\<close>

definition msg_blocks :: "mq_msg \<Rightarrow> addr list" where
  "msg_blocks m =
     (case m_topic m of Some a \<Rightarrow> [a] | None \<Rightarrow> []) @ (case m_message m of Some a \<Rightarrow> [a] | None \<Rightarrow> [])"

definition msg_content :: "'z sdk_base_scheme \<Rightarrow> mq_msg \<Rightarrow> string \<times> string" where
  "msg_content s m =
     (c_string (the (heap s (the (m_topic m)))), take (m_len m) (the (heap s (the (m_message m)))))"

definition msg_ok :: "'z sdk_base_scheme \<Rightarrow> mq_msg \<Rightarrow> bool" where
  "msg_ok s m \<longleftrightarrow>
     (case (m_topic m, m_message m) of
        (Some a, Some b) \<Rightarrow> a \<noteq> b \<and> heap s a \<noteq> None \<and> heap s b \<noteq> None
      | _ \<Rightarrow> False)"

definition queued :: "('q \<Rightarrow> mq_msg list option) \<Rightarrow> ('q, 'z) mq_state_scheme \<Rightarrow> mq_msg list" where
  "queued items s = the (items (cy_queue s))"

text \<open>What the queue promises: it holds a list of topics and payloads.\<close>

definition mq_contents ::
    "('q \<Rightarrow> mq_msg list option) \<Rightarrow> ('q, 'z) mq_state_scheme \<Rightarrow> (string \<times> string) list" where
  "mq_contents items s = map (msg_content s) (queued items s)"

definition mq_blocks :: "('q \<Rightarrow> mq_msg list option) \<Rightarrow> ('q, 'z) mq_state_scheme \<Rightarrow> addr list" where
  "mq_blocks items s = concat (map msg_blocks (queued items s))"

text \<open>
  A live queue within its size, every queued pointer owned by exactly one message and pointing
  to a live block.
\<close>

definition mq_ok ::
    "('q \<Rightarrow> mq_msg list option) \<Rightarrow> ('q \<Rightarrow> nat) \<Rightarrow> ('q, 'z) mq_state_scheme \<Rightarrow> bool" where
  "mq_ok items cap s \<longleftrightarrow>
     heap_ok s \<and> items (cy_queue s) \<noteq> None \<and> length (queued items s) \<le> cap (cy_queue s)
     \<and> distinct (mq_blocks items s) \<and> (\<forall>m \<in> set (queued items s). msg_ok s m)"

section \<open>Frames\<close>

lemma more_mq:
  fixes s t :: "('q, 'z) mq_state_scheme"
  assumes "sdk_base.more t = sdk_base.more s"
  shows "cy_queue t = cy_queue s" "is_initialized t = is_initialized s"
    "client_msg_cb t = client_msg_cb s" "mq_state.more t = mq_state.more s"
proof -
  obtain l h n q i c m where s: "s = \<lparr>log = l, heap = h, next_addr = n, cy_queue = q,
      is_initialized = i, client_msg_cb = c, \<dots> = m\<rparr>" by (cases s)
  obtain l' h' n' q' i' c' m' where t: "t = \<lparr>log = l', heap = h', next_addr = n', cy_queue = q',
      is_initialized = i', client_msg_cb = c', \<dots> = m'\<rparr>" by (cases t)
  have "q' = q \<and> i' = i \<and> c' = c \<and> m' = m"
    using assms unfolding s t by (simp only: sdk_base.select_convs mq_state.ext_inject simp_thms)
  then show "cy_queue t = cy_queue s" "is_initialized t = is_initialized s"
    "client_msg_cb t = client_msg_cb s" "mq_state.more t = mq_state.more s"
    unfolding s t by (simp_all only: mq_state.select_convs)
qed

lemma mq_emit_frame [simp]:
  "cy_queue (sdk_emit e s) = cy_queue s" "is_initialized (sdk_emit e s) = is_initialized s"
  "client_msg_cb (sdk_emit e s) = client_msg_cb s"
  "mq_state.more (sdk_emit e s) = mq_state.more s"
  by (simp_all add: sdk_emit_def)

lemma mq_call_frame [simp]:
  "cy_queue (snd (call env c s)) = cy_queue s" "is_initialized (snd (call env c s)) = is_initialized s"
  "client_msg_cb (snd (call env c s)) = client_msg_cb s"
  by (simp_all add: call_def Let_def)

lemma mq_free_frame [simp]:
  "cy_queue (c_free a s) = cy_queue s" "is_initialized (c_free a s) = is_initialized s"
  "client_msg_cb (c_free a s) = client_msg_cb s"
  by (simp_all add: c_free_def Let_def)

lemma msg_heap_cong:
  assumes "heap t = heap s"
  shows "msg_ok t = msg_ok s" "msg_content t = msg_content s"
  by (simp_all only: msg_ok_def[abs_def] msg_content_def[abs_def] assms)

lemma mq_set_queue_frame [simp]:
  "heap_ok (s\<lparr>cy_queue := q\<rparr>) = heap_ok s"
  "msg_ok (s\<lparr>cy_queue := q\<rparr>) = msg_ok s"
  "msg_content (s\<lparr>cy_queue := q\<rparr>) = msg_content s"
proof -
  show "heap_ok (s\<lparr>cy_queue := q\<rparr>) = heap_ok s" by (simp add: heap_ok_def)
qed (rule msg_heap_cong, simp)+

lemma destroy_more [simp]:
  "sdk_base.more (snd (iotc_mq_destroy_message m s)) = sdk_base.more s"
  by (simp add: iotc_mq_destroy_message_def Let_def split: option.split)

lemma destroy_heap_ok: "heap_ok s \<Longrightarrow> heap_ok (snd (iotc_mq_destroy_message m s))"
  by (simp add: iotc_mq_destroy_message_def Let_def heap_ok_free split: option.split)

text \<open>Destroying a message releases its two blocks and nothing else.\<close>

lemma destroy_msg_ok:
  assumes "msg_ok s m"
  shows "heap (snd (iotc_mq_destroy_message m s)) = heap s |` (- set (msg_blocks m))
    \<and> faults (log (snd (iotc_mq_destroy_message m s))) = faults (log s)"
proof -
  obtain a b where m: "m_topic m = Some a" "m_message m = Some b" "a \<noteq> b"
      and live: "heap s a \<noteq> None" "heap s b \<noteq> None"
    using assms by (auto simp: msg_ok_def split: option.splits)
  have a: "heap (c_free a s) = (heap s)(a := None)" "faults (log (c_free a s)) = faults (log s)"
    using free_live[OF live(1)] by simp_all
  then have "heap (c_free a s) b \<noteq> None" using m(3) live(2) by simp
  from free_live[OF this] a m show ?thesis
    by (simp add: iotc_mq_destroy_message_def Let_def msg_blocks_def restrict_map_def fun_eq_iff)
qed

lemma create_spec:
  assumes "heap_ok s" and "n \<le> length bs"
    and "iotc_mq_create_message env (Some tp) bs n s = (ok, msg, t)"
  shows "heap_ok t \<and> faults (log t) = faults (log s) \<and> sdk_base.more t = sdk_base.more s
    \<and> (if ok then msg = \<lparr>m_topic = Some (next_addr s), m_message = Some (Suc (next_addr s)), m_len = n\<rparr>
             \<and> heap t = (heap s)(next_addr s \<mapsto> c_string tp @ [CHR 0x00], Suc (next_addr s) \<mapsto> take n bs)
       else heap t = heap s)"
proof -
  obtain p u where p: "alloc env (c_string tp @ [CHR 0x00]) s = (p, u)" by fastforce
  obtain q v where q: "alloc env (take n bs) u = (q, v)" by fastforce
  have hv: "heap_ok u" "heap_ok v"
    using heap_ok_alloc[OF assms(1), of env "c_string tp @ [CHR 0x00]"]
      heap_ok_alloc[of u env "take n bs"] p q by simp_all
  have mv: "sdk_base.more v = sdk_base.more s"
    using more_alloc[of env "c_string tp @ [CHR 0x00]" s] more_alloc[of env "take n bs" u] p q by simp
  have fresh: "heap s (next_addr s) = None" using assms(1) by (rule heap_ok_fresh)
  consider (both) "p = Some (next_addr s)" "q = Some (Suc (next_addr s))"
      "heap v = (heap s)(next_addr s \<mapsto> c_string tp @ [CHR 0x00], Suc (next_addr s) \<mapsto> take n bs)"
      "faults (log v) = faults (log s)"
    | (first) "p = Some (next_addr s)" "q = None"
      "heap v = (heap s)(next_addr s \<mapsto> c_string tp @ [CHR 0x00])" "faults (log v) = faults (log s)"
    | (second) "p = None" "q = Some (next_addr s)"
      "heap v = (heap s)(next_addr s \<mapsto> take n bs)" "faults (log v) = faults (log s)"
    | (none) "p = None" "q = None" "heap v = heap s" "faults (log v) = faults (log s)"
    using alloc_cases[OF p] alloc_cases[OF q] by metis
  then show ?thesis
  proof cases
    case both
    then show ?thesis
      using assms(2,3) hv mv
      by (auto simp: iotc_mq_create_message_def iotcl_strdup_def p q)
  next
    case first
    then show ?thesis
      using assms(3) hv mv fresh free_live[of v "next_addr s"]
      by (auto simp: iotc_mq_create_message_def iotcl_strdup_def p q iotc_mq_destroy_message_def
          heap_ok_free)
  next
    case second
    then show ?thesis
      using assms(3) hv mv fresh free_live[of v "next_addr s"]
      by (auto simp: iotc_mq_create_message_def iotcl_strdup_def p q iotc_mq_destroy_message_def
          heap_ok_free)
  next
    case none
    then show ?thesis
      using assms(3) hv mv
      by (auto simp: iotc_mq_create_message_def iotcl_strdup_def p q iotc_mq_destroy_message_def)
  qed
qed


section \<open>The effect of each operation\<close>

lemma queue_cap:
  assumes "queue_laws api items cap"
  shows queue_empty_code: "CY_RTOS_QUEUE_EMPTY api \<noteq> CY_RSLT_SUCCESS"
    and queue_init: "cy_rtos_init_queue api n q = (CY_RSLT_SUCCESS, q')
      \<Longrightarrow> items q' = Some [] \<and> cap q' = n"
    and queue_put: "items q = Some xs \<Longrightarrow> cy_rtos_put_queue api m t q = (r, q') \<Longrightarrow> cap q' = cap q \<and>
          (if length xs < cap q then r = CY_RSLT_SUCCESS \<and> items q' = Some (xs @ [m])
           else r \<noteq> CY_RSLT_SUCCESS \<and> items q' = Some xs)"
    and queue_get: "items q = Some (x # xs) \<Longrightarrow>
          \<exists>q'. cy_rtos_get_queue api t q = Some (CY_RSLT_SUCCESS, x, q')
             \<and> items q' = Some xs \<and> cap q' = cap q"
    and queue_get_empty: "items q = Some [] \<Longrightarrow> t \<noteq> 0 \<Longrightarrow>
          \<exists>r m q'. cy_rtos_get_queue api t q = Some (r, m, q') \<and> r \<noteq> CY_RSLT_SUCCESS
             \<and> items q' = Some [] \<and> cap q' = cap q"
    and queue_get_blocks: "items q = Some [] \<Longrightarrow> cy_rtos_get_queue api 0 q = None"
    and queue_deinit: "items q \<noteq> None \<Longrightarrow> items (snd (cy_rtos_deinit_queue api q)) = None"
  using assms unfolding queue_laws_def by blast+

lemma msg_content_heap:
  "msg_ok s m \<Longrightarrow> (\<And>a. a \<in> set (msg_blocks m) \<Longrightarrow> heap t a = heap s a) \<Longrightarrow>
     msg_ok t m \<and> msg_content t m = msg_content s m"
  by (auto simp: msg_ok_def msg_content_def msg_blocks_def split: option.splits)

lemma msg_ok_blocks: "msg_ok s m \<Longrightarrow> a \<in> set (msg_blocks m) \<Longrightarrow> heap s a \<noteq> None"
  by (auto simp: msg_ok_def msg_blocks_def split: option.splits)

lemma mq_ok_blocks_live:
  "mq_ok items cap s \<Longrightarrow> a \<in> set (mq_blocks items s) \<Longrightarrow> heap s a \<noteq> None"
  by (auto simp: mq_ok_def mq_blocks_def dest: msg_ok_blocks)

text \<open>The queue and its memory are unaffected by a change of the rest of the state.\<close>

lemma mq_ok_frame:
  assumes "mq_ok items cap s" and "heap_ok t" and "cy_queue t = cy_queue s"
    and "\<And>a. a \<in> set (mq_blocks items s) \<Longrightarrow> heap t a = heap s a"
  shows "mq_ok items cap t \<and> mq_contents items t = mq_contents items s"
proof -
  have "msg_ok t m \<and> msg_content t m = msg_content s m" if "m \<in> set (queued items s)" for m
    using assms(1,4) that by (intro msg_content_heap) (auto simp: mq_ok_def mq_blocks_def)
  moreover have "queued items t = queued items s" using assms(3) by (simp add: queued_def)
  ultimately show ?thesis
    using assms by (simp add: mq_ok_def mq_contents_def mq_blocks_def)
qed

text \<open>
  What a message from the MQTT thread does: it is appended with exact copies of topic and
  payload, or the state is as before.
\<close>

text \<open>A copy lives in two fresh blocks; everything that was queued is as before.\<close>

lemma create_fresh:
  assumes "mq_ok items cap s" and "n \<le> length bs"
    and "iotc_mq_create_message env (Some tp) bs n s = (True, m, u)"
  shows "heap_ok u" "faults (log u) = faults (log s)" "sdk_base.more u = sdk_base.more s"
    and "msg_ok u m" "msg_content u m = (c_string tp, take n bs)" "distinct (msg_blocks m)"
    and "set (msg_blocks m) \<inter> dom (heap s) = {}" "heap u |` (- set (msg_blocks m)) = heap s"
    and "dom (heap u) = dom (heap s) \<union> set (msg_blocks m)"
    and "mq_ok items cap u" "mq_contents items u = mq_contents items s"
proof -
  have hs: "heap_ok s" using assms(1) by (simp add: mq_ok_def)
  note u = create_spec[OF hs assms(2,3)]
  have fresh: "heap s (next_addr s) = None" "heap s (Suc (next_addr s)) = None" using hs by (auto simp: heap_ok_def)
  show h: "heap_ok u" "faults (log u) = faults (log s)" and m: "sdk_base.more u = sdk_base.more s" using u by simp_all
  show "msg_ok u m" "msg_content u m = (c_string tp, take n bs)" "distinct (msg_blocks m)"
    using u by (simp_all add: msg_ok_def msg_blocks_def msg_content_def)
  show new: "set (msg_blocks m) \<inter> dom (heap s) = {}"
    using u fresh by (auto simp: msg_blocks_def)
  show old: "heap u |` (- set (msg_blocks m)) = heap s"
    using u fresh by (auto simp: msg_blocks_def restrict_map_def fun_eq_iff)
  show "dom (heap u) = dom (heap s) \<union> set (msg_blocks m)" using u by (auto simp: msg_blocks_def)
  have "heap u a = heap s a" if "a \<in> set (mq_blocks items s)" for a
    using mq_ok_blocks_live[OF assms(1) that] new fun_cong[OF old, of a] by (auto simp: restrict_map_def split: if_splits)
  then show "mq_ok items cap u" "mq_contents items u = mq_contents items s"
    using mq_ok_frame[OF assms(1) h(1) more_mq(1)[OF m]] by simp_all
qed

lemma inbound_queued:
  assumes "mq_ok items cap s" and "n \<le> length bs"
    and "iotc_mq_create_message env (Some tp) bs n s = (True, m, u)"
    and "items (cy_queue s) = Some xs" and "length xs < cap (cy_queue s)"
    and "items q = Some (xs @ [m])" "cap q = cap (cy_queue s)" and "t = u\<lparr>cy_queue := q\<rparr>"
  shows "mq_ok items cap t" "mq_contents items t = mq_contents items s @ [(c_string tp, take n bs)]"
    and "dom (heap t) = dom (heap s) \<union> set (mq_blocks items t)"
proof -
  note u = create_fresh[OF assms(1-3)]
  have uq: "cy_queue u = cy_queue s" using more_mq(1)[OF u(3)] .
  have queued: "queued items t = xs @ [m]" "queued items u = xs" "queued items s = xs"
    using assms(4,6) uq by (simp_all add: queued_def assms(8))
  have h: "heap t = heap u" "next_addr t = next_addr u" by (simp_all add: assms(8))
  then have eq: "msg_content t = msg_content u" "msg_ok t = msg_ok u" "heap_ok t = heap_ok u" "cy_queue t = q"
    by (simp_all only: msg_heap_cong[of t u] heap_ok_def) (simp add: assms(8))
  have blocks: "mq_blocks items t = mq_blocks items u @ msg_blocks m" "mq_blocks items u = mq_blocks items s"
    by (simp_all add: mq_blocks_def queued)
  have apart: "set (mq_blocks items s) \<inter> set (msg_blocks m) = {}"
    using mq_ok_blocks_live[OF assms(1)] u(7) by (auto simp: disjoint_iff)
  then show "mq_ok items cap t"
    using u(1,4,6,10) assms(5-7) by (auto simp: mq_ok_def queued eq blocks)
  show "mq_contents items t = mq_contents items s @ [(c_string tp, take n bs)]"
    using u(5,11) by (simp add: mq_contents_def queued eq)
  show "dom (heap t) = dom (heap s) \<union> set (mq_blocks items t)"
    using u(9) mq_ok_blocks_live[OF assms(1)] by (auto simp: h blocks)
qed

lemma inbound_rejected:
  assumes "mq_ok items cap s" and "n \<le> length bs"
    and "iotc_mq_create_message env (Some tp) bs n s = (True, m, u)"
    and "items q = items (cy_queue s)" "cap q = cap (cy_queue s)"
    and "t = snd (iotc_mq_destroy_message m (u\<lparr>cy_queue := q\<rparr>))"
  shows "mq_ok items cap t" "mq_contents items t = mq_contents items s" "heap t = heap s"
    and "faults (log t) = faults (log s)" "cy_queue t = q" "client_msg_cb t = client_msg_cb s"
proof -
  note u = create_fresh[OF assms(1-3)]
  have "msg_ok (u\<lparr>cy_queue := q\<rparr>) m" using u(4) by simp
  from destroy_msg_ok[OF this] u(2,8)
  show h: "heap t = heap s" and "faults (log t) = faults (log s)" by (simp_all add: assms(6))
  show tq: "cy_queue t = q" "client_msg_cb t = client_msg_cb s"
    using more_mq[of t "u\<lparr>cy_queue := q\<rparr>"] more_mq[OF u(3)] by (simp_all add: assms(6))
  have "heap_ok t" using u(1) unfolding assms(6) by (intro destroy_heap_ok) simp
  then show "mq_ok items cap t" "mq_contents items t = mq_contents items s"
    using assms(1,4,5) msg_heap_cong[OF h] by (simp_all add: mq_ok_def mq_contents_def mq_blocks_def queued_def tq)
qed

lemma inbound_effect:
  assumes "queue_laws api items cap" and "mq_ok items cap s"
    and "client_msg_cb s \<noteq> None" and "0 < n" and "n \<le> length bs"
    and "t = iotc_mq_on_mqtt_inbound_message env api (Some tp) (Some bs) n s"
  shows "mq_ok items cap t \<and> faults (log t) = faults (log s)
    \<and> client_msg_cb t = client_msg_cb s \<and> cap (cy_queue t) = cap (cy_queue s)
    \<and> (\<forall>a. heap s a \<noteq> None \<longrightarrow> heap t a = heap s a)
    \<and> (mq_contents items t = mq_contents items s @ [(c_string tp, take n bs)]
         \<and> length (mq_contents items s) < cap (cy_queue s)
         \<and> dom (heap t) = dom (heap s) \<union> set (mq_blocks items t)
       \<or> mq_contents items t = mq_contents items s \<and> heap t = heap s)"
proof -
  obtain ok m u where c: "iotc_mq_create_message env (Some tp) bs n s = (ok, m, u)"
    by (metis prod_cases3)
  obtain xs where xs: "items (cy_queue s) = Some xs" using assms(2) by (auto simp: mq_ok_def)
  have hs: "heap_ok s" using assms(2) by (simp add: mq_ok_def)
  note u = create_spec[OF hs assms(5) c]
  have more: "cy_queue u = cy_queue s" "client_msg_cb u = client_msg_cb s"
    using u more_mq[of u s] by simp_all
  obtain r q where r: "cy_rtos_put_queue api m IOTC_MQ_PUT_TIMEOUT (cy_queue s) = (r, q)" by fastforce
  note put = queue_put[OF assms(1) xs r]
  consider "\<not> ok" | "ok" "length xs < cap (cy_queue s)" | "ok" "\<not> length xs < cap (cy_queue s)" by blast
  then show ?thesis
  proof cases
    case 1
    then have t: "t = u" using assms(3,4,6) c by (auto simp: iotc_mq_on_mqtt_inbound_message_def)
    have "mq_ok items cap u \<and> mq_contents items u = mq_contents items s"
      using mq_ok_frame[OF assms(2), of u] u more 1 by simp
    then show ?thesis using u more 1 by (simp add: t)
  next
    case 2
    with put have q: "r = CY_RSLT_SUCCESS" "items q = Some (xs @ [m])" "cap q = cap (cy_queue s)" by simp_all
    have t: "t = u\<lparr>cy_queue := q\<rparr>"
      using assms(3,4,6) c 2(1) r q(1) more(1) by (auto simp: iotc_mq_on_mqtt_inbound_message_def)
    note i = inbound_queued[OF assms(2,5) _ xs 2(2) q(2,3) t, of env tp]
    have "heap t a = heap s a" if "heap s a \<noteq> None" for a
      using u 2(1) that hs by (auto simp: t heap_ok_def)
    then show ?thesis using i u more q xs c 2 by (simp add: t mq_contents_def queued_def)
  next
    case 3
    with put have q: "r \<noteq> CY_RSLT_SUCCESS" "items q = items (cy_queue s)" "cap q = cap (cy_queue s)"
      using xs by simp_all
    have t: "t = snd (iotc_mq_destroy_message m (u\<lparr>cy_queue := q\<rparr>))"
      using assms(3,4,6) c 3(1) r q(1) more(1) by (auto simp: iotc_mq_on_mqtt_inbound_message_def)
    show ?thesis using inbound_rejected[OF assms(2,5) _ q(2,3) t, of env tp] c 3(1) q(3) by simp
  qed
qed

text \<open>Taking the oldest message out of the queue.\<close>

lemma mq_ok_take:
  assumes "mq_ok items cap s" and "items (cy_queue s) = Some (x # xs)"
    and "items q = Some xs" and "cap q = cap (cy_queue s)"
  shows "mq_ok items cap (s\<lparr>cy_queue := q\<rparr>)"
    and "mq_contents items s = msg_content s x # mq_contents items (s\<lparr>cy_queue := q\<rparr>)"
    and "mq_blocks items s = msg_blocks x @ mq_blocks items (s\<lparr>cy_queue := q\<rparr>)"
    and "msg_ok s x"
    and "set (msg_blocks x) \<inter> set (mq_blocks items (s\<lparr>cy_queue := q\<rparr>)) = {}"
  using assms by (auto simp: mq_ok_def mq_contents_def mq_blocks_def queued_def)

text \<open>Flushing ends, empties the queue, frees exactly the queued blocks.\<close>

lemma flush_effect:
  assumes "queue_laws api items cap" and "mq_ok items cap s"
  shows "\<exists>t. iotc_mq_flush api s = Some t \<and> mq_ok items cap t \<and> items (cy_queue t) = Some []
    \<and> heap t = heap s |` (- set (mq_blocks items s)) \<and> faults (log t) = faults (log s)
    \<and> client_msg_cb t = client_msg_cb s \<and> is_initialized t = is_initialized s
    \<and> cap (cy_queue t) = cap (cy_queue s) \<and> mq_state.more t = mq_state.more s"
proof -
  obtain ms where "items (cy_queue s) = Some ms" using assms(2) by (auto simp: mq_ok_def)
  with assms(2) show ?thesis
  proof (induction ms arbitrary: s)
    case Nil
    obtain r m q where g: "cy_rtos_get_queue api 1 (cy_queue s) = Some (r, m, q)"
        "r \<noteq> CY_RSLT_SUCCESS" "items q = Some []" "cap q = cap (cy_queue s)"
      using queue_get_empty[OF assms(1) Nil(2), of 1] by auto
    have b: "mq_blocks items s = []" using Nil(2) by (simp add: mq_blocks_def queued_def)
    have "mq_ok items cap (s\<lparr>cy_queue := q\<rparr>)"
      using Nil g by (simp add: mq_ok_def mq_blocks_def queued_def)
    then show ?case
      using g by (subst iotc_mq_flush.simps) (simp add: b restrict_map_def)
  next
    case (Cons x xs)
    obtain q where g: "cy_rtos_get_queue api 1 (cy_queue s) = Some (CY_RSLT_SUCCESS, x, q)"
        "items q = Some xs" "cap q = cap (cy_queue s)"
      using queue_get[OF assms(1) Cons(3), of 1] by auto
    let ?s1 = "s\<lparr>cy_queue := q\<rparr>"
    let ?s2 = "snd (iotc_mq_destroy_message x ?s1)"
    note take = mq_ok_take[OF Cons(2,3) g(2,3)]
    have d: "heap ?s2 = heap s |` (- set (msg_blocks x))" "faults (log ?s2) = faults (log s)"
      using destroy_msg_ok[of ?s1 x] take(4) by simp_all
    have m: "cy_queue ?s2 = q" "client_msg_cb ?s2 = client_msg_cb s" "is_initialized ?s2 = is_initialized s"
      using more_mq[of ?s2 ?s1] by simp_all
    have mm: "mq_state.more ?s2 = mq_state.more s"
      using more_mq(4)[of ?s2 ?s1] by simp
    have "heap_ok ?s2" using Cons(2) by (intro destroy_heap_ok) (simp add: mq_ok_def)
    moreover have "heap ?s2 a = heap ?s1 a" if "a \<in> set (mq_blocks items ?s1)" for a
      using that take(5) by (auto simp: d restrict_map_def)
    ultimately have "mq_ok items cap ?s2"
      using mq_ok_frame[OF take(1), of ?s2] m by simp
    with Cons.IH[of ?s2] m g obtain t where t: "iotc_mq_flush api ?s2 = Some t"
        "mq_ok items cap t" "items (cy_queue t) = Some []"
        "heap t = heap ?s2 |` (- set (mq_blocks items ?s2))" "faults (log t) = faults (log ?s2)"
        "client_msg_cb t = client_msg_cb s" "is_initialized t = is_initialized s"
        "cap (cy_queue t) = cap q" "mq_state.more t = mq_state.more s"
      by (auto simp: mm)
    have "mq_blocks items ?s2 = mq_blocks items ?s1" by (simp add: mq_blocks_def queued_def m)
    then have "heap t = heap s |` (- set (mq_blocks items s))"
      by (simp add: t(4) d take(3) Int_commute)
    then show ?case
      using t g d by (subst iotc_mq_flush.simps) simp
  qed
qed

lemma mq_ok_set_cb [simp]: "mq_ok items cap (s\<lparr>client_msg_cb := cb\<rparr>) = mq_ok items cap s"
proof -
  have "heap (s\<lparr>client_msg_cb := cb\<rparr>) = heap s" by simp
  from msg_heap_cong[OF this] show ?thesis
    by (simp add: mq_ok_def queued_def mq_blocks_def heap_ok_def)
qed

lemma deinit_effect:
  assumes "queue_laws api items cap" and "mq_ok items cap s" and "is_initialized s"
  shows "\<exists>t. iotc_mq_deinit api s = Some t
    \<and> heap t = heap s |` (- set (mq_blocks items s)) \<and> faults (log t) = faults (log s)
    \<and> items (cy_queue t) = None \<and> \<not> is_initialized t \<and> client_msg_cb t = None
    \<and> heap_ok t \<and> mq_state.more t = mq_state.more s"
proof -
  obtain u where u: "iotc_mq_flush api s = Some u" "mq_ok items cap u" "items (cy_queue u) = Some []"
      "heap u = heap s |` (- set (mq_blocks items s))" "faults (log u) = faults (log s)"
      "is_initialized u = is_initialized s" "mq_state.more u = mq_state.more s"
    using flush_effect[OF assms(1,2)] by auto
  let ?v = "u\<lparr>client_msg_cb := None\<rparr>"
  have "mq_ok items cap ?v" using u(2) by simp
  with flush_effect[OF assms(1), of ?v] obtain w where w: "iotc_mq_flush api ?v = Some w"
      "items (cy_queue w) = Some []" "heap w = heap ?v |` (- set (mq_blocks items ?v))"
      "faults (log w) = faults (log u)" "client_msg_cb w = None" "is_initialized w = is_initialized s"
      "heap_ok w" "mq_state.more w = mq_state.more u"
    using u(6) by (auto simp: mq_ok_def)
  have "mq_blocks items ?v = []" using u(3) by (simp add: mq_blocks_def queued_def)
  then have "heap w = heap u" using w(3) by (simp add: restrict_map_def)
  then show ?thesis
    using u w assms(3) queue_deinit[OF assms(1), of "cy_queue w"]
    by (simp add: iotc_mq_deinit_def iotc_mq_deregister_def heap_ok_def)
qed

section \<open>The interface to the consumer\<close>

text \<open>
  What the queue relies on in the callback. The queue itself logs only \<open>quiet_event\<close>s. On a message that is \<open>stuck\<close> it does not return; on any
  other it returns, its effect \<open>seen\<close> in the log grows by what it makes of the message, it
  keeps its hands off the queue, and it leaves the memory it does not own as it is. What it makes of a
  message may depend on the layers above (\<open>mq_state.more\<close>), which it does not change.
\<close>

definition quiet_event :: "sdk_event \<Rightarrow> bool" where
  "quiet_event e \<longleftrightarrow> (case e of Diag m r \<Rightarrow> True | Alloc n ok \<Rightarrow> True | Free a \<Rightarrow> True | Fault m \<Rightarrow> True | _ \<Rightarrow> False)"

lemma quiet_events [simp]:
  "quiet_event (Diag m r)" "quiet_event (Alloc n ok)" "quiet_event (Free a)" "quiet_event (Fault m)"
  by (simp_all add: quiet_event_def)

locale message_consumer =
  fixes invoke :: "inbound_cb \<Rightarrow> string \<Rightarrow> string \<Rightarrow> ('q, 'z) mq_state_scheme
      \<Rightarrow> ('q, 'z) mq_state_scheme option"
    and cb :: inbound_cb
    and seen :: "sdk_event list \<Rightarrow> 'o list"
    and view :: "('q, 'z) mq_state_scheme \<Rightarrow> string \<times> string \<Rightarrow> 'o list"
    and stuck :: "string \<times> string \<Rightarrow> bool"
  assumes invoke_stuck: "stuck (tp, pl) \<Longrightarrow> invoke cb tp pl s = None"
    and invoke_returns: "\<not> stuck (tp, pl) \<Longrightarrow>
      \<exists>t. invoke cb tp pl s = Some t \<and> seen (log t) = seen (log s) @ view s (tp, pl)
      \<and> cy_queue t = cy_queue s \<and> client_msg_cb t = client_msg_cb s
      \<and> is_initialized t = is_initialized s \<and> mq_state.more t = mq_state.more s
      \<and> (\<forall>a. heap s a \<noteq> None \<longrightarrow> heap t a = heap s a) \<and> faults (log t) = faults (log s)
      \<and> (heap_ok s \<longrightarrow> heap_ok t)"
    and view_more: "mq_state.more t = mq_state.more s \<Longrightarrow> view t = view s"
    and seen_quiet: "quiet_event e \<Longrightarrow> seen (es @ [e]) = seen es"
begin

lemma seen_emit [simp]: "quiet_event e \<Longrightarrow> seen (log (sdk_emit e s)) = seen (log s)"
  by (simp add: log_sdk_emit seen_quiet)

lemma call_client_ok:
  assumes "client_msg_cb s = Some cb" and "msg_ok s m"
  shows "call_client invoke m s = invoke cb (fst (msg_content s m)) (snd (msg_content s m)) s"
proof -
  obtain a b x y where "m_topic m = Some a" "m_message m = Some b" "heap s a = Some x" "heap s b = Some y"
    using assms(2) by (auto simp: msg_ok_def split: option.splits)
  then show ?thesis
    using assms(1) by (simp add: call_client_def read_block_def msg_content_def)
qed

text \<open>What a poll does to the queue and through the callback, when it returns.\<close>

definition served :: "('q \<Rightarrow> mq_msg list option) \<Rightarrow> ('q \<Rightarrow> nat) \<Rightarrow> ('q, 'z) mq_state_scheme
    \<Rightarrow> ('q, 'z) mq_state_scheme \<Rightarrow> bool" where
  "served items cap s t \<longleftrightarrow>
    seen (log t) = seen (log s) @ concat (map (view s) (mq_contents items s))
    \<and> mq_ok items cap t \<and> items (cy_queue t) = Some [] \<and> client_msg_cb t = Some cb
    \<and> cap (cy_queue t) = cap (cy_queue s) \<and> is_initialized t = is_initialized s
    \<and> mq_state.more t = mq_state.more s \<and> faults (log t) = faults (log s)
    \<and> (\<forall>a. heap s a \<noteq> None \<longrightarrow> heap t a = heap s a)"

lemma process_empty:
  assumes "queue_laws api items cap" and "mq_ok items cap s" and "timeout_ms \<noteq> 0"
    and "client_msg_cb s = Some cb" and "items (cy_queue s) = Some []"
  shows "\<exists>t. process_loop api invoke timeout_ms s = Some t \<and> served items cap s t"
proof -
  obtain r m q where g: "cy_rtos_get_queue api timeout_ms (cy_queue s) = Some (r, m, q)"
      "r \<noteq> CY_RSLT_SUCCESS" "items q = Some []" "cap q = cap (cy_queue s)"
    using queue_get_empty[OF assms(1,5,3)] by auto
  let ?s1 = "s\<lparr>cy_queue := q\<rparr>"
  have ok: "mq_ok items cap ?s1" using assms(2,5) g by (simp add: mq_ok_def mq_blocks_def queued_def)
  have "process_loop api invoke timeout_ms s =
      Some (if r = CY_RTOS_QUEUE_EMPTY api then ?s1 else report_get_error api ?s1)"
    using g by (subst process_loop.simps) simp
  moreover have "mq_contents items s = []" using assms(5) by (simp add: mq_contents_def queued_def)
  moreover have "mq_ok items cap (sdk_emit e ?s1)" for e
    using mq_ok_frame[OF ok, of "sdk_emit e ?s1"] ok by (simp add: mq_ok_def)
  ultimately show ?thesis
    using ok assms(4) g
    by (simp add: served_def report_get_error_def split: prod.split)
qed

text \<open>One turn of the loop: the oldest message is taken and the callback called with it.\<close>

lemma process_turn:
  assumes "queue_laws api items cap" and "mq_ok items cap s" and "client_msg_cb s = Some cb"
    and "items (cy_queue s) = Some (x # xs)"
  obtains q where "mq_ok items cap (s\<lparr>cy_queue := q\<rparr>)" and "items q = Some xs" and "cap q = cap (cy_queue s)"
    and "mq_contents items s = msg_content s x # mq_contents items (s\<lparr>cy_queue := q\<rparr>)"
    and "process_loop api invoke timeout_ms s =
      Option.bind (invoke cb (fst (msg_content s x)) (snd (msg_content s x)) (s\<lparr>cy_queue := q\<rparr>))
        (process_loop api invoke timeout_ms)"
proof -
  obtain q where g: "cy_rtos_get_queue api timeout_ms (cy_queue s) = Some (CY_RSLT_SUCCESS, x, q)"
      "items q = Some xs" "cap q = cap (cy_queue s)"
    using queue_get[OF assms(1,4), of timeout_ms] by auto
  note take = mq_ok_take[OF assms(2,4) g(2,3)]
  have "call_client invoke x (s\<lparr>cy_queue := q\<rparr>)
      = invoke cb (fst (msg_content s x)) (snd (msg_content s x)) (s\<lparr>cy_queue := q\<rparr>)"
    using call_client_ok[of "s\<lparr>cy_queue := q\<rparr>" x] assms(3) take(4) by simp
  then have "process_loop api invoke timeout_ms s =
      Option.bind (invoke cb (fst (msg_content s x)) (snd (msg_content s x)) (s\<lparr>cy_queue := q\<rparr>))
        (process_loop api invoke timeout_ms)"
    using g queue_empty_code[OF assms(1)] by (subst process_loop.simps) simp
  then show ?thesis using that take(1,2) g(2,3) by blast
qed

text \<open>A poll returns if no queued message is stuck, and then it has served the queue.\<close>

lemma process_outcome:
  assumes "queue_laws api items cap" and "mq_ok items cap s" and "timeout_ms \<noteq> 0"
    and "client_msg_cb s = Some cb"
  shows "if \<exists>x \<in> set (mq_contents items s). stuck x then iotc_mq_process api invoke timeout_ms s = None
    else \<exists>t. iotc_mq_process api invoke timeout_ms s = Some t \<and> served items cap s t"
proof -
  obtain ms where "items (cy_queue s) = Some ms" using assms(2) by (auto simp: mq_ok_def)
  with assms(2,4)
  have "if \<exists>x \<in> set (mq_contents items s). stuck x then process_loop api invoke timeout_ms s = None
    else \<exists>t. process_loop api invoke timeout_ms s = Some t \<and> served items cap s t"
  proof (induction ms arbitrary: s)
    case Nil
    have "mq_contents items s = []" using Nil(3) by (simp add: mq_contents_def queued_def)
    then show ?case using process_empty[OF assms(1) Nil(1) assms(3) Nil(2,3)] by simp
  next
    case (Cons x xs)
    obtain q where q: "mq_ok items cap (s\<lparr>cy_queue := q\<rparr>)" "items q = Some xs" "cap q = cap (cy_queue s)"
        "mq_contents items s = msg_content s x # mq_contents items (s\<lparr>cy_queue := q\<rparr>)"
        "process_loop api invoke timeout_ms s =
          Option.bind (invoke cb (fst (msg_content s x)) (snd (msg_content s x)) (s\<lparr>cy_queue := q\<rparr>))
            (process_loop api invoke timeout_ms)"
      using process_turn[OF assms(1) Cons.prems] by metis
    show ?case
    proof (cases "stuck (msg_content s x)")
      case True
      then show ?thesis using invoke_stuck[of "fst (msg_content s x)" "snd (msg_content s x)"] q(4,5) by simp
    next
      case False
      let ?s1 = "s\<lparr>cy_queue := q\<rparr>"
      obtain u where u: "invoke cb (fst (msg_content s x)) (snd (msg_content s x)) ?s1 = Some u"
          "seen (log u) = seen (log s) @ view ?s1 (msg_content s x)" "cy_queue u = q" "client_msg_cb u = Some cb"
          "\<forall>a. heap s a \<noteq> None \<longrightarrow> heap u a = heap s a" "heap_ok u" "is_initialized u = is_initialized s"
          "mq_state.more u = mq_state.more s" "faults (log u) = faults (log s)"
        using invoke_returns[of "fst (msg_content s x)" "snd (msg_content s x)" ?s1] Cons(2,3) False
        by (auto simp: mq_ok_def)
      have v: "view ?s1 = view s" "view u = view s" using u(8) by (auto intro!: view_more)
      have "heap u a = heap ?s1 a" if "a \<in> set (mq_blocks items ?s1)" for a
        using mq_ok_blocks_live[OF q(1) that] u(5) by simp
      then have c: "mq_ok items cap u" "mq_contents items u = mq_contents items ?s1"
        using mq_ok_frame[OF q(1) u(6)] u(3) by simp_all
      have l: "process_loop api invoke timeout_ms s = process_loop api invoke timeout_ms u" using q(5) u(1) by simp
      have "items (cy_queue u) = Some xs" using u(3) q(2) by simp
      note IH = Cons.IH[OF c(1) u(4) this]
      have "served items cap s t" if "served items cap u t" for t
        using that u q(3,4) c v by (auto simp: served_def)
      then show ?thesis using IH False q(4) c(2) by (auto simp: l split: if_splits)
    qed
  qed
  then show ?thesis using assms(4) by (simp add: iotc_mq_process_def)
qed

text \<open>With a timeout of 0 the loop blocks for ever once the queue is empty.\<close>

lemma process_zero:
  assumes "queue_laws api items cap" and "mq_ok items cap s" and "client_msg_cb s = Some cb"
  shows "iotc_mq_process api invoke 0 s = None"
proof -
  obtain ms where "items (cy_queue s) = Some ms" using assms(2) by (auto simp: mq_ok_def)
  with assms(2,3) have "process_loop api invoke 0 s = None"
  proof (induction ms arbitrary: s)
    case Nil
    then show ?case
      using queue_get_blocks[OF assms(1) Nil(3)] by (subst process_loop.simps) simp
  next
    case (Cons x xs)
    obtain q where q: "mq_ok items cap (s\<lparr>cy_queue := q\<rparr>)" "items q = Some xs"
        "process_loop api invoke 0 s =
          Option.bind (invoke cb (fst (msg_content s x)) (snd (msg_content s x)) (s\<lparr>cy_queue := q\<rparr>))
            (process_loop api invoke 0)"
      using process_turn[OF assms(1) Cons.prems] by metis
    let ?s1 = "s\<lparr>cy_queue := q\<rparr>"
    show ?case
    proof (cases "invoke cb (fst (msg_content s x)) (snd (msg_content s x)) ?s1")
      case None
      then show ?thesis using q(3) by simp
    next
      case (Some u)
      then have "\<not> stuck (msg_content s x)"
        using invoke_stuck[of "fst (msg_content s x)" "snd (msg_content s x)"] by auto
      then have u: "cy_queue u = q" "client_msg_cb u = Some cb" "heap_ok u"
          "\<forall>a. heap s a \<noteq> None \<longrightarrow> heap u a = heap s a"
        using invoke_returns[of "fst (msg_content s x)" "snd (msg_content s x)" ?s1] Cons(2,3) Some
        by (auto simp: mq_ok_def)
      have "heap u a = heap ?s1 a" if "a \<in> set (mq_blocks items ?s1)" for a
        using mq_ok_blocks_live[OF q(1) that] u(4) by simp
      then have "mq_ok items cap u" using mq_ok_frame[OF q(1) u(3)] u(1) by simp
      then show ?thesis using Cons.IH[of u] u(1,2) q(2,3) Some by simp
    qed
  qed
  then show ?thesis using assms(3) by (simp add: iotc_mq_process_def)
qed

end

text \<open>A consumer that always returns and makes one observation of each message.\<close>

locale message_sink =
  fixes invoke :: "inbound_cb \<Rightarrow> string \<Rightarrow> string \<Rightarrow> ('q, 'z) mq_state_scheme
      \<Rightarrow> ('q, 'z) mq_state_scheme option"
    and cb :: inbound_cb
    and seen :: "sdk_event list \<Rightarrow> 'o list"
    and view :: "string \<times> string \<Rightarrow> 'o"
  assumes sink_returns: "\<exists>t. invoke cb tp pl s = Some t \<and> seen (log t) = seen (log s) @ [view (tp, pl)]
      \<and> cy_queue t = cy_queue s \<and> client_msg_cb t = client_msg_cb s
      \<and> is_initialized t = is_initialized s \<and> mq_state.more t = mq_state.more s
      \<and> (\<forall>a. heap s a \<noteq> None \<longrightarrow> heap t a = heap s a) \<and> faults (log t) = faults (log s)
      \<and> (heap_ok s \<longrightarrow> heap_ok t)"
    and sink_quiet: "quiet_event e \<Longrightarrow> seen (es @ [e]) = seen es"

sublocale message_sink \<subseteq> consumer: message_consumer invoke cb seen "\<lambda>s x. [view x]" "\<lambda>x. False"
  by unfold_locales (rule sink_returns | simp add: sink_quiet)+

context message_sink
begin

lemma process_effect:
  assumes "queue_laws api items cap" and "mq_ok items cap s" and "timeout_ms \<noteq> 0"
    and "client_msg_cb s = Some cb"
  shows "\<exists>t. iotc_mq_process api invoke timeout_ms s = Some t
    \<and> seen (log t) = seen (log s) @ map view (mq_contents items s)
    \<and> mq_ok items cap t \<and> items (cy_queue t) = Some [] \<and> client_msg_cb t = Some cb
    \<and> cap (cy_queue t) = cap (cy_queue s) \<and> is_initialized t = is_initialized s
    \<and> mq_state.more t = mq_state.more s \<and> faults (log t) = faults (log s)
    \<and> (\<forall>a. heap s a \<noteq> None \<longrightarrow> heap t a = heap s a)"
  using consumer.process_outcome[OF assms] by (simp add: consumer.served_def)

lemmas process_zero = consumer.process_zero

end

text \<open>
  A callback of the application, observed: the call is recorded with what the callback can
  read.
\<close>

definition record_message ::
    "inbound_cb \<Rightarrow> string \<Rightarrow> string \<Rightarrow> ('q, 'z) mq_state_scheme \<Rightarrow> ('q, 'z) mq_state_scheme option" where
  "record_message cb tp pl s = Some (sdk_emit (Message_callback cb tp pl) s)"

definition messages :: "inbound_cb \<Rightarrow> sdk_event list \<Rightarrow> (string \<times> string) list" where
  "messages cb es = concat (map (\<lambda>e. case e of
     Message_callback cb' tp pl \<Rightarrow> (if cb' = cb then [(tp, pl)] else []) | _ \<Rightarrow> []) es)"

lemma messages_emit [simp]:
  "messages cb (log (sdk_emit e s)) = messages cb (log s) @ messages cb [e]"
  by (simp add: messages_def log_sdk_emit)

interpretation recorder: message_sink record_message cb "messages cb" id for cb
  by unfold_locales (simp add: record_message_def, simp_all add: messages_def log_sdk_emit quiet_event_def
    faults_Cons split: sdk_event.splits)

section \<open>Enqueueing several messages\<close>

definition inbound_all ::
    "sdk_env \<Rightarrow> 'q rtos_queue_api \<Rightarrow> (string \<times> string) list
       \<Rightarrow> ('q, 'z) mq_state_scheme \<Rightarrow> ('q, 'z) mq_state_scheme" where
  "inbound_all env api msgs s =
     fold (\<lambda>m. iotc_mq_on_mqtt_inbound_message env api (Some (fst m)) (Some (snd m)) (length (snd m)))
       msgs s"

text \<open>When memory is available a message is dropped only because the queue is full.\<close>

lemma inbound_accepts:
  assumes "queue_laws api items cap" and "mq_ok items cap s" and "client_msg_cb s \<noteq> None"
    and "bs \<noteq> []" and "env_alloc env = (\<lambda>_ _. True)"
    and "t = iotc_mq_on_mqtt_inbound_message env api (Some tp) (Some bs) (length bs) s"
  shows "mq_contents items t = (if length (mq_contents items s) < cap (cy_queue s)
           then mq_contents items s @ [(c_string tp, bs)] else mq_contents items s)"
proof -
  have n: "0 < length bs" "length bs \<le> length bs" using assms(4) by simp_all
  note effect = inbound_effect[OF assms(1-3) n assms(6)]
  obtain m u where c: "iotc_mq_create_message env (Some tp) bs (length bs) s = (True, m, u)"
    using assms(5) by (simp add: iotc_mq_create_message_def iotcl_strdup_def alloc_def Let_def)
  have "heap_ok s" using assms(2) by (simp add: mq_ok_def)
  from create_spec[OF this n(2) c] have q: "cy_queue u = cy_queue s"
    using more_mq[of u s] by simp
  have len: "length (mq_contents items t) = Suc (length (mq_contents items s))"
    if "length (mq_contents items s) < cap (cy_queue s)"
  proof -
    obtain xs where xs: "items (cy_queue s) = Some xs" using assms(2) by (auto simp: mq_ok_def)
    obtain r q' where r: "cy_rtos_put_queue api m IOTC_MQ_PUT_TIMEOUT (cy_queue s) = (r, q')" by fastforce
    have "r = CY_RSLT_SUCCESS" "items q' = Some (xs @ [m])"
      using queue_put[OF assms(1) xs r] that xs by (simp_all add: mq_contents_def queued_def)
    moreover from this have "cy_queue t = q'"
      using assms(3,4,6) c q r by (auto simp: iotc_mq_on_mqtt_inbound_message_def)
    ultimately show ?thesis using xs by (simp add: mq_contents_def queued_def)
  qed
  show ?thesis using effect len by auto
qed

lemma inbound_all_effect:
  assumes "queue_laws api items cap" and "env_alloc env = (\<lambda>_ _. True)"
  shows "mq_ok items cap s \<Longrightarrow> client_msg_cb s = Some cb \<Longrightarrow> \<forall>m \<in> set msgs. snd m \<noteq> [] \<Longrightarrow>
    mq_ok items cap (inbound_all env api msgs s)
    \<and> client_msg_cb (inbound_all env api msgs s) = Some cb
    \<and> cap (cy_queue (inbound_all env api msgs s)) = cap (cy_queue s)
    \<and> mq_contents items (inbound_all env api msgs s)
      = take (cap (cy_queue s)) (mq_contents items s @ map (map_prod c_string id) msgs)"
proof (induction msgs arbitrary: s)
  case Nil
  then show ?case by (simp add: inbound_all_def mq_ok_def mq_contents_def)
next
  case (Cons m msgs)
  obtain tp bs where m: "m = (tp, bs)" by fastforce
  define t where "t = iotc_mq_on_mqtt_inbound_message env api (Some tp) (Some bs) (length bs) s"
  have n: "client_msg_cb s \<noteq> None" "0 < length bs" "length bs \<le> length bs" "bs \<noteq> []"
    using Cons.prems m by auto
  note effect = inbound_effect[OF assms(1) Cons.prems(1) n(1-3) t_def]
  have prems: "mq_ok items cap t" "client_msg_cb t = Some cb" "\<forall>m \<in> set msgs. snd m \<noteq> []"
      "cap (cy_queue t) = cap (cy_queue s)"
    using effect Cons.prems by simp_all
  have c: "mq_contents items t = (if length (mq_contents items s) < cap (cy_queue s)
       then mq_contents items s @ [(c_string tp, bs)] else mq_contents items s)"
    by (rule inbound_accepts[OF assms(1) Cons.prems(1) n(1,4) assms(2) t_def])
  have "inbound_all env api (m # msgs) s = inbound_all env api msgs t"
    by (simp add: inbound_all_def m t_def)
  then show ?case
    using Cons.IH[OF prems(1-3)] prems(4) c by (simp add: m take_Cons')
qed

section \<open>The steps of the module\<close>

inductive mq_step :: "sdk_env \<Rightarrow> 'q rtos_queue_api \<Rightarrow> ('q, 'z) mq_state_scheme
    \<Rightarrow> ('q, 'z) mq_state_scheme \<Rightarrow> bool" for env api where
  step_inbound: "n \<le> length bs \<Longrightarrow>
     mq_step env api s (iotc_mq_on_mqtt_inbound_message env api (Some tp) (Some bs) n s)"
| step_register: "mq_step env api s (iotc_mq_register cb s)"
| step_process: "timeout_ms \<noteq> 0 \<Longrightarrow> iotc_mq_process api record_message timeout_ms s = Some t \<Longrightarrow>
     mq_step env api s t"
| step_flush: "iotc_mq_flush api s = Some t \<Longrightarrow> mq_step env api s t"
| step_deregister: "iotc_mq_deregister api s = Some t \<Longrightarrow> mq_step env api s t"

definition mq_inv ::
    "('q \<Rightarrow> mq_msg list option) \<Rightarrow> ('q \<Rightarrow> nat) \<Rightarrow> nat \<Rightarrow> ('q, 'z) mq_state_scheme \<Rightarrow> bool" where
  "mq_inv items cap n s \<longleftrightarrow> mq_ok items cap s \<and> cap (cy_queue s) = n"

lemma mq_inv_step:
  assumes "queue_laws api items cap" and "mq_inv items cap n s" and "mq_step env api s t"
  shows "mq_inv items cap n t"
  using assms(3)
proof cases
  case (step_inbound k bs tp)
  show ?thesis
  proof (cases "client_msg_cb s = None \<or> k = 0")
    case True
    then have "t = s" using step_inbound by (auto simp: iotc_mq_on_mqtt_inbound_message_def)
    then show ?thesis using assms(2) by simp
  next
    case False
    then show ?thesis
      using inbound_effect[OF assms(1) _ _ _ step_inbound(2) step_inbound(1)] assms(2) by (simp add: mq_inv_def)
  qed
next
  case (step_register cb)
  then show ?thesis using assms(2) by (simp add: iotc_mq_register_def mq_inv_def)
next
  case (step_process timeout)
  show ?thesis
  proof (cases "client_msg_cb s")
    case None
    then show ?thesis using step_process assms(2) by (simp add: iotc_mq_process_def)
  next
    case (Some cb)
    with recorder.process_effect[OF assms(1) _ step_process(1) Some] step_process(2) assms(2) show ?thesis
      by (auto simp: mq_inv_def)
  qed
next
  case step_flush
  then show ?thesis using flush_effect[OF assms(1), of s] assms(2) by (auto simp: mq_inv_def)
next
  case step_deregister
  then show ?thesis
    using flush_effect[OF assms(1), of s] assms(2) by (auto simp: mq_inv_def iotc_mq_deregister_def)
qed

lemma mq_inv_init:
  assumes "queue_laws api items cap" and "iotc_mq_init api n s = (CY_RSLT_SUCCESS, t)" and "heap_ok s"
  shows "mq_inv items cap n t \<and> queued items t = []"
  using assms queue_init[OF assms(1), of n "cy_queue s"]
  by (auto simp: iotc_mq_init_def mq_inv_def mq_ok_def queued_def mq_blocks_def heap_ok_def
      split: prod.splits)

interpretation mq_system: transition_system
  "\<lambda>s. queue_laws api items cap \<and> (\<exists>s0. heap_ok s0 \<and> iotc_mq_init api n s0 = (CY_RSLT_SUCCESS, s))"
  "mq_step env api" "\<lambda>s. queue_laws api items cap \<longrightarrow> mq_inv items cap n s"
  for env api items cap n
  by unfold_locales (blast dest: mq_inv_init, blast intro: mq_inv_step)

section \<open>A queue of the RTOS\<close>

text \<open>A bounded list with its size, or no queue, satisfies the laws: they are consistent.\<close>

definition list_queue :: "(nat \<times> mq_msg list) option rtos_queue_api" where
  "list_queue =
     \<lparr>cy_rtos_init_queue = \<lambda>n q. (0, Some (n, [])),
      cy_rtos_put_queue = \<lambda>m t q.
        (case q of None \<Rightarrow> (1, None)
         | Some (n, xs) \<Rightarrow> if length xs < n then (0, Some (n, xs @ [m])) else (2, Some (n, xs))),
      cy_rtos_get_queue = \<lambda>t q.
        (case q of None \<Rightarrow> Some (1, \<lparr>m_topic = None, m_message = None, m_len = 0\<rparr>, None)
         | Some (n, []) \<Rightarrow>
             if t = 0 then None
             else Some (3, \<lparr>m_topic = None, m_message = None, m_len = 0\<rparr>, Some (n, []))
         | Some (n, x # xs) \<Rightarrow> Some (0, x, Some (n, xs))),
      cy_rtos_count_queue = \<lambda>q. (case q of None \<Rightarrow> (1, 0) | Some (n, xs) \<Rightarrow> (0, length xs)),
      cy_rtos_deinit_queue = \<lambda>q. (0, None),
      CY_RTOS_QUEUE_EMPTY = 3\<rparr>"

definition list_items :: "(nat \<times> mq_msg list) option \<Rightarrow> mq_msg list option" where
  "list_items q = map_option snd q"

definition list_cap :: "(nat \<times> mq_msg list) option \<Rightarrow> nat" where
  "list_cap q = (case q of None \<Rightarrow> 0 | Some (n, xs) \<Rightarrow> n)"

lemma list_queue_laws: "queue_laws list_queue list_items list_cap"
  by (simp add: queue_laws_def list_queue_def list_items_def list_cap_def split: option.split)

definition mq_example_env :: sdk_env where
  "mq_example_env =
     \<lparr>env_code = \<lambda>_. 5, env_ret = \<lambda>_ _. 0, env_alloc = \<lambda>_ _. True, env_mqtt_handle = \<lambda>_. Some 1, env_rand = \<lambda>_. 0,
      env_http_body = \<lambda>_. []\<rparr>"

text \<open>A queue for two messages, created and with a callback.\<close>

definition mq_example :: "(nat \<times> mq_msg list) option mq_state" where
  "mq_example =
     \<lparr>log = [], heap = Map.empty, next_addr = 1, cy_queue = Some (2, []), is_initialized = True,
      client_msg_cb = Some (User_inbound 7)\<rparr>"

lemma mq_example_ok:
  "mq_ok list_items list_cap mq_example" "client_msg_cb mq_example = Some (User_inbound 7)"
  "list_cap (cy_queue mq_example) = 2" "mq_contents list_items mq_example = []"
  by (simp_all add: mq_example_def mq_ok_def heap_ok_def queued_def mq_blocks_def list_items_def
      list_cap_def mq_contents_def)

definition mq_example_full :: "(nat \<times> mq_msg list) option mq_state" where
  "mq_example_full =
     inbound_all mq_example_env list_queue [(''a'', ''one''), (''b'', ''two''), (''c'', ''three'')] mq_example"

lemma mq_example_full_ok:
  "mq_ok list_items list_cap mq_example_full"
  "client_msg_cb mq_example_full = Some (User_inbound 7)"
  "list_cap (cy_queue mq_example_full) = 2"
  "mq_contents list_items mq_example_full = [(''a'', ''one''), (''b'', ''two'')]"
proof -
  have e: "env_alloc mq_example_env = (\<lambda>_ _. True)" by (simp add: mq_example_env_def)
  have "c_string ''a'' = ''a''" "c_string ''b'' = ''b''" "c_string ''c'' = ''c''"
    by (simp_all add: c_string_def)
  with inbound_all_effect[OF list_queue_laws e mq_example_ok(1,2),
      of "[(''a'', ''one''), (''b'', ''two''), (''c'', ''three'')]"]
  show "mq_ok list_items list_cap mq_example_full"
    "client_msg_cb mq_example_full = Some (User_inbound 7)"
    "list_cap (cy_queue mq_example_full) = 2"
    "mq_contents list_items mq_example_full = [(''a'', ''one''), (''b'', ''two'')]"
    by (simp_all add: mq_example_full_def[symmetric] mq_example_ok numeral_2_eq_2)
qed

section \<open>Only callbacks are recorded as messages\<close>

lemma messages_free [simp]: "messages cb (log (c_free a s)) = messages cb (log s)"
  by (simp add: c_free_def Let_def) (simp add: messages_def)

lemma messages_alloc [simp]: "messages cb (log (snd (alloc env bs s))) = messages cb (log s)"
  by (simp add: alloc_def Let_def) (simp add: messages_def)

lemma messages_destroy [simp]:
  "messages cb (log (snd (iotc_mq_destroy_message m s))) = messages cb (log s)"
  by (simp add: iotc_mq_destroy_message_def Let_def split: option.split)

lemma messages_create [simp]:
  "messages cb (log (snd (snd (iotc_mq_create_message env tp bs n s)))) = messages cb (log s)"
  by (simp add: iotc_mq_create_message_def iotcl_strdup_def case_prod_unfold Let_def split: option.split)
    (simp add: messages_def)

lemma messages_inbound [simp]:
  "messages cb (log (iotc_mq_on_mqtt_inbound_message env api tp bs n s)) = messages cb (log s)"
  by (simp add: iotc_mq_on_mqtt_inbound_message_def case_prod_unfold Let_def split: option.split)

lemma messages_inbound_all [simp]:
  "messages cb (log (inbound_all env api msgs s)) = messages cb (log s)"
  by (induction msgs arbitrary: s) (simp_all add: inbound_all_def)

section \<open>Properties\<close>

text \<open>
  C20: from a successful \<open>iotc_mq_init(n)\<close>, whatever sequence of inbound messages, registrations,
  polls, flushes and deregistrations follows, the queue holds at most \<open>n\<close> messages and every
  queued pointer is owned by exactly one message and points to a live block.
\<close>

theorem mq_invariant:
  assumes "queue_laws api items cap" and "iotc_mq_init api n s0 = (CY_RSLT_SUCCESS, s)"
    and "heap_ok s0" and "(mq_step env api)\<^sup>*\<^sup>* s t"
  shows "mq_ok items cap t \<and> length (queued items t) \<le> n"
  using mq_system.inv_reachable[of api items cap n s env t] assms
  by (auto simp: mq_inv_def mq_ok_def)

lemma mq_invariant_witness:
  "mq_ok list_items list_cap (iotc_mq_register (Some (User_inbound 7))
     (snd (iotc_mq_init list_queue 2 mq_example)))"
proof -
  have i: "iotc_mq_init list_queue 2 mq_example = (CY_RSLT_SUCCESS, snd (iotc_mq_init list_queue 2 mq_example))"
    by (simp add: iotc_mq_init_def list_queue_def)
  have "heap_ok mq_example" using mq_example_ok(1) by (simp add: mq_ok_def)
  moreover have "(mq_step mq_example_env list_queue)\<^sup>*\<^sup>* (snd (iotc_mq_init list_queue 2 mq_example))
      (iotc_mq_register (Some (User_inbound 7)) (snd (iotc_mq_init list_queue 2 mq_example)))"
    by (rule r_into_rtranclp, rule step_register)
  ultimately show ?thesis using mq_invariant[OF list_queue_laws i] by blast
qed

text \<open>
  C8: an inbound message is appended to the queue with an exact copy of its topic and of
  \<open>message_len\<close> bytes of its payload, in two fresh blocks; or (out of memory, queue full) it is
  dropped and memory and queue are exactly as before. Nothing is read or freed out of turn.
\<close>

theorem mq_inbound_copies:
  assumes "queue_laws api items cap" and "mq_ok items cap s"
    and "client_msg_cb s \<noteq> None" and "0 < n" and "n \<le> length bs"
  shows "let t = iotc_mq_on_mqtt_inbound_message env api (Some tp) (Some bs) n s in
    mq_ok items cap t \<and> faults (log t) = faults (log s)
    \<and> (\<forall>a. heap s a \<noteq> None \<longrightarrow> heap t a = heap s a)
    \<and> (mq_contents items t = mq_contents items s @ [(c_string tp, take n bs)]
         \<and> length (mq_contents items s) < cap (cy_queue s)
         \<and> dom (heap t) = dom (heap s) \<union> set (mq_blocks items t)
       \<or> mq_contents items t = mq_contents items s \<and> heap t = heap s)"
  using inbound_effect[OF assms refl, of env tp] by (simp add: Let_def)

lemma mq_inbound_copies_witness:
  "mq_ok list_items list_cap
     (iotc_mq_on_mqtt_inbound_message mq_example_env list_queue (Some ''t'') (Some ''payload'') 3 mq_example)"
proof -
  have "client_msg_cb mq_example \<noteq> None" "(0 :: nat) < 3" "3 \<le> length ''payload''"
    by (simp_all add: mq_example_ok)
  from mq_inbound_copies[OF list_queue_laws mq_example_ok(1) this] show ?thesis by (simp add: Let_def)
qed

text \<open>
  End to end, the module is a bounded FIFO buffer that drops the newest. Initialised
  for \<open>n\<close> messages and with a callback registered, after any list of inbound messages one poll
  with a nonzero timeout returns and has called the callback with exactly the first \<open>n\<close>
  of them, in order.
\<close>

theorem mq_fifo_end_to_end:
  assumes "queue_laws api items cap" and "iotc_mq_init api n s0 = (CY_RSLT_SUCCESS, s)"
    and "heap_ok s0" and "env_alloc env = (\<lambda>_ _. True)"
    and "\<forall>m \<in> set msgs. snd m \<noteq> []" and "timeout_ms \<noteq> 0"
  shows "\<exists>t. iotc_mq_process api record_message timeout_ms
        (inbound_all env api msgs (iotc_mq_register (Some cb) s)) = Some t
    \<and> messages cb (log t) = messages cb (log s) @ take n (map (map_prod c_string id) msgs)
    \<and> items (cy_queue t) = Some []"
proof -
  let ?r = "iotc_mq_register (Some cb) s"
  have i: "mq_ok items cap s" "cap (cy_queue s) = n" "mq_contents items s = []"
    using mq_inv_init[OF assms(1-3)] by (simp_all add: mq_inv_def mq_contents_def)
  have r: "mq_ok items cap ?r" "client_msg_cb ?r = Some cb" "cap (cy_queue ?r) = n"
    "mq_contents items ?r = []"
    using i by (simp_all add: iotc_mq_register_def mq_contents_def queued_def)
  from inbound_all_effect[OF assms(1,4) r(1,2) assms(5)]
  have u: "mq_ok items cap (inbound_all env api msgs ?r)"
    "client_msg_cb (inbound_all env api msgs ?r) = Some cb"
    "mq_contents items (inbound_all env api msgs ?r) = take n (map (map_prod c_string id) msgs)"
    using r by simp_all
  have "messages cb (log ?r) = messages cb (log s)" by (simp add: iotc_mq_register_def)
  with recorder.process_effect[OF assms(1) u(1) assms(6) u(2)] u(3) show ?thesis by auto
qed

lemma mq_fifo_end_to_end_witness:
  "\<exists>t. iotc_mq_process list_queue record_message 5 (inbound_all mq_example_env list_queue
        [(''a'', ''one''), (''b'', ''two''), (''c'', ''three'')]
        (iotc_mq_register (Some (User_inbound 7)) (snd (iotc_mq_init list_queue 2 mq_example)))) = Some t
     \<and> messages (User_inbound 7) (log t) = [(''a'', ''one''), (''b'', ''two'')]"
proof -
  have i: "iotc_mq_init list_queue 2 mq_example = (CY_RSLT_SUCCESS, snd (iotc_mq_init list_queue 2 mq_example))"
    by (simp add: iotc_mq_init_def list_queue_def)
  have h: "heap_ok mq_example" using mq_example_ok(1) by (simp add: mq_ok_def)
  have e: "env_alloc mq_example_env = (\<lambda>_ _. True)" by (simp add: mq_example_env_def)
  have c: "c_string ''a'' = ''a''" "c_string ''b'' = ''b''" by (simp_all add: c_string_def)
  have l: "messages (User_inbound 7) (log (snd (iotc_mq_init list_queue 2 mq_example))) = []"
    by (simp add: iotc_mq_init_def list_queue_def mq_example_def messages_def)
  have m: "\<forall>m \<in> set [(''a'', ''one''), (''b'', ''two''), (''c'', ''three'')]. snd m \<noteq> []" by simp
  have "(5 :: nat) \<noteq> 0" by simp
  from mq_fifo_end_to_end[OF list_queue_laws i h e m this, of "User_inbound 7"] show ?thesis
    by (auto simp: l[unfolded numeral_2_eq_2] c numeral_2_eq_2)
qed

text \<open>
  \<open>iotc_mq_deinit\<close> of a live queue returns, frees the memory of every message that was
  still queued and no other block, destroys the queue and drops the callback; no block is
  freed twice.
\<close>

theorem mq_deinit_releases:
  assumes "queue_laws api items cap" and "mq_ok items cap s" and "is_initialized s"
  shows "\<exists>t. iotc_mq_deinit api s = Some t
    \<and> heap t = heap s |` (- set (mq_blocks items s)) \<and> faults (log t) = faults (log s)
    \<and> items (cy_queue t) = None \<and> \<not> is_initialized t \<and> client_msg_cb t = None"
  using deinit_effect[OF assms] by blast

lemma mq_deinit_releases_witness:
  "\<exists>t. iotc_mq_deinit list_queue mq_example_full = Some t \<and> client_msg_cb t = None"
proof -
  have "is_initialized mq_example_full"
    by (simp add: mq_example_full_def inbound_all_def mq_example_def iotc_mq_on_mqtt_inbound_message_def
        iotc_mq_create_message_def iotc_mq_destroy_message_def iotcl_strdup_def alloc_def c_free_def
        list_queue_def mq_example_env_def sdk_emit_def Let_def)
  from mq_deinit_releases[OF list_queue_laws mq_example_full_ok(1) this] show ?thesis by blast
qed

text \<open>
  Polling with a timeout of 0 never returns, even when messages are waiting: after the last one
  it blocks for ever, although the header promises to block only until a message arrives.
\<close>

theorem mq_process_zero_blocks:
  assumes "queue_laws api items cap" and "mq_ok items cap s" and "client_msg_cb s = Some cb"
  shows "iotc_mq_process api record_message 0 s = None"
  using assms by (rule recorder.process_zero)

lemma mq_process_zero_blocks_witness:
  "iotc_mq_process list_queue record_message 0 mq_example_full = None"
  by (rule mq_process_zero_blocks[OF list_queue_laws mq_example_full_ok(1,2)])

text \<open>
  Delivered messages leak. After a poll the queue is empty and every block of every message
  it delivered is still allocated, and flushing or deinitialising afterwards does not free them:
  no pointer to them is left.
\<close>

theorem mq_process_leaks:
  assumes "queue_laws api items cap" and "mq_ok items cap s" and "client_msg_cb s = Some cb"
    and "timeout_ms \<noteq> 0"
  shows "\<exists>t u. iotc_mq_process api record_message timeout_ms s = Some t
    \<and> items (cy_queue t) = Some [] \<and> iotc_mq_flush api t = Some u \<and> heap u = heap t
    \<and> length (mq_blocks items s) = 2 * length (mq_contents items s)
    \<and> (\<forall>a \<in> set (mq_blocks items s). heap u a = heap s a \<and> heap u a \<noteq> None)"
proof -
  obtain t where t: "iotc_mq_process api record_message timeout_ms s = Some t"
      "mq_ok items cap t" "items (cy_queue t) = Some []" "\<forall>a. heap s a \<noteq> None \<longrightarrow> heap t a = heap s a"
    using recorder.process_effect[OF assms(1,2,4,3)] by auto
  obtain u where u: "iotc_mq_flush api t = Some u" "heap u = heap t |` (- set (mq_blocks items t))"
    using flush_effect[OF assms(1) t(2)] by auto
  have "mq_blocks items t = []" using t(3) by (simp add: mq_blocks_def queued_def)
  then have h: "heap u = heap t" using u(2) by (simp add: restrict_map_def)
  have "length (msg_blocks m) = 2" if "m \<in> set (queued items s)" for m
    using assms(2) that by (auto simp: mq_ok_def msg_ok_def msg_blocks_def split: option.splits)
  then have "length (concat (map msg_blocks ms)) = 2 * length ms" if "set ms \<subseteq> set (queued items s)" for ms
    using that by (induction ms) auto
  then have "length (mq_blocks items s) = 2 * length (mq_contents items s)"
    by (simp add: mq_blocks_def mq_contents_def)
  then show ?thesis
    using t u h mq_ok_blocks_live[OF assms(2)] by auto
qed

lemma mq_process_leaks_witness:
  "\<exists>t. iotc_mq_process list_queue record_message 1 mq_example_full = Some t \<and> list_items (cy_queue t) = Some []"
  using mq_process_leaks[OF list_queue_laws mq_example_full_ok(1,2), of 1] by auto

end
