(* ===== verification/HttpClient.thy ===== *)
theory HttpClient
  imports SdkBase
begin

text \<open>
  The HTTPS client, \<open>source/iotc_http_client.c\<close>: one request per call, from the
  initialisation of the HTTP library to its deinitialisation. The labels of the function's
  cleanup code are functions here, each falling through to the next. The response is the
  address of its data.
\<close>

section \<open>Definitions\<close>

definition IOTC_HTTP_SEND_RECV_TIMEOUT_MS :: nat where "IOTC_HTTP_SEND_RECV_TIMEOUT_MS = 10000"
definition IOTC_HTTP_CONNECT_MAX_RETRIES :: nat where "IOTC_HTTP_CONNECT_MAX_RETRIES = 5"

text \<open>The \<open>do ... while\<close> loop; the \<open>nat\<close> is \<open>i\<close>. No delay after the last attempt.\<close>

fun http_connect_loop ::
    "sdk_env \<Rightarrow> nat \<Rightarrow> cy_rslt \<Rightarrow> 'z sdk_base_scheme \<Rightarrow> cy_rslt \<times> 'z sdk_base_scheme" where
  "http_connect_loop env 0 res s = (res, s)"
| "http_connect_loop env (Suc i) res s =
     (case call env (Cy_http_client_connect IOTC_HTTP_SEND_RECV_TIMEOUT_MS) s of (res, s) \<Rightarrow>
        if res = CY_RSLT_SUCCESS then (res, s)
        else if i = 0 then (res, s)
        else http_connect_loop env i res (sdk_emit (Rtos_delay 2000) s))"

definition http_cleanup_deinit :: "sdk_env \<Rightarrow> 'z sdk_base_scheme \<Rightarrow> cy_rslt \<times> 'z sdk_base_scheme" where
  "http_cleanup_deinit env s = call env Cy_http_client_deinit s"

definition http_cleanup_delete :: "sdk_env \<Rightarrow> 'z sdk_base_scheme \<Rightarrow> cy_rslt \<times> 'z sdk_base_scheme" where
  "http_cleanup_delete env s =
     (let (res, s) = call env Cy_http_client_delete s in http_cleanup_deinit env s)"

definition http_cleanup_disconnect :: "sdk_env \<Rightarrow> 'z sdk_base_scheme \<Rightarrow> cy_rslt \<times> 'z sdk_base_scheme" where
  "http_cleanup_disconnect env s =
     (let (res, s) = call env Cy_http_client_disconnect s in http_cleanup_delete env s)"

definition http_headers :: "(string \<times> string) list" where
  "http_headers = [(''Connection'', ''close''), (''Content-Type'', ''application/json'')]"

text \<open>
  Everything after a successful connect, up to \<open>cleanup_disconnect\<close>: the value is
  \<open>response->data\<close>.
\<close>

definition http_exchange ::
    "sdk_env \<Rightarrow> string option \<Rightarrow> string option \<Rightarrow> 'z sdk_base_scheme
       \<Rightarrow> addr option \<times> 'z sdk_base_scheme" where
  "http_exchange env path send_str s =
     (let (res, s) = call env (Cy_http_client_write_header (send_str \<noteq> None) path http_headers) s
      in if res \<noteq> CY_RSLT_SUCCESS then (None, s)
         else
           (let body = (case send_str of Some b \<Rightarrow> c_string b | None \<Rightarrow> []);
                response = env_http_body env (log s);
                (res, s) = call env (Cy_http_client_send body) s
            in if res \<noteq> CY_RSLT_SUCCESS then (None, s)
               else alloc env (response @ [CHR 0x00]) s))"

text \<open>From the connect loop to the end.\<close>

definition http_connected_request ::
    "sdk_env \<Rightarrow> string option \<Rightarrow> string option \<Rightarrow> 'z sdk_base_scheme
       \<Rightarrow> cy_rslt \<times> addr option \<times> 'z sdk_base_scheme" where
  "http_connected_request env path send_str s =
     (let (res, s) = http_connect_loop env IOTC_HTTP_CONNECT_MAX_RETRIES 0 s
      in if res \<noteq> CY_RSLT_SUCCESS then
           (let (res, s) = http_cleanup_delete env s in (res, None, s))
         else
           (let (data, s) = http_exchange env path send_str s;
                (res, s) = http_cleanup_disconnect env s
            in (res, data, s)))"

definition iotconnect_https_request ::
    "sdk_env \<Rightarrow> string option \<Rightarrow> string option \<Rightarrow> string option \<Rightarrow> 'z sdk_base_scheme
       \<Rightarrow> cy_rslt \<times> addr option \<times> 'z sdk_base_scheme" where
  "iotconnect_https_request env host path send_str s =
     (let (host_len, s) = c_strlen host s;
          host_name = take host_len (case host of Some h \<Rightarrow> h | None \<Rightarrow> []);
          (res, s) = call env Cy_http_client_init s
      in if res \<noteq> CY_RSLT_SUCCESS then (res, None, s)
         else
           (let (res, s) = call env (Cy_http_client_create host_name 443 (host_len + 1)) s
            in if res \<noteq> CY_RSLT_SUCCESS then
                 (let (res, s) = http_cleanup_deinit env s in (res, None, s))
               else http_connected_request env path send_str s))"

text \<open>The value is the new \<open>response->data\<close>.\<close>

definition iotconnect_free_https_response ::
    "addr option \<Rightarrow> 'z sdk_base_scheme \<Rightarrow> addr option \<times> 'z sdk_base_scheme" where
  "iotconnect_free_https_response data s =
     (case data of Some a \<Rightarrow> (None, c_free a s) | None \<Rightarrow> (None, s))"

section \<open>The connect loop\<close>

definition http_attempts :: "sdk_event list \<Rightarrow> nat" where
  "http_attempts es = count_calls (\<lambda>c r. case c of Cy_http_client_connect t \<Rightarrow> True | _ \<Rightarrow> False) es"

interpretation http_retry: bounded_retry
  "call env (Cy_http_client_connect IOTC_HTTP_SEND_RECV_TIMEOUT_MS)"
  "\<lambda>i s. if i = 0 then s else sdk_emit (Rtos_delay 2000) s"
  "http_connect_loop env" "\<lambda>s. http_attempts (log s)" for env
  by unfold_locales (simp_all add: http_attempts_def split: prod.split)

lemma http_connect_loop_frame [simp]:
  "heap (snd (http_connect_loop env n r s)) = heap s"
  "next_addr (snd (http_connect_loop env n r s)) = next_addr s"
  "faults (log (snd (http_connect_loop env n r s))) = faults (log s)"
  "sdk_base.more (snd (http_connect_loop env n r s)) = sdk_base.more s"
  by (induction n arbitrary: r s) (simp_all add: case_prod_unfold)

lemma http_loop_calls:
  "(\<And>t r. \<not> P (Cy_http_client_connect t) r) \<Longrightarrow>
   count_calls P (log (snd (http_connect_loop env n r s))) = count_calls P (log s)"
  by (induction n arbitrary: r s) (simp_all add: case_prod_unfold)

lemma strlen_frame [simp]:
  "heap (snd (c_strlen p s)) = heap s" "next_addr (snd (c_strlen p s)) = next_addr s"
  "sdk_base.more (snd (c_strlen p s)) = sdk_base.more s"
  "p \<noteq> None \<Longrightarrow> faults (log (snd (c_strlen p s))) = faults (log s)"
  by (simp_all add: c_strlen_def split: option.split)

lemma cleanup_frame [simp]:
  "heap (snd (http_cleanup_deinit env s)) = heap s" "heap (snd (http_cleanup_delete env s)) = heap s"
  "heap (snd (http_cleanup_disconnect env s)) = heap s"
  "next_addr (snd (http_cleanup_deinit env s)) = next_addr s"
  "next_addr (snd (http_cleanup_delete env s)) = next_addr s"
  "next_addr (snd (http_cleanup_disconnect env s)) = next_addr s"
  "faults (log (snd (http_cleanup_deinit env s))) = faults (log s)"
  "faults (log (snd (http_cleanup_delete env s))) = faults (log s)"
  "faults (log (snd (http_cleanup_disconnect env s))) = faults (log s)"
  "sdk_base.more (snd (http_cleanup_deinit env s)) = sdk_base.more s"
  "sdk_base.more (snd (http_cleanup_delete env s)) = sdk_base.more s"
  "sdk_base.more (snd (http_cleanup_disconnect env s)) = sdk_base.more s"
  by (simp_all add: http_cleanup_deinit_def http_cleanup_delete_def http_cleanup_disconnect_def
      case_prod_unfold Let_def)

section \<open>The response\<close>

text \<open>A block with a terminated copy of what the server sent, or memory as before.\<close>

definition response_ok :: "sdk_env \<Rightarrow> 'z sdk_base_scheme \<Rightarrow> addr option \<Rightarrow> 'z sdk_base_scheme \<Rightarrow> bool" where
  "response_ok env s d t \<longleftrightarrow>
     (case d of
        None \<Rightarrow> heap t = heap s
      | Some a \<Rightarrow> heap s a = None \<and> (\<exists>l. heap t = (heap s)(a \<mapsto> env_http_body env l @ [CHR 0x00])))
     \<and> heap_ok t \<and> faults (log t) = faults (log s) \<and> sdk_base.more t = sdk_base.more s"

lemma response_ok_trans:
  "response_ok env u d v \<Longrightarrow> heap u = heap s \<Longrightarrow> faults (log u) = faults (log s) \<Longrightarrow>
   sdk_base.more u = sdk_base.more s \<Longrightarrow> heap t = heap v \<Longrightarrow> next_addr t = next_addr v \<Longrightarrow>
   faults (log t) = faults (log v) \<Longrightarrow> sdk_base.more t = sdk_base.more v \<Longrightarrow> response_ok env s d t"
  by (simp add: response_ok_def heap_ok_def split: option.splits)

lemma response_ok_alloc:
  assumes "heap_ok s"
  shows "response_ok env s (fst (alloc env (env_http_body env l @ [CHR 0x00]) s))
    (snd (alloc env (env_http_body env l @ [CHR 0x00]) s))"
  using heap_ok_alloc[OF assms, of env "env_http_body env l @ [CHR 0x00]"] heap_ok_fresh[OF assms]
  by (auto simp: response_ok_def alloc_def Let_def)

lemma response_ok_None:
  "heap t = heap s \<Longrightarrow> next_addr t = next_addr s \<Longrightarrow> faults (log t) = faults (log s) \<Longrightarrow>
   sdk_base.more t = sdk_base.more s \<Longrightarrow> heap_ok s \<Longrightarrow> response_ok env s None t"
  by (simp add: response_ok_def heap_ok_def)

lemma exchange_response:
  assumes "heap_ok s"
  shows "response_ok env s (fst (http_exchange env path send_str s)) (snd (http_exchange env path send_str s))"
proof -
  define u where "u = snd (call env (Cy_http_client_write_header (send_str \<noteq> None) path http_headers) s)"
  define c where "c = Cy_http_client_send (case send_str of Some b \<Rightarrow> c_string b | None \<Rightarrow> [])"
  define v where "v = snd (call env c u)"
  define res where "res = alloc env (env_http_body env (log u) @ [CHR 0x00]) v"
  have e: "http_exchange env path send_str s =
      (if fst (call env (Cy_http_client_write_header (send_str \<noteq> None) path http_headers) s) \<noteq> CY_RSLT_SUCCESS
       then (None, u) else if fst (call env c u) \<noteq> CY_RSLT_SUCCESS then (None, v) else res)"
    by (simp add: http_exchange_def case_prod_unfold Let_def u_def c_def v_def res_def)
  have f: "heap u = heap s" "next_addr u = next_addr s" "faults (log u) = faults (log s)"
      "sdk_base.more u = sdk_base.more s" "heap v = heap s" "next_addr v = next_addr s"
      "faults (log v) = faults (log s)" "sdk_base.more v = sdk_base.more s"
    by (simp_all add: u_def v_def)
  have "heap_ok v" using assms f by (simp add: heap_ok_def)
  from response_ok_alloc[OF this, of env "log u"]
  have "response_ok env s (fst res) (snd res)"
    unfolding res_def by (rule response_ok_trans) (simp_all add: f)
  then show ?thesis
    using assms f by (simp add: e response_ok_None)
qed

lemma connected_response:
  assumes "heap_ok s"
  shows "response_ok env s (fst (snd (http_connected_request env path send_str s)))
      (snd (snd (http_connected_request env path send_str s)))"
proof -
  define w where "w = snd (http_connect_loop env IOTC_HTTP_CONNECT_MAX_RETRIES 0 s)"
  have f: "heap w = heap s" "next_addr w = next_addr s" "faults (log w) = faults (log s)"
      "sdk_base.more w = sdk_base.more s"
    by (simp_all add: w_def)
  have "heap_ok w" using assms f by (simp add: heap_ok_def)
  from exchange_response[OF this, of env path send_str]
  have "response_ok env s (fst (http_exchange env path send_str w))
      (snd (http_cleanup_disconnect env (snd (http_exchange env path send_str w))))"
    by (rule response_ok_trans) (simp_all add: f)
  then show ?thesis
    using assms f
    by (simp add: http_connected_request_def case_prod_unfold Let_def w_def[symmetric] response_ok_None)
qed

lemma request_response:
  assumes "heap_ok s" and "host \<noteq> None"
  shows "response_ok env s (fst (snd (iotconnect_https_request env host path send_str s)))
      (snd (snd (iotconnect_https_request env host path send_str s)))"
proof -
  define create where "create = Cy_http_client_create
      (take (fst (c_strlen host s)) (case host of Some h \<Rightarrow> h | None \<Rightarrow> [])) 443 (fst (c_strlen host s) + 1)"
  define v where "v = snd (call env create (snd (call env Cy_http_client_init (snd (c_strlen host s)))))"
  have f: "heap v = heap s" "next_addr v = next_addr s" "faults (log v) = faults (log s)"
      "sdk_base.more v = sdk_base.more s"
    using assms(2) by (simp_all add: v_def)
  have "heap_ok v" using assms f by (simp add: heap_ok_def)
  from connected_response[OF this, of env path send_str]
  have "response_ok env s (fst (snd (http_connected_request env path send_str v)))
      (snd (snd (http_connected_request env path send_str v)))"
    by (rule response_ok_trans) (simp_all add: f)
  then show ?thesis
    using assms unfolding v_def create_def
    by (simp add: iotconnect_https_request_def case_prod_unfold Let_def response_ok_None)
qed

text \<open>
  What a request added to the log. \<open>http_answered\<close>: it connected, wrote the header, sent the text, and got
  a block for the body \<open>b\<close> that the server sent in answer to exactly this sending; then the three
  cleanup calls. \<open>http_stopped\<close>: the first failure, and the cleanup calls due from there.
\<close>

definition http_send_call :: "string option \<Rightarrow> sdk_call" where
  "http_send_call send_str = Cy_http_client_send (case send_str of Some b \<Rightarrow> c_string b | None \<Rightarrow> [])"

definition http_header_call :: "string option \<Rightarrow> string option \<Rightarrow> sdk_call" where
  "http_header_call path send_str = Cy_http_client_write_header (send_str \<noteq> None) path
     [(''Connection'', ''close''), (''Content-Type'', ''application/json'')]"

definition http_answered ::
    "sdk_env \<Rightarrow> string option \<Rightarrow> string option \<Rightarrow> sdk_event list \<Rightarrow> sdk_event list \<Rightarrow> string \<Rightarrow> cy_rslt \<Rightarrow> bool" where
  "http_answered env path send_str l0 es b r \<longleftrightarrow>
     (\<exists>l r1 r2.
        es = l @ [Ret (Cy_http_client_connect 10000) 0, Ret (http_header_call path send_str) 0,
             Ret (http_send_call send_str) 0, Alloc (Suc (length b)) True,
             Ret Cy_http_client_disconnect r1, Ret Cy_http_client_delete r2, Ret Cy_http_client_deinit r]
        \<and> b = env_http_body env
             (l0 @ l @ [Ret (Cy_http_client_connect 10000) 0, Ret (http_header_call path send_str) 0]))"

definition http_stopped :: "string option \<Rightarrow> string option \<Rightarrow> sdk_event list \<Rightarrow> cy_rslt \<Rightarrow> bool" where
  "http_stopped path send_str es r \<longleftrightarrow>
     (\<exists>l e r1 r2 h n.
        let deinit = [Ret Cy_http_client_deinit r]; delete = Ret Cy_http_client_delete r2 # deinit;
            disconnect = Ret Cy_http_client_disconnect r1 # delete
        in e \<noteq> 0 \<and>
           (es = [Ret Cy_http_client_init e] \<and> r = e
            \<or> es = [Ret Cy_http_client_init 0, Ret (Cy_http_client_create h 443 n) e] @ deinit
            \<or> es = l @ [Ret (Cy_http_client_connect 10000) e] @ delete
            \<or> es = l @ [Ret (http_header_call path send_str) e] @ disconnect
            \<or> es = l @ [Ret (http_header_call path send_str) 0, Ret (http_send_call send_str) e] @ disconnect
            \<or> es = l @ [Ret (http_send_call send_str) 0, Alloc n False] @ disconnect))"

lemma call_log: "log (snd (call env c s)) = log s @ [Ret c (fst (call env c s))]"
  by (simp add: call_def Let_def log_sdk_emit)

lemma connect_loop_log:
  assumes "0 < n"
  shows "\<exists>l e. log (snd (http_connect_loop env n r s)) = log s @ l @ [Ret (Cy_http_client_connect 10000) e]
    \<and> e = fst (http_connect_loop env n r s)"
  using assms
proof (induction n arbitrary: r s)
  case (Suc i)
  obtain e u where c: "call env (Cy_http_client_connect IOTC_HTTP_SEND_RECV_TIMEOUT_MS) s = (e, u)" by fastforce
  have u: "log u = log s @ [Ret (Cy_http_client_connect 10000) e]"
    using call_log[of env "Cy_http_client_connect 10000" s] c[unfolded IOTC_HTTP_SEND_RECV_TIMEOUT_MS_def] by simp
  show ?case
  proof (cases "e = CY_RSLT_SUCCESS \<or> i = 0")
    case True
    then have "http_connect_loop env (Suc i) r s = (e, u)" by (auto simp: c)
    then show ?thesis using u by simp
  next
    case False
    then have eq: "http_connect_loop env (Suc i) r s = http_connect_loop env i e (sdk_emit (Rtos_delay 2000) u)"
      by (simp add: c)
    from False Suc.IH[of e "sdk_emit (Rtos_delay 2000) u"] obtain l where
      "log (snd (http_connect_loop env i e (sdk_emit (Rtos_delay 2000) u))) = log s @
         ([Ret (Cy_http_client_connect 10000) e, Rtos_delay 2000] @ l)
         @ [Ret (Cy_http_client_connect 10000) (fst (http_connect_loop env i e (sdk_emit (Rtos_delay 2000) u)))]"
      by (auto simp: u log_sdk_emit)
    then show ?thesis unfolding eq by blast
  qed
qed simp

text \<open>The value of an exchange, with its part of the log.\<close>

lemma exchange_exact:
  assumes "heap_ok s" and "http_exchange env path send_str s = (d, t)"
  obtains a b where "d = Some a" "heap s a = None" "heap t = (heap s)(a \<mapsto> b @ [CHR 0x00])"
      "log t = log s @ [Ret (http_header_call path send_str) 0, Ret (http_send_call send_str) 0, Alloc (Suc (length b)) True]"
      "b = env_http_body env (log s @ [Ret (http_header_call path send_str) 0])"
  | e n es where "d = None" "heap t = heap s" "log t = log s @ es" "e \<noteq> 0"
      "es = [Ret (http_header_call path send_str) e]
       \<or> es = [Ret (http_header_call path send_str) 0, Ret (http_send_call send_str) e]
       \<or> es = [Ret (http_header_call path send_str) 0, Ret (http_send_call send_str) 0, Alloc n False]"
proof -
  obtain e u where c1: "call env (http_header_call path send_str) s = (e, u)" by fastforce
  obtain e' v where c2: "call env (http_send_call send_str) u = (e', v)" by fastforce
  have u: "log u = log s @ [Ret (http_header_call path send_str) e]" "heap u = heap s" "next_addr u = next_addr s"
    using call_log[of env "http_header_call path send_str" s] call_frame(1,2)[of env "http_header_call path send_str" s]
    by (simp_all add: c1)
  have v: "log v = log u @ [Ret (http_send_call send_str) e']" "heap v = heap s" "next_addr v = next_addr s"
    using call_log[of env "http_send_call send_str" u] call_frame(1,2)[of env "http_send_call send_str" u] u
    by (simp_all add: c2)
  let ?b = "env_http_body env (log u)"
  have x: "(d, t) = (if e \<noteq> 0 then (None, u) else if e' \<noteq> 0 then (None, v) else alloc env (?b @ [CHR 0x00]) v)"
    using assms(2) c1 c2
    by (cases "e \<noteq> 0"; cases "e' \<noteq> 0")
      (auto simp: http_exchange_def http_header_call_def http_send_call_def http_headers_def Let_def)
  show thesis
  proof (cases "e \<noteq> 0 \<or> e' \<noteq> 0")
    case True
    with x u v show thesis by (auto intro!: that(2)[where e = "if e \<noteq> 0 then e else e'"] split: if_splits)
  next
    case False
    then have al: "alloc env (?b @ [CHR 0x00]) v = (d, t)" using x by simp
    show thesis
    proof (cases "env_alloc env (log v) (Suc (length ?b))")
      case True
      with al have "d = Some (next_addr s)" "heap t = (heap s)(next_addr s \<mapsto> ?b @ [CHR 0x00])"
          "log t = log v @ [Alloc (Suc (length ?b)) True]"
        by (auto simp: alloc_def Let_def v log_sdk_emit)
      with False u v heap_ok_fresh[OF assms(1)] show thesis by (intro that(1)[where a = "next_addr s" and b = ?b]) simp_all
    next
      case no: False
      define n where "n = Suc (length ?b)"
      have "d = None" "heap t = heap s" "log t = log v @ [Alloc n False]"
        using al no by (auto simp: alloc_def Let_def v log_sdk_emit n_def)
      with False u v show thesis
        by (intro that(2)[where e = 1 and n = n and es = "[Ret (http_header_call path send_str) 0,
            Ret (http_send_call send_str) 0, Alloc n False]"]) simp_all
    qed
  qed
qed

lemma cleanup_logs:
  "http_cleanup_deinit env s = (r, t) \<Longrightarrow> log t = log s @ [Ret Cy_http_client_deinit r]"
  "http_cleanup_delete env s = (r, t) \<Longrightarrow>
     \<exists>r2. log t = log s @ [Ret Cy_http_client_delete r2, Ret Cy_http_client_deinit r]"
  "http_cleanup_disconnect env s = (r, t) \<Longrightarrow>
     \<exists>r1 r2. log t = log s @ [Ret Cy_http_client_disconnect r1, Ret Cy_http_client_delete r2, Ret Cy_http_client_deinit r]"
  by (auto simp: http_cleanup_deinit_def http_cleanup_delete_def http_cleanup_disconnect_def call_def Let_def
      log_sdk_emit)

lemma connected_exact:
  assumes "heap_ok s" and "http_connected_request env path send_str s = (r, d, t)"
  obtains a b es where "d = Some a" "heap s a = None" "heap t = (heap s)(a \<mapsto> b @ [CHR 0x00])"
      "log t = log s @ es" "http_answered env path send_str (log s) es b r"
  | es where "d = None" "heap t = heap s" "log t = log s @ es"
      "\<And>l. http_stopped path send_str (l @ es) r"
proof -
  obtain e w where w: "http_connect_loop env IOTC_HTTP_CONNECT_MAX_RETRIES 0 s = (e, w)" by fastforce
  then obtain l where l: "log w = log s @ l @ [Ret (Cy_http_client_connect 10000) e]"
    using connect_loop_log[of IOTC_HTTP_CONNECT_MAX_RETRIES env 0 s] by (auto simp: IOTC_HTTP_CONNECT_MAX_RETRIES_def)
  have hw: "heap w = heap s" "next_addr w = next_addr s"
    using http_connect_loop_frame(1,2)[of env IOTC_HTTP_CONNECT_MAX_RETRIES 0 s] w by simp_all
  then have ok: "heap_ok w" using assms(1) by (simp add: heap_ok_def)
  show thesis
  proof (cases "e = CY_RSLT_SUCCESS")
    case False
    obtain r' t' where c: "http_cleanup_delete env w = (r', t')" by fastforce
    then have t: "r = r'" "d = None" "t = t'" using assms(2) False w by (simp_all add: http_connected_request_def)
    from cleanup_logs(2)[OF c] obtain r2 where
      lt: "log t' = log w @ [Ret Cy_http_client_delete r2, Ret Cy_http_client_deinit r']" by blast
    have "heap t' = heap w" using cleanup_frame(2)[of env w] c by simp
    with t lt l hw False show thesis
      by (intro that(2)[where es = "l @ [Ret (Cy_http_client_connect 10000) e, Ret Cy_http_client_delete r2,
            Ret Cy_http_client_deinit r']"])
        (auto simp: http_stopped_def Let_def)
  next
    case True
    obtain x y where x: "http_exchange env path send_str w = (x, y)" by fastforce
    obtain r' t' where c: "http_cleanup_disconnect env y = (r', t')" by fastforce
    have t: "r = r'" "d = x" "t = t'" using assms(2) True w x c by (simp_all add: http_connected_request_def)
    from cleanup_logs(3)[OF c] obtain r1 r2 where
      lt: "log t' = log y @ [Ret Cy_http_client_disconnect r1, Ret Cy_http_client_delete r2, Ret Cy_http_client_deinit r']"
      by blast
    have ht: "heap t' = heap y" using cleanup_frame(3)[of env y] c by simp
    from exchange_exact[OF ok x] show thesis
    proof cases
      case (1 a b)
      let ?es = "l @ [Ret (Cy_http_client_connect 10000) 0, Ret (http_header_call path send_str) 0,
             Ret (http_send_call send_str) 0, Alloc (Suc (length b)) True,
             Ret Cy_http_client_disconnect r1, Ret Cy_http_client_delete r2, Ret Cy_http_client_deinit r]"
      have "http_answered env path send_str (log s) ?es b r"
        unfolding http_answered_def using 1(5) l True
        by (intro exI[of _ l] exI[of _ r1] exI[of _ r2]) simp
      with 1 t lt l hw ht True show thesis by (intro that(1)[where es = ?es and a = a and b = b]) simp_all
    next
      case (2 f n es)
      let ?es = "l @ [Ret (Cy_http_client_connect 10000) 0] @ es @
             [Ret Cy_http_client_disconnect r1, Ret Cy_http_client_delete r2, Ret Cy_http_client_deinit r]"
      have "http_stopped path send_str (k @ ?es) r" for k
        unfolding http_stopped_def Let_def
        using 2(4,5)
        by (intro exI[of _ "if es = [Ret (http_header_call path send_str) 0, Ret (http_send_call send_str) 0, Alloc n False]
              then k @ l @ [Ret (Cy_http_client_connect 10000) 0, Ret (http_header_call path send_str) 0]
              else k @ l @ [Ret (Cy_http_client_connect 10000) 0]"] exI[of _ f] exI[of _ r1] exI[of _ r2] exI[of _ "[]"]
            exI[of _ n]) auto
      with 2 t lt l hw ht True show thesis by (intro that(2)[where es = ?es]) simp_all
    qed
  qed
qed

lemma http_answered_append:
  "http_answered env path send_str (l0 @ k) es b r \<Longrightarrow> http_answered env path send_str l0 (k @ es) b r"
  unfolding http_answered_def append_assoc by (metis append_assoc)

lemma request_exact:
  assumes "heap_ok s" and "iotconnect_https_request env (Some host) path send_str s = (r, d, t)"
  obtains a b es where "d = Some a" "heap s a = None" "heap t = (heap s)(a \<mapsto> b @ [CHR 0x00])"
      "log t = log s @ es" "http_answered env path send_str (log s) es b r"
  | es where "d = None" "heap t = heap s" "log t = log s @ es" "http_stopped path send_str es r"
proof -
  obtain e u where u: "call env Cy_http_client_init s = (e, u)" by fastforce
  let ?create = "Cy_http_client_create (take (length (c_string host)) host) 443 (Suc (length (c_string host)))"
  obtain f v where v: "call env ?create u = (f, v)" by fastforce
  have lu: "log u = log s @ [Ret Cy_http_client_init e]" "heap u = heap s" "next_addr u = next_addr s"
    using call_log[of env Cy_http_client_init s] call_frame(1,2)[of env Cy_http_client_init s] by (simp_all add: u)
  have lv: "log v = log s @ [Ret Cy_http_client_init e, Ret ?create f]" "heap v = heap s" "next_addr v = next_addr s"
    using call_log[of env ?create u] call_frame(1,2)[of env ?create u] lu by (simp_all add: v)
  consider "e \<noteq> 0" | "e = 0" "f \<noteq> 0" | "e = 0" "f = 0" by blast
  then show thesis
  proof cases
    case 1
    then have "r = e" "d = None" "t = u"
      using assms(2) u by (simp_all add: iotconnect_https_request_def c_strlen_def)
    with 1 lu show thesis by (intro that(2)[where es = "[Ret Cy_http_client_init e]"]) (auto simp: http_stopped_def Let_def)
  next
    case 2
    obtain r' t' where c: "http_cleanup_deinit env v = (r', t')" by fastforce
    have "r = r'" "d = None" "t = t'"
      using assms(2) u v c 2 by (simp_all add: iotconnect_https_request_def c_strlen_def)
    with 2 lv cleanup_logs(1)[OF c] cleanup_frame(1)[of env v] c show thesis
      by (intro that(2)[where es = "[Ret Cy_http_client_init 0, Ret ?create f, Ret Cy_http_client_deinit r]"])
        (auto simp: http_stopped_def Let_def)
  next
    case 3
    have ok: "heap_ok v" using assms(1) lv by (simp add: heap_ok_def)
    have c: "http_connected_request env path send_str v = (r, d, t)"
      using assms(2) u v 3 by (simp add: iotconnect_https_request_def c_strlen_def)
    let ?k = "[Ret Cy_http_client_init e, Ret ?create f]"
    from connected_exact[OF ok c] show thesis
    proof cases
      case (1 a b es)
      with lv http_answered_append[of env path send_str "log s" ?k es b r] show thesis
        by (intro that(1)[where es = "?k @ es" and a = a and b = b]) simp_all
    next
      case (2 es)
      then have "http_stopped path send_str (?k @ es) r" by blast
      with 2 lv show thesis by (intro that(2)[where es = "?k @ es"]) simp_all
    qed
  qed
qed

section \<open>Balance of the HTTP library's resources\<close>

definition http_inits :: "sdk_event list \<Rightarrow> nat" where
  "http_inits es = count_calls (\<lambda>c r. c = Cy_http_client_init \<and> r = CY_RSLT_SUCCESS) es"
definition http_deinits :: "sdk_event list \<Rightarrow> nat" where
  "http_deinits es = count_calls (\<lambda>c r. c = Cy_http_client_deinit) es"
definition http_creates :: "sdk_event list \<Rightarrow> nat" where
  "http_creates es = count_calls (\<lambda>c r. case c of
     Cy_http_client_create h p n \<Rightarrow> r = CY_RSLT_SUCCESS | _ \<Rightarrow> False) es"
definition http_deletes :: "sdk_event list \<Rightarrow> nat" where
  "http_deletes es = count_calls (\<lambda>c r. c = Cy_http_client_delete) es"
definition http_connects :: "sdk_event list \<Rightarrow> nat" where
  "http_connects es = count_calls (\<lambda>c r. case c of
     Cy_http_client_connect t \<Rightarrow> r = CY_RSLT_SUCCESS | _ \<Rightarrow> False) es"
definition http_disconnects :: "sdk_event list \<Rightarrow> nat" where
  "http_disconnects es = count_calls (\<lambda>c r. c = Cy_http_client_disconnect) es"

lemmas http_counts =
  http_inits_def http_deinits_def http_creates_def http_deletes_def http_connects_def http_disconnects_def

definition http_open :: "sdk_event list \<Rightarrow> int \<times> int \<times> int" where
  "http_open es = (int (http_inits es) - int (http_deinits es), int (http_creates es) - int (http_deletes es),
     int (http_connects es) - int (http_disconnects es))"

definition opened :: "int \<Rightarrow> int \<Rightarrow> int \<Rightarrow> int \<times> int \<times> int \<Rightarrow> int \<times> int \<times> int" where
  "opened a b c t = (fst t + a, fst (snd t) + b, snd (snd t) + c)"

lemma opened_opened [simp]:
  "opened a b c (opened a' b' c' t) = opened (a + a') (b + b') (c + c') t" "opened 0 0 0 t = t"
  by (simp_all add: opened_def)

lemma connect_loop_connects:
  "0 < n \<Longrightarrow> http_connects (log (snd (http_connect_loop env n r s))) =
     http_connects (log s) + (if fst (http_connect_loop env n r s) = CY_RSLT_SUCCESS then 1 else 0)"
  by (induction n arbitrary: r s) (simp_all add: case_prod_unfold http_connects_def)

lemma exchange_open: "http_open (log (snd (http_exchange env path send_str s))) = http_open (log s)"
  by (simp add: http_open_def http_counts http_exchange_def case_prod_unfold Let_def)

lemma cleanup_open:
  "http_open (log (snd (http_cleanup_deinit env s))) = opened (- 1) 0 0 (http_open (log s))"
  "http_open (log (snd (http_cleanup_delete env s))) = opened (- 1) (- 1) 0 (http_open (log s))"
  "http_open (log (snd (http_cleanup_disconnect env s))) = opened (- 1) (- 1) (- 1) (http_open (log s))"
  by (simp_all add: opened_def http_open_def http_counts http_cleanup_deinit_def http_cleanup_delete_def
      http_cleanup_disconnect_def case_prod_unfold Let_def)

lemma connect_loop_open:
  "http_open (log (snd (http_connect_loop env IOTC_HTTP_CONNECT_MAX_RETRIES 0 s))) =
     opened 0 0 (if fst (http_connect_loop env IOTC_HTTP_CONNECT_MAX_RETRIES 0 s) = CY_RSLT_SUCCESS then 1 else 0)
       (http_open (log s))"
  using connect_loop_connects[of IOTC_HTTP_CONNECT_MAX_RETRIES env 0 s]
  by (simp add: opened_def http_open_def http_inits_def http_deinits_def http_creates_def http_deletes_def
      http_disconnects_def http_loop_calls IOTC_HTTP_CONNECT_MAX_RETRIES_def)

lemma connected_open:
  "http_open (log (snd (snd (http_connected_request env path send_str s)))) = opened (- 1) (- 1) 0 (http_open (log s))"
  by (simp add: http_connected_request_def case_prod_unfold Let_def cleanup_open connect_loop_open
      exchange_open)

lemma open_calls:
  "http_open (log (snd (c_strlen p s))) = http_open (log s)"
  "http_open (log (snd (call env Cy_http_client_init s))) =
     opened (if fst (call env Cy_http_client_init s) = CY_RSLT_SUCCESS then 1 else 0) 0 0 (http_open (log s))"
  "http_open (log (snd (call env (Cy_http_client_create h n k) s))) =
     opened 0 (if fst (call env (Cy_http_client_create h n k) s) = CY_RSLT_SUCCESS then 1 else 0) 0
       (http_open (log s))"
  by (simp_all add: opened_def http_open_def http_counts)

lemma request_open:
  "http_open (log (snd (snd (iotconnect_https_request env host path send_str s)))) = http_open (log s)"
  by (simp add: iotconnect_https_request_def case_prod_unfold Let_def connected_open cleanup_open open_calls)

section \<open>Properties\<close>

definition http_example :: sdk_base where
  "http_example = \<lparr>log = [], heap = Map.empty, next_addr = 1\<rparr>"

definition http_example_env :: "cy_rslt \<Rightarrow> sdk_env" where
  "http_example_env connect_result =
     \<lparr>env_code = \<lambda>_. 5,
      env_ret = \<lambda>_ c. case c of Cy_http_client_connect t \<Rightarrow> connect_result | _ \<Rightarrow> 0,
      env_alloc = \<lambda>_ _. True, env_mqtt_handle = \<lambda>_. Some 1, env_rand = \<lambda>_. 0,
      env_http_body = \<lambda>_. ''{}''\<rparr>"

lemma http_example_ok: "heap_ok http_example" "log http_example = []"
  by (simp_all add: http_example_def heap_ok_def)

text \<open>
  C32: the response of a request to a given host. It is present exactly when the request connected, wrote its
  header, sent its text with success and got memory: then it is a fresh block with the body that the
  server sent in answer to this sending, and a terminating NUL. Otherwise it is absent, no memory is
  left allocated, and the log of the request ends with its first failure and the cleanup calls due from
  there. The result is that of the failing initialisation or else of the final deinitialisation. Freeing the
  response gives back the memory as it was, and no fault occurs on any path.
\<close>

theorem http_request_response:
  assumes "heap_ok s" and "host \<noteq> None"
    and "iotconnect_https_request env host path send_str s = (r, d, t)"
  shows "(\<exists>es. log t = log s @ es \<and>
       (case d of
          None \<Rightarrow> heap t = heap s \<and> http_stopped path send_str es r
        | Some a \<Rightarrow> heap s a = None
            \<and> (\<exists>b. heap t = (heap s)(a \<mapsto> b @ [CHR 0x00]) \<and> http_answered env path send_str (log s) es b r)))
    \<and> faults (log t) = faults (log s)
    \<and> heap (snd (iotconnect_free_https_response d t)) = heap s
    \<and> faults (log (snd (iotconnect_free_https_response d t))) = faults (log s)"
proof -
  obtain h where h: "host = Some h" using assms(2) by blast
  have f: "faults (log t) = faults (log s)"
    using request_response[OF assms(1,2), of env path send_str] assms(3) by (simp add: response_ok_def)
  from request_exact[OF assms(1) assms(3)[unfolded h]] show ?thesis
  proof cases
    case (1 a b es)
    then have "heap t a \<noteq> None" by simp
    from free_live[OF this] 1 f show ?thesis by (auto simp: iotconnect_free_https_response_def)
  next
    case (2 es)
    then show ?thesis using f by (simp add: iotconnect_free_https_response_def)
  qed
qed

lemma http_request_response_witness:
  "heap (snd (iotconnect_free_https_response
      (fst (snd (iotconnect_https_request (http_example_env 0) (Some ''host'') (Some ''/'') None http_example)))
      (snd (snd (iotconnect_https_request (http_example_env 0) (Some ''host'') (Some ''/'') None http_example)))))
    = Map.empty"
proof -
  obtain r d t where e:
    "iotconnect_https_request (http_example_env 0) (Some ''host'') (Some ''/'') None http_example = (r, d, t)"
    by (metis prod_cases3)
  have "Some ''host'' \<noteq> None" by simp
  from http_request_response[OF http_example_ok(1) this e]
  have "heap (snd (iotconnect_free_https_response d t)) = heap http_example" by blast
  moreover have "heap http_example = Map.empty" by (simp add: http_example_def)
  ultimately show ?thesis by (simp add: e)
qed

text \<open>
  C12: a request leaves nothing of the HTTP library open: on every path, as many successful
  initialisations as deinitialisations, client creations as deletions, and connections as
  disconnections are added to the log, whatever the library returns.
\<close>

theorem http_request_balanced:
  "case iotconnect_https_request env host path send_str s of (r, d, t) \<Rightarrow>
     http_inits (log t) + http_deinits (log s) = http_inits (log s) + http_deinits (log t)
     \<and> http_creates (log t) + http_deletes (log s) = http_creates (log s) + http_deletes (log t)
     \<and> http_connects (log t) + http_disconnects (log s) = http_connects (log s) + http_disconnects (log t)"
proof -
  have "int (a + d) = int (c + b)" if "int a - int b = int c - int d" for a b c d
    using that by simp
  then have nat: "a + d = c + b" if "int a - int b = int c - int d" for a b c d
    using that by (metis of_nat_eq_iff)
  show ?thesis
    using request_open[of env host path send_str s]
    by (auto simp: http_open_def case_prod_unfold intro!: nat)
qed

text \<open>
  Once the library is initialised, the return value says nothing about the request: it is
  the result of the final deinitialisation. When the client is created and every connection
  attempt fails, the request makes all 5 attempts, returns no data, and returns 0 (success) if the
  deinitialisation succeeds.
\<close>

theorem http_error_masked:
  assumes "\<And>l. env_ret env l Cy_http_client_init = CY_RSLT_SUCCESS"
    and "\<And>l h p n. env_ret env l (Cy_http_client_create h p n) = CY_RSLT_SUCCESS"
    and "\<And>l t. env_ret env l (Cy_http_client_connect t) \<noteq> CY_RSLT_SUCCESS"
    and "\<And>l. env_ret env l Cy_http_client_deinit = CY_RSLT_SUCCESS"
    and "iotconnect_https_request env host path send_str s = (r, d, t)"
  shows "r = CY_RSLT_SUCCESS \<and> d = None \<and> http_attempts (log t) = http_attempts (log s) + 5"
proof -
  have c: "fst (call env c u) = env_ret env (log u) c" for c and u :: "'a sdk_base_scheme"
    by (simp add: call_def Let_def)
  have fail: "fst (http_connect_loop env n 0 u) \<noteq> CY_RSLT_SUCCESS" if "0 < n" for n and u :: "'a sdk_base_scheme"
  proof -
    have "fst (http_connect_loop env n r u) \<noteq> CY_RSLT_SUCCESS" if "0 < n \<or> r \<noteq> CY_RSLT_SUCCESS" for r
      using that by (induction n arbitrary: r u) (simp_all add: case_prod_unfold c assms(3))
    with that show ?thesis by simp
  qed
  have loop: "http_attempts (log (snd (http_connect_loop env 5 0 u))) = http_attempts (log u) + 5" for u :: "'a sdk_base_scheme"
    by (rule http_retry.loop_fail_tries) (rule fail, simp)
  show ?thesis
    using assms(5)
    by (auto simp: iotconnect_https_request_def http_connected_request_def case_prod_unfold Let_def c
        assms(1,2,4) fail IOTC_HTTP_CONNECT_MAX_RETRIES_def http_cleanup_delete_def http_cleanup_deinit_def)
      (auto simp: http_attempts_def loop[unfolded http_attempts_def])
qed

lemma http_error_masked_witness:
  "fst (iotconnect_https_request (http_example_env 7) (Some ''host'') (Some ''/'') None http_example) = 0"
proof -
  obtain r d t where e:
    "iotconnect_https_request (http_example_env 7) (Some ''host'') (Some ''/'') None http_example = (r, d, t)"
    by (metis prod_cases3)
  have "r = CY_RSLT_SUCCESS"
    using http_error_masked[of "http_example_env 7", OF _ _ _ _ e] by (simp add: http_example_env_def)
  then show ?thesis by (simp add: e)
qed

end
