(* ===== verification/IotConnect.thy ===== *)
theory IotConnect
  imports MqttClient MqttMqProps HttpClient
begin

text \<open>
  The SDK itself, \<open>source/iotconnect.c\<close>: its configuration, the identity protocol over
  HTTPS, the callbacks that tie the MQTT client to the message queue, and the public functions
  \<open>iotconnect_sdk_*\<close>. A function that may block or loop for ever has type \<open>option\<close>.
\<close>

section \<open>Configuration and state\<close>

text \<open>\<open>IotConnectClientConfig\<close> as the application fills it in.\<close>

record IotConnectClientConfig =
  c_env :: "string option"
  c_cpid :: "string option"
  c_duid :: "string option"
  c_connection_type :: IotConnectConnectionType
  c_x509_config :: IotConnectX509Config
  c_ota_cb :: "nat option"
  c_cmd_cb :: "nat option"
  c_status_cb :: "status_cb option"
  c_qos :: nat
  c_mq_max_messages :: nat
  c_verbose :: bool

text \<open>
  The static variable \<open>config\<close>: the same structure, with the SDK's own copies of the three
  strings.
\<close>

record held_config =
  h_env :: "addr option"
  h_cpid :: "addr option"
  h_duid :: "addr option"
  h_connection_type :: IotConnectConnectionType
  h_x509_config :: IotConnectX509Config
  h_ota_cb :: "nat option"
  h_cmd_cb :: "nat option"
  h_status_cb :: "status_cb option"
  h_qos :: nat
  h_mq_max_messages :: nat
  h_verbose :: bool

definition zero_x509 :: IotConnectX509Config where
  "zero_x509 = \<lparr>server_ca_cert = None, device_cert = None, device_key = None, device_key_size = 0\<rparr>"

definition zero_config :: held_config where
  "zero_config =
     \<lparr>h_env = None, h_cpid = None, h_duid = None, h_connection_type = IOTC_CT_UNDEFINED,
      h_x509_config = zero_x509, h_ota_cb = None, h_cmd_cb = None, h_status_cb = None, h_qos = 0,
      h_mq_max_messages = 0, h_verbose = False\<rparr>"

record 'q sdk_state = "'q mqtt_state" +
  config :: held_config

definition iotconnect_sdk_init_config :: IotConnectClientConfig where
  "iotconnect_sdk_init_config =
     \<lparr>c_env = None, c_cpid = None, c_duid = None, c_connection_type = IOTC_CT_UNDEFINED,
      c_x509_config = zero_x509, c_ota_cb = None, c_cmd_cb = None, c_status_cb = None,
      c_qos = 1, c_mq_max_messages = 4, c_verbose = False\<rparr>"

text \<open>
  A call that iotc-c-lib makes while it processes an event: the command callback with the
  command, the callback for an update, or the callback that sends a message (an acknowledgement of the
  application, which goes through the library).
\<close>

datatype c2d_call =
    Call_command command_cb "string option"
  | Call_ota nat
  | Call_send string string

text \<open>
  What the code reads back from iotc-c-lib and the RTOS: the parts of a URL context, the
  MQTT configuration that an identity response stands for, the message that a telemetry object is
  turned into, the calls that it makes for an event, and the tick count; and the build option
  \<open>IOTC_AWS_DEVICE_QUALIFICATION\<close>.
\<close>

record iotcl_lib =
  lib_url_hostname :: "sdk_event list \<Rightarrow> string"
  lib_url_resource :: "sdk_event list \<Rightarrow> string"
  lib_identity_mqtt :: "string \<Rightarrow> iotcl_mqtt_config"
  lib_telemetry :: "sdk_event list \<Rightarrow> (string \<times> string) option"
  lib_c2d_calls :: "string \<Rightarrow> c2d_call list"
  lib_ticks :: "sdk_event list \<Rightarrow> u32"
  lib_tick_period_ms :: u32
  IOTC_AWS_DEVICE_QUALIFICATION :: bool

section \<open>Identity over HTTPS\<close>

text \<open>What is printed of a response: the message, and the text behind the pointer.\<close>

definition dump_response :: "string option \<Rightarrow> addr option \<Rightarrow> 'z sdk_base_scheme \<Rightarrow> 'z sdk_base_scheme" where
  "dump_response message data s =
     (let s = (case message of Some m \<Rightarrow> sdk_emit (Print m) s | None \<Rightarrow> s)
      in case data of
           Some a \<Rightarrow> (let (text, s) = read_block data s in sdk_emit (Print (c_string text)) s)
         | None \<Rightarrow> sdk_emit (Print '' Response was empty'') s)"

definition validate_response ::
    "sdk_env \<Rightarrow> addr option \<Rightarrow> 'z sdk_base_scheme \<Rightarrow> c_int \<times> 'z sdk_base_scheme" where
  "validate_response env data s =
     (case data of
        None \<Rightarrow> (env_code env IOTCL_ERR_PARSING_ERROR, dump_response (Some ''Unable to parse HTTP response.'') data s)
      | Some a \<Rightarrow>
          (let (text, s) = read_block data s
           in if CHR ''{'' \<notin> set (c_string text) then
                (env_code env IOTCL_ERR_PARSING_ERROR,
                 dump_response (Some ''No json response from server.'') data s)
              else if hd (c_string text) \<noteq> CHR ''{'' then
                (IOTCL_SUCCESS,
                 dump_response (Some ''WARN: Expected JSON to start immediately in the returned data.'') data s)
              else (IOTCL_SUCCESS, s)))"

text \<open>The label \<open>cleanup\<close>.\<close>

definition identity_cleanup ::
    "c_int \<Rightarrow> addr option \<Rightarrow> 'z sdk_base_scheme \<Rightarrow> c_int \<times> 'z sdk_base_scheme" where
  "identity_cleanup status data s =
     (let s = sdk_emit (Dra_url_deinit ''discovery_url'') s;
          s = sdk_emit (Dra_url_deinit ''identity_url'') s;
          (data, s) = iotconnect_free_https_response data s
      in (status, s))"

text \<open>The \<open>switch\<close> on the connection type.\<close>

definition discovery_url ::
    "sdk_env \<Rightarrow> IotConnectConnectionType \<Rightarrow> string \<Rightarrow> string \<Rightarrow> 'z sdk_base_scheme
       \<Rightarrow> c_int \<times> 'z sdk_base_scheme" where
  "discovery_url env ct cpid envname s =
     (case ct of
        IOTC_CT_AWS \<Rightarrow>
          if c_string envname = ''POC'' \<or> c_string envname = ''poc'' then
            call env (Iotcl_dra_discovery_init_url_with_host ''awsdiscovery.iotconnect.io'' cpid envname) s
          else
            call env (Iotcl_dra_discovery_init_url_with_host ''discoveryconsole.iotconnect.io'' cpid envname) s
      | IOTC_CT_AZURE \<Rightarrow> call env (Iotcl_dra_discovery_init_url_azure cpid envname) s
      | IOTC_CT_UNDEFINED \<Rightarrow> (env_code env IOTCL_ERR_BAD_VALUE, s))"

text \<open>The second request and what follows it.\<close>

definition configure_identity ::
    "sdk_env \<Rightarrow> iotcl_lib \<Rightarrow> IotConnectConnectionType \<Rightarrow> addr option \<Rightarrow> ('q, 'z) mqtt_state_scheme
       \<Rightarrow> c_int \<times> ('q, 'z) mqtt_state_scheme" where
  "configure_identity env lib ct data s =
     (let (status, s) = validate_response env data s
      in if status \<noteq> IOTCL_SUCCESS then identity_cleanup status data s
         else
           (let (text, s) = read_block data s;
                text = c_string text;
                (status, s) = call env (Iotcl_dra_identity_configure_library_mqtt text) s
            in if status \<noteq> IOTCL_SUCCESS then identity_cleanup status data (dump_response None data s)
               else
                 (let mc = lib_identity_mqtt lib text;
                      s = s\<lparr>iotcl_mc := Some mc\<rparr>;
                      s = (if ct = IOTC_CT_AWS \<and> mc_username mc \<noteq> None
                           then (sdk_emit (Iotcl_free ''username'') s)
                                  \<lparr>iotcl_mc := Some (mc\<lparr>mc_username := None\<rparr>)\<rparr>
                           else s)
                  in identity_cleanup status data s)))"

text \<open>A GET request to the URL that was built last.\<close>

definition http_get ::
    "sdk_env \<Rightarrow> iotcl_lib \<Rightarrow> 'z sdk_base_scheme \<Rightarrow> cy_rslt \<times> addr option \<times> 'z sdk_base_scheme" where
  "http_get env lib s =
     iotconnect_https_request env (Some (lib_url_hostname lib (log s)))
       (Some (lib_url_resource lib (log s))) None s"

text \<open>From the release of the discovery response to the end.\<close>

definition identity_request ::
    "sdk_env \<Rightarrow> iotcl_lib \<Rightarrow> IotConnectConnectionType \<Rightarrow> string \<Rightarrow> addr option
       \<Rightarrow> ('q, 'z) mqtt_state_scheme \<Rightarrow> c_int \<times> ('q, 'z) mqtt_state_scheme" where
  "identity_request env lib ct duid data s =
     (let (data, s) = iotconnect_free_https_response data s;
          (status, s) = call env (Iotcl_dra_identity_build_url duid) s
      in if status \<noteq> IOTCL_SUCCESS then identity_cleanup status data s
         else (let (_, data, s) = http_get env lib s in configure_identity env lib ct data s))"

text \<open>From the check of the discovery response.\<close>

definition discovery_response ::
    "sdk_env \<Rightarrow> iotcl_lib \<Rightarrow> IotConnectConnectionType \<Rightarrow> string \<Rightarrow> addr option
       \<Rightarrow> ('q, 'z) mqtt_state_scheme \<Rightarrow> c_int \<times> ('q, 'z) mqtt_state_scheme" where
  "discovery_response env lib ct duid data s =
     (let (status, s) = validate_response env data s
      in if status \<noteq> IOTCL_SUCCESS then identity_cleanup status data s
         else
           (let (text, s) = read_block data s;
                (status, s) = call env (Iotcl_dra_discovery_parse (c_string text)) s
            in if status \<noteq> IOTCL_SUCCESS then identity_cleanup status data (dump_response None data s)
               else identity_request env lib ct duid data s))"

definition run_http_identity ::
    "sdk_env \<Rightarrow> iotcl_lib \<Rightarrow> IotConnectConnectionType \<Rightarrow> string \<Rightarrow> string \<Rightarrow> string
       \<Rightarrow> ('q, 'z) mqtt_state_scheme \<Rightarrow> c_int \<times> ('q, 'z) mqtt_state_scheme" where
  "run_http_identity env lib ct duid cpid envname s =
     (let (status, s) = discovery_url env ct cpid envname s
      in if status \<noteq> IOTCL_SUCCESS then (status, s)
         else (let (_, data, s) = http_get env lib s in discovery_response env lib ct duid data s))"

section \<open>Callbacks\<close>

definition on_mqtt_c2d_message ::
    "sdk_env \<Rightarrow> 'q rtos_queue_api \<Rightarrow> string \<Rightarrow> string \<Rightarrow> ('q, 'z) mq_state_scheme
       \<Rightarrow> ('q, 'z) mq_state_scheme" where
  "on_mqtt_c2d_message env api topic message s =
     iotc_mq_on_mqtt_inbound_message env api (Some topic) (Some message) (length message) s"

definition on_mqtt_mq_message :: "string \<Rightarrow> string \<Rightarrow> 'z sdk_base_scheme \<Rightarrow> 'z sdk_base_scheme" where
  "on_mqtt_mq_message topic message s = sdk_emit (C2d_process_event message) s"

text \<open>
  The inbound callbacks by name: what a call through the pointer does, up to the event that is handed to
  iotc-c-lib. \<open>invoke_sdk\<close> below adds what the library does with it.
\<close>

definition invoke_inbound ::
    "sdk_env \<Rightarrow> 'q rtos_queue_api \<Rightarrow> inbound_cb \<Rightarrow> string \<Rightarrow> string \<Rightarrow> ('q, 'z) mq_state_scheme
       \<Rightarrow> ('q, 'z) mq_state_scheme option" where
  "invoke_inbound env api cb topic message s =
     (case cb of
        On_mqtt_c2d_message \<Rightarrow> Some (on_mqtt_c2d_message env api topic message s)
      | On_mqtt_mq_message \<Rightarrow> Some (on_mqtt_mq_message topic message s)
      | User_inbound n \<Rightarrow> record_message cb topic message s)"

definition iotconnect_sdk_mqtt_send_cb ::
    "sdk_env \<Rightarrow> string option \<Rightarrow> string option \<Rightarrow> 'q sdk_state \<Rightarrow> 'q sdk_state" where
  "iotconnect_sdk_mqtt_send_cb env topic json_str s =
     snd (iotc_mqtt_client_publish env topic json_str (h_qos (config s)) s)"

section \<open>Connecting and disconnecting\<close>

definition iotconnect_sdk_is_connected :: "('q, 'z) mqtt_state_scheme \<Rightarrow> bool" where
  "iotconnect_sdk_is_connected s = iotc_mqtt_client_is_connected s"

definition iotconnect_sdk_disconnect ::
    "sdk_env \<Rightarrow> 'q rtos_queue_api \<Rightarrow> ('q, 'z) mqtt_state_scheme
       \<Rightarrow> (cy_rslt \<times> ('q, 'z) mqtt_state_scheme) option" where
  "iotconnect_sdk_disconnect env api s =
     Option.bind (iotc_mq_deregister api s) (\<lambda>s.
     Option.bind (iotc_mq_flush api s) (\<lambda>s.
       Some (iotc_mqtt_client_disconnect env s)))"

definition connect_config :: "held_config \<Rightarrow> IotConnectMqttConfig" where
  "connect_config h =
     \<lparr>mqtt_connection_type = h_connection_type h, mqtt_x509_config = h_x509_config h,
      mqtt_inbound_cb = Some On_mqtt_c2d_message,
      mqtt_status_cb = (case h_status_cb h of Some cb \<Rightarrow> Some cb | None \<Rightarrow> Some Default_on_connection_status)\<rparr>"

definition iotconnect_sdk_connect ::
    "sdk_env \<Rightarrow> bool \<Rightarrow> 'q sdk_state \<Rightarrow> cy_rslt \<times> 'q sdk_state" where
  "iotconnect_sdk_connect env no_backoff s =
     (if iotc_mqtt_client_is_connected s then (env_code env IOTCL_ERR_FAILED, s)
      else
        (let (ret_cy, s) = iotc_mqtt_client_init env no_backoff (connect_config (config s)) s
         in if ret_cy \<noteq> CY_RSLT_SUCCESS then (env_code env IOTCL_ERR_FAILED, s)
            else (0, iotc_mq_register (Some On_mqtt_mq_message) s)))"

section \<open>Initialising and deinitialising\<close>

definition free_opt :: "addr option \<Rightarrow> 'z sdk_base_scheme \<Rightarrow> 'z sdk_base_scheme" where
  "free_opt p s = (case p of Some a \<Rightarrow> c_free a s | None \<Rightarrow> s)"

definition iotconnect_sdk_deinit ::
    "sdk_env \<Rightarrow> 'q rtos_queue_api \<Rightarrow> 'q sdk_state \<Rightarrow> 'q sdk_state option" where
  "iotconnect_sdk_deinit env api s =
     Option.bind (if iotconnect_sdk_is_connected s
                  then map_option snd (iotconnect_sdk_disconnect env api s) else Some s) (\<lambda>s.
     Option.bind (iotc_mq_deinit api s) (\<lambda>s.
       let s = free_opt (h_cpid (config s)) s;
           s = free_opt (h_env (config s)) s;
           s = free_opt (h_duid (config s)) s;
           s = s\<lparr>config := zero_config\<rparr>
       in Some ((sdk_emit Iotcl_deinit s)\<lparr>iotcl_mc := None\<rparr>)))"

text \<open>\<open>memcpy\<close> of the structure and the three copies.\<close>

definition hold_config ::
    "sdk_env \<Rightarrow> IotConnectClientConfig \<Rightarrow> 'q sdk_state \<Rightarrow> 'q sdk_state" where
  "hold_config env c s =
     (let (cpid, s) = iotcl_strdup env (c_cpid c) s;
          (envname, s) = iotcl_strdup env (c_env c) s;
          (duid, s) = iotcl_strdup env (c_duid c) s
      in s\<lparr>config :=
            \<lparr>h_env = envname, h_cpid = cpid, h_duid = duid, h_connection_type = c_connection_type c,
             h_x509_config = c_x509_config c, h_ota_cb = c_ota_cb c, h_cmd_cb = c_cmd_cb c,
             h_status_cb = c_status_cb c, h_qos = c_qos c, h_mq_max_messages = c_mq_max_messages c,
             h_verbose = c_verbose c\<rparr>\<rparr>)"

text \<open>The configuration for iotc-c-lib.\<close>

definition client_config ::
    "iotcl_lib \<Rightarrow> IotConnectClientConfig \<Rightarrow> string \<Rightarrow> string \<Rightarrow> iotcl_client_config" where
  "client_config lib c cpid duid =
     \<lparr>icl_cpid = cpid, icl_duid = duid, icl_ota_cb = c_ota_cb c,
      icl_cmd_cb = (if IOTC_AWS_DEVICE_QUALIFICATION lib then Some On_command_intercept
                    else map_option User_command (c_cmd_cb c))\<rparr>"

definition fail_deinit ::
    "sdk_env \<Rightarrow> 'q rtos_queue_api \<Rightarrow> c_int \<Rightarrow> 'q sdk_state \<Rightarrow> (c_int \<times> 'q sdk_state) option" where
  "fail_deinit env api status s =
     Option.bind (iotconnect_sdk_deinit env api s) (\<lambda>s. Some (status, s))"

text \<open>
  The result of \<open>iotcl_init\<close> is stored in \<open>status\<close> and overwritten by the next statement.
\<close>

definition iotconnect_sdk_init ::
    "sdk_env \<Rightarrow> iotcl_lib \<Rightarrow> 'q rtos_queue_api \<Rightarrow> IotConnectClientConfig \<Rightarrow> 'q sdk_state
       \<Rightarrow> (c_int \<times> 'q sdk_state) option" where
  "iotconnect_sdk_init env lib api c s =
     (let s = hold_config env c s;
          (result, s) = iotc_mq_init api (c_mq_max_messages c) s
      in if result \<noteq> CY_RSLT_SUCCESS then Some (result, s)
         else
           (case (c_env c, c_cpid c, c_duid c) of
              (Some envname, Some cpid, Some duid) \<Rightarrow>
                if c_connection_type c \<noteq> IOTC_CT_AWS \<and> c_connection_type c \<noteq> IOTC_CT_AZURE then
                  fail_deinit env api (env_code env IOTCL_ERR_MISSING_VALUE) s
                else if c_mq_max_messages c = 0 then Some (env_code env IOTCL_ERR_CONFIG_ERROR, s)
                else
                  (let (status, s) = call env (Iotcl_init (c_verbose c) (client_config lib c cpid duid)) s;
                       (status, s) = run_http_identity env lib (c_connection_type c) duid cpid envname s
                   in if status \<noteq> IOTCL_SUCCESS then fail_deinit env api status s
                      else Some (0, s))
            | _ \<Rightarrow> fail_deinit env api (env_code env IOTCL_ERR_MISSING_VALUE) s))"

section \<open>Device qualification\<close>

definition QUALIFICATION_START_PREFIX_CMD :: string where
  "QUALIFICATION_START_PREFIX_CMD = ''aws-qualification-start ''"

text \<open>Replacing one field of the MQTT configuration: free it, then copy the new value.\<close>

definition replace_mc ::
    "sdk_env \<Rightarrow> string option \<Rightarrow> ((string option \<Rightarrow> string option) \<Rightarrow> iotcl_mqtt_config \<Rightarrow> iotcl_mqtt_config)
       \<Rightarrow> ('q, 'z) mqtt_state_scheme \<Rightarrow> ('q, 'z) mqtt_state_scheme" where
  "replace_mc env val upd s =
     (let (p, s) = iotcl_strdup env val s
      in case iotcl_mc s of
           Some mc \<Rightarrow> s\<lparr>iotcl_mc := Some (upd (\<lambda>_. if p = None then None else map_option c_string val) mc)\<rparr>
         | None \<Rightarrow> sdk_emit (Fault ''null MQTT configuration'') s)"

text \<open>
  The loop polls with \<open>invoke_inbound\<close>: the calls that iotc-c-lib makes for the messages it finds, another
  qualification command among them, could only keep it from returning, and it does not return anyway.
\<close>

partial_function (option) qualification_loop ::
    "sdk_env \<Rightarrow> bool \<Rightarrow> iotcl_lib \<Rightarrow> 'q rtos_queue_api \<Rightarrow> u32 \<Rightarrow> 'q sdk_state \<Rightarrow> unit option" where
  "qualification_loop env no_backoff lib api last_connected s =
     Option.bind
       (if \<not> iotconnect_sdk_is_connected s then
          Option.bind (iotconnect_sdk_disconnect env api s) (\<lambda>r.
            let s = sdk_emit (Rtos_delay 10000) (snd r);
                s = snd (iotconnect_sdk_connect env no_backoff s)
            in Some (lib_ticks lib (log s), s))
        else Some (last_connected, s)) (\<lambda>r.
     let last_connected = fst r; s = snd r;
         s = (case lib_telemetry lib (log s) of
                Some m \<Rightarrow> iotconnect_sdk_mqtt_send_cb env (Some (fst m)) (Some (snd m)) s
              | None \<Rightarrow> s)
     in Option.bind (iotc_mq_process api (invoke_inbound env api) 5000 s) (\<lambda>s.
        if (lib_ticks lib (log s) - last_connected) * lib_tick_period_ms lib > 60000 then
          Option.bind (iotconnect_sdk_disconnect env api s) (\<lambda>r.
            qualification_loop env no_backoff lib api last_connected (snd r))
        else qualification_loop env no_backoff lib api last_connected s))"

text \<open>The check of the host name only prints.\<close>

definition iotc_qualification_start ::
    "sdk_env \<Rightarrow> bool \<Rightarrow> iotcl_lib \<Rightarrow> 'q rtos_queue_api \<Rightarrow> string option \<Rightarrow> 'q sdk_state \<Rightarrow> unit option" where
  "iotc_qualification_start env no_backoff lib api host s =
     Option.bind (iotconnect_sdk_disconnect env api s) (\<lambda>r.
       let s = snd r;
           s = (if iotcl_mc s = None then sdk_emit (Fault ''null MQTT configuration'') s else s);
           s = fold (\<lambda>f. sdk_emit (Iotcl_free f)) [''host'', ''pub_rpt'', ''pub_ack'', ''sub_c2d''] s;
           s = replace_mc env host mc_host_update s;
           s = replace_mc env (Some ''qualification'') mc_pub_rpt_update s;
           s = replace_mc env (Some ''qualification'') mc_pub_ack_update s;
           s = replace_mc env (Some ''qualification'') mc_sub_c2d_update s
       in qualification_loop env no_backoff lib api (lib_ticks lib (log s)) s)"

text \<open>\<open>None\<close>: the callback does not return to the library that called it.\<close>

definition on_command_intercept ::
    "sdk_env \<Rightarrow> bool \<Rightarrow> iotcl_lib \<Rightarrow> 'q rtos_queue_api \<Rightarrow> string option \<Rightarrow> 'q sdk_state
       \<Rightarrow> 'q sdk_state option" where
  "on_command_intercept env no_backoff lib api command s =
     (let s = (case h_cmd_cb (config s) of Some cb \<Rightarrow> sdk_emit (Command_callback cb command) s | None \<Rightarrow> s);
          n = length QUALIFICATION_START_PREFIX_CMD
      in case command of
           Some cmd \<Rightarrow>
             if take n (c_string cmd) = QUALIFICATION_START_PREFIX_CMD then
               Option.bind (iotc_qualification_start env no_backoff lib api (Some (drop n (c_string cmd))) s)
                 (\<lambda>_. Some s)
             else Some s
         | None \<Rightarrow> Some s)"

section \<open>Polling\<close>

definition run_c2d_call ::
    "sdk_env \<Rightarrow> bool \<Rightarrow> iotcl_lib \<Rightarrow> 'q rtos_queue_api \<Rightarrow> c2d_call \<Rightarrow> 'q sdk_state \<Rightarrow> 'q sdk_state option" where
  "run_c2d_call env no_backoff lib api c s =
     (case c of
        Call_command On_command_intercept command \<Rightarrow> on_command_intercept env no_backoff lib api command s
      | Call_command (User_command n) command \<Rightarrow> Some (sdk_emit (Command_callback n command) s)
      | Call_ota n \<Rightarrow> Some (sdk_emit (Ota_callback n) s)
      | Call_send topic json_str \<Rightarrow> Some (iotconnect_sdk_mqtt_send_cb env (Some topic) (Some json_str) s))"

fun run_c2d_calls ::
    "sdk_env \<Rightarrow> bool \<Rightarrow> iotcl_lib \<Rightarrow> 'q rtos_queue_api \<Rightarrow> c2d_call list \<Rightarrow> 'q sdk_state
       \<Rightarrow> 'q sdk_state option" where
  "run_c2d_calls env no_backoff lib api [] s = Some s"
| "run_c2d_calls env no_backoff lib api (c # cs) s =
     Option.bind (run_c2d_call env no_backoff lib api c s) (run_c2d_calls env no_backoff lib api cs)"

text \<open>A call through the pointer, with the calls back that iotc-c-lib makes before it returns.\<close>

definition invoke_sdk ::
    "sdk_env \<Rightarrow> bool \<Rightarrow> iotcl_lib \<Rightarrow> 'q rtos_queue_api \<Rightarrow> inbound_cb \<Rightarrow> string \<Rightarrow> string \<Rightarrow> 'q sdk_state
       \<Rightarrow> 'q sdk_state option" where
  "invoke_sdk env no_backoff lib api cb topic message s =
     (case cb of
        On_mqtt_mq_message \<Rightarrow>
          run_c2d_calls env no_backoff lib api (lib_c2d_calls lib message) (on_mqtt_mq_message topic message s)
      | _ \<Rightarrow> invoke_inbound env api cb topic message s)"

definition iotconnect_sdk_poll_inbound_mq ::
    "sdk_env \<Rightarrow> bool \<Rightarrow> iotcl_lib \<Rightarrow> 'q rtos_queue_api \<Rightarrow> nat \<Rightarrow> 'q sdk_state \<Rightarrow> 'q sdk_state option" where
  "iotconnect_sdk_poll_inbound_mq env no_backoff lib api timeout_ms s =
     iotc_mq_process api (invoke_sdk env no_backoff lib api) timeout_ms s"

end
