(* ===== verification/MqttClientProps.thy ===== *)
theory MqttClientProps
  imports MqttClient MqttMqProps
begin

text \<open>
  Lemmas about the MQTT client: frames, the retry loops as instances of \<open>bounded_retry\<close>, the outcome of
  initialisation and of the cleanup, the balance of library resources, and the delivery of
  received messages.
\<close>

section \<open>Frames\<close>

lemma mqtt_emit_frame [simp]:
  "mqtt_connection (sdk_emit e s) = mqtt_connection s" "is_connected (sdk_emit e s) = is_connected s"
  "is_disconnect_requested (sdk_emit e s) = is_disconnect_requested s"
  "is_mqtt_initialized (sdk_emit e s) = is_mqtt_initialized s"
  "mqtt_inbound_msg_cb (sdk_emit e s) = mqtt_inbound_msg_cb s"
  "client_status_cb (sdk_emit e s) = client_status_cb s" "iotcl_mc (sdk_emit e s) = iotcl_mc s"
  by (simp_all add: sdk_emit_def)

lemma mqtt_call_frame [simp]:
  "mqtt_connection (snd (call env c s)) = mqtt_connection s"
  "is_connected (snd (call env c s)) = is_connected s"
  "is_disconnect_requested (snd (call env c s)) = is_disconnect_requested s"
  "is_mqtt_initialized (snd (call env c s)) = is_mqtt_initialized s"
  "mqtt_inbound_msg_cb (snd (call env c s)) = mqtt_inbound_msg_cb s"
  "client_status_cb (snd (call env c s)) = client_status_cb s"
  "iotcl_mc (snd (call env c s)) = iotcl_mc s"
  by (simp_all add: call_def Let_def)

lemma mqtt_strlen_frame [simp]:
  "mqtt_connection (snd (c_strlen p s)) = mqtt_connection s"
  "is_connected (snd (c_strlen p s)) = is_connected s"
  "is_disconnect_requested (snd (c_strlen p s)) = is_disconnect_requested s"
  "is_mqtt_initialized (snd (c_strlen p s)) = is_mqtt_initialized s"
  "mqtt_inbound_msg_cb (snd (c_strlen p s)) = mqtt_inbound_msg_cb s"
  "client_status_cb (snd (c_strlen p s)) = client_status_cb s"
  "iotcl_mc (snd (c_strlen p s)) = iotcl_mc s"
  by (simp_all add: c_strlen_def split: option.split)

lemma mqtt_free_frame [simp]:
  "mqtt_connection (c_free a s) = mqtt_connection s" "is_connected (c_free a s) = is_connected s"
  "is_disconnect_requested (c_free a s) = is_disconnect_requested s"
  "is_mqtt_initialized (c_free a s) = is_mqtt_initialized s"
  "mqtt_inbound_msg_cb (c_free a s) = mqtt_inbound_msg_cb s"
  "client_status_cb (c_free a s) = client_status_cb s" "iotcl_mc (c_free a s) = iotcl_mc s"
  by (simp_all add: c_free_def Let_def)

lemma mqtt_alloc_frame [simp]:
  "mqtt_connection (snd (alloc env bs s)) = mqtt_connection s"
  "is_connected (snd (alloc env bs s)) = is_connected s"
  "is_disconnect_requested (snd (alloc env bs s)) = is_disconnect_requested s"
  "is_mqtt_initialized (snd (alloc env bs s)) = is_mqtt_initialized s"
  "mqtt_inbound_msg_cb (snd (alloc env bs s)) = mqtt_inbound_msg_cb s"
  "client_status_cb (snd (alloc env bs s)) = client_status_cb s"
  "iotcl_mc (snd (alloc env bs s)) = iotcl_mc s"
  by (simp_all add: alloc_def Let_def)

text \<open>The client's own variables as one value, for the loops.\<close>

definition mqtt_vars where
  "mqtt_vars s = (mqtt_connection s, is_connected s, is_disconnect_requested s, is_mqtt_initialized s,
     mqtt_inbound_msg_cb s, client_status_cb s, iotcl_mc s)"

lemma mqtt_vars_subscribe_loop:
  "mqtt_vars (snd (subscribe_loop env topic qos n r s)) = mqtt_vars s"
  by (induction n arbitrary: r s) (simp_all add: case_prod_unfold mqtt_vars_def)

lemma mqtt_vars_connect_loop:
  "mqtt_vars (snd (connect_loop env nb info n r s)) = mqtt_vars s"
  by (induction n arbitrary: r s) (simp_all add: case_prod_unfold mqtt_vars_def)

lemma mqtt_vars_subscribe: "mqtt_vars (snd (mqtt_subscribe env mc qos s)) = mqtt_vars s"
  by (simp add: mqtt_subscribe_def case_prod_unfold mqtt_vars_subscribe_loop Let_def) (simp add: mqtt_vars_def)

lemma mqtt_vars_connect: "mqtt_vars (snd (mqtt_connect env nb mc s)) = mqtt_vars s"
  by (simp add: mqtt_connect_def case_prod_unfold mqtt_vars_connect_loop Let_def) (simp add: mqtt_vars_def)

lemma mqtt_vars_credentials: "mqtt_vars (snd (prepare_credentials mc c ca n s)) = mqtt_vars s"
  by (simp add: prepare_credentials_def case_prod_unfold Let_def mqtt_vars_def)

lemma mqtt_vars_fields:
  "mqtt_vars t = mqtt_vars s \<Longrightarrow> mqtt_connection t = mqtt_connection s \<and> is_connected t = is_connected s
    \<and> is_disconnect_requested t = is_disconnect_requested s
    \<and> is_mqtt_initialized t = is_mqtt_initialized s
    \<and> mqtt_inbound_msg_cb t = mqtt_inbound_msg_cb s \<and> client_status_cb t = client_status_cb s
    \<and> iotcl_mc t = iotcl_mc s"
  by (simp add: mqtt_vars_def)

lemmas mqtt_loop_frame [simp] =
  mqtt_vars_fields[OF mqtt_vars_subscribe] mqtt_vars_fields[OF mqtt_vars_connect]
  mqtt_vars_fields[OF mqtt_vars_credentials]

section \<open>The retry loops\<close>

definition subscribes :: "sdk_event list \<Rightarrow> nat" where
  "subscribes es = count_calls (\<lambda>c r. case c of Cy_mqtt_subscribe h t q \<Rightarrow> True | _ \<Rightarrow> False) es"

definition connects :: "sdk_event list \<Rightarrow> nat" where
  "connects es = count_calls (\<lambda>c r. case c of Cy_mqtt_connect h i \<Rightarrow> True | _ \<Rightarrow> False) es"

interpretation subscribe_retry: bounded_retry
  "\<lambda>s. call env (Cy_mqtt_subscribe (mqtt_connection s) topic qos) s"
  "\<lambda>n s. sdk_emit (Rtos_delay MQTT_SUBSCRIBE_RETRY_INTERVAL_MS) s"
  "subscribe_loop env topic qos" "\<lambda>s. subscribes (log s)" for env topic qos
  by unfold_locales (simp_all add: subscribes_def)

interpretation connect_retry: bounded_retry
  "\<lambda>s. call env (Cy_mqtt_connect (mqtt_connection s) info) s"
  "\<lambda>n s. sdk_emit (Rtos_delay (connect_backoff env nb s)) s"
  "connect_loop env nb info" "\<lambda>s. connects (log s)" for env nb info
  by unfold_locales (simp_all add: connects_def)

section \<open>The cleanup\<close>

lemma cleanup_clears:
  "\<not> is_connected (snd (iotc_cleanup_mqtt env s))"
  "mqtt_connection (snd (iotc_cleanup_mqtt env s)) = None"
  "\<not> is_mqtt_initialized (snd (iotc_cleanup_mqtt env s))"
  "mqtt_inbound_msg_cb (snd (iotc_cleanup_mqtt env s)) = None"
  "client_status_cb (snd (iotc_cleanup_mqtt env s)) = None"
  "iotcl_mc (snd (iotc_cleanup_mqtt env s)) = iotcl_mc s"
  by (simp_all add: iotc_cleanup_mqtt_def case_prod_unfold Let_def)

lemma cleanup_disconnect_flag:
  "\<not> is_disconnect_requested s \<Longrightarrow> \<not> is_disconnect_requested (snd (iotc_cleanup_mqtt env s))"
  by (simp add: iotc_cleanup_mqtt_def case_prod_unfold Let_def)

text \<open>Nothing to clean up: no library call, no error.\<close>

lemma cleanup_idle:
  "mqtt_connection s = None \<Longrightarrow> \<not> is_mqtt_initialized s \<Longrightarrow>
   iotc_cleanup_mqtt env s
     = (CY_RSLT_SUCCESS, s\<lparr>is_connected := False, mqtt_inbound_msg_cb := None, client_status_cb := None\<rparr>)"
  by (simp add: iotc_cleanup_mqtt_def)

section \<open>Outcome of the initialisation\<close>

definition client_up :: "IotConnectMqttConfig \<Rightarrow> ('q, 'z) mqtt_state_scheme \<Rightarrow> bool" where
  "client_up c t \<longleftrightarrow>
     is_connected t \<and> mqtt_connection t \<noteq> None \<and> is_mqtt_initialized t
     \<and> \<not> is_disconnect_requested t
     \<and> mqtt_inbound_msg_cb t = mqtt_inbound_cb c \<and> client_status_cb t = mqtt_status_cb c"

definition client_down :: "('q, 'z) mqtt_state_scheme \<Rightarrow> bool" where
  "client_down t \<longleftrightarrow>
     \<not> is_connected t \<and> mqtt_connection t = None \<and> \<not> is_mqtt_initialized t
     \<and> mqtt_inbound_msg_cb t = None \<and> client_status_cb t = None"

lemma client_down_cleanup: "client_down (snd (iotc_cleanup_mqtt env s))"
  by (simp add: client_down_def cleanup_clears)

lemma create_client_frame [simp]:
  "is_connected (snd (create_client env sec b s)) = is_connected s"
  "is_disconnect_requested (snd (create_client env sec b s)) = is_disconnect_requested s"
  "is_mqtt_initialized (snd (create_client env sec b s)) = is_mqtt_initialized s"
  by (simp_all add: create_client_def case_prod_unfold Let_def)

lemma create_client_handle:
  "fst (create_client env sec b s) = CY_RSLT_SUCCESS \<Longrightarrow>
   mqtt_connection (snd (create_client env sec b s)) = env_mqtt_handle env (log s)"
  by (simp add: create_client_def case_prod_unfold Let_def)

lemma init_outcome:
  assumes "\<And>l. env_mqtt_handle env l \<noteq> None" and "iotcl_mc s \<noteq> None" and "select_root_ca c \<noteq> None"
    and "iotc_mqtt_client_init env nb c s = (r, t)"
  shows "if r = CY_RSLT_SUCCESS then client_up c t else client_down t"
  using assms
  by (auto simp: iotc_mqtt_client_init_def case_prod_unfold Let_def client_up_def client_down_cleanup
      init_reset_def create_client_handle split: if_splits)

section \<open>Balance of library resources\<close>

definition creates :: "sdk_event list \<Rightarrow> nat" where
  "creates es = count_calls (\<lambda>c r. case c of Cy_mqtt_create sec b \<Rightarrow> r = CY_RSLT_SUCCESS | _ \<Rightarrow> False) es"

definition deletes :: "sdk_event list \<Rightarrow> nat" where
  "deletes es = count_calls (\<lambda>c r. case c of Cy_mqtt_delete h \<Rightarrow> True | _ \<Rightarrow> False) es"

definition mqtt_inits :: "sdk_event list \<Rightarrow> nat" where
  "mqtt_inits es = count_calls (\<lambda>c r. c = Cy_mqtt_init \<and> r = CY_RSLT_SUCCESS) es"

definition mqtt_deinits :: "sdk_event list \<Rightarrow> nat" where
  "mqtt_deinits es = count_calls (\<lambda>c r. c = Cy_mqtt_deinit) es"

lemmas resource_defs = creates_def deletes_def mqtt_inits_def mqtt_deinits_def

lemma count_calls_subscribe_loop:
  "(\<And>h t q r. \<not> P (Cy_mqtt_subscribe h t q) r) \<Longrightarrow>
   count_calls P (log (snd (subscribe_loop env topic qos n r s))) = count_calls P (log s)"
  by (induction n arbitrary: r s) (simp_all add: case_prod_unfold)

lemma count_calls_subscribe:
  "(\<And>h t q r. \<not> P (Cy_mqtt_subscribe h t q) r) \<Longrightarrow>
   count_calls P (log (snd (mqtt_subscribe env mc qos s))) = count_calls P (log s)"
  by (simp add: mqtt_subscribe_def case_prod_unfold Let_def count_calls_subscribe_loop)

lemma count_calls_connect_loop:
  "(\<And>h i r. \<not> P (Cy_mqtt_connect h i) r) \<Longrightarrow>
   count_calls P (log (snd (connect_loop env nb info n r s))) = count_calls P (log s)"
  by (induction n arbitrary: r s) (simp_all add: case_prod_unfold)

lemma count_calls_connect:
  "(\<And>h i r. \<not> P (Cy_mqtt_connect h i) r) \<Longrightarrow>
   count_calls P (log (snd (mqtt_connect env nb mc s))) = count_calls P (log s)"
  by (simp add: mqtt_connect_def case_prod_unfold Let_def count_calls_connect_loop)

lemma count_calls_credentials:
  "count_calls P (log (snd (prepare_credentials mc c ca n s))) = count_calls P (log s)"
  by (simp add: prepare_credentials_def case_prod_unfold Let_def)

lemma count_calls_create:
  "count_calls P (log (snd (create_client env sec b s))) =
     count_calls P (log s) + (if P (Cy_mqtt_create sec b) (fst (create_client env sec b s)) then 1 else 0)"
  by (simp add: create_client_def case_prod_unfold Let_def)

lemma count_calls_reset [simp]: "log (init_reset mc s) = log s"
  by (simp add: init_reset_def Let_def)

lemmas count_calls_init =
  count_calls_subscribe count_calls_connect count_calls_credentials count_calls_create

text \<open>
  The ledger of a log: whether the client created last has not been deleted, how many clients were
  lost, being created over one that was not deleted, and the same for initialisations of the library.
\<close>

record mqtt_ledger =
  client_open :: bool
  clients_lost :: nat
  library_open :: bool
  libraries_lost :: nat

definition ledger_event :: "mqtt_ledger \<Rightarrow> sdk_event \<Rightarrow> mqtt_ledger" where
  "ledger_event l e =
     (case e of
        Ret (Cy_mqtt_create sec b) r \<Rightarrow>
          if r = CY_RSLT_SUCCESS
          then l\<lparr>client_open := True, clients_lost := clients_lost l + (if client_open l then 1 else 0)\<rparr> else l
      | Ret (Cy_mqtt_delete h) r \<Rightarrow> l\<lparr>client_open := False\<rparr>
      | Ret Cy_mqtt_init r \<Rightarrow>
          if r = CY_RSLT_SUCCESS
          then l\<lparr>library_open := True, libraries_lost := libraries_lost l + (if library_open l then 1 else 0)\<rparr> else l
      | Ret Cy_mqtt_deinit r \<Rightarrow> l\<lparr>library_open := False\<rparr>
      | _ \<Rightarrow> l)"

definition ledger :: "sdk_event list \<Rightarrow> mqtt_ledger" where
  "ledger es = foldl ledger_event
     \<lparr>client_open = False, clients_lost = 0, library_open = False, libraries_lost = 0\<rparr> es"

lemma ledger_emit [simp]: "ledger (log (sdk_emit e s)) = ledger_event (ledger (log s)) e"
  by (simp add: ledger_def log_sdk_emit)

lemma ledger_call [simp]:
  "ledger (log (snd (call env c s))) = ledger_event (ledger (log s)) (Ret c (fst (call env c s)))"
  by (simp add: call_def Let_def)

lemma ledger_quiet [simp]:
  "ledger_event l (Alloc n ok) = l" "ledger_event l (Free a) = l" "ledger_event l (Fault m) = l"
  "ledger_event l (Rtos_delay d) = l" "ledger_event l (Status_callback cb st) = l"
  "ledger_event l (Message_callback icb tp pl) = l" "ledger_event l (Print txt) = l"
  "ledger_event l (C2d_process_event m) = l"
  "ledger_event l (Ret (Cy_mqtt_register_event_callback h) r) = l"
  "ledger_event l (Ret (Cy_mqtt_connect h i) r) = l" "ledger_event l (Ret (Cy_mqtt_subscribe h tp q) r) = l"
  "ledger_event l (Ret (Cy_mqtt_publish h pi) r) = l" "ledger_event l (Ret (Cy_mqtt_disconnect h) r) = l"
  by (simp_all add: ledger_event_def)

lemma ledger_memory [simp]:
  "ledger (log (snd (alloc env bs s))) = ledger (log s)" "ledger (log (c_free a s)) = ledger (log s)"
  "ledger (log (snd (c_strlen p s))) = ledger (log s)"
  by (simp_all add: alloc_def c_free_def c_strlen_def Let_def split: option.split)

lemma ledger_subscribe_loop: "ledger (log (snd (subscribe_loop env topic qos n r s))) = ledger (log s)"
  by (induction n arbitrary: r s) (simp_all add: case_prod_unfold)

lemma ledger_connect_loop: "ledger (log (snd (connect_loop env nb info n r s))) = ledger (log s)"
  by (induction n arbitrary: r s) (simp_all add: case_prod_unfold)

lemma ledger_stages [simp]:
  "ledger (log (snd (mqtt_subscribe env mc qos s))) = ledger (log s)"
  "ledger (log (snd (mqtt_connect env nb mc s))) = ledger (log s)"
  "ledger (log (snd (prepare_credentials mc c ca n s))) = ledger (log s)"
  "ledger (log (init_reset mc s)) = ledger (log s)"
  by (simp_all add: mqtt_subscribe_def mqtt_connect_def prepare_credentials_def init_reset_def case_prod_unfold
      Let_def ledger_subscribe_loop ledger_connect_loop)

lemma ledger_create:
  "ledger (log (snd (create_client env sec b s)))
     = ledger_event (ledger (log s)) (Ret (Cy_mqtt_create sec b) (fst (create_client env sec b s)))"
  by (simp add: create_client_def case_prod_unfold Let_def)

lemma ledger_cleanup:
  "ledger (log (snd (iotc_cleanup_mqtt env s)))
     = (ledger (log s))\<lparr>client_open := mqtt_connection s = None \<and> client_open (ledger (log s)),
          library_open := \<not> is_mqtt_initialized s \<and> library_open (ledger (log s))\<rparr>"
  by (simp add: iotc_cleanup_mqtt_def case_prod_unfold Let_def) (simp add: ledger_event_def)

text \<open>
  The static variables agree with the log: what is open is what they say is open, and every client created has
  been deleted, is the one that is held, or was lost; the same for the library.
\<close>

definition mqtt_accounted :: "('q, 'z) mqtt_state_scheme \<Rightarrow> bool" where
  "mqtt_accounted s \<longleftrightarrow>
     client_open (ledger (log s)) = (mqtt_connection s \<noteq> None)
     \<and> library_open (ledger (log s)) = is_mqtt_initialized s
     \<and> creates (log s) = deletes (log s) + (if mqtt_connection s = None then 0 else 1) + clients_lost (ledger (log s))
     \<and> mqtt_inits (log s) = mqtt_deinits (log s) + (if is_mqtt_initialized s then 1 else 0)
          + libraries_lost (ledger (log s))"

lemma cleanup_resources:
  "creates (log (snd (iotc_cleanup_mqtt env s))) = creates (log s)"
  "deletes (log (snd (iotc_cleanup_mqtt env s))) = deletes (log s) + (if mqtt_connection s = None then 0 else 1)"
  "mqtt_inits (log (snd (iotc_cleanup_mqtt env s))) = mqtt_inits (log s)"
  "mqtt_deinits (log (snd (iotc_cleanup_mqtt env s)))
     = mqtt_deinits (log s) + (if is_mqtt_initialized s then 1 else 0)"
  by (simp_all add: resource_defs iotc_cleanup_mqtt_def case_prod_unfold Let_def)

lemma cleanup_accounted: "mqtt_accounted s \<Longrightarrow> mqtt_accounted (snd (iotc_cleanup_mqtt env s))"
  by (auto simp: mqtt_accounted_def cleanup_resources cleanup_clears ledger_cleanup)

text \<open>Every failing path of the initialisation ends with the cleanup of a state of this form.\<close>

lemma init_resources:
  assumes "iotcl_mc s \<noteq> None" and "select_root_ca c \<noteq> None"
    and "iotc_mqtt_client_init env nb c s = (CY_RSLT_SUCCESS, t)"
  shows "creates (log t) = Suc (creates (log s))" "deletes (log t) = deletes (log s)"
    "mqtt_inits (log t) = Suc (mqtt_inits (log s))" "mqtt_deinits (log t) = mqtt_deinits (log s)"
  using assms
  by (auto simp: iotc_mqtt_client_init_def case_prod_unfold Let_def resource_defs count_calls_init
      split: if_splits)

lemma mqtt_accounted_neutral:
  "creates (log t) = creates (log s) \<Longrightarrow> deletes (log t) = deletes (log s) \<Longrightarrow>
   mqtt_inits (log t) = mqtt_inits (log s) \<Longrightarrow> mqtt_deinits (log t) = mqtt_deinits (log s) \<Longrightarrow>
   mqtt_connection t = mqtt_connection s \<Longrightarrow> is_mqtt_initialized t = is_mqtt_initialized s \<Longrightarrow>
   ledger (log t) = ledger (log s) \<Longrightarrow> mqtt_accounted t = mqtt_accounted s"
  by (simp add: mqtt_accounted_def)

lemma mqtt_accounted_stages [simp]:
  "mqtt_accounted (init_reset mc s) = mqtt_accounted s"
  "mqtt_accounted (snd (c_strlen p s)) = mqtt_accounted s"
  "mqtt_accounted (snd (prepare_credentials mc c ca n s)) = mqtt_accounted s"
  "mqtt_accounted (snd (call env (Cy_mqtt_register_event_callback h) s)) = mqtt_accounted s"
  "mqtt_accounted (snd (mqtt_connect env nb mc s)) = mqtt_accounted s"
  "mqtt_accounted (snd (mqtt_subscribe env mc qos s)) = mqtt_accounted s"
  by (rule mqtt_accounted_neutral;
      simp add: resource_defs count_calls_init init_reset_def Let_def)+

lemma mqtt_accounted_create:
  assumes "mqtt_accounted s" and "\<And>l. env_mqtt_handle env l \<noteq> None"
  shows "mqtt_accounted (snd (create_client env sec b s))"
  using assms(1) assms(2)[of "log s"]
  by (auto simp: mqtt_accounted_def create_client_def case_prod_unfold Let_def resource_defs ledger_event_def)

lemma mqtt_accounted_start:
  assumes "mqtt_accounted s"
  shows "fst (call env Cy_mqtt_init s) = CY_RSLT_SUCCESS \<Longrightarrow>
      mqtt_accounted ((snd (call env Cy_mqtt_init s))\<lparr>is_mqtt_initialized := True\<rparr>)"
    and "fst (call env Cy_mqtt_init s) \<noteq> CY_RSLT_SUCCESS \<Longrightarrow> mqtt_accounted (snd (call env Cy_mqtt_init s))"
  using assms by (auto simp: mqtt_accounted_def resource_defs ledger_event_def)

lemma mqtt_accounted_up [simp]:
  "mqtt_accounted (s\<lparr>is_connected := c, client_status_cb := st, mqtt_inbound_msg_cb := i\<rparr>) = mqtt_accounted s"
  by (simp add: mqtt_accounted_def)

lemma init_reset_frame [simp]:
  "mqtt_connection (init_reset mc s) = mqtt_connection s"
  "is_mqtt_initialized (init_reset mc s) = is_mqtt_initialized s"
  by (simp_all add: init_reset_def Let_def)

lemma init_accounted:
  assumes "mqtt_accounted s" and "\<And>l. env_mqtt_handle env l \<noteq> None"
  shows "mqtt_accounted (snd (iotc_mqtt_client_init env nb c s))"
  using assms
  by (simp add: iotc_mqtt_client_init_def case_prod_unfold Let_def cleanup_accounted
      mqtt_accounted_create mqtt_accounted_start split: option.split)

text \<open>An initialisation loses at most what was open when it began.\<close>

lemma init_loses:
  assumes "mqtt_accounted s"
  shows "clients_lost (ledger (log (snd (iotc_mqtt_client_init env nb c s))))
      \<le> clients_lost (ledger (log s)) + (if mqtt_connection s = None then 0 else 1)"
    "libraries_lost (ledger (log (snd (iotc_mqtt_client_init env nb c s))))
      \<le> libraries_lost (ledger (log s)) + (if is_mqtt_initialized s then 1 else 0)"
  using assms
  by (auto simp: iotc_mqtt_client_init_def case_prod_unfold Let_def ledger_cleanup ledger_create ledger_event_def
      mqtt_accounted_def split: option.split)

section \<open>Events\<close>

lemma event_disconnect:
  "mqtt_event_callback env invoke CY_MQTT_EVENT_TYPE_DISCONNECT s =
     Some (case client_status_cb s of
             Some (User_status n) \<Rightarrow>
               sdk_emit (Status_callback (User_status n) IOTC_CS_MQTT_DISCONNECTED) (s\<lparr>is_connected := False\<rparr>)
           | Some Default_on_connection_status \<Rightarrow>
               sdk_emit (Print ''IoTConnect Client Disconnected notification.'')
                 (sdk_emit (Status_callback Default_on_connection_status IOTC_CS_MQTT_DISCONNECTED)
                   (s\<lparr>is_connected := False\<rparr>))
           | None \<Rightarrow> s\<lparr>is_connected := False\<rparr>)"
  by (simp add: mqtt_event_callback_def call_status_cb_def default_on_connection_status_def Let_def
      split: option.split status_cb.split)

lemma balanced_frame [simp]:
  "mqtt_accounted (s\<lparr>is_connected := c\<rparr>) = mqtt_accounted s"
  "mqtt_accounted (s\<lparr>is_disconnect_requested := d\<rparr>) = mqtt_accounted s"
  "mqtt_accounted (s\<lparr>iotcl_mc := mc\<rparr>) = mqtt_accounted s"
  "mqtt_accounted (sdk_emit (Status_callback cb st) s) = mqtt_accounted s"
  "mqtt_accounted (c_free a s) = mqtt_accounted s"
  "mqtt_accounted (snd (alloc env bs s)) = mqtt_accounted s"
  "mqtt_accounted (snd (call env (Cy_mqtt_publish h p) s)) = mqtt_accounted s"
  "mqtt_accounted (sdk_emit (Message_callback icb tp pl) s) = mqtt_accounted s"
  "mqtt_accounted (sdk_emit (Print txt) s) = mqtt_accounted s"
  by (rule mqtt_accounted_neutral; simp add: resource_defs)+

definition message_received :: "sdk_env \<Rightarrow> received_msg \<Rightarrow> ('q, 'z) mqtt_state_scheme \<Rightarrow> bool" where
  "message_received env r s \<longleftrightarrow>
     mqtt_inbound_msg_cb s \<noteq> None \<and> \<not> is_disconnect_requested s
     \<and> env_alloc env (log s) (Suc (length (r_topic r)))"

lemma event_message_effect:
  assumes "heap_ok s"
  shows "\<exists>t. mqtt_event_callback env record_message (CY_MQTT_EVENT_TYPE_SUBSCRIPTION_MESSAGE_RECEIVE r) s = Some t
    \<and> heap t = heap s \<and> faults (log t) = faults (log s) \<and> \<not> is_disconnect_requested t
    \<and> (mqtt_accounted t = mqtt_accounted s) \<and> is_connected t = is_connected s
    \<and> mqtt_connection t = mqtt_connection s \<and> is_mqtt_initialized t = is_mqtt_initialized s
    \<and> (\<forall>cb. messages cb (log t) = messages cb (log s) @
         (if message_received env r s \<and> mqtt_inbound_msg_cb s = Some cb
          then [(c_string (r_topic r @ r_topic_tail r), r_payload r)] else []))"
proof (cases "message_received env r s")
  case True
  then obtain cb where cb: "mqtt_inbound_msg_cb s = Some cb" "\<not> is_disconnect_requested s"
    by (auto simp: message_received_def)
  obtain a u where a: "alloc env (r_topic r @ [CHR 0x00]) s = (Some a, u)"
    and u: "heap u = (heap s)(a \<mapsto> r_topic r @ [CHR 0x00])" "heap s a = None"
    using True heap_ok_fresh[OF assms] by (auto simp: message_received_def alloc_def Let_def)
  have frame: "mqtt_connection u = mqtt_connection s" "is_connected u = is_connected s"
      "is_mqtt_initialized u = is_mqtt_initialized s" "mqtt_accounted u = mqtt_accounted s"
      "faults (log u) = faults (log s)" "\<And>cb'. messages cb' (log u) = messages cb' (log s)"
    using mqtt_alloc_frame[of env "r_topic r @ [CHR 0x00]" s] balanced_frame(6)[of env "r_topic r @ [CHR 0x00]" s]
      messages_alloc[of _ env "r_topic r @ [CHR 0x00]" s] alloc_cases[OF a]
    by (auto simp: a)
  let ?v = "sdk_emit (Message_callback cb (c_string (r_topic r @ r_topic_tail r)) (r_payload r)) u"
  have "heap ?v a \<noteq> None" by (simp add: u)
  note free = free_live[OF this]
  have "heap (c_free a ?v) = heap s" using free u by auto
  then show ?thesis
    using True cb a frame free
    by (simp add: mqtt_event_callback_def record_message_def) (auto simp: messages_def)
next
  case False
  obtain p u where a: "alloc env (r_topic r @ [CHR 0x00]) s = (p, u)" by fastforce
  have "p = None" if "mqtt_inbound_msg_cb s \<noteq> None" "\<not> is_disconnect_requested s"
    using False that a by (auto simp: message_received_def alloc_def Let_def split: if_splits)
  moreover have "heap u = heap s \<and> faults (log u) = faults (log s)" if "p = None"
    using alloc_cases[OF a] that by auto
  ultimately show ?thesis
    using False a mqtt_alloc_frame[of env "r_topic r @ [CHR 0x00]" s]
      balanced_frame(6)[of env "r_topic r @ [CHR 0x00]" s] messages_alloc[of _ env "r_topic r @ [CHR 0x00]" s]
    by (auto simp: mqtt_event_callback_def split: option.split)
qed

section \<open>Sessions\<close>

definition handles_ok :: "sdk_env \<Rightarrow> bool" where
  "handles_ok env \<longleftrightarrow> (\<forall>l. env_mqtt_handle env l \<noteq> None)"



lemma publish_frame [simp]:
  "mqtt_accounted (snd (iotc_mqtt_client_publish env tp pl q s)) = mqtt_accounted s"
  "is_connected (snd (iotc_mqtt_client_publish env tp pl q s)) = is_connected s"
  "mqtt_connection (snd (iotc_mqtt_client_publish env tp pl q s)) = mqtt_connection s"
  "is_mqtt_initialized (snd (iotc_mqtt_client_publish env tp pl q s)) = is_mqtt_initialized s"
  by (simp_all add: iotc_mqtt_client_publish_def case_prod_unfold Let_def)

lemma init_badarg:
  assumes "iotcl_mc s = Some mc" and "select_root_ca c = None"
    and "fst (call env Cy_mqtt_init (init_reset mc s)) = CY_RSLT_SUCCESS"
  shows "iotc_mqtt_client_init env nb c s =
    (env_code env CY_RSLT_MODULE_MQTT_BADARG,
     snd (c_strlen (mc_host mc) ((snd (call env Cy_mqtt_init (init_reset mc s)))\<lparr>is_mqtt_initialized := True\<rparr>)))"
  using assms by (simp add: iotc_mqtt_client_init_def case_prod_unfold Let_def)


lemma init_reset_down [simp]:
  "\<not> is_connected (init_reset mc s)" "\<not> is_disconnect_requested (init_reset mc s)"
  by (simp_all add: init_reset_def Let_def)




section \<open>A concrete client\<close>

definition mqtt_example_config :: IotConnectMqttConfig where
  "mqtt_example_config =
     \<lparr>mqtt_connection_type = IOTC_CT_AWS,
      mqtt_x509_config = \<lparr>server_ca_cert = None, device_cert = Some ''cert'', device_key = Some ''key'',
        device_key_size = 0\<rparr>,
      mqtt_inbound_cb = Some (User_inbound 1), mqtt_status_cb = Some (User_status 1)\<rparr>"

definition mqtt_example :: "(nat \<times> mq_msg list) option mqtt_state" where
  "mqtt_example =
     \<lparr>log = [], heap = Map.empty, next_addr = 1, cy_queue = Some (2, []), is_initialized = True,
      client_msg_cb = None, mqtt_connection = None, is_connected = False,
      is_disconnect_requested = False, is_mqtt_initialized = False, mqtt_inbound_msg_cb = None,
      client_status_cb = None,
      iotcl_mc = Some \<lparr>mc_host = Some ''host'', mc_client_id = Some ''id'', mc_username = None,
        mc_sub_c2d = Some ''sub'', mc_pub_rpt = Some ''rpt'', mc_pub_ack = Some ''ack''\<rparr>\<rparr>"

lemma mqtt_example_env_call [simp]: "fst (call mq_example_env c s) = CY_RSLT_SUCCESS"
  by (simp add: call_def mq_example_env_def Let_def)

lemma mqtt_example_handles: "handles_ok mq_example_env" "env_mqtt_handle mq_example_env l \<noteq> None"
  by (simp_all add: handles_ok_def mq_example_env_def)

lemma mqtt_example_start: "client_down mqtt_example" "log mqtt_example = []" "heap_ok mqtt_example"
  by (simp_all add: mqtt_example_def client_down_def heap_ok_def)

lemma example_loops:
  "0 < n \<Longrightarrow> fst (connect_loop mq_example_env nb info n r s) = CY_RSLT_SUCCESS"
  "0 < n \<Longrightarrow> fst (subscribe_loop mq_example_env topic q n r s) = CY_RSLT_SUCCESS"
  by (cases n; simp add: case_prod_unfold)+

lemma example_stages [simp]:
  "fst (mqtt_connect mq_example_env nb mc s) = CY_RSLT_SUCCESS"
  "fst (mqtt_subscribe mq_example_env mc q s) = CY_RSLT_SUCCESS"
  "fst (create_client mq_example_env sec b s) = CY_RSLT_SUCCESS"
  by (simp_all add: mqtt_connect_def mqtt_subscribe_def create_client_def case_prod_unfold Let_def
      example_loops IOTC_MAX_MQTT_CONN_RETRIES_def MAX_SUBSCRIBE_RETRIES_def)

lemma example_root_ca: "select_root_ca mqtt_example_config \<noteq> None"
  by (simp add: select_root_ca_def mqtt_example_config_def)

lemma example_init_success:
  assumes "iotcl_mc s \<noteq> None"
  shows "fst (iotc_mqtt_client_init mq_example_env nb mqtt_example_config s) = CY_RSLT_SUCCESS"
  using assms example_root_ca
  by (auto simp: iotc_mqtt_client_init_def case_prod_unfold Let_def)

lemma example_up:
  "client_up mqtt_example_config (snd (iotc_mqtt_client_init mq_example_env False mqtt_example_config mqtt_example))"
proof -
  have mc: "iotcl_mc mqtt_example \<noteq> None" by (simp add: mqtt_example_def)
  have "iotc_mqtt_client_init mq_example_env False mqtt_example_config mqtt_example
      = (CY_RSLT_SUCCESS, snd (iotc_mqtt_client_init mq_example_env False mqtt_example_config mqtt_example))"
    using example_init_success[OF mc] by (metis prod.collapse)
  from init_outcome[OF mqtt_example_handles(2) mc example_root_ca this] show ?thesis by simp
qed

section \<open>Properties\<close>





text \<open>
  Reconnecting after a lost connection leaks. When the broker drops a client that is up,
  the event callback only clears \<open>is_connected\<close>; \<open>iotc_mqtt_client_init\<close>, which the owner may now call
  again, creates a second handle over the first. After the final disconnect the client has forgotten one handle
  and one library initialisation more than before.
\<close>

theorem mqtt_reconnect_leaks:
  assumes "client_up c s" and "mqtt_accounted s" and "iotcl_mc s \<noteq> None" and "handles_ok env"
    and "mqtt_event_callback env record_message CY_MQTT_EVENT_TYPE_DISCONNECT s = Some u"
    and "iotc_mqtt_client_init env nb c' u = (CY_RSLT_SUCCESS, v)" and "select_root_ca c' \<noteq> None"
  shows "let w = snd (iotc_mqtt_client_disconnect env v) in
    \<not> iotc_mqtt_client_is_connected u \<and> client_down w
    \<and> clients_lost (ledger (log w)) = Suc (clients_lost (ledger (log s)))
    \<and> libraries_lost (ledger (log w)) = Suc (libraries_lost (ledger (log s)))
    \<and> creates (log w) = deletes (log w) + clients_lost (ledger (log w))
    \<and> mqtt_inits (log w) = mqtt_deinits (log w) + libraries_lost (ledger (log w))"
proof -
  have u: "mqtt_accounted u" "mqtt_connection u = mqtt_connection s" "ledger (log u) = ledger (log s)"
      "is_mqtt_initialized u = is_mqtt_initialized s" "iotcl_mc u = iotcl_mc s" "\<not> is_connected u"
    using assms(2,5) by (auto simp: event_disconnect split: option.splits status_cb.splits)
  have lu: "client_open (ledger (log u))" "library_open (ledger (log u))"
    using u assms(1) by (auto simp: mqtt_accounted_def client_up_def)
  have lv: "clients_lost (ledger (log v)) = Suc (clients_lost (ledger (log s)))
      \<and> libraries_lost (ledger (log v)) = Suc (libraries_lost (ledger (log s)))"
    using assms(3,6,7) u(3,5) lu
    by (auto simp: iotc_mqtt_client_init_def case_prod_unfold Let_def ledger_create ledger_event_def split: if_splits)
  let ?w = "snd (iotc_mqtt_client_disconnect env v)"
  have "mqtt_accounted v"
    using init_accounted[OF u(1), of env nb c'] assms(4,6) by (simp add: handles_ok_def)
  then have "mqtt_accounted ?w" by (simp add: iotc_mqtt_client_disconnect_def cleanup_accounted)
  moreover have "client_down ?w" by (simp add: iotc_mqtt_client_disconnect_def client_down_cleanup)
  moreover have "clients_lost (ledger (log ?w)) = clients_lost (ledger (log v))"
      "libraries_lost (ledger (log ?w)) = libraries_lost (ledger (log v))"
    by (simp_all add: iotc_mqtt_client_disconnect_def ledger_cleanup)
  ultimately show ?thesis
    using u(6) lv by (simp add: Let_def iotc_mqtt_client_is_connected_def mqtt_accounted_def client_down_def)
qed

lemma mqtt_reconnect_leaks_witness:
  "\<exists>w :: (nat \<times> mq_msg list) option mqtt_state. client_down w \<and> clients_lost (ledger (log w)) = 1
     \<and> creates (log w) = Suc (deletes (log w))"
proof -
  let ?init = "\<lambda>s. iotc_mqtt_client_init mq_example_env False mqtt_example_config s"
  let ?s = "snd (?init mqtt_example)"
  have st: "mqtt_accounted mqtt_example" "clients_lost (ledger (log mqtt_example)) = 0" "mqtt_connection mqtt_example = None"
    by (simp_all add: mqtt_accounted_def mqtt_example_def resource_defs ledger_def)
  have up: "client_up mqtt_example_config ?s" "mqtt_accounted ?s"
    using example_up init_accounted[OF st(1) mqtt_example_handles(2)] by simp_all
  have l: "clients_lost (ledger (log ?s)) = 0" using init_loses(1)[OF st(1), of mq_example_env False mqtt_example_config] st by simp
  have mc_s: "iotcl_mc ?s \<noteq> None"
    by (simp add: iotc_mqtt_client_init_def case_prod_unfold Let_def mqtt_example_def init_reset_def
        create_client_def select_root_ca_def mqtt_example_config_def)
  obtain u where u: "mqtt_event_callback mq_example_env record_message CY_MQTT_EVENT_TYPE_DISCONNECT ?s = Some u"
    by (simp add: event_disconnect)
  then have "iotcl_mc u \<noteq> None" using mc_s by (auto simp: event_disconnect split: option.splits status_cb.splits)
  then have "?init u = (CY_RSLT_SUCCESS, snd (?init u))"
    using example_init_success by (metis prod.collapse)
  from mqtt_reconnect_leaks[OF up mc_s mqtt_example_handles(1) u this example_root_ca] l
  show ?thesis by (auto simp: Let_def)
qed

text \<open>
  The exact return value of \<open>iotc_mqtt_client_disconnect\<close> on an open client, with library
  results \<open>d\<close>, \<open>l\<close> and \<open>n\<close> of disconnect, delete and deinit. A failing delete after a successful
  disconnect is reported as success whatever deinit does; a failing disconnect is replaced by the result of deinit: the
  first error, which the comment says is kept, is always lost. The client is down in every case.
\<close>

theorem mqtt_disconnect_result:
  assumes "mqtt_connection s \<noteq> None" and "is_mqtt_initialized s"
    and "iotc_mqtt_client_disconnect env s = (r, t)"
  shows "\<exists>d l n. log t = log s @ [Ret (Cy_mqtt_disconnect (mqtt_connection s)) d,
        Ret (Cy_mqtt_delete (mqtt_connection s)) l, Ret Cy_mqtt_deinit n]
    \<and> r = (if d = CY_RSLT_SUCCESS \<and> l \<noteq> CY_RSLT_SUCCESS then CY_RSLT_SUCCESS else n)
    \<and> client_down t"
proof -
  let ?h = "mqtt_connection s"
  define d where "d = env_ret env (log s) (Cy_mqtt_disconnect ?h)"
  define l where "l = env_ret env (log s @ [Ret (Cy_mqtt_disconnect ?h) d]) (Cy_mqtt_delete ?h)"
  define n where "n = env_ret env (log s @ [Ret (Cy_mqtt_disconnect ?h) d, Ret (Cy_mqtt_delete ?h) l]) Cy_mqtt_deinit"
  have "client_down t"
    using assms(3) client_down_cleanup[of env "s\<lparr>is_disconnect_requested := True\<rparr>"]
    by (simp add: iotc_mqtt_client_disconnect_def)
  moreover have "r = fst (iotc_mqtt_client_disconnect env s)" "t = snd (iotc_mqtt_client_disconnect env s)"
    using assms(3) by simp_all
  moreover have "log (snd (iotc_mqtt_client_disconnect env s)) = log s @ [Ret (Cy_mqtt_disconnect ?h) d,
      Ret (Cy_mqtt_delete ?h) l, Ret Cy_mqtt_deinit n]"
    using assms(1,2)
    by (simp add: iotc_mqtt_client_disconnect_def iotc_cleanup_mqtt_def call_def Let_def
        log_sdk_emit d_def l_def n_def)
  moreover have "fst (iotc_mqtt_client_disconnect env s) =
      (if d = CY_RSLT_SUCCESS \<and> l \<noteq> CY_RSLT_SUCCESS then CY_RSLT_SUCCESS else n)"
    using assms(1,2)
    by (simp add: iotc_mqtt_client_disconnect_def iotc_cleanup_mqtt_def call_def Let_def
        log_sdk_emit d_def l_def n_def)
  ultimately show ?thesis by blast
qed

lemma mqtt_disconnect_result_witness:
  "\<exists>d l n. log (snd (iotc_mqtt_client_disconnect mq_example_env
      (mqtt_example\<lparr>mqtt_connection := Some 1, is_mqtt_initialized := True\<rparr>)))
    = [Ret (Cy_mqtt_disconnect (Some 1)) d, Ret (Cy_mqtt_delete (Some 1)) l, Ret Cy_mqtt_deinit n]"
  using mqtt_disconnect_result[of "mqtt_example\<lparr>mqtt_connection := Some 1, is_mqtt_initialized := True\<rparr>"
      mq_example_env, OF _ _ surjective_pairing]
  by (auto simp: mqtt_example_start(2))

text \<open>
  Disconnecting twice is safe: the second call makes no library call, logs nothing and
  returns success.
\<close>

theorem mqtt_disconnect_idempotent:
  "let t = snd (iotc_mqtt_client_disconnect env s);
       (r, u) = iotc_mqtt_client_disconnect env t
   in client_down t \<and> r = CY_RSLT_SUCCESS \<and> client_down u \<and> log u = log t"
  by (simp add: iotc_mqtt_client_disconnect_def cleanup_idle cleanup_clears client_down_def Let_def)

text \<open>
  C26: the retry loops are bounded and do not give up early. Subscribing makes at most 3 attempts
  and connecting at most 150; a loop that fails has made all of them; and before each further
  connection attempt the task sleeps between 1 and 5000 ms.
\<close>

theorem mqtt_retry_bounds:
  assumes "mqtt_subscribe env mc qos s = (r, t)" and "mqtt_connect env nb mc s = (r', t')"
  shows "subscribes (log t) \<le> subscribes (log s) + 3
    \<and> (if r = CY_RSLT_SUCCESS then True else subscribes (log t) = subscribes (log s) + 3)
    \<and> connects (log t') \<le> connects (log s) + 150
    \<and> (if r' = CY_RSLT_SUCCESS then True else connects (log t') = connects (log s) + 150)
    \<and> connect_backoff env nb s \<in> {1..5000}"
proof -
  obtain topic u where u: "mqtt_subscribe env mc qos s = subscribe_loop env topic qos 3 1 u"
      "subscribes (log u) = subscribes (log s)"
    by (auto simp: mqtt_subscribe_def case_prod_unfold Let_def MAX_SUBSCRIBE_RETRIES_def subscribes_def)
  have "\<exists>info v. mqtt_connect env nb mc s = connect_loop env nb info 150 CY_RSLT_SUCCESS v
      \<and> connects (log v) = connects (log s)"
    unfolding mqtt_connect_def case_prod_unfold Let_def IOTC_MAX_MQTT_CONN_RETRIES_def
    by (intro exI conjI, rule refl) (simp add: connects_def)
  then obtain info v where v: "mqtt_connect env nb mc s = connect_loop env nb info 150 CY_RSLT_SUCCESS v"
      "connects (log v) = connects (log s)" by blast
  show ?thesis
    using subscribe_retry.loop_tries_le[of env topic qos 3 1 u]
      subscribe_retry.loop_fail_tries[of env topic qos 3 1 u]
      connect_retry.loop_tries_le[of env nb info 150 CY_RSLT_SUCCESS v]
      connect_retry.loop_fail_tries[of env nb info 150 CY_RSLT_SUCCESS v] assms u v
    by (auto simp: connect_backoff_def IOTC_MQTT_CONN_RETRY_INTERVAL_MS_def Suc_le_eq)
qed

lemma mqtt_retry_bounds_witness:
  "connects (log (snd (mqtt_connect mq_example_env True
     \<lparr>mc_host = None, mc_client_id = None, mc_username = None, mc_sub_c2d = None, mc_pub_rpt = None,
      mc_pub_ack = None\<rparr> mqtt_example))) \<le> 150"
  using mqtt_retry_bounds[OF surjective_pairing surjective_pairing, of mq_example_env
      "\<lparr>mc_host = None, mc_client_id = None, mc_username = None, mc_sub_c2d = None, mc_pub_rpt = None,
        mc_pub_ack = None\<rparr>" 1 mqtt_example True]
  by (simp add: mqtt_example_start(2)) (simp add: connects_def)

text \<open>
  C25: a received message reaches the application exactly once if a callback is installed, no
  disconnect is requested and the copy of the topic can be allocated, and not at all otherwise. The
  callback returns, memory is as before, nothing is freed twice, and a pending disconnect request
  has been cleared.
\<close>

theorem mqtt_message_delivery:
  assumes "heap_ok s"
  shows "\<exists>t. mqtt_event_callback env record_message (CY_MQTT_EVENT_TYPE_SUBSCRIPTION_MESSAGE_RECEIVE r) s = Some t
    \<and> heap t = heap s \<and> faults (log t) = faults (log s) \<and> \<not> is_disconnect_requested t
    \<and> (\<forall>cb. messages cb (log t) = messages cb (log s) @
         (if message_received env r s \<and> mqtt_inbound_msg_cb s = Some cb
          then [(c_string (r_topic r @ r_topic_tail r), r_payload r)] else []))"
  using event_message_effect[OF assms, of env r] by blast

lemma mqtt_message_delivery_witness:
  "\<exists>t. mqtt_event_callback mq_example_env record_message (CY_MQTT_EVENT_TYPE_SUBSCRIPTION_MESSAGE_RECEIVE
        \<lparr>r_topic = ''t'', r_topic_tail = [], r_payload = ''hello''\<rparr>)
      (mqtt_example\<lparr>mqtt_inbound_msg_cb := Some (User_inbound 1)\<rparr>) = Some t
    \<and> messages (User_inbound 1) (log t) = [(''t'', ''hello'')]"
proof -
  have "heap_ok (mqtt_example\<lparr>mqtt_inbound_msg_cb := Some (User_inbound 1)\<rparr>)"
    by (simp add: heap_ok_def mqtt_example_def)
  from mqtt_message_delivery[OF this, of mq_example_env
      "\<lparr>r_topic = ''t'', r_topic_tail = [], r_payload = ''hello''\<rparr>"]
  show ?thesis
    by (auto simp: message_received_def mqtt_example_start(2) mq_example_env_def c_string_def)
      (auto simp: mqtt_example_def messages_def)
qed

text \<open>
  The topic that the callback sees is wrong whenever the byte after the topic in the network buffer
  is not NUL: it runs on to the next NUL. The terminated copy that the function allocates for this
  purpose is not used.
\<close>

theorem mqtt_topic_overread:
  assumes "heap_ok s" and "message_received env r s" and "mqtt_inbound_msg_cb s = Some cb"
    and "CHR 0x00 \<notin> set (r_topic r @ r_topic_tail r)" and "r_topic_tail r \<noteq> []"
  shows "\<exists>t tp. mqtt_event_callback env record_message (CY_MQTT_EVENT_TYPE_SUBSCRIPTION_MESSAGE_RECEIVE r) s = Some t
    \<and> messages cb (log t) = messages cb (log s) @ [(tp, r_payload r)]
    \<and> tp = r_topic r @ r_topic_tail r \<and> tp \<noteq> r_topic r"
proof -
  have "c_string (r_topic r @ r_topic_tail r) = r_topic r @ r_topic_tail r"
    using assms(4) unfolding c_string_def by (intro takeWhile_eq_all_conv[THEN iffD2]) blast
  then show ?thesis using event_message_effect[OF assms(1), of env r] assms(2,3,5) by auto
qed

lemma mqtt_topic_overread_witness:
  "\<exists>t. mqtt_event_callback mq_example_env record_message (CY_MQTT_EVENT_TYPE_SUBSCRIPTION_MESSAGE_RECEIVE
        \<lparr>r_topic = ''t'', r_topic_tail = ''{'', r_payload = ''{''\<rparr>)
      (mqtt_example\<lparr>mqtt_inbound_msg_cb := Some (User_inbound 1)\<rparr>) = Some t
    \<and> messages (User_inbound 1) (log t) = [(''t{'', ''{'')]"
proof -
  let ?s = "mqtt_example\<lparr>mqtt_inbound_msg_cb := Some (User_inbound 1)\<rparr>"
  let ?r = "\<lparr>r_topic = ''t'', r_topic_tail = ''{'', r_payload = ''{''\<rparr>"
  have "heap_ok ?s" "message_received mq_example_env ?r ?s" "mqtt_inbound_msg_cb ?s = Some (User_inbound 1)"
    by (simp_all add: heap_ok_def mqtt_example_def message_received_def mq_example_env_def)
  from mqtt_topic_overread[OF this] show ?thesis
    by (auto simp: mqtt_example_start(2)) (simp add: messages_def)
qed

text \<open>
  The branch for an unknown connection type returns without the cleanup that every other
  failing branch runs: the error is returned with the MQTT library still initialised and no
  deinitialisation in the log.
\<close>

theorem mqtt_badarg_leaves_library:
  assumes "iotcl_mc s = Some mc" and "select_root_ca c = None"
    and "fst (call env Cy_mqtt_init (init_reset mc s)) = CY_RSLT_SUCCESS"
    and "iotc_mqtt_client_init env nb c s = (r, t)"
  shows "r = env_code env CY_RSLT_MODULE_MQTT_BADARG \<and> is_mqtt_initialized t
    \<and> mqtt_inits (log t) = Suc (mqtt_inits (log s)) \<and> mqtt_deinits (log t) = mqtt_deinits (log s)"
proof -
  have rt: "r = env_code env CY_RSLT_MODULE_MQTT_BADARG"
    "t = snd (c_strlen (mc_host mc) ((snd (call env Cy_mqtt_init (init_reset mc s)))\<lparr>is_mqtt_initialized := True\<rparr>))"
    using init_badarg[OF assms(1-3), of nb] assms(4) by simp_all
  show ?thesis
    unfolding rt using assms(3) by (simp add: resource_defs)
qed

lemma mqtt_badarg_leaves_library_witness:
  "is_mqtt_initialized (snd (iotc_mqtt_client_init mq_example_env False
     (mqtt_example_config\<lparr>mqtt_connection_type := IOTC_CT_UNDEFINED\<rparr>) mqtt_example))"
proof -
  obtain mc where mc: "iotcl_mc mqtt_example = Some mc" by (simp add: mqtt_example_def)
  have "select_root_ca (mqtt_example_config\<lparr>mqtt_connection_type := IOTC_CT_UNDEFINED\<rparr>) = None"
    by (simp add: select_root_ca_def mqtt_example_config_def)
  from mqtt_badarg_leaves_library[OF mc this _ surjective_pairing, of mq_example_env False]
  show ?thesis by simp
qed

end
