(* ===== verification/IotConnectProps.thy ===== *)
theory IotConnectProps
  imports IotConnect MqttClientProps
begin

text \<open>
  Lemmas about the SDK: what the identity protocol does to memory, the effect of
  deinitialising and disconnecting, the configuration copies, and the way of a message from the MQTT
  library to iotc-c-lib.
\<close>

section \<open>The identity protocol and memory\<close>

text \<open>Only the log and the MQTT configuration of iotc-c-lib change, apart from memory.\<close>

definition id_frame :: "('q, 'z) mqtt_state_scheme \<Rightarrow> ('q, 'z) mqtt_state_scheme \<Rightarrow> bool" where
  "id_frame s t \<longleftrightarrow>
     sdk_base.more (t\<lparr>iotcl_mc := None\<rparr>) = sdk_base.more (s\<lparr>iotcl_mc := None\<rparr>)
     \<and> faults (log t) = faults (log s) \<and> heap_ok t"

text \<open>
  \<open>holding s d t\<close>: from \<open>s\<close> to \<open>t\<close> the only memory gained is the response block \<open>d\<close>, if there is one.
\<close>

definition holding ::
    "('q, 'z) mqtt_state_scheme \<Rightarrow> addr option \<Rightarrow> ('q, 'z) mqtt_state_scheme \<Rightarrow> bool" where
  "holding s d t \<longleftrightarrow> id_frame s t \<and>
     (case d of None \<Rightarrow> heap t = heap s
      | Some a \<Rightarrow> heap s a = None \<and> (\<exists>body. heap t = (heap s)(a \<mapsto> body)))"

lemma more_set_mc:
  fixes s t :: "('q, 'z) mqtt_state_scheme"
  shows "sdk_base.more t = sdk_base.more s \<Longrightarrow>
    sdk_base.more (t\<lparr>iotcl_mc := mc\<rparr>) = sdk_base.more (s\<lparr>iotcl_mc := mc\<rparr>)"
proof -
  assume a: "sdk_base.more t = sdk_base.more s"
  obtain l h n q i c m d r j b p mc' x where s: "s = \<lparr>log = l, heap = h, next_addr = n, cy_queue = q,
      is_initialized = i, client_msg_cb = c, mqtt_connection = m, is_connected = d,
      is_disconnect_requested = r, is_mqtt_initialized = j, mqtt_inbound_msg_cb = b, client_status_cb = p,
      iotcl_mc = mc', \<dots> = x\<rparr>" by (cases s)
  obtain l h n q i c m d r j b p mc' x where t: "t = \<lparr>log = l, heap = h, next_addr = n, cy_queue = q,
      is_initialized = i, client_msg_cb = c, mqtt_connection = m, is_connected = d,
      is_disconnect_requested = r, is_mqtt_initialized = j, mqtt_inbound_msg_cb = b, client_status_cb = p,
      iotcl_mc = mc', \<dots> = x\<rparr>" by (cases t)
  show ?thesis
    using a unfolding s t by (simp only: sdk_base.select_convs mqtt_state.update_convs
        mq_state.ext_inject mqtt_state.ext_inject simp_thms)
qed

lemma id_frame_refl: "heap_ok s \<Longrightarrow> id_frame s s"
  by (simp add: id_frame_def)

lemma id_frame_trans: "id_frame s t \<Longrightarrow> id_frame t u \<Longrightarrow> id_frame s u"
  by (simp add: id_frame_def)

lemma id_frame_base:
  "sdk_base.more t = sdk_base.more s \<Longrightarrow> faults (log t) = faults (log s) \<Longrightarrow> heap_ok t \<Longrightarrow> id_frame s t"
  unfolding id_frame_def by (intro conjI) (rule more_set_mc)

lemma id_frame_call [simp]: "id_frame s (snd (call env c t)) = id_frame s t"
  using more_set_mc[of "snd (call env c t)" t None] by (simp add: id_frame_def heap_ok_def)

lemma id_frame_emit [simp]:
  "faults [e] = [] \<Longrightarrow> id_frame s (sdk_emit e t) = id_frame s t"
  using more_set_mc[of "sdk_emit e t" t None] by (simp add: id_frame_def faults_Cons)

lemma id_frame_set_mc [simp]: "id_frame s (t\<lparr>iotcl_mc := mc\<rparr>) = id_frame s t"
  by (simp add: id_frame_def heap_ok_def)

lemma holding_call [simp]: "holding s d (snd (call env c t)) = holding s d t"
  by (cases d) (simp_all add: holding_def)

lemma holding_emit [simp]: "faults [e] = [] \<Longrightarrow> holding s d (sdk_emit e t) = holding s d t"
  by (cases d) (simp_all add: holding_def)

lemma holding_set_mc [simp]: "holding s d (t\<lparr>iotcl_mc := mc\<rparr>) = holding s d t"
  by (cases d) (simp_all add: holding_def)

lemma holding_refl: "heap_ok s \<Longrightarrow> holding s None s"
  by (simp add: holding_def id_frame_refl)

text \<open>A request made while nothing is held.\<close>

lemma holding_request:
  assumes "holding s None u" and "host \<noteq> None"
  shows "holding s (fst (snd (iotconnect_https_request env host path body u)))
      (snd (snd (iotconnect_https_request env host path body u)))"
proof -
  have "heap_ok u" using assms(1) by (simp add: holding_def id_frame_def)
  from request_response[OF this assms(2), of env path body]
  have r: "response_ok env u (fst (snd (iotconnect_https_request env host path body u)))
      (snd (snd (iotconnect_https_request env host path body u)))" .
  then have "id_frame u (snd (snd (iotconnect_https_request env host path body u)))"
    by (intro id_frame_base) (simp_all add: response_ok_def)
  then show ?thesis
    using r assms(1) id_frame_trans
    by (auto simp: holding_def response_ok_def split: option.splits)
qed

lemma holding_live: "holding s (Some a) t \<Longrightarrow> \<exists>body. heap t a = Some body"
  by (auto simp: holding_def)

lemma read_held: "holding s d t \<Longrightarrow> d \<noteq> None \<Longrightarrow> snd (read_block d t) = t"
  by (auto simp: read_block_def dest: holding_live)

lemma dump_held: "holding s d t \<Longrightarrow> holding s d (dump_response m d t)"
proof -
  assume h: "holding s d t"
  let ?u = "case m of Some m \<Rightarrow> sdk_emit (Print m) t | None \<Rightarrow> t"
  have u: "holding s d ?u" using h by (simp add: faults_Cons split: option.split)
  show ?thesis
  proof (cases d)
    case None
    then show ?thesis using u by (simp add: dump_response_def faults_Cons)
  next
    case (Some a)
    then show ?thesis using u read_held[OF u] by (simp add: dump_response_def case_prod_unfold Let_def faults_Cons)
  qed
qed

lemma validate_held: "holding s d t \<Longrightarrow> holding s d (snd (validate_response env d t))"
  using read_held[of s d t] dump_held[of s d t]
  by (cases d) (simp_all add: validate_response_def case_prod_unfold Let_def)

lemma validate_some: "codes_ok env \<Longrightarrow> fst (validate_response env d t) = IOTCL_SUCCESS \<Longrightarrow> d \<noteq> None"
  by (cases d) (simp_all add: validate_response_def codes_ok_def)

lemma free_held:
  assumes "holding s d t"
  shows "holding s None (snd (iotconnect_free_https_response d t))"
proof (cases d)
  case None
  then show ?thesis using assms by (simp add: iotconnect_free_https_response_def)
next
  case (Some a)
  then obtain body where h: "heap s a = None" "heap t = (heap s)(a \<mapsto> body)"
    and f: "id_frame s t"
    using assms by (auto simp: holding_def)
  then have free: "heap (c_free a t) = (heap t)(a := None)" "faults (log (c_free a t)) = faults (log t)"
    using free_live[of t a] by simp_all
  have "id_frame t (c_free a t)"
    using f free by (intro id_frame_base) (simp_all add: heap_ok_free id_frame_def)
  then show ?thesis
    using f h free id_frame_trans by (fastforce simp: holding_def iotconnect_free_https_response_def Some)
qed

lemma free_value [simp]: "fst (iotconnect_free_https_response d t) = None"
  by (simp add: iotconnect_free_https_response_def split: option.split)

lemma cleanup_held:
  assumes "holding s d t"
  shows "holding s None (snd (identity_cleanup st d t))"
proof -
  have "holding s d (sdk_emit (Dra_url_deinit ''identity_url'') (sdk_emit (Dra_url_deinit ''discovery_url'') t))"
    using assms by (simp add: faults_Cons)
  from free_held[OF this] show ?thesis by (simp add: identity_cleanup_def case_prod_unfold Let_def)
qed

lemma discovery_held: "holding s None t \<Longrightarrow> holding s None (snd (discovery_url env ct cpid en t))"
  by (simp add: discovery_url_def split: IotConnectConnectionType.split)

lemma configure_held:
  assumes "codes_ok env" and "holding s d t"
  shows "holding s None (snd (configure_identity env lib ct d t))"
proof (cases "fst (validate_response env d t) = IOTCL_SUCCESS")
  case False
  then show ?thesis
    using assms by (simp add: configure_identity_def case_prod_unfold Let_def validate_held cleanup_held)
next
  case True
  then have "d \<noteq> None" using validate_some[OF assms(1)] by blast
  note v = validate_held[OF assms(2), of env]
  note r = read_held[OF v \<open>d \<noteq> None\<close>]
  show ?thesis
    using True v
    by (simp add: configure_identity_def case_prod_unfold Let_def r cleanup_held dump_held faults_Cons)
qed

lemma get_held:
  "holding s None u \<Longrightarrow> holding s (fst (snd (http_get env lib u))) (snd (snd (http_get env lib u)))"
  unfolding http_get_def by (rule holding_request) simp_all

lemma identity_request_held:
  assumes "codes_ok env" and "holding s d t"
  shows "holding s None (snd (identity_request env lib ct duid d t))"
proof -
  note f = free_held[OF assms(2)]
  have "holding s None (snd (call env (Iotcl_dra_identity_build_url duid) (snd (iotconnect_free_https_response d t))))"
    using f by simp
  note b = cleanup_held[OF this] configure_held[OF assms(1) get_held[OF this]]
  show ?thesis by (simp add: identity_request_def case_prod_unfold Let_def b)
qed

lemma discovery_response_held:
  assumes "codes_ok env" and "holding s d t"
  shows "holding s None (snd (discovery_response env lib ct duid d t))"
proof (cases "fst (validate_response env d t) = IOTCL_SUCCESS")
  case False
  then show ?thesis
    by (simp add: discovery_response_def case_prod_unfold Let_def cleanup_held[OF validate_held[OF assms(2)]])
next
  case True
  then have "d \<noteq> None" using validate_some[OF assms(1)] by blast
  note v = validate_held[OF assms(2), of env]
  note r = read_held[OF v \<open>d \<noteq> None\<close>]
  have "holding s d (snd (call env c (snd (validate_response env d t))))" for c using v by simp
  note p = cleanup_held[OF dump_held[OF this]] identity_request_held[OF assms(1) this]
  show ?thesis
    using True by (simp add: discovery_response_def case_prod_unfold Let_def r p)
qed

lemma identity_holds:
  assumes "codes_ok env" and "heap_ok s"
  shows "holding s None (snd (run_http_identity env lib ct duid cpid en s))"
proof -
  have d: "holding s None (snd (discovery_url env ct cpid en s))"
    by (rule discovery_held[OF holding_refl[OF assms(2)]])
  show ?thesis
    using d discovery_response_held[OF assms(1) get_held[OF d]]
    by (simp add: run_http_identity_def case_prod_unfold Let_def)
qed

lemma id_frame_fields:
  fixes s t :: "('q, 'z) mqtt_state_scheme"
  assumes "id_frame s t"
  shows "cy_queue t = cy_queue s" "is_initialized t = is_initialized s" "client_msg_cb t = client_msg_cb s"
    "mqtt_connection t = mqtt_connection s" "is_connected t = is_connected s"
    "is_mqtt_initialized t = is_mqtt_initialized s" "mqtt_state.more t = mqtt_state.more s"
    "mqtt_inbound_msg_cb t = mqtt_inbound_msg_cb s"
proof -
  obtain l h n q i c m d r j b p mc x where s: "s = \<lparr>log = l, heap = h, next_addr = n, cy_queue = q,
      is_initialized = i, client_msg_cb = c, mqtt_connection = m, is_connected = d,
      is_disconnect_requested = r, is_mqtt_initialized = j, mqtt_inbound_msg_cb = b, client_status_cb = p,
      iotcl_mc = mc, \<dots> = x\<rparr>" by (cases s)
  obtain l' h' n' q' i' c' m' d' r' j' b' p' mc' x' where t: "t = \<lparr>log = l', heap = h', next_addr = n',
      cy_queue = q', is_initialized = i', client_msg_cb = c', mqtt_connection = m', is_connected = d',
      is_disconnect_requested = r', is_mqtt_initialized = j', mqtt_inbound_msg_cb = b',
      client_status_cb = p', iotcl_mc = mc', \<dots> = x'\<rparr>" by (cases t)
  have "q' = q \<and> i' = i \<and> c' = c \<and> m' = m \<and> d' = d \<and> j' = j \<and> x' = x \<and> b' = b"
    using assms unfolding id_frame_def s t
    by (simp only: sdk_base.select_convs mqtt_state.update_convs mq_state.ext_inject
        mqtt_state.ext_inject simp_thms)
  then show "cy_queue t = cy_queue s" "is_initialized t = is_initialized s" "client_msg_cb t = client_msg_cb s"
    "mqtt_connection t = mqtt_connection s" "is_connected t = is_connected s"
    "is_mqtt_initialized t = is_mqtt_initialized s" "mqtt_state.more t = mqtt_state.more s"
    "mqtt_inbound_msg_cb t = mqtt_inbound_msg_cb s"
    unfolding s t
    by (simp_all only: mq_state.select_convs mqtt_state.select_convs)
qed

lemma config_more:
  fixes s t :: "'q sdk_state"
  assumes "mqtt_state.more t = mqtt_state.more s"
  shows "config t = config s"
proof -
  obtain l h n q i c m d r j b p mc g where s: "s = \<lparr>log = l, heap = h, next_addr = n, cy_queue = q,
      is_initialized = i, client_msg_cb = c, mqtt_connection = m, is_connected = d,
      is_disconnect_requested = r, is_mqtt_initialized = j, mqtt_inbound_msg_cb = b, client_status_cb = p,
      iotcl_mc = mc, config = g\<rparr>" by (cases s)
  obtain l' h' n' q' i' c' m' d' r' j' b' p' mc' g' where t: "t = \<lparr>log = l', heap = h', next_addr = n',
      cy_queue = q', is_initialized = i', client_msg_cb = c', mqtt_connection = m', is_connected = d',
      is_disconnect_requested = r', is_mqtt_initialized = j', mqtt_inbound_msg_cb = b',
      client_status_cb = p', iotcl_mc = mc', config = g'\<rparr>" by (cases t)
  show ?thesis
    using assms unfolding s t
    by (simp only: mqtt_state.select_convs sdk_state.select_convs sdk_state.ext_inject)
qed

lemma config_emit [simp]: "config (sdk_emit e s) = config s"
  by (simp add: sdk_emit_def)

section \<open>Disconnecting\<close>

lemma cleanup_mqtt_frame [simp]:
  "heap (snd (iotc_cleanup_mqtt env s)) = heap s"
  "next_addr (snd (iotc_cleanup_mqtt env s)) = next_addr s"
  "faults (log (snd (iotc_cleanup_mqtt env s))) = faults (log s)"
  "cy_queue (snd (iotc_cleanup_mqtt env s)) = cy_queue s"
  "is_initialized (snd (iotc_cleanup_mqtt env s)) = is_initialized s"
  "client_msg_cb (snd (iotc_cleanup_mqtt env s)) = client_msg_cb s"
  by (simp_all add: iotc_cleanup_mqtt_def case_prod_unfold Let_def)

lemma more_call_emit [simp]:
  "mqtt_state.more (snd (call env c s)) = mqtt_state.more s"
  "mqtt_state.more (sdk_emit e s) = mqtt_state.more s"
  by (simp_all add: call_def sdk_emit_def Let_def)

lemma cleanup_mqtt_more [simp]: "mqtt_state.more (snd (iotc_cleanup_mqtt env s)) = mqtt_state.more s"
  by (simp add: iotc_cleanup_mqtt_def case_prod_unfold Let_def)

lemma more_mqtt:
  fixes s t :: "('q, 'z) mqtt_state_scheme"
  assumes "mq_state.more t = mq_state.more s"
  shows "mqtt_connection t = mqtt_connection s" "is_connected t = is_connected s"
    "is_mqtt_initialized t = is_mqtt_initialized s" "iotcl_mc t = iotcl_mc s"
    "mqtt_inbound_msg_cb t = mqtt_inbound_msg_cb s" "client_status_cb t = client_status_cb s"
    "is_disconnect_requested t = is_disconnect_requested s" "mqtt_state.more t = mqtt_state.more s"
proof -
  obtain l h n q i c m d r j b p mc x where s: "s = \<lparr>log = l, heap = h, next_addr = n, cy_queue = q,
      is_initialized = i, client_msg_cb = c, mqtt_connection = m, is_connected = d,
      is_disconnect_requested = r, is_mqtt_initialized = j, mqtt_inbound_msg_cb = b, client_status_cb = p,
      iotcl_mc = mc, \<dots> = x\<rparr>" by (cases s)
  obtain l' h' n' q' i' c' m' d' r' j' b' p' mc' x' where t: "t = \<lparr>log = l', heap = h', next_addr = n',
      cy_queue = q', is_initialized = i', client_msg_cb = c', mqtt_connection = m', is_connected = d',
      is_disconnect_requested = r', is_mqtt_initialized = j', mqtt_inbound_msg_cb = b',
      client_status_cb = p', iotcl_mc = mc', \<dots> = x'\<rparr>" by (cases t)
  have "m' = m \<and> d' = d \<and> r' = r \<and> j' = j \<and> b' = b \<and> p' = p \<and> mc' = mc \<and> x' = x"
    using assms unfolding s t
    by (simp only: mq_state.select_convs mqtt_state.ext_inject simp_thms)
  then show "mqtt_connection t = mqtt_connection s" "is_connected t = is_connected s"
    "is_mqtt_initialized t = is_mqtt_initialized s" "iotcl_mc t = iotcl_mc s"
    "mqtt_inbound_msg_cb t = mqtt_inbound_msg_cb s" "client_status_cb t = client_status_cb s"
    "is_disconnect_requested t = is_disconnect_requested s" "mqtt_state.more t = mqtt_state.more s"
    unfolding s t by (simp_all only: mqtt_state.select_convs)
qed

lemma mq_ok_same:
  "mq_ok items cap s \<Longrightarrow> heap t = heap s \<Longrightarrow> next_addr t = next_addr s \<Longrightarrow> cy_queue t = cy_queue s \<Longrightarrow>
   mq_ok items cap t \<and> mq_contents items t = mq_contents items s"
  by (rule mq_ok_frame) (simp_all add: mq_ok_def heap_ok_def)

lemma disconnect_effect:
  assumes "queue_laws api items cap" and "mq_ok items cap s"
  shows "\<exists>r t. iotconnect_sdk_disconnect env api s = Some (r, t) \<and> mq_ok items cap t
    \<and> items (cy_queue t) = Some [] \<and> heap t = heap s |` (- set (mq_blocks items s))
    \<and> faults (log t) = faults (log s) \<and> client_down t \<and> client_msg_cb t = None
    \<and> is_initialized t = is_initialized s \<and> mqtt_state.more t = mqtt_state.more s
    \<and> cap (cy_queue t) = cap (cy_queue s) \<and> iotcl_mc t = iotcl_mc s"
proof -
  obtain u where u: "iotc_mq_flush api s = Some u" "mq_ok items cap u" "items (cy_queue u) = Some []"
      "cap (cy_queue u) = cap (cy_queue s)"
      "heap u = heap s |` (- set (mq_blocks items s))" "faults (log u) = faults (log s)"
      "is_initialized u = is_initialized s" "mq_state.more u = mq_state.more s"
    using flush_effect[OF assms(1,2)] by auto
  let ?v = "u\<lparr>client_msg_cb := None\<rparr>"
  have "mq_ok items cap ?v" using u(2) by simp
  with flush_effect[OF assms(1), of ?v] obtain w where w: "iotc_mq_flush api ?v = Some w"
      "mq_ok items cap w" "items (cy_queue w) = Some []" "cap (cy_queue w) = cap (cy_queue u)" "heap w = heap ?v |` (- set (mq_blocks items ?v))"
      "faults (log w) = faults (log u)" "client_msg_cb w = None" "is_initialized w = is_initialized s"
      "mq_state.more w = mq_state.more u"
    using u(7) by auto
  have "mq_blocks items ?v = []" using u(3) by (simp add: mq_blocks_def queued_def)
  then have h: "heap w = heap s |` (- set (mq_blocks items s))" using w(5) u(5) by (simp add: restrict_map_def)
  let ?t = "snd (iotc_mqtt_client_disconnect env w)"
  have f: "heap ?t = heap w" "next_addr ?t = next_addr w" "cy_queue ?t = cy_queue w"
      "faults (log ?t) = faults (log w)" "client_down ?t" "client_msg_cb ?t = client_msg_cb w"
      "is_initialized ?t = is_initialized w" "mqtt_state.more ?t = mqtt_state.more w"
      "iotcl_mc ?t = iotcl_mc w"
    by (simp_all add: iotc_mqtt_client_disconnect_def client_down_cleanup cleanup_clears)
  have "iotconnect_sdk_disconnect env api s = Some (iotc_mqtt_client_disconnect env w)"
    using u w by (simp add: iotconnect_sdk_disconnect_def iotc_mq_deregister_def)
  moreover have "mq_ok items cap ?t" using mq_ok_same[OF w(2) f(1-3)] by blast
  moreover have "mqtt_state.more w = mqtt_state.more s" "iotcl_mc w = iotcl_mc s"
    using more_mqtt(4,8)[of w s] w(9) u(8) by simp_all
  ultimately show ?thesis
    using f h w u by (intro exI[of _ "fst (iotc_mqtt_client_disconnect env w)"] exI[of _ ?t]) simp
qed

section \<open>The copies of the configuration\<close>

definition cfg_blocks :: "held_config \<Rightarrow> addr list" where
  "cfg_blocks h = opt_list (h_cpid h) @ opt_list (h_env h) @ opt_list (h_duid h)"

text \<open>The blocks \<open>ps\<close> are what \<open>t\<close> owns beyond \<open>s\<close>.\<close>

definition owning :: "'z sdk_base_scheme \<Rightarrow> addr list \<Rightarrow> 'z sdk_base_scheme \<Rightarrow> bool" where
  "owning s ps t \<longleftrightarrow>
     distinct ps \<and> (\<forall>a \<in> set ps. heap s a = None \<and> heap t a \<noteq> None) \<and> heap t |` (- set ps) = heap s
     \<and> heap_ok t \<and> faults (log t) = faults (log s) \<and> sdk_base.more t = sdk_base.more s"

lemma owning_refl: "heap_ok s \<Longrightarrow> owning s [] s"
  by (simp add: owning_def restrict_map_def)

lemma owning_strdup:
  assumes "owning s ps t" and "iotcl_strdup env v t = (p, u)"
  shows "owning s (ps @ opt_list p) u"
    and "\<forall>a \<in> set ps. heap u a = heap t a"
    and "case p of Some a \<Rightarrow> \<exists>str. v = Some str \<and> heap u a = Some (c_string str @ [CHR 0x00]) | None \<Rightarrow> True"
proof -
  have t: "heap_ok t" using assms(1) by (simp add: owning_def)
  have "owning s (ps @ opt_list p) u \<and> (\<forall>a \<in> set ps. heap u a = heap t a)
    \<and> (case p of Some a \<Rightarrow> \<exists>str. v = Some str \<and> heap u a = Some (c_string str @ [CHR 0x00]) | None \<Rightarrow> True)"
  proof (cases v)
    case None
    then show ?thesis using assms by (simp add: iotcl_strdup_def opt_list_def)
  next
    case (Some str)
    then have a: "alloc env (c_string str @ [CHR 0x00]) t = (p, u)"
      using assms(2) by (simp add: iotcl_strdup_def)
    have u: "heap_ok u" "sdk_base.more u = sdk_base.more t"
      using heap_ok_alloc[OF t, of env "c_string str @ [CHR 0x00]"]
        more_alloc[of env "c_string str @ [CHR 0x00]" t] a by simp_all
    show ?thesis
      using a
    proof (cases rule: alloc_cases)
      case 1
      have fresh: "heap t (next_addr t) = None" by (rule heap_ok_fresh[OF t])
      then have "next_addr t \<notin> set ps" using assms(1) by (auto simp: owning_def)
      moreover have old: "heap t x = heap s x" if "x \<notin> set ps" for x
      proof -
        have "(heap t |` (- set ps)) x = heap s x" using assms(1) by (simp add: owning_def)
        with that show ?thesis by (simp add: restrict_map_def)
      qed
      moreover have "heap s (next_addr t) = None"
        using fresh old[OF \<open>next_addr t \<notin> set ps\<close>] by simp
      ultimately have "heap u |` (- set (ps @ [next_addr t])) = heap s"
        using assms(1) 1(2) by (auto simp: owning_def restrict_map_def fun_eq_iff)
      then show ?thesis
        using assms(1) u 1 Some \<open>next_addr t \<notin> set ps\<close> \<open>heap s (next_addr t) = None\<close>
        by (auto simp: owning_def opt_list_def)
    next
      case 2
      then show ?thesis using assms(1) u by (simp add: owning_def opt_list_def)
    qed
  qed
  then show "owning s (ps @ opt_list p) u" "\<forall>a \<in> set ps. heap u a = heap t a"
    "case p of Some a \<Rightarrow> \<exists>str. v = Some str \<and> heap u a = Some (c_string str @ [CHR 0x00]) | None \<Rightarrow> True"
    by blast+
qed

text \<open>What \<open>hold_config\<close> leaves: correct copies (or none, when memory is short), and nothing else.\<close>

definition config_copied :: "IotConnectClientConfig \<Rightarrow> 'q sdk_state \<Rightarrow> bool" where
  "config_copied c t \<longleftrightarrow>
     (\<forall>(p, v) \<in> {(h_cpid (config t), c_cpid c), (h_env (config t), c_env c), (h_duid (config t), c_duid c)}.
        case p of Some a \<Rightarrow> \<exists>str. v = Some str \<and> heap t a = Some (c_string str @ [CHR 0x00]) | None \<Rightarrow> True)"

lemma more_mqtt_base:
  fixes s t :: "('q, 'z) mqtt_state_scheme"
  assumes "sdk_base.more t = sdk_base.more s"
  shows "is_connected t = is_connected s" "mqtt_connection t = mqtt_connection s"
    "mqtt_inbound_msg_cb t = mqtt_inbound_msg_cb s"
  using more_mqtt(1,2,5)[OF more_mq(4)[OF assms]] by simp_all

lemma hold_config_effect:
  assumes "heap_ok s"
  shows "distinct (cfg_blocks (config (hold_config env c s)))
    \<and> (\<forall>a \<in> set (cfg_blocks (config (hold_config env c s))).
          heap s a = None \<and> heap (hold_config env c s) a \<noteq> None)
    \<and> heap (hold_config env c s) |` (- set (cfg_blocks (config (hold_config env c s)))) = heap s
    \<and> heap_ok (hold_config env c s) \<and> faults (log (hold_config env c s)) = faults (log s)
    \<and> is_connected (hold_config env c s) = is_connected s
    \<and> mqtt_connection (hold_config env c s) = mqtt_connection s
    \<and> cy_queue (hold_config env c s) = cy_queue s
    \<and> client_msg_cb (hold_config env c s) = client_msg_cb s
    \<and> mqtt_inbound_msg_cb (hold_config env c s) = mqtt_inbound_msg_cb s
    \<and> config_copied c (hold_config env c s)
    \<and> h_connection_type (config (hold_config env c s)) = c_connection_type c
    \<and> h_x509_config (config (hold_config env c s)) = c_x509_config c
    \<and> h_status_cb (config (hold_config env c s)) = c_status_cb c"
proof -
  obtain p1 u1 where s1: "iotcl_strdup env (c_cpid c) s = (p1, u1)" by fastforce
  obtain p2 u2 where s2: "iotcl_strdup env (c_env c) u1 = (p2, u2)" by fastforce
  obtain p3 u3 where s3: "iotcl_strdup env (c_duid c) u2 = (p3, u3)" by fastforce
  note o1 = owning_strdup[OF owning_refl[OF assms] s1]
  note o2 = owning_strdup[OF o1(1) s2]
  note o3 = owning_strdup[OF o2(1) s3]
  let ?t = "hold_config env c s"
  have t: "cfg_blocks (config ?t) = opt_list p1 @ opt_list p2 @ opt_list p3"
    "h_cpid (config ?t) = p1" "h_env (config ?t) = p2" "h_duid (config ?t) = p3"
    "h_connection_type (config ?t) = c_connection_type c" "h_x509_config (config ?t) = c_x509_config c"
    "h_status_cb (config ?t) = c_status_cb c"
    "heap ?t = heap u3" "heap_ok ?t = heap_ok u3" "faults (log ?t) = faults (log u3)"
    "is_connected ?t = is_connected u3" "mqtt_connection ?t = mqtt_connection u3" "cy_queue ?t = cy_queue u3"
    "client_msg_cb ?t = client_msg_cb u3" "mqtt_inbound_msg_cb ?t = mqtt_inbound_msg_cb u3"
    by (simp_all add: hold_config_def s1 s2 s3 cfg_blocks_def heap_ok_def)
  have more: "sdk_base.more u3 = sdk_base.more s" using o3(1) by (simp add: owning_def)
  have keep: "\<forall>a \<in> set (opt_list p1). heap u3 a = heap u1 a" "\<forall>a \<in> set (opt_list p2). heap u3 a = heap u2 a"
    using o2(2) o3(2) by auto
  have "config_copied c ?t"
    unfolding config_copied_def t using o1(3) o2(3) o3(3) keep
    by (auto simp: opt_list_def split: option.splits)
  then show ?thesis
    using o3(1) t more_mqtt_base[OF more] more_mq(1,3)[OF more] by (simp add: owning_def)
qed

section \<open>Deinitialising\<close>

lemma free_opt_effect:
  assumes "\<forall>a \<in> set (opt_list p). heap s a \<noteq> None" and "heap_ok s"
  shows "heap (free_opt p s) = heap s |` (- set (opt_list p))" "faults (log (free_opt p s)) = faults (log s)"
    "heap_ok (free_opt p s)" "sdk_base.more (free_opt p s) = sdk_base.more s"
  using assms free_live[of s "the p"]
  by (cases p; auto simp: free_opt_def opt_list_def restrict_map_def fun_eq_iff heap_ok_free)+

lemma free_three_effect:
  assumes "distinct (opt_list a @ opt_list b @ opt_list c)"
    and "\<forall>x \<in> set (opt_list a @ opt_list b @ opt_list c). heap s x \<noteq> None" and "heap_ok s"
  defines "t \<equiv> free_opt c (free_opt b (free_opt a s))"
  shows "heap t = heap s |` (- set (opt_list a @ opt_list b @ opt_list c))"
    "faults (log t) = faults (log s)" "heap_ok t" "sdk_base.more t = sdk_base.more s"
proof -
  have live: "\<forall>x \<in> set (opt_list a). heap s x \<noteq> None" using assms(2) by simp
  note f1 = free_opt_effect[OF live assms(3)]
  have "\<forall>x \<in> set (opt_list b). heap (free_opt a s) x \<noteq> None"
    using assms(1,2) by (auto simp: f1 restrict_map_def)
  note f2 = free_opt_effect[OF this f1(3)]
  have "\<forall>x \<in> set (opt_list c). heap (free_opt b (free_opt a s)) x \<noteq> None"
    using assms(1,2) by (auto simp: f1 f2 restrict_map_def)
  note f3 = free_opt_effect[OF this f2(3)]
  show "heap t = heap s |` (- set (opt_list a @ opt_list b @ opt_list c))"
    unfolding t_def f1 f2 f3 by (auto simp: restrict_map_def)
  show "faults (log t) = faults (log s)" "heap_ok t" "sdk_base.more t = sdk_base.more s"
    unfolding t_def using f1 f2 f3 by simp_all
qed

text \<open>
  The SDK's memory: a live queue and the copies, which belong to nothing else.
\<close>

definition sdk_ok ::
    "('q \<Rightarrow> mq_msg list option) \<Rightarrow> ('q \<Rightarrow> nat) \<Rightarrow> 'q sdk_state \<Rightarrow> bool" where
  "sdk_ok items cap s \<longleftrightarrow>
     mq_ok items cap s \<and> is_initialized s \<and> distinct (cfg_blocks (config s))
     \<and> (\<forall>a \<in> set (cfg_blocks (config s)). heap s a \<noteq> None \<and> a \<notin> set (mq_blocks items s))"

text \<open>The first statement: a connected client is disconnected.\<close>

lemma deinit_disconnects:
  assumes "queue_laws api items cap" and "sdk_ok items cap s"
  shows "\<exists>u. (if iotconnect_sdk_is_connected s
          then map_option snd (iotconnect_sdk_disconnect env api s) else Some s) = Some u
      \<and> mq_ok items cap u \<and> heap u |` (- set (mq_blocks items u)) = heap s |` (- set (mq_blocks items s))
      \<and> faults (log u) = faults (log s) \<and> is_initialized u \<and> mqtt_state.more u = mqtt_state.more s
      \<and> \<not> is_connected u
      \<and> (if is_connected s then client_down u else u = s)"
proof (cases "is_connected s")
  case True
  have q: "mq_ok items cap s" "is_initialized s" using assms(2) by (simp_all add: sdk_ok_def)
  obtain r u where u: "iotconnect_sdk_disconnect env api s = Some (r, u)" "mq_ok items cap u"
      "items (cy_queue u) = Some []" "heap u = heap s |` (- set (mq_blocks items s))"
      "faults (log u) = faults (log s)" "client_down u" "is_initialized u = is_initialized s"
      "mqtt_state.more u = mqtt_state.more s"
    using disconnect_effect[OF assms(1) q(1), of env] by auto
  moreover have "mq_blocks items u = []" using u(3) by (simp add: mq_blocks_def queued_def)
  ultimately show ?thesis
    using True q by (simp add: iotconnect_sdk_is_connected_def iotc_mqtt_client_is_connected_def
        restrict_map_def client_down_def)
next
  case False
  then show ?thesis
    using assms(2) by (simp add: iotconnect_sdk_is_connected_def iotc_mqtt_client_is_connected_def sdk_ok_def)
qed

text \<open>The rest of the function, once the queue is gone.\<close>

lemma deinit_frees:
  assumes "(if iotconnect_sdk_is_connected s
          then map_option snd (iotconnect_sdk_disconnect env api s) else Some s) = Some u"
    and "iotc_mq_deinit api u = Some v" and "config v = config s"
  shows "iotconnect_sdk_deinit env api s =
    Some ((sdk_emit Iotcl_deinit
        ((free_opt (h_duid (config s)) (free_opt (h_env (config s)) (free_opt (h_cpid (config s)) v)))
          \<lparr>config := zero_config\<rparr>))\<lparr>iotcl_mc := None\<rparr>)"
proof -
  have fm: "sdk_base.more (free_opt p x) = sdk_base.more x" for p and x :: "'a sdk_state"
    by (simp add: free_opt_def split: option.split)
  have c: "config (free_opt p x) = config x" for p and x :: "'a sdk_state"
    by (rule config_more) (rule more_mqtt(8)[OF more_mq(4)[OF fm]])
  show ?thesis using assms by (simp add: iotconnect_sdk_deinit_def Let_def c)
qed

lemma sdk_deinit_effect:
  assumes "queue_laws api items cap" and "sdk_ok items cap s"
  shows "\<exists>t. iotconnect_sdk_deinit env api s = Some t
    \<and> heap t = heap s |` (- (set (mq_blocks items s) \<union> set (cfg_blocks (config s))))
    \<and> faults (log t) = faults (log s) \<and> items (cy_queue t) = None \<and> \<not> is_initialized t
    \<and> client_msg_cb t = None \<and> config t = zero_config \<and> iotcl_mc t = None \<and> \<not> is_connected t
    \<and> (if is_connected s then client_down t
       else mqtt_connection t = mqtt_connection s \<and> client_status_cb t = client_status_cb s
         \<and> mqtt_inbound_msg_cb t = mqtt_inbound_msg_cb s \<and> is_mqtt_initialized t = is_mqtt_initialized s)"
proof -
  obtain u where u: "(if iotconnect_sdk_is_connected s
          then map_option snd (iotconnect_sdk_disconnect env api s) else Some s) = Some u"
      "mq_ok items cap u" "heap u |` (- set (mq_blocks items u)) = heap s |` (- set (mq_blocks items s))"
      "faults (log u) = faults (log s)" "is_initialized u" "mqtt_state.more u = mqtt_state.more s"
      "\<not> is_connected u" "if is_connected s then client_down u else u = s"
    using deinit_disconnects[OF assms, of env] by blast
  obtain v where v: "iotc_mq_deinit api u = Some v" "heap v = heap u |` (- set (mq_blocks items u))"
      "faults (log v) = faults (log u)" "items (cy_queue v) = None" "\<not> is_initialized v"
      "client_msg_cb v = None" "heap_ok v" "mq_state.more v = mq_state.more u"
    using deinit_effect[OF assms(1) u(2,5)] by auto
  note vm = more_mqtt[OF v(8)]
  have cfg: "config v = config s" using vm(8) u(6) config_more[of v s] by simp
  let ?b = "opt_list (h_cpid (config s)) @ opt_list (h_env (config s)) @ opt_list (h_duid (config s))"
  define w where "w = free_opt (h_duid (config s)) (free_opt (h_env (config s)) (free_opt (h_cpid (config s)) v))"
  have live: "distinct ?b" "\<forall>x \<in> set ?b. heap v x \<noteq> None"
    using assms(2) u(3) v(2) by (auto simp: sdk_ok_def cfg_blocks_def restrict_map_def)
  note w = free_three_effect[OF live v(7), folded w_def]
  note wm = more_mqtt[OF more_mq(4)[OF w(4)]] more_mq[OF w(4)]
  let ?t = "(sdk_emit Iotcl_deinit (w\<lparr>config := zero_config\<rparr>))\<lparr>iotcl_mc := None\<rparr>"
  have d: "iotconnect_sdk_deinit env api s = Some ?t"
    using deinit_frees[OF u(1) v(1) cfg] by (simp add: w_def)
  have "heap ?t = heap s |` (- (set (mq_blocks items s) \<union> set (cfg_blocks (config s))))"
    using w(1) v(2) u(3) by (auto simp: cfg_blocks_def restrict_map_def fun_eq_iff)
  moreover have "faults (log ?t) = faults (log s)" using w(2) v(3) u(4) by simp
  moreover have "client_down ?t" if "is_connected s"
    using that u(8) wm vm by (simp add: client_down_def)
  moreover have "mqtt_connection ?t = mqtt_connection s \<and> client_status_cb ?t = client_status_cb s
       \<and> mqtt_inbound_msg_cb ?t = mqtt_inbound_msg_cb s \<and> is_mqtt_initialized ?t = is_mqtt_initialized s"
    if "\<not> is_connected s"
    using that u(8) wm vm by simp
  ultimately show ?thesis
    unfolding d using v wm vm u(7) by simp
qed

section \<open>Initialising\<close>

lemma cleanup_status [simp]: "fst (identity_cleanup st d t) = st"
  by (simp add: identity_cleanup_def case_prod_unfold Let_def)

lemma mc_emit_free [simp]:
  "iotcl_mc (snd (identity_cleanup st d t)) = iotcl_mc t"
  by (simp add: identity_cleanup_def case_prod_unfold Let_def iotconnect_free_https_response_def
      split: option.split)

text \<open>The MQTT configuration that an identity response stands for; for AWS without a user name.\<close>

definition identity_mqtt :: "iotcl_lib \<Rightarrow> IotConnectConnectionType \<Rightarrow> string \<Rightarrow> iotcl_mqtt_config" where
  "identity_mqtt lib ct body =
     (if ct = IOTC_CT_AWS then (lib_identity_mqtt lib body)\<lparr>mc_username := None\<rparr> else lib_identity_mqtt lib body)"

definition mqtt_configured :: "iotcl_lib \<Rightarrow> IotConnectConnectionType \<Rightarrow> ('q, 'z) mqtt_state_scheme \<Rightarrow> bool" where
  "mqtt_configured lib ct t \<longleftrightarrow> (\<exists>body. iotcl_mc t = Some (identity_mqtt lib ct body))"

lemma mqtt_configured_cleanup [simp]:
  "mqtt_configured lib ct (snd (identity_cleanup st d t)) = mqtt_configured lib ct t"
  by (simp add: mqtt_configured_def)

lemma mqtt_configured_workaround:
  "ct = IOTC_CT_AWS \<and> mc_username (lib_identity_mqtt lib body) \<noteq> None \<Longrightarrow>
     mqtt_configured lib ct (t\<lparr>iotcl_mc := Some ((lib_identity_mqtt lib body)\<lparr>mc_username := None\<rparr>)\<rparr>)"
  "\<not> (ct = IOTC_CT_AWS \<and> mc_username (lib_identity_mqtt lib body) \<noteq> None) \<Longrightarrow>
     mqtt_configured lib ct (t\<lparr>iotcl_mc := Some (lib_identity_mqtt lib body)\<rparr>)"
proof -
  show "mqtt_configured lib ct (t\<lparr>iotcl_mc := Some ((lib_identity_mqtt lib body)\<lparr>mc_username := None\<rparr>)\<rparr>)"
    if "ct = IOTC_CT_AWS \<and> mc_username (lib_identity_mqtt lib body) \<noteq> None"
    using that by (auto simp: mqtt_configured_def identity_mqtt_def)
  have "mc\<lparr>mc_username := None\<rparr> = mc" if "mc_username mc = None" for mc :: iotcl_mqtt_config
    using that by (cases mc) simp
  then show "mqtt_configured lib ct (t\<lparr>iotcl_mc := Some (lib_identity_mqtt lib body)\<rparr>)"
    if "\<not> (ct = IOTC_CT_AWS \<and> mc_username (lib_identity_mqtt lib body) \<noteq> None)"
    using that unfolding mqtt_configured_def identity_mqtt_def by (intro exI[of _ body]) auto
qed

lemma configure_mc:
  "fst (configure_identity env lib ct d t) = IOTCL_SUCCESS \<Longrightarrow>
   mqtt_configured lib ct (snd (configure_identity env lib ct d t))"
  by (auto simp: configure_identity_def case_prod_unfold Let_def split: if_splits
      intro: mqtt_configured_workaround)

lemma identity_request_mc:
  "fst (identity_request env lib ct duid d t) = IOTCL_SUCCESS \<Longrightarrow>
   mqtt_configured lib ct (snd (identity_request env lib ct duid d t))"
  by (simp only: identity_request_def case_prod_unfold Let_def cleanup_status split: if_splits)
    (auto intro: configure_mc simp: cleanup_status)

lemma discovery_response_mc:
  "fst (discovery_response env lib ct duid d t) = IOTCL_SUCCESS \<Longrightarrow>
   mqtt_configured lib ct (snd (discovery_response env lib ct duid d t))"
  by (simp only: discovery_response_def case_prod_unfold Let_def split: if_splits)
    (auto intro: identity_request_mc simp: cleanup_status)

lemma identity_configured:
  "fst (run_http_identity env lib ct duid cpid en s) = IOTCL_SUCCESS \<Longrightarrow>
   mqtt_configured lib ct (snd (run_http_identity env lib ct duid cpid en s))"
  by (simp only: run_http_identity_def case_prod_unfold Let_def split: if_splits)
    (auto intro: discovery_response_mc)

lemma identity_mc:
  "fst (run_http_identity env lib ct duid cpid en s) = IOTCL_SUCCESS \<Longrightarrow>
   iotcl_mc (snd (run_http_identity env lib ct duid cpid en s)) \<noteq> None"
  using identity_configured[of env lib ct duid cpid en s] by (auto simp: mqtt_configured_def)

text \<open>The logs of the protocol only grow; what is printed between two steps is no call.\<close>

definition log_grows :: "'z sdk_base_scheme \<Rightarrow> 'z sdk_base_scheme \<Rightarrow> bool" where
  "log_grows s t \<longleftrightarrow> (\<exists>es. log t = log s @ es)"

lemma log_grows_refl [simp]: "log_grows s s"
  by (simp add: log_grows_def)

lemma log_grows_trans: "log_grows s t \<Longrightarrow> log_grows t u \<Longrightarrow> log_grows s u"
  by (auto simp: log_grows_def)

lemma log_grows_emit: "log_grows s t \<Longrightarrow> log_grows s (sdk_emit e t)"
  by (auto simp: log_grows_def log_sdk_emit)

lemma log_grows_call: "log_grows s t \<Longrightarrow> log_grows s (snd (call env c t))"
  by (auto simp: log_grows_def call_log)

lemma log_grows_free: "log_grows s t \<Longrightarrow> log_grows s (snd (iotconnect_free_https_response d t))"
  by (auto simp: log_grows_def log_sdk_emit iotconnect_free_https_response_def c_free_def Let_def split: option.split)

lemma log_grows_read: "log_grows s t \<Longrightarrow> log_grows s (snd (read_block d t))"
  by (auto simp: log_grows_def log_sdk_emit read_block_def split: option.split)

lemma log_grows_dump: "log_grows s t \<Longrightarrow> log_grows s (dump_response m d t)"
  by (auto simp: dump_response_def case_prod_unfold Let_def intro!: log_grows_emit log_grows_read split: option.split)

lemma log_grows_validate: "log_grows s t \<Longrightarrow> log_grows s (snd (validate_response env d t))"
  by (auto simp: validate_response_def case_prod_unfold Let_def intro!: log_grows_dump log_grows_read split: option.split)

lemma log_grows_cleanup: "log_grows s t \<Longrightarrow> log_grows s (snd (identity_cleanup st d t))"
  by (auto simp: identity_cleanup_def case_prod_unfold Let_def intro!: log_grows_emit log_grows_free)

lemma log_grows_get:
  assumes "log_grows s t" and "heap_ok t"
  shows "log_grows s (snd (snd (http_get env lib t)))"
proof -
  obtain r d u where e: "http_get env lib t = (r, d, u)" by (cases "http_get env lib t") auto
  have "log_grows t u"
    by (rule request_exact[OF assms(2) e[unfolded http_get_def]]) (auto simp: log_grows_def)
  with assms(1) show ?thesis unfolding e by (auto intro: log_grows_trans)
qed

text \<open>A valid response is read as it is; checking it may only print.\<close>

lemma validate_exact:
  assumes "heap t a = Some bs" and "validate_response env (Some a) t = (st, u)"
  shows "\<exists>ps. log u = log t @ ps \<and> set ps \<subseteq> range Print" "heap u = heap t" "iotcl_mc u = iotcl_mc t"
  using assms
  by (auto simp: validate_response_def read_block_def dump_response_def Let_def log_sdk_emit split: if_splits)

text \<open>
  Where the MQTT configuration comes from. \<open>identity_answer\<close>: in what was logged after \<open>l0\<close>, the URL of the
  identity was built for \<open>duid\<close>, the request that follows was answered with \<open>b\<close>, and this text, up to its
  first NUL, was given to iotc-c-lib, which took it.
\<close>

definition identity_answer ::
    "sdk_env \<Rightarrow> iotcl_lib \<Rightarrow> string \<Rightarrow> sdk_event list \<Rightarrow> sdk_event list \<Rightarrow> string \<Rightarrow> bool" where
  "identity_answer env lib duid l0 es b \<longleftrightarrow>
     (\<exists>pre get ps rest r.
        let l = l0 @ pre @ [Ret (Iotcl_dra_identity_build_url duid) IOTCL_SUCCESS]
        in es = pre @ [Ret (Iotcl_dra_identity_build_url duid) IOTCL_SUCCESS] @ get @ ps
                  @ [Ret (Iotcl_dra_identity_configure_library_mqtt (c_string b)) IOTCL_SUCCESS] @ rest
         \<and> http_answered env (Some (lib_url_resource lib l)) None l get b r \<and> set ps \<subseteq> range Print)"

lemma configure_exact:
  assumes "heap t a = Some (b @ [CHR 0x00])"
    and "fst (configure_identity env lib ct (Some a) t) = IOTCL_SUCCESS"
  shows "\<exists>ps rest. log (snd (configure_identity env lib ct (Some a) t))
        = log t @ ps @ [Ret (Iotcl_dra_identity_configure_library_mqtt (c_string b)) IOTCL_SUCCESS] @ rest
      \<and> set ps \<subseteq> range Print"
    "iotcl_mc (snd (configure_identity env lib ct (Some a) t)) = Some (identity_mqtt lib ct (c_string b))"
proof -
  obtain st u where u: "validate_response env (Some a) t = (st, u)" by fastforce
  note v = validate_exact[OF assms(1) u]
  have st: "st = IOTCL_SUCCESS" using assms(2) u by (auto simp: configure_identity_def split: if_splits)
  have rd: "read_block (Some a) u = (b @ [CHR 0x00], u)" using assms(1) v(2) by (simp add: read_block_def)
  let ?c = "Iotcl_dra_identity_configure_library_mqtt (c_string b)"
  obtain e w where w: "call env ?c u = (e, w)" by fastforce
  have e: "e = IOTCL_SUCCESS"
    using assms(2) u st rd w unfolding configure_identity_def Let_def by (auto simp: c_string_snoc split: if_splits)
  have lw: "log w = log u @ [Ret ?c IOTCL_SUCCESS]" using call_log[of env ?c u] w e by simp
  let ?mc = "lib_identity_mqtt lib (c_string b)"
  let ?x = "if ct = IOTC_CT_AWS \<and> mc_username ?mc \<noteq> None
     then (sdk_emit (Iotcl_free ''username'') (w\<lparr>iotcl_mc := Some ?mc\<rparr>))\<lparr>iotcl_mc := Some (?mc\<lparr>mc_username := None\<rparr>)\<rparr>
     else w\<lparr>iotcl_mc := Some ?mc\<rparr>"
  have c: "configure_identity env lib ct (Some a) t = identity_cleanup e (Some a) ?x"
    using u st rd w e by (simp add: configure_identity_def c_string_snoc Let_def)
  have "log_grows w ?x" by (simp add: log_grows_def log_sdk_emit)
  then have "log_grows w (snd (configure_identity env lib ct (Some a) t))" unfolding c by (rule log_grows_cleanup)
  then obtain rest where "log (snd (configure_identity env lib ct (Some a) t)) = log w @ rest"
    by (auto simp: log_grows_def)
  moreover obtain ps where "log u = log t @ ps" "set ps \<subseteq> range Print" using v(1) by blast
  ultimately show "\<exists>ps rest. log (snd (configure_identity env lib ct (Some a) t))
        = log t @ ps @ [Ret ?c IOTCL_SUCCESS] @ rest \<and> set ps \<subseteq> range Print"
    using lw by (intro exI[of _ ps] exI[of _ rest]) simp
  have n: "m\<lparr>mc_username := None\<rparr> = m" if "mc_username m = None" for m :: iotcl_mqtt_config
    using that by (cases m) simp
  have "iotcl_mc ?x = Some (identity_mqtt lib ct (c_string b))" using n[of ?mc] by (auto simp: identity_mqtt_def)
  then show "iotcl_mc (snd (configure_identity env lib ct (Some a) t)) = Some (identity_mqtt lib ct (c_string b))"
    unfolding c by simp
qed

lemma identity_request_exact:
  assumes "codes_ok env" and "log_grows s t" and "holding s' d t"
    and "fst (identity_request env lib ct duid d t) = IOTCL_SUCCESS"
  shows "\<exists>es b. log (snd (identity_request env lib ct duid d t)) = log s @ es
    \<and> identity_answer env lib duid (log s) es b
    \<and> iotcl_mc (snd (identity_request env lib ct duid d t)) = Some (identity_mqtt lib ct (c_string b))"
proof -
  let ?f = "snd (iotconnect_free_https_response d t)" let ?b = "Iotcl_dra_identity_build_url duid"
  obtain e u where u: "call env ?b ?f = (e, u)" by fastforce
  have e: "e = IOTCL_SUCCESS"
    using assms(4) u by (auto simp: identity_request_def case_prod_unfold Let_def split: if_splits)
  have "holding s' None (snd (call env ?b ?f))" using free_held[OF assms(3)] by simp
  then have ok: "heap_ok u" using u by (simp add: holding_def id_frame_def)
  have "log_grows s ?f" using assms(2) by (rule log_grows_free)
  then obtain pre where lu: "log u = log s @ pre @ [Ret ?b IOTCL_SUCCESS]"
    using call_log[of env ?b ?f] u e by (auto simp: log_grows_def)
  obtain r d' w where w: "http_get env lib u = (r, d', w)" by (cases "http_get env lib u") auto
  have i: "identity_request env lib ct duid d t = configure_identity env lib ct d' w"
    using u e w by (simp add: identity_request_def case_prod_unfold)
  show ?thesis
  proof (rule request_exact[OF ok w[unfolded http_get_def]])
    fix es assume d: "d' = None"
    have "fst (validate_response env d' w) = env_code env IOTCL_ERR_PARSING_ERROR"
      by (simp add: d validate_response_def)
    then have "fst (configure_identity env lib ct d' w) \<noteq> IOTCL_SUCCESS"
      using assms(1) by (simp add: codes_ok_def configure_identity_def case_prod_unfold Let_def)
    then show ?thesis using assms(4) i by simp
  next
    fix a b es assume a: "d' = Some a" "heap w = (heap u)(a \<mapsto> b @ [CHR 0x00])" "log w = log u @ es"
      "http_answered env (Some (lib_url_resource lib (log u))) None (log u) es b r"
    then have hw: "heap w a = Some (b @ [CHR 0x00])" by simp
    have "fst (configure_identity env lib ct (Some a) w) = IOTCL_SUCCESS" using assms(4) i a(1) by simp
    note c = configure_exact[OF hw this]
    from c(1) obtain ps rest where l: "log (snd (configure_identity env lib ct (Some a) w))
        = log w @ ps @ [Ret (Iotcl_dra_identity_configure_library_mqtt (c_string b)) IOTCL_SUCCESS] @ rest"
      "set ps \<subseteq> range Print" by blast
    let ?es = "pre @ [Ret ?b IOTCL_SUCCESS] @ es @ ps
      @ [Ret (Iotcl_dra_identity_configure_library_mqtt (c_string b)) IOTCL_SUCCESS] @ rest"
    have "identity_answer env lib duid (log s) ?es b"
      unfolding identity_answer_def Let_def using a(4) l(2) unfolding lu
      by (intro exI[of _ pre] exI[of _ es] exI[of _ ps] exI[of _ rest] exI[of _ r]) simp
    then show ?thesis unfolding i a(1) using c(2) l(1) a(3) lu by (intro exI[of _ ?es] exI[of _ b]) simp
  qed
qed

lemma identity_exact:
  assumes "codes_ok env" and "heap_ok s" and "run_http_identity env lib ct duid cpid en s = (IOTCL_SUCCESS, t)"
  shows "\<exists>es b. log t = log s @ es \<and> identity_answer env lib duid (log s) es b
    \<and> iotcl_mc t = Some (identity_mqtt lib ct (c_string b))"
proof -
  obtain e u where u: "discovery_url env ct cpid en s = (e, u)" by fastforce
  have hu: "holding s None u" using discovery_held[OF holding_refl[OF assms(2)], of env ct cpid en] u by simp
  have gu: "log_grows s u" using u by (auto simp: discovery_url_def call_def Let_def log_grows_def log_sdk_emit
      split: IotConnectConnectionType.splits if_splits)
  obtain r d w where w: "http_get env lib u = (r, d, w)" by (cases "http_get env lib u") auto
  have "heap_ok u" using hu by (simp add: holding_def id_frame_def)
  from log_grows_get[OF gu this, of env lib] have gw: "log_grows s w" using w by simp
  have hw: "holding s d w" using get_held[OF hu, of env lib] w by simp
  have e: "e = IOTCL_SUCCESS" "discovery_response env lib ct duid d w = (IOTCL_SUCCESS, t)"
    using assms(3) u w by (auto simp: run_http_identity_def split: if_splits)
  obtain st x where x: "validate_response env d w = (st, x)" by fastforce
  have st: "st = IOTCL_SUCCESS"
  proof (rule ccontr)
    assume n: "st \<noteq> IOTCL_SUCCESS"
    then have "fst (discovery_response env lib ct duid d w) = st" using x by (simp add: discovery_response_def)
    with e(2) n show False by simp
  qed
  have hx: "holding s d x" "log_grows s x" using validate_held[OF hw, of env] log_grows_validate[OF gw, of env d] x by simp_all
  have "d \<noteq> None" using validate_some[OF assms(1), of d w] x st by simp
  note rd = read_held[OF hx(1) this]
  let ?c = "Iotcl_dra_discovery_parse (c_string (fst (read_block d x)))"
  obtain f y where y: "call env ?c x = (f, y)" by fastforce
  have dr: "discovery_response env lib ct duid d w = (if f \<noteq> IOTCL_SUCCESS
      then identity_cleanup f d (dump_response None d y) else identity_request env lib ct duid d y)"
    using x st y rd by (simp add: discovery_response_def case_prod_unfold Let_def)
  have f: "f = IOTCL_SUCCESS"
  proof (rule ccontr)
    assume n: "f \<noteq> IOTCL_SUCCESS"
    then have "fst (discovery_response env lib ct duid d w) = f" using dr by simp
    with e(2) n show False by simp
  qed
  then have f: "identity_request env lib ct duid d y = (IOTCL_SUCCESS, t)" using dr e(2) by simp
  have "holding s d y" "log_grows s y"
    using hx log_grows_call[OF hx(2), of env ?c] holding_call[of s d env ?c x] y by simp_all
  from identity_request_exact[OF assms(1) this(2,1), of lib ct duid] f show ?thesis by simp
qed

definition config_valid :: "IotConnectClientConfig \<Rightarrow> bool" where
  "config_valid c \<longleftrightarrow>
     c_env c \<noteq> None \<and> c_cpid c \<noteq> None \<and> c_duid c \<noteq> None
     \<and> (c_connection_type c = IOTC_CT_AWS \<or> c_connection_type c = IOTC_CT_AZURE)"

text \<open>The state after the copies have been made and the queue has been created.\<close>

definition held_state ::
    "sdk_env \<Rightarrow> 'q rtos_queue_api \<Rightarrow> IotConnectClientConfig \<Rightarrow> 'q sdk_state \<Rightarrow> 'q sdk_state" where
  "held_state env api c s = snd (iotc_mq_init api (c_mq_max_messages c) (hold_config env c s))"

lemma hold_cy_queue: "heap_ok s \<Longrightarrow> cy_queue (hold_config env c s) = cy_queue s"
  using hold_config_effect[of s env c] by simp

lemma held_state_fields:
  "config (held_state env api c s) = config (hold_config env c s)"
  "heap (held_state env api c s) = heap (hold_config env c s)"
  "log (held_state env api c s) = log (hold_config env c s)"
  "is_connected (held_state env api c s) = is_connected (hold_config env c s)"
  "mqtt_connection (held_state env api c s) = mqtt_connection (hold_config env c s)"
  "client_msg_cb (held_state env api c s) = client_msg_cb (hold_config env c s)"
  "mqtt_inbound_msg_cb (held_state env api c s) = mqtt_inbound_msg_cb (hold_config env c s)"
  "heap_ok (held_state env api c s) = heap_ok (hold_config env c s)"
  "config_copied c' (held_state env api c s) = config_copied c' (hold_config env c s)"
  "is_initialized (held_state env api c s)"
  by (simp_all add: held_state_def iotc_mq_init_def case_prod_unfold Let_def heap_ok_def config_copied_def
      cong: option.case_cong)

lemma held_state_ok:
  assumes "queue_laws api items cap" and "heap_ok s"
    and "fst (cy_rtos_init_queue api (c_mq_max_messages c) (cy_queue s)) = CY_RSLT_SUCCESS"
  shows "sdk_ok items cap (held_state env api c s)" "mq_contents items (held_state env api c s) = []"
    "mq_blocks items (held_state env api c s) = []"
    "cap (cy_queue (held_state env api c s)) = c_mq_max_messages c"
proof -
  let ?t = "held_state env api c s"
  note h = hold_config_effect[OF assms(2), of env c]
  have q: "items (cy_queue ?t) = Some []" "cap (cy_queue ?t) = c_mq_max_messages c"
    using queue_init[OF assms(1), of "c_mq_max_messages c" "cy_queue s"] assms(3) h
    by (cases "cy_rtos_init_queue api (c_mq_max_messages c) (cy_queue s)";
        simp add: held_state_def iotc_mq_init_def)+
  then show "mq_contents items ?t = []" "mq_blocks items ?t = []" "cap (cy_queue ?t) = c_mq_max_messages c"
    by (simp_all add: mq_contents_def mq_blocks_def queued_def)
  with q h show "sdk_ok items cap ?t"
    by (simp add: sdk_ok_def mq_ok_def queued_def held_state_fields)
qed

text \<open>The identity protocol leaves the SDK's memory alone.\<close>

lemma identity_keeps:
  fixes s :: "'q sdk_state" and lib :: iotcl_lib and ct :: IotConnectConnectionType
    and duid cpid en :: string
  assumes "codes_ok env" and "sdk_ok items cap s"
  defines "t \<equiv> snd (run_http_identity env lib ct duid cpid en s)"
  shows "sdk_ok items cap t" "mq_contents items t = mq_contents items s" "mq_blocks items t = mq_blocks items s"
    "cy_queue t = cy_queue s" "config t = config s" "heap t = heap s" "faults (log t) = faults (log s)"
    "is_connected t = is_connected s" "mqtt_connection t = mqtt_connection s"
    "client_msg_cb t = client_msg_cb s" "mqtt_inbound_msg_cb t = mqtt_inbound_msg_cb s"
proof -
  have "heap_ok s" using assms(2) by (simp add: sdk_ok_def mq_ok_def)
  from identity_holds[OF assms(1) this, of lib ct duid cpid en]
  have h: "id_frame s t" "heap t = heap s" unfolding t_def by (simp_all add: holding_def)
  note f = id_frame_fields[OF h(1)]
  have "config t = config s" by (rule config_more) (rule f(7))
  moreover have "mq_ok items cap t \<and> mq_contents items t = mq_contents items s"
    using mq_ok_frame[of items cap s t] assms(2) h f(1) by (simp add: sdk_ok_def id_frame_def)
  moreover have "mq_blocks items t = mq_blocks items s" by (simp add: mq_blocks_def queued_def f(1))
  ultimately show "sdk_ok items cap t" "mq_contents items t = mq_contents items s"
    "mq_blocks items t = mq_blocks items s"
    "cy_queue t = cy_queue s" "config t = config s" "heap t = heap s" "faults (log t) = faults (log s)"
    "is_connected t = is_connected s" "mqtt_connection t = mqtt_connection s"
    "client_msg_cb t = client_msg_cb s" "mqtt_inbound_msg_cb t = mqtt_inbound_msg_cb s"
    using assms(2) h f by (simp_all add: sdk_ok_def id_frame_def)
qed

lemma sdk_ok_call [simp]: "sdk_ok items cap (snd (call env c s)) = sdk_ok items cap s"
proof -
  have "heap (snd (call env c s)) = heap s" by simp
  from msg_heap_cong[OF this] have "mq_ok items cap (snd (call env c s)) = mq_ok items cap s"
    by (simp add: mq_ok_def queued_def mq_blocks_def heap_ok_def)
  moreover have "config (snd (call env c s)) = config s" by (rule config_more) simp
  ultimately show ?thesis by (simp add: sdk_ok_def mq_blocks_def queued_def)
qed

lemma fail_deinit_held:
  assumes "queue_laws api items cap" and "sdk_ok items cap u" and "mq_blocks items u = []"
    and "\<not> is_connected u" and "heap u |` (- set (cfg_blocks (config u))) = h"
  shows "\<exists>t. fail_deinit env api st u = Some (st, t) \<and> heap t = h \<and> faults (log t) = faults (log u)
    \<and> items (cy_queue t) = None \<and> \<not> is_initialized t \<and> config t = zero_config \<and> iotcl_mc t = None"
  using sdk_deinit_effect[OF assms(1,2), of env] assms(3-5) by (auto simp: fail_deinit_def)

end
