(* ===== verification/MqttMqThreads.thy ===== *)
theory MqttMqThreads
  imports MqttMqProps "HOL-Library.Sublist"
begin

text \<open>
  The message queue between two threads. The functions of \<open>source/iotc_mqtt_mq.c\<close> run in the thread of the
  MQTT library (\<open>iotc_mq_on_mqtt_inbound_message\<close>) and in the thread of the application (all others), which
  the RTOS may interrupt between any two calls. Here each function is a sequence of small steps
  with a program counter: a step reads or writes the shared static variable \<open>client_msg_cb\<close> once, or makes one call
  of the queue, which the RTOS executes atomically, or works on blocks that only its thread knows.
\<close>

section \<open>The two threads\<close>

text \<open>
  The MQTT thread: called, past the checks, with a copy made, or with a copy that the queue has rejected.
\<close>

datatype inbound_pc =
    In_idle
  | In_called string string nat
  | In_checked string string nat
  | In_created mq_msg
  | In_rejected mq_msg

fun inbound_step ::
    "sdk_env \<Rightarrow> 'q rtos_queue_api \<Rightarrow> inbound_pc \<Rightarrow> ('q, 'z) mq_state_scheme
       \<Rightarrow> inbound_pc \<times> ('q, 'z) mq_state_scheme" where
  "inbound_step env api In_idle s = (In_idle, s)"
| "inbound_step env api (In_called topic message n) s =
     (if n = 0 \<or> client_msg_cb s = None then (In_idle, s) else (In_checked topic message n, s))"
| "inbound_step env api (In_checked topic message n) s =
     (let (ok, msg, s) = iotc_mq_create_message env (Some topic) message n s
      in if ok then (In_created msg, s) else (In_idle, s))"
| "inbound_step env api (In_created msg) s =
     (let (result, q) = cy_rtos_put_queue api msg IOTC_MQ_PUT_TIMEOUT (cy_queue s);
          s = s\<lparr>cy_queue := q\<rparr>
      in if result \<noteq> CY_RSLT_SUCCESS then (In_rejected msg, s) else (In_idle, s))"
| "inbound_step env api (In_rejected msg) s = (In_idle, snd (iotc_mq_destroy_message msg s))"

text \<open>
  The application thread: in \<open>iotc_mq_process\<close> (called, before the next \<open>cy_rtos_get_queue\<close>, with a message in
  hand), or in a sequence of flushes and \<open>client_msg_cb = NULL\<close>, with a message in hand that is to be destroyed.
\<close>

datatype flush_command = Flush | Clear_callback

datatype app_pc =
    App_idle
  | App_process nat
  | App_get nat
  | App_call nat mq_msg
  | App_run "flush_command list"
  | App_destroy mq_msg "flush_command list"

text \<open>\<open>iotc_mq_deregister\<close>, and the start of \<open>iotconnect_sdk_disconnect\<close>.\<close>

definition deregister_commands :: "flush_command list" where
  "deregister_commands = [Flush, Clear_callback]"

definition disconnect_commands :: "flush_command list" where
  "disconnect_commands = deregister_commands @ [Flush]"

text \<open>\<open>None\<close>: the step does not come to an end.\<close>

fun app_step ::
    "'q rtos_queue_api
       \<Rightarrow> (inbound_cb \<Rightarrow> string \<Rightarrow> string \<Rightarrow> ('q, 'z) mq_state_scheme \<Rightarrow> ('q, 'z) mq_state_scheme option)
       \<Rightarrow> app_pc \<Rightarrow> ('q, 'z) mq_state_scheme \<Rightarrow> (app_pc \<times> ('q, 'z) mq_state_scheme) option" where
  "app_step api invoke App_idle s = Some (App_idle, s)"
| "app_step api invoke (App_process timeout_ms) s =
     Some (if client_msg_cb s = None then App_idle else App_get timeout_ms, s)"
| "app_step api invoke (App_get timeout_ms) s =
     Option.bind (cy_rtos_get_queue api timeout_ms (cy_queue s)) (\<lambda>r.
       let result = fst r; msg = fst (snd r); s = s\<lparr>cy_queue := snd (snd r)\<rparr> in
       if result = CY_RTOS_QUEUE_EMPTY api then Some (App_idle, s)
       else if result = CY_RSLT_SUCCESS then Some (App_call timeout_ms msg, s)
       else Some (App_idle, report_get_error api s))"
| "app_step api invoke (App_call timeout_ms msg) s =
     Option.bind (call_client invoke msg s) (\<lambda>s. Some (App_get timeout_ms, s))"
| "app_step api invoke (App_run []) s = Some (App_idle, s)"
| "app_step api invoke (App_run (Flush # cs)) s =
     Option.bind (cy_rtos_get_queue api 1 (cy_queue s)) (\<lambda>r.
       let result = fst r; msg = fst (snd r); s = s\<lparr>cy_queue := snd (snd r)\<rparr> in
       if result = CY_RSLT_SUCCESS then Some (App_destroy msg (Flush # cs), s)
       else Some (App_run cs, s))"
| "app_step api invoke (App_run (Clear_callback # cs)) s = Some (App_run cs, s\<lparr>client_msg_cb := None\<rparr>)"
| "app_step api invoke (App_destroy msg cs) s = Some (App_run cs, snd (iotc_mq_destroy_message msg s))"

section \<open>Interleaving\<close>

text \<open>
  What happens to a message: it arrives, is put into the queue, and is delivered to the callback or destroyed
  by a flush.
\<close>

datatype 'm mq_label = Arrived 'm | Accepted 'm | Delivered 'm | Discarded 'm

definition inbound_label ::
    "'q rtos_queue_api \<Rightarrow> inbound_pc \<Rightarrow> ('q, 'z) mq_state_scheme \<Rightarrow> (string \<times> string) mq_label list" where
  "inbound_label api p s =
     (case p of
        In_created msg \<Rightarrow>
          (if fst (cy_rtos_put_queue api msg IOTC_MQ_PUT_TIMEOUT (cy_queue s)) = CY_RSLT_SUCCESS
           then [Accepted (msg_content s msg)] else [])
      | _ \<Rightarrow> [])"

definition app_label :: "app_pc \<Rightarrow> ('q, 'z) mq_state_scheme \<Rightarrow> (string \<times> string) mq_label list" where
  "app_label c s =
     (case c of
        App_call t msg \<Rightarrow> [Delivered (msg_content s msg)]
      | App_destroy msg cs \<Rightarrow> [Discarded (msg_content s msg)]
      | _ \<Rightarrow> [])"

text \<open>What the application may begin when it is idle: any function of the module, with its one callback.\<close>

inductive app_begins :: "inbound_cb \<Rightarrow> app_pc \<Rightarrow> ('q, 'z) mq_state_scheme \<Rightarrow> ('q, 'z) mq_state_scheme \<Rightarrow> bool"
  for cb where
  begins_process: "app_begins cb (App_process timeout_ms) s s"
| begins_flush: "app_begins cb (App_run [Flush]) s s"
| begins_deregister: "app_begins cb (App_run deregister_commands) s s"
| begins_disconnect: "app_begins cb (App_run disconnect_commands) s s"
| begins_register: "app_begins cb App_idle s (iotc_mq_register (Some cb) s)"

type_synonym ('q, 'z) mq_threads = "inbound_pc \<times> app_pc \<times> ('q, 'z) mq_state_scheme"

text \<open>
  One thread moves: \<open>thread_move\<close>, while no function of the application begins; and in general.
\<close>

inductive thread_move ::
    "sdk_env \<Rightarrow> 'q rtos_queue_api
       \<Rightarrow> (inbound_cb \<Rightarrow> string \<Rightarrow> string \<Rightarrow> ('q, 'z) mq_state_scheme \<Rightarrow> ('q, 'z) mq_state_scheme option)
       \<Rightarrow> ('q, 'z) mq_threads \<Rightarrow> (string \<times> string) mq_label list \<Rightarrow> ('q, 'z) mq_threads \<Rightarrow> bool"
  for env api invoke where
  message_arrives: "n \<le> length message \<Longrightarrow>
     thread_move env api invoke (In_idle, c, s) [Arrived (c_string topic, take n message)]
       (In_called topic message n, c, s)"
| inbound_moves: "inbound_step env api p s = (p', t) \<Longrightarrow>
     thread_move env api invoke (p, c, s) (inbound_label api p s) (p', c, t)"
| app_moves: "app_step api invoke c s = Some (c', t) \<Longrightarrow>
     thread_move env api invoke (p, c, s) (app_label c s) (p, c', t)"

inductive thread_step ::
    "sdk_env \<Rightarrow> 'q rtos_queue_api
       \<Rightarrow> (inbound_cb \<Rightarrow> string \<Rightarrow> string \<Rightarrow> ('q, 'z) mq_state_scheme \<Rightarrow> ('q, 'z) mq_state_scheme option)
       \<Rightarrow> inbound_cb \<Rightarrow> ('q, 'z) mq_threads \<Rightarrow> (string \<times> string) mq_label list \<Rightarrow> ('q, 'z) mq_threads \<Rightarrow> bool"
  for env api invoke cb where
  threads_move: "thread_move env api invoke x ks y \<Longrightarrow> thread_step env api invoke cb x ks y"
| app_begins_call: "app_begins cb c s t \<Longrightarrow> thread_step env api invoke cb (p, App_idle, s) [] (p, c, t)"

inductive thread_run ::
    "sdk_env \<Rightarrow> 'q rtos_queue_api
       \<Rightarrow> (inbound_cb \<Rightarrow> string \<Rightarrow> string \<Rightarrow> ('q, 'z) mq_state_scheme \<Rightarrow> ('q, 'z) mq_state_scheme option)
       \<Rightarrow> inbound_cb \<Rightarrow> ('q, 'z) mq_threads \<Rightarrow> (string \<times> string) mq_label list \<Rightarrow> ('q, 'z) mq_threads \<Rightarrow> bool"
  for env api invoke cb where
  run_refl: "thread_run env api invoke cb x [] x"
| run_step: "thread_run env api invoke cb x ls y \<Longrightarrow> thread_step env api invoke cb y ks z \<Longrightarrow>
     thread_run env api invoke cb x (ls @ ks) z"

definition arrived :: "'m mq_label list \<Rightarrow> 'm list" where
  "arrived ls = concat (map (\<lambda>l. case l of Arrived m \<Rightarrow> [m] | _ \<Rightarrow> []) ls)"

definition accepted :: "'m mq_label list \<Rightarrow> 'm list" where
  "accepted ls = concat (map (\<lambda>l. case l of Accepted m \<Rightarrow> [m] | _ \<Rightarrow> []) ls)"

definition delivered :: "'m mq_label list \<Rightarrow> 'm list" where
  "delivered ls = concat (map (\<lambda>l. case l of Delivered m \<Rightarrow> [m] | _ \<Rightarrow> []) ls)"

text \<open>The messages that left the queue, delivered or discarded.\<close>

definition taken :: "'m mq_label list \<Rightarrow> 'm list" where
  "taken ls = concat (map (\<lambda>l. case l of Delivered m \<Rightarrow> [m] | Discarded m \<Rightarrow> [m] | _ \<Rightarrow> []) ls)"

lemma label_lists [simp]:
  "arrived [] = []" "accepted [] = []" "delivered [] = []" "taken [] = []"
  "arrived (ls @ ks) = arrived ls @ arrived ks" "accepted (ls @ ks) = accepted ls @ accepted ks"
  "delivered (ls @ ks) = delivered ls @ delivered ks" "taken (ls @ ks) = taken ls @ taken ks"
  by (simp_all add: arrived_def accepted_def delivered_def taken_def)

section \<open>Who owns a message\<close>

definition in_flight :: "inbound_pc \<Rightarrow> mq_msg list" where
  "in_flight p = (case p of In_created m \<Rightarrow> [m] | In_rejected m \<Rightarrow> [m] | _ \<Rightarrow> [])"

definition in_hand :: "app_pc \<Rightarrow> mq_msg list" where
  "in_hand c = (case c of App_call t m \<Rightarrow> [m] | App_destroy m cs \<Rightarrow> [m] | _ \<Rightarrow> [])"

text \<open>The messages of the queue and of the two threads, oldest first.\<close>

definition owned :: "('q \<Rightarrow> mq_msg list option) \<Rightarrow> ('q, 'z) mq_threads \<Rightarrow> mq_msg list" where
  "owned items x = (case x of (p, c, s) \<Rightarrow> in_hand c @ queued items s @ in_flight p)"

definition blocks :: "mq_msg list \<Rightarrow> addr list" where
  "blocks ms = concat (map msg_blocks ms)"

lemma blocks_simps [simp]:
  "blocks [] = []" "blocks (m # ms) = msg_blocks m @ blocks ms" "blocks (ms @ ns) = blocks ms @ blocks ns"
  by (simp_all add: blocks_def)

lemma set_blocks: "set (blocks ms) = (\<Union>m \<in> set ms. set (msg_blocks m))"
  by (simp add: blocks_def)

lemma pc_messages [simp]:
  "in_flight In_idle = []" "in_flight (In_called tp bs n) = []" "in_flight (In_checked tp bs n) = []"
  "in_flight (In_created m) = [m]" "in_flight (In_rejected m) = [m]"
  "in_hand App_idle = []" "in_hand (App_process t) = []" "in_hand (App_get t) = []" "in_hand (App_call t m) = [m]"
  "in_hand (App_run cs) = []" "in_hand (App_destroy m cs) = [m]"
  by (simp_all add: in_flight_def in_hand_def)

text \<open>
  The memory: a live queue within its size, every block in the hands of the queue or a thread has one owner and is
  live, no fault since \<open>fs\<close>, and the memory \<open>h0\<close> of everybody else is as it was.
\<close>

definition mem_inv ::
    "('q \<Rightarrow> mq_msg list option) \<Rightarrow> ('q \<Rightarrow> nat) \<Rightarrow> nat \<Rightarrow> (addr \<rightharpoonup> string) \<Rightarrow> string list
       \<Rightarrow> ('q, 'z) mq_threads \<Rightarrow> bool" where
  "mem_inv items cap n h0 fs x \<longleftrightarrow> (case x of (p, c, s) \<Rightarrow>
     heap_ok s \<and> items (cy_queue s) \<noteq> None \<and> cap (cy_queue s) = n \<and> length (queued items s) \<le> n
     \<and> distinct (blocks (owned items x)) \<and> (\<forall>m \<in> set (owned items x). msg_ok s m)
     \<and> faults (log s) = fs
     \<and> (\<forall>a. h0 a \<noteq> None \<longrightarrow> heap s a = h0 a \<and> a \<notin> set (blocks (owned items x))))"

text \<open>
  A step that gives up the messages with the blocks \<open>D\<close>, and takes on a message in blocks that were free, keeps the
  invariant and the content of every message that stays.
\<close>

lemma mem_inv_step:
  assumes "mem_inv items cap n h0 fs (p, c, s)"
    and "heap_ok t" and "faults (log t) = fs" and "items (cy_queue t) \<noteq> None" and "cap (cy_queue t) = n"
    and "length (queued items t) \<le> n" and "distinct (blocks (owned items (p', c', t)))"
    and new: "\<And>m. m \<in> set (owned items (p', c', t)) \<Longrightarrow> m \<notin> set (owned items (p, c, s)) \<Longrightarrow>
      msg_ok t m \<and> (\<forall>a \<in> set (msg_blocks m). heap s a = None)"
    and same: "\<And>a. heap s a \<noteq> None \<Longrightarrow> a \<notin> D \<Longrightarrow> heap t a = heap s a"
    and D: "D \<subseteq> set (blocks (owned items (p, c, s)))" "D \<inter> set (blocks (owned items (p', c', t))) = {}"
  shows "mem_inv items cap n h0 fs (p', c', t)
    \<and> (\<forall>m \<in> set (owned items (p', c', t)) \<inter> set (owned items (p, c, s)). msg_content t m = msg_content s m)"
proof -
  let ?x = "(p, c, s)" and ?y = "(p', c', t)"
  have ok: "\<forall>m \<in> set (owned items ?x). msg_ok s m" using assms(1) by (simp add: mem_inv_def)
  have stay: "msg_ok t m \<and> msg_content t m = msg_content s m"
    if "m \<in> set (owned items ?y)" "m \<in> set (owned items ?x)" for m
  proof (rule msg_content_heap)
    show m: "msg_ok s m" using ok that(2) by blast
    fix a
    assume a: "a \<in> set (msg_blocks m)"
    then have "a \<notin> D" using D(2) that(1) by (auto simp: set_blocks)
    then show "heap t a = heap s a" using same msg_ok_blocks[OF m a] by blast
  qed
  have "heap t a = h0 a \<and> a \<notin> set (blocks (owned items ?y))" if "h0 a \<noteq> None" for a
  proof -
    have a: "heap s a = h0 a" "a \<notin> set (blocks (owned items ?x))" using assms(1) that by (auto simp: mem_inv_def)
    have "a \<notin> set (msg_blocks m)" if "m \<in> set (owned items ?y)" for m
      using a \<open>h0 a \<noteq> None\<close> new[OF that] by (cases "m \<in> set (owned items ?x)") (auto simp: set_blocks)
    moreover have "heap t a = heap s a" using same[of a] D(1) a \<open>h0 a \<noteq> None\<close> by auto
    ultimately show ?thesis using a by (auto simp: set_blocks)
  qed
  moreover have "msg_ok t m" if "m \<in> set (owned items ?y)" for m using stay new that by blast
  ultimately show ?thesis using assms(2-7) stay by (auto simp: mem_inv_def)
qed

text \<open>Every message that has arrived and is still with the MQTT thread.\<close>

definition coming :: "inbound_pc \<Rightarrow> 'z sdk_base_scheme \<Rightarrow> (string \<times> string) list" where
  "coming p s =
     (case p of
        In_called topic message n \<Rightarrow> [(c_string topic, take n message)]
      | In_checked topic message n \<Rightarrow> [(c_string topic, take n message)]
      | In_created m \<Rightarrow> [msg_content s m]
      | _ \<Rightarrow> [])"

lemma coming_simps [simp]:
  "coming In_idle s = []" "coming (In_called tp bs n) s = [(c_string tp, take n bs)]"
  "coming (In_checked tp bs n) s = [(c_string tp, take n bs)]" "coming (In_created m) s = [msg_content s m]"
  "coming (In_rejected m) s = []"
  by (simp_all add: coming_def)

definition pc_inv :: "inbound_cb \<Rightarrow> ('q, 'z) mq_threads \<Rightarrow> bool" where
  "pc_inv cb x \<longleftrightarrow> (case x of (p, c, s) \<Rightarrow>
     client_msg_cb s \<in> {None, Some cb}
     \<and> (case c of App_get t \<Rightarrow> client_msg_cb s = Some cb | App_call t m \<Rightarrow> client_msg_cb s = Some cb | _ \<Rightarrow> True)
     \<and> (case p of In_called tp bs n \<Rightarrow> n \<le> length bs | In_checked tp bs n \<Rightarrow> n \<le> length bs | _ \<Rightarrow> True))"

text \<open>
  The order: what was queued at the start and what has been accepted since are, in this order, what has been
  taken out and what is in hand or queued; and the accepted messages are some of those that have arrived, in the
  order of their arrival.
\<close>

definition order_inv ::
    "('q \<Rightarrow> mq_msg list option) \<Rightarrow> (string \<times> string) list \<Rightarrow> (string \<times> string) mq_label list
       \<Rightarrow> ('q, 'z) mq_threads \<Rightarrow> bool" where
  "order_inv items start ls x \<longleftrightarrow> (case x of (p, c, s) \<Rightarrow>
     start @ accepted ls = taken ls @ map (msg_content s) (in_hand c @ queued items s)
     \<and> subseq (accepted ls @ coming p s) (arrived ls))"

text \<open>The effect of a step on the memory and on the contents.\<close>

definition step_ok ::
    "('q \<Rightarrow> mq_msg list option) \<Rightarrow> ('q \<Rightarrow> nat) \<Rightarrow> nat \<Rightarrow> (addr \<rightharpoonup> string) \<Rightarrow> string list \<Rightarrow> inbound_cb
       \<Rightarrow> ('q, 'z) mq_threads \<Rightarrow> (string \<times> string) mq_label list \<Rightarrow> ('q, 'z) mq_threads \<Rightarrow> bool" where
  "step_ok items cap n h0 fs cb x ks y \<longleftrightarrow>
     mem_inv items cap n h0 fs y \<and> pc_inv cb y
     \<and> (\<forall>start ls. order_inv items start ls x \<longrightarrow> order_inv items start (ls @ ks) y)"

section \<open>The MQTT thread\<close>

lemma subseq_drop: "subseq (xs @ zs) ys \<Longrightarrow> subseq xs ys"
  by (rule subseq_order.trans[rotated], assumption, rule subseq_rev_drop_many, rule subseq_order.refl)

lemma pc_inv_frame:
  "pc_inv cb (p, c, s) \<Longrightarrow> client_msg_cb t = client_msg_cb s \<Longrightarrow>
   (case p' of In_called tp bs n \<Rightarrow> n \<le> length bs | In_checked tp bs n \<Rightarrow> n \<le> length bs | _ \<Rightarrow> True) \<Longrightarrow>
   pc_inv cb (p', c, t)"
  by (simp add: pc_inv_def cong: app_pc.case_cong)

lemma order_inv_inbound:
  assumes "order_inv items start ls (p, c, s)" and "in_hand c = in_hand c'" and "taken ks = []"
    and "map (msg_content t) (in_hand c @ queued items t) = map (msg_content s) (in_hand c @ queued items s) @ accepted ks"
    and "\<And>xs ys. subseq (xs @ coming p s) ys \<Longrightarrow> subseq (xs @ accepted ks @ coming p' t) (ys @ arrived ks)"
  shows "order_inv items start (ls @ ks) (p', c', t)"
  using assms by (simp add: order_inv_def)

text \<open>A step that changes nothing but the program counter of the MQTT thread.\<close>

lemma inbound_skip:
  assumes "mem_inv items cap n h0 fs (p, c, s)" and "pc_inv cb (p, c, s)" and "in_flight p' = in_flight p"
    and "case p' of In_called tp bs n \<Rightarrow> n \<le> length bs | In_checked tp bs n \<Rightarrow> n \<le> length bs | _ \<Rightarrow> True"
    and "accepted ks = []" and "taken ks = []"
    and "\<And>xs ys. subseq (xs @ coming p s) ys \<Longrightarrow> subseq (xs @ coming p' s) (ys @ arrived ks)"
  shows "step_ok items cap n h0 fs cb (p, c, s) ks (p', c, s)"
proof -
  have "mem_inv items cap n h0 fs (p', c, s)" using assms(1,3) by (simp add: mem_inv_def owned_def)
  moreover have "pc_inv cb (p', c, s)" using pc_inv_frame[OF assms(2) refl assms(4)] .
  ultimately show ?thesis
    using assms(5-7) by (auto simp: step_ok_def intro!: order_inv_inbound)
qed

text \<open>Making the copies.\<close>

lemma inbound_create:
  assumes "mem_inv items cap n h0 fs (In_checked tp bs k, c, s)" and "pc_inv cb (In_checked tp bs k, c, s)"
    and "inbound_step env api (In_checked tp bs k) s = (p', t)"
  shows "step_ok items cap n h0 fs cb (In_checked tp bs k, c, s) [] (p', c, t)"
proof -
  let ?x = "(In_checked tp bs k, c, s)"
  obtain ok m where c: "iotc_mq_create_message env (Some tp) bs k s = (ok, m, t)"
    and p': "p' = (if ok then In_created m else In_idle)"
    using assms(3) by (auto split: prod.splits if_splits)
  have k: "k \<le> length bs" using assms(2) by (simp add: pc_inv_def)
  have hs: "heap_ok s" and fs: "faults (log s) = fs" and live: "\<And>m. m \<in> set (owned items ?x) \<Longrightarrow> msg_ok s m"
    using assms(1) by (simp_all add: mem_inv_def)
  note u = create_spec[OF hs k c]
  have q: "cy_queue t = cy_queue s" "client_msg_cb t = client_msg_cb s" using u more_mq[of t s] by simp_all
  then have queued: "queued items t = queued items s" by (simp add: queued_def)
  have m: "msg_ok t m \<and> msg_blocks m = [next_addr s, Suc (next_addr s)] \<and> msg_content t m = (c_string tp, take k bs)"
    if ok
    using u that by (auto simp: msg_ok_def msg_blocks_def msg_content_def)
  have free: "heap s (next_addr s) = None" "heap s (Suc (next_addr s)) = None" using hs by (auto simp: heap_ok_def)
  have old: "\<forall>a \<in> set (blocks (owned items ?x)). heap s a \<noteq> None" using live by (auto simp: set_blocks dest: msg_ok_blocks)
  have own: "owned items (p', c, t) = owned items ?x @ (if ok then [m] else [])"
    by (simp add: owned_def p' queued)
  have same: "heap t a = heap s a" if "heap s a \<noteq> None" for a using u free that by (auto split: if_splits)
  have mem: "mem_inv items cap n h0 fs (p', c, t)
      \<and> (\<forall>m \<in> set (owned items (p', c, t)) \<inter> set (owned items ?x). msg_content t m = msg_content s m)"
  proof (rule mem_inv_step[OF assms(1), where D = "{}"])
    show "distinct (blocks (owned items (p', c, t)))"
      using assms(1) m old free by (auto simp: own mem_inv_def)
    show "msg_ok t m' \<and> (\<forall>a \<in> set (msg_blocks m'). heap s a = None)"
      if "m' \<in> set (owned items (p', c, t))" "m' \<notin> set (owned items ?x)" for m'
      using that m free by (auto simp: own split: if_splits)
  qed (use u fs q assms(1) same in \<open>auto simp: queued mem_inv_def\<close>)
  have "map (msg_content t) (in_hand c @ queued items t) = map (msg_content s) (in_hand c @ queued items s)"
    using mem by (auto simp: owned_def queued)
  moreover have "subseq (xs @ coming p' t) ys" if "subseq (xs @ coming (In_checked tp bs k) s) ys" for xs ys
    using that m by (auto simp: p' intro: subseq_drop)
  ultimately have "order_inv items start (ls @ []) (p', c, t)" if "order_inv items start ls ?x" for start ls
    using that by (intro order_inv_inbound[OF that]) simp_all
  moreover have "pc_inv cb (p', c, t)" using pc_inv_frame[OF assms(2), of t p'] q(2) by (simp add: p')
  ultimately show ?thesis using mem by (simp add: step_ok_def)
qed

text \<open>Putting the message into the queue.\<close>

lemma inbound_put:
  assumes "queue_laws api items cap" and "mem_inv items cap n h0 fs (In_created m, c, s)"
    and "pc_inv cb (In_created m, c, s)" and "inbound_step env api (In_created m) s = (p', t)"
  shows "step_ok items cap n h0 fs cb (In_created m, c, s) (inbound_label api (In_created m) s) (p', c, t)"
proof -
  let ?x = "(In_created m, c, s)"
  obtain r q where r: "cy_rtos_put_queue api m IOTC_MQ_PUT_TIMEOUT (cy_queue s) = (r, q)" by fastforce
  obtain xs where xs: "items (cy_queue s) = Some xs" using assms(2) by (auto simp: mem_inv_def)
  note put = queue_put[OF assms(1) xs r]
  have t: "t = s\<lparr>cy_queue := q\<rparr>" and p': "p' = (if r = CY_RSLT_SUCCESS then In_idle else In_rejected m)"
    using assms(4) r by (auto simp: Let_def split: if_splits)
  have tf: "heap t = heap s" "heap_ok t = heap_ok s" "log t = log s" "cy_queue t = q" by (simp_all add: t heap_ok_def)
  have cap: "cap (cy_queue s) = n" "length xs \<le> n" "heap_ok s" "faults (log s) = fs"
    using assms(2) xs by (simp_all add: mem_inv_def queued_def)
  have q: "queued items s = xs" "queued items t = xs @ (if r = CY_RSLT_SUCCESS then [m] else [])"
    using xs put by (auto simp: queued_def t split: if_splits)
  have own: "owned items (p', c, t) = owned items ?x" using q by (simp add: owned_def p')
  have mem: "mem_inv items cap n h0 fs (p', c, t)
      \<and> (\<forall>m \<in> set (owned items (p', c, t)) \<inter> set (owned items ?x). msg_content t m = msg_content s m)"
  proof (rule mem_inv_step[OF assms(2), where D = "{}"])
    show "length (queued items t) \<le> n" using put cap q by (auto split: if_splits)
  qed (use put cap assms(2) in \<open>auto simp: tf own mem_inv_def split: if_splits\<close>)
  have l: "inbound_label api (In_created m) s = (if r = CY_RSLT_SUCCESS then [Accepted (msg_content s m)] else [])"
    by (simp add: inbound_label_def r)
  have "map (msg_content t) (in_hand c @ queued items t)
      = map (msg_content s) (in_hand c @ queued items s) @ accepted (inbound_label api (In_created m) s)"
    using q by (auto simp: t l accepted_def)
  moreover have "subseq (xs @ accepted (inbound_label api (In_created m) s) @ coming p' t)
      (ys @ arrived (inbound_label api (In_created m) s))" if "subseq (xs @ coming (In_created m) s) ys" for xs ys
    using that by (auto simp: p' l accepted_def arrived_def intro: subseq_drop)
  moreover have "taken (inbound_label api (In_created m) s) = []" by (simp add: l taken_def)
  ultimately have "order_inv items start (ls @ inbound_label api (In_created m) s) (p', c, t)"
    if "order_inv items start ls ?x" for start ls
    using that by (intro order_inv_inbound[OF that]) simp_all
  moreover have "pc_inv cb (p', c, t)" using pc_inv_frame[OF assms(3), of t p'] by (simp add: p' t)
  ultimately show ?thesis using mem by (simp add: step_ok_def)
qed

lemma inbound_destroy:
  assumes "mem_inv items cap n h0 fs (In_rejected m, c, s)" and "pc_inv cb (In_rejected m, c, s)"
    and "inbound_step env api (In_rejected m) s = (p', t)"
  shows "step_ok items cap n h0 fs cb (In_rejected m, c, s) [] (p', c, t)"
proof -
  let ?x = "(In_rejected m, c, s)"
  have t: "t = snd (iotc_mq_destroy_message m s)" "p' = In_idle" using assms(3) by simp_all
  have m: "msg_ok s m" "heap_ok s" "faults (log s) = fs" using assms(1) by (simp_all add: mem_inv_def owned_def)
  note d = destroy_msg_ok[OF m(1), folded t(1)] more_mq[OF destroy_more[of m s], folded t(1)]
  have q: "queued items t = queued items s" using d by (simp add: queued_def)
  have own: "owned items ?x = owned items (p', c, t) @ [m]" by (simp add: owned_def t(2) q)
  have mem: "mem_inv items cap n h0 fs (p', c, t)
      \<and> (\<forall>m \<in> set (owned items (p', c, t)) \<inter> set (owned items ?x). msg_content t m = msg_content s m)"
  proof (rule mem_inv_step[OF assms(1), where D = "set (msg_blocks m)"])
    show "heap_ok t" using destroy_heap_ok[OF m(2), of m] t(1) by simp
  qed (use d m assms(1) own q in \<open>auto simp: mem_inv_def\<close>)
  have "map (msg_content t) (in_hand c @ queued items t) = map (msg_content s) (in_hand c @ queued items s)"
    using mem by (auto simp: owned_def q t(2))
  then have "order_inv items start (ls @ []) (p', c, t)" if "order_inv items start ls ?x" for start ls
    using that by (intro order_inv_inbound[OF that]) (simp_all add: t(2) taken_def accepted_def arrived_def)
  moreover have "pc_inv cb (p', c, t)" using pc_inv_frame[OF assms(2), of t p'] d by (simp add: t(2))
  ultimately show ?thesis using mem by (simp add: step_ok_def)
qed

lemma inbound_ok:
  assumes "queue_laws api items cap" and "mem_inv items cap n h0 fs (p, c, s)" and "pc_inv cb (p, c, s)"
    and "inbound_step env api p s = (p', t)"
  shows "step_ok items cap n h0 fs cb (p, c, s) (inbound_label api p s) (p', c, t)"
proof (cases p)
  case In_idle
  then show ?thesis using inbound_skip[OF assms(2,3), of In_idle "[]"] assms(4) by (simp add: inbound_label_def)
next
  case (In_called tp bs k)
  have "k \<le> length bs" using assms(3) In_called by (simp add: pc_inv_def)
  then show ?thesis
    using inbound_skip[OF assms(2,3), of In_idle "[]"] inbound_skip[OF assms(2,3), of "In_checked tp bs k" "[]"]
      assms(4) In_called by (auto simp: inbound_label_def intro: subseq_drop split: if_splits)
next
  case (In_checked tp bs k)
  then show ?thesis
    using inbound_create[of items cap n h0 fs tp bs k c s cb env api p' t] assms(2-4) by (simp add: inbound_label_def)
next
  case (In_created m)
  then show ?thesis using inbound_put[OF assms(1), of n h0 fs m c s cb env p' t] assms(2-4) by simp
next
  case (In_rejected m)
  then show ?thesis
    using inbound_destroy[of items cap n h0 fs m c s cb env api p' t] assms(2-4) by (simp add: inbound_label_def)
qed

section \<open>The application thread\<close>

lemma order_inv_app:
  assumes "order_inv items start ls (p, c, s)" and "accepted ks = []" and "arrived ks = []"
    and "map (msg_content s) (in_hand c @ queued items s) = taken ks @ map (msg_content t) (in_hand c' @ queued items t)"
    and "\<forall>m \<in> set (in_flight p). msg_content t m = msg_content s m"
  shows "order_inv items start (ls @ ks) (p, c', t)"
proof -
  have "coming p t = coming p s" using assms(5) by (cases p) simp_all
  then show ?thesis using assms(1-4) by (simp add: order_inv_def)
qed

text \<open>A step that leaves memory and queue alone.\<close>

lemma app_skip:
  assumes "mem_inv items cap n h0 fs (p, c, s)" and "heap t = heap s" and "heap_ok t = heap_ok s"
    and "faults (log t) = faults (log s)" and "cap (cy_queue t) = cap (cy_queue s)"
    and "items (cy_queue t) \<noteq> None" and "in_hand c' @ queued items t = in_hand c @ queued items s"
    and "length (queued items t) \<le> n" and "pc_inv cb (p, c', t)"
  shows "step_ok items cap n h0 fs cb (p, c, s) [] (p, c', t)"
proof -
  have own: "owned items (p, c', t) = owned items (p, c, s)"
    using assms(7) by (simp add: owned_def)
  have c: "msg_content t = msg_content s" "msg_ok t = msg_ok s" using msg_heap_cong[OF assms(2)] by simp_all
  have "mem_inv items cap n h0 fs (p, c', t)"
    using assms(1-6,8) c(2) own by (simp add: mem_inv_def)
  moreover have "order_inv items start (ls @ []) (p, c', t)" if "order_inv items start ls (p, c, s)" for start ls
    using assms(7) c by (intro order_inv_app[OF that]) simp_all
  ultimately show ?thesis using assms(9) by (simp add: step_ok_def)
qed

text \<open>Taking a message out of the queue, or finding it empty.\<close>

lemma get_cases:
  assumes "queue_laws api items cap" and "items (cy_queue s) \<noteq> None"
    and "cy_rtos_get_queue api ms (cy_queue s) = Some (r, m, q)"
  shows "cap q = cap (cy_queue s) \<and> items q \<noteq> None
    \<and> (if r = CY_RSLT_SUCCESS then queued items s = m # queued items (s\<lparr>cy_queue := q\<rparr>)
       else queued items s = [] \<and> queued items (s\<lparr>cy_queue := q\<rparr>) = [])"
proof -
  obtain xs where xs: "items (cy_queue s) = Some xs" using assms(2) by blast
  show ?thesis
  proof (cases xs)
    case Nil
    then have "ms \<noteq> 0" using queue_get_blocks[OF assms(1)] xs assms(3) by (cases "ms = 0") auto
    then show ?thesis using queue_get_empty[OF assms(1), of "cy_queue s" ms] xs Nil assms(3) by (auto simp: queued_def)
  next
    case (Cons y ys)
    then show ?thesis using queue_get[OF assms(1), of "cy_queue s" y ys ms] xs assms(3) by (auto simp: queued_def)
  qed
qed

lemma app_get:
  assumes "queue_laws api items cap" and "mem_inv items cap n h0 fs (p, c, s)"
    and "cy_rtos_get_queue api ms (cy_queue s) = Some (r, m, q)" and "in_hand c = []"
    and "in_hand c' = (if r = CY_RSLT_SUCCESS then [m] else [])" and "pc_inv cb (p, c', s\<lparr>cy_queue := q\<rparr>)"
  shows "step_ok items cap n h0 fs cb (p, c, s) [] (p, c', s\<lparr>cy_queue := q\<rparr>)"
proof -
  have "items (cy_queue s) \<noteq> None" using assms(2) by (simp add: mem_inv_def)
  note g = get_cases[OF assms(1) this assms(3)]
  have "length (queued items s) \<le> n" using assms(2) by (simp add: mem_inv_def)
  then show ?thesis
    using g assms(4,5) by (intro app_skip[OF assms(2)] assms(6)) (auto simp: heap_ok_def split: if_splits)
qed

text \<open>Destroying the message in hand.\<close>

lemma app_destroy:
  assumes "mem_inv items cap n h0 fs (p, App_destroy m cs, s)" and "pc_inv cb (p, App_destroy m cs, s)"
    and "t = snd (iotc_mq_destroy_message m s)"
  shows "step_ok items cap n h0 fs cb (p, App_destroy m cs, s) (app_label (App_destroy m cs) s) (p, App_run cs, t)"
proof -
  let ?x = "(p, App_destroy m cs, s)" and ?y = "(p, App_run cs, t)"
  have m: "msg_ok s m" "heap_ok s" "faults (log s) = fs" using assms(1) by (simp_all add: mem_inv_def owned_def)
  note d = destroy_msg_ok[OF m(1), folded assms(3)] more_mq[OF destroy_more[of m s], folded assms(3)]
  have q: "queued items t = queued items s" using d by (simp add: queued_def)
  have own: "owned items ?x = m # owned items ?y" by (simp add: owned_def q)
  have mem: "mem_inv items cap n h0 fs ?y
      \<and> (\<forall>m \<in> set (owned items ?y) \<inter> set (owned items ?x). msg_content t m = msg_content s m)"
  proof (rule mem_inv_step[OF assms(1), where D = "set (msg_blocks m)"])
    show "heap_ok t" using destroy_heap_ok[OF m(2), of m] assms(3) by simp
  qed (use d m assms(1) own q in \<open>auto simp: mem_inv_def\<close>)
  have "order_inv items start (ls @ app_label (App_destroy m cs) s) ?y" if "order_inv items start ls ?x" for start ls
    using mem by (intro order_inv_app[OF that])
      (auto simp: app_label_def taken_def accepted_def arrived_def owned_def q)
  moreover have "pc_inv cb ?y" using assms(2) d by (simp add: pc_inv_def)
  ultimately show ?thesis using mem by (simp add: step_ok_def)
qed

context message_consumer
begin

text \<open>The call of the callback with the message in hand. Its blocks are left behind.\<close>

lemma app_call:
  assumes "mem_inv items cap n h0 fs (p, App_call ms m, s)" and "pc_inv cb (p, App_call ms m, s)"
    and "call_client invoke m s = Some t"
  shows "step_ok items cap n h0 fs cb (p, App_call ms m, s) (app_label (App_call ms m) s) (p, App_get ms, t)
    \<and> seen (log t) = seen (log s) @ view s (msg_content s m) \<and> mq_state.more t = mq_state.more s"
proof -
  let ?x = "(p, App_call ms m, s)" and ?y = "(p, App_get ms, t)"
  have m: "msg_ok s m" "heap_ok s" "faults (log s) = fs" "client_msg_cb s = Some cb"
    using assms(1,2) by (simp_all add: mem_inv_def owned_def pc_inv_def)
  have i: "invoke cb (fst (msg_content s m)) (snd (msg_content s m)) s = Some t"
    using call_client_ok[OF m(4,1)] assms(3) by simp
  then have "\<not> stuck (msg_content s m)"
    using invoke_stuck[of "fst (msg_content s m)" "snd (msg_content s m)" s] by auto
  then have t: "seen (log t) = seen (log s) @ view s (msg_content s m)" "cy_queue t = cy_queue s"
      "client_msg_cb t = client_msg_cb s" "mq_state.more t = mq_state.more s"
      "\<forall>a. heap s a \<noteq> None \<longrightarrow> heap t a = heap s a" "faults (log t) = faults (log s)" "heap_ok t"
    using invoke_returns[of "fst (msg_content s m)" "snd (msg_content s m)" s] i m(2) by auto
  have q: "queued items t = queued items s" using t(2) by (simp add: queued_def)
  have own: "owned items ?x = m # owned items ?y" by (simp add: owned_def q)
  have mem: "mem_inv items cap n h0 fs ?y
      \<and> (\<forall>m \<in> set (owned items ?y) \<inter> set (owned items ?x). msg_content t m = msg_content s m)"
    by (rule mem_inv_step[OF assms(1), where D = "{}"])
      (use t m assms(1) own q in \<open>auto simp: mem_inv_def\<close>)
  have "order_inv items start (ls @ app_label (App_call ms m) s) ?y" if "order_inv items start ls ?x" for start ls
    using mem by (intro order_inv_app[OF that])
      (auto simp: app_label_def taken_def accepted_def arrived_def owned_def q)
  moreover have "pc_inv cb ?y" using assms(2) t(3) m(4) by (simp add: pc_inv_def)
  ultimately show ?thesis using mem t(1,4) by (simp add: step_ok_def)
qed

lemma app_get_ok:
  assumes "queue_laws api items cap" and "mem_inv items cap n h0 fs (p, App_get ms, s)"
    and "pc_inv cb (p, App_get ms, s)" and "app_step api invoke (App_get ms) s = Some (c', t)"
  shows "step_ok items cap n h0 fs cb (p, App_get ms, s) [] (p, c', t)
    \<and> seen (log t) = seen (log s) \<and> mq_state.more t = mq_state.more s"
proof -
  obtain r m q where g: "cy_rtos_get_queue api ms (cy_queue s) = Some (r, m, q)"
    using assms(4) by (cases "cy_rtos_get_queue api ms (cy_queue s)") auto
  have r: "(c' = App_idle \<and> r \<noteq> CY_RSLT_SUCCESS \<and> (t = s\<lparr>cy_queue := q\<rparr> \<or> t = report_get_error api (s\<lparr>cy_queue := q\<rparr>)))
      \<or> (c' = App_call ms m \<and> r = CY_RSLT_SUCCESS \<and> t = s\<lparr>cy_queue := q\<rparr>)"
    using assms(4) g queue_empty_code[OF assms(1)] by (auto simp: Let_def split: if_splits)
  have "pc_inv cb (p, c', s\<lparr>cy_queue := q\<rparr>)" using assms(3) r by (auto simp: pc_inv_def)
  from app_get[OF assms(1,2) g _ _ this] r
  have o: "step_ok items cap n h0 fs cb (p, App_get ms, s) [] (p, c', s\<lparr>cy_queue := q\<rparr>)" by auto
  have e: "step_ok items cap n h0 fs cb x [] (p, App_idle, sdk_emit (Diag k r) u)"
    if "step_ok items cap n h0 fs cb x [] (p, App_idle, u)" for x k r u
    using that msg_heap_cong[of "sdk_emit (Diag k r) u" u]
    by (simp add: step_ok_def mem_inv_def pc_inv_def order_inv_def owned_def queued_def faults_Cons coming_def
        cong: inbound_pc.case_cong)
  show ?thesis using r o by (auto simp: report_get_error_def intro!: e split: prod.splits)
qed

lemma app_flush_ok:
  assumes "queue_laws api items cap" and "mem_inv items cap n h0 fs (p, App_run (Flush # cs), s)"
    and "pc_inv cb (p, App_run (Flush # cs), s)" and "app_step api invoke (App_run (Flush # cs)) s = Some (c', t)"
  shows "step_ok items cap n h0 fs cb (p, App_run (Flush # cs), s) [] (p, c', t)
    \<and> seen (log t) = seen (log s) \<and> mq_state.more t = mq_state.more s"
proof -
  obtain r m q where g: "cy_rtos_get_queue api 1 (cy_queue s) = Some (r, m, q)"
    using assms(4) by (cases "cy_rtos_get_queue api 1 (cy_queue s)") auto
  have r: "c' = (if r = CY_RSLT_SUCCESS then App_destroy m (Flush # cs) else App_run cs) \<and> t = s\<lparr>cy_queue := q\<rparr>"
    using assms(4) g by (auto simp: Let_def split: if_splits)
  have "pc_inv cb (p, c', s\<lparr>cy_queue := q\<rparr>)" using assms(3) r by (auto simp: pc_inv_def)
  from app_get[OF assms(1,2) g _ _ this] r show ?thesis by auto
qed

lemma app_ok:
  assumes "queue_laws api items cap" and "mem_inv items cap n h0 fs (p, c, s)" and "pc_inv cb (p, c, s)"
    and "app_step api invoke c s = Some (c', t)"
  shows "step_ok items cap n h0 fs cb (p, c, s) (app_label c s) (p, c', t)
    \<and> seen (log t) = seen (log s) @ concat (map (view s) (delivered (app_label c s)))
    \<and> mq_state.more t = mq_state.more s"
proof -
  have none: "items (cy_queue s) \<noteq> None" "length (queued items s) \<le> n" using assms(2) by (simp_all add: mem_inv_def)
  have skip: "step_ok items cap n h0 fs cb (p, c, s) [] (p, c', t)"
    if "heap t = heap s" "next_addr t = next_addr s" "log t = log s" "cy_queue t = cy_queue s" "in_hand c' = in_hand c"
      "pc_inv cb (p, c', t)"
    using none that by (intro app_skip[OF assms(2)]) (simp_all add: heap_ok_def queued_def)
  have label: "app_label c s = []" if "\<forall>ms m. c \<noteq> App_call ms m" "\<forall>m cs. c \<noteq> App_destroy m cs"
    using that by (cases c) (simp_all add: app_label_def)
  consider "c = App_idle" | ms where "c = App_process ms" | ms where "c = App_get ms" | ms m where "c = App_call ms m"
    | "c = App_run []" | cs where "c = App_run (Flush # cs)" | cs where "c = App_run (Clear_callback # cs)"
    | m cs where "c = App_destroy m cs"
    by (metis app_pc.exhaust flush_command.exhaust neq_Nil_conv)
  then show ?thesis
  proof cases
    case (3 ms)
    then show ?thesis using app_get_ok[of api items cap n h0 fs p ms s c' t] assms label by simp
  next
    case (4 ms m)
    then show ?thesis
      using app_call[of items cap n h0 fs p ms m s t] assms(2-4) by (auto simp: app_label_def delivered_def bind_eq_Some_conv)
  next
    case (6 cs)
    then show ?thesis using app_flush_ok[of api items cap n h0 fs p cs s c' t] assms label by simp
  next
    case (8 m cs)
    have "seen (log t) = seen (log s) \<and> mq_state.more t = mq_state.more s"
      if "t = snd (iotc_mq_destroy_message m s)" for t
      using that more_mq(4)[OF destroy_more[of m s]]
      by (simp add: iotc_mq_destroy_message_def c_free_def Let_def split: option.split)
    then show ?thesis
      using app_destroy[of items cap n h0 fs p m cs s cb t] assms(2-4) 8
      by (simp add: app_label_def delivered_def)
  qed (use assms(3,4) label skip in \<open>auto simp: pc_inv_def\<close>)
qed

end

section \<open>Every interleaving\<close>

lemma inbound_more_state: "mq_state.more (snd (inbound_step env api p s)) = mq_state.more s"
proof -
  have "sdk_base.more (snd (snd (iotc_mq_create_message env tp bs n s))) = sdk_base.more s" for tp bs n
    by (simp add: iotc_mq_create_message_def case_prod_unfold Let_def)
  then have c: "mq_state.more (snd (snd (iotc_mq_create_message env tp bs n s))) = mq_state.more s" for tp bs n
    by (rule more_mq(4))
  have d: "mq_state.more (snd (iotc_mq_destroy_message m s)) = mq_state.more s" for m
    by (rule more_mq(4)) simp
  show ?thesis by (cases p) (simp_all add: case_prod_unfold Let_def c d)
qed

text \<open>
  The state in which the application is idle and no message is on its way.
\<close>

lemma threads_start:
  assumes "mq_ok items cap s" and "client_msg_cb s \<in> {None, Some cb}"
    and "\<forall>a. h0 a \<noteq> None \<longrightarrow> heap s a = h0 a \<and> a \<notin> set (mq_blocks items s)"
  shows "mem_inv items cap (cap (cy_queue s)) h0 (faults (log s)) (In_idle, App_idle, s)
    \<and> pc_inv cb (In_idle, App_idle, s) \<and> order_inv items (mq_contents items s) [] (In_idle, App_idle, s)"
  using assms by (auto simp: mem_inv_def pc_inv_def order_inv_def mq_ok_def owned_def blocks_def mq_blocks_def mq_contents_def)

context message_consumer
begin

lemma destroy_seen [simp]: "seen (log (snd (iotc_mq_destroy_message m s))) = seen (log s)"
  by (simp add: iotc_mq_destroy_message_def c_free_def Let_def split: option.split)

lemma inbound_seen:
  assumes "case p of In_checked tp bs n \<Rightarrow> n \<le> length bs | _ \<Rightarrow> True"
  shows "seen (log (snd (inbound_step env api p s))) = seen (log s)"
proof -
  have a: "seen (log (snd (alloc env bs s))) = seen (log s)" for bs s by (simp add: alloc_def Let_def)
  have "seen (log (snd (snd (iotc_mq_create_message env (Some tp) bs n s)))) = seen (log s)"
    if "n \<le> length bs" for tp bs n
    using that by (simp add: iotc_mq_create_message_def iotcl_strdup_def case_prod_unfold Let_def a)
  then show ?thesis
    using assms by (cases p) (auto simp: case_prod_unfold Let_def)
qed

text \<open>The invariants of the two threads, with what the callback has seen since \<open>s0\<close>.\<close>

definition threads_inv where
  "threads_inv items cap n h0 fs s0 ls x \<longleftrightarrow>
     mem_inv items cap n h0 fs x \<and> pc_inv cb x \<and> order_inv items (mq_contents items s0) ls x
     \<and> (case x of (p, c, s) \<Rightarrow> seen (log s) = seen (log s0) @ concat (map (view s0) (delivered ls))
          \<and> mq_state.more s = mq_state.more s0)"

lemma threads_inv_step:
  assumes "queue_laws api items cap" and "threads_inv items cap n h0 fs s0 ls x" and "thread_step env api invoke cb x ks y"
  shows "threads_inv items cap n h0 fs s0 (ls @ ks) y"
proof -
  have skip: "threads_inv items cap n h0 fs s0 (ls @ ks) (p', c', t)"
    if x: "x = (p, c, s)" and o: "step_ok items cap n h0 fs cb (p, c, s) ks (p', c', t)"
      and e: "seen (log t) = seen (log s) @ concat (map (view s) (delivered ks))" "mq_state.more t = mq_state.more s"
    for p c s p' c' t ks
  proof -
    have "view s = view s0" using assms(2) by (intro view_more) (simp add: threads_inv_def x)
    then show ?thesis using assms(2) o e by (simp add: threads_inv_def step_ok_def x)
  qed
  show ?thesis
    using assms(3)
  proof cases
    case threads_move
    then show ?thesis
    proof cases
      case (message_arrives k bs c s tp)
      have "mem_inv items cap n h0 fs (In_idle, c, s)" "pc_inv cb (In_idle, c, s)"
        using assms(2) message_arrives(1) by (simp_all add: threads_inv_def)
      from inbound_skip[OF this, of "In_called tp bs k" ks] message_arrives skip[OF message_arrives(1), of ks] show ?thesis
        by (simp add: arrived_def accepted_def taken_def delivered_def)
    next
      case (inbound_moves p s p' t c)
      have i: "mem_inv items cap n h0 fs (p, c, s)" "pc_inv cb (p, c, s)"
        using assms(2) inbound_moves(1) by (simp_all add: threads_inv_def)
      have "case p of In_checked tp bs n \<Rightarrow> n \<le> length bs | _ \<Rightarrow> True" using i(2) by (cases p) (simp_all add: pc_inv_def)
      from inbound_seen[OF this, of env api s] have "seen (log t) = seen (log s)" using inbound_moves(4) by simp
      moreover have "delivered ks = []" using inbound_moves(2)
        by (auto simp: inbound_label_def delivered_def split: inbound_pc.split)
      ultimately show ?thesis
        using skip[OF inbound_moves(1), of ks p' c t] inbound_ok[OF assms(1) i inbound_moves(4)]
          inbound_more_state[of env api p s] inbound_moves by simp
    next
      case (app_moves c s c' t p)
      have i: "mem_inv items cap n h0 fs (p, c, s)" "pc_inv cb (p, c, s)"
        using assms(2) app_moves(1) by (simp_all add: threads_inv_def)
      show ?thesis
        using skip[OF app_moves(1), of ks p c' t] app_ok[OF assms(1) i app_moves(4)] app_moves by simp
    qed
  next
    case (app_begins_call c s t p)
    have i: "mem_inv items cap n h0 fs (p, App_idle, s)" "pc_inv cb (p, App_idle, s)"
      using assms(2) app_begins_call(1) by (simp_all add: threads_inv_def)
    have t: "heap t = heap s" "next_addr t = next_addr s" "log t = log s" "cy_queue t = cy_queue s"
        "mq_state.more t = mq_state.more s" "in_hand c = []" "pc_inv cb (p, c, t)"
      using app_begins_call(4) i(2) by (cases; auto simp: iotc_mq_register_def pc_inv_def)+
    have "step_ok items cap n h0 fs cb (p, App_idle, s) [] (p, c, t)"
      using i(1) t by (intro app_skip[OF i(1)]) (simp_all add: heap_ok_def queued_def mem_inv_def)
    then show ?thesis using skip[OF app_begins_call(1), of "[]" p c t] t app_begins_call by simp
  qed
qed

lemma threads_inv_run:
  assumes "queue_laws api items cap" and "mq_ok items cap s0" and "client_msg_cb s0 \<in> {None, Some cb}"
    and "\<forall>a. h0 a \<noteq> None \<longrightarrow> heap s0 a = h0 a \<and> a \<notin> set (mq_blocks items s0)"
    and "thread_run env api invoke cb (In_idle, App_idle, s0) ls x"
  shows "threads_inv items cap (cap (cy_queue s0)) h0 (faults (log s0)) s0 ls x"
  using assms(5)
proof (induction "(In_idle, App_idle, s0)" ls x rule: thread_run.induct)
  case run_refl
  show ?case using threads_start[OF assms(2-4)] by (simp add: threads_inv_def)
next
  case (run_step ls y ks z)
  then show ?case using threads_inv_step[OF assms(1)] by blast
qed

end

end
