(* ===== verification/SdkDispatch.thy ===== *)
theory SdkDispatch
  imports IotConnectProps MqttMqThreads
begin

text \<open>
  What happens to a message that the application polls: it is handed to iotc-c-lib, which calls back into the
  SDK and the application. This is the SDK's side of the interface \<open>message_consumer\<close> of the queue.
\<close>

section \<open>What the MQTT client leaves alone\<close>

text \<open>The part of the state that belongs to the memory, the queue and the layers above.\<close>

definition outer where
  "outer s = (heap s, next_addr s, cy_queue s, is_initialized s, client_msg_cb s, iotcl_mc s, mqtt_state.more s)"

lemma outer_fields:
  "outer t = outer s \<Longrightarrow> heap t = heap s \<and> next_addr t = next_addr s \<and> cy_queue t = cy_queue s
     \<and> is_initialized t = is_initialized s \<and> client_msg_cb t = client_msg_cb s \<and> iotcl_mc t = iotcl_mc s
     \<and> mqtt_state.more t = mqtt_state.more s"
  by (simp add: outer_def)

lemma outer_base:
  "outer (sdk_emit e s) = outer s"
  "outer (snd (call env c s)) = outer s"
  "outer (s\<lparr>mqtt_connection := h\<rparr>) = outer s"
  "outer (s\<lparr>is_connected := b\<rparr>) = outer s"
  "outer (s\<lparr>is_disconnect_requested := b\<rparr>) = outer s"
  "outer (s\<lparr>is_mqtt_initialized := b\<rparr>) = outer s"
  "outer (s\<lparr>mqtt_inbound_msg_cb := icb\<rparr>) = outer s"
  "outer (s\<lparr>client_status_cb := scb\<rparr>) = outer s"
  by (simp_all add: outer_def)

lemma outer_strlen: "outer (snd (c_strlen p s)) = outer s"
  by (simp add: c_strlen_def outer_base split: option.split)

lemma outer_subscribe: "outer (snd (mqtt_subscribe env mc q s)) = outer s"
proof -
  have "outer (snd (subscribe_loop env topic q n r s)) = outer s" for topic n r and s :: "('a, 'b) mqtt_state_scheme"
    by (rule subscribe_retry.loop_inv[where P = "\<lambda>t. outer t = outer s"]) (simp_all add: outer_base)
  then show ?thesis by (simp add: mqtt_subscribe_def case_prod_unfold Let_def outer_strlen)
qed

lemma outer_connect: "outer (snd (mqtt_connect env nb mc s)) = outer s"
proof -
  have "outer (snd (connect_loop env nb info n r s)) = outer s" for info n r and s :: "('a, 'b) mqtt_state_scheme"
    by (rule connect_retry.loop_inv[where P = "\<lambda>t. outer t = outer s"]) (simp_all add: outer_base)
  then show ?thesis by (simp add: mqtt_connect_def case_prod_unfold Let_def outer_strlen)
qed

lemma outer_stages:
  "outer (snd (prepare_credentials mc c ca n s)) = outer s"
  "outer (snd (create_client env sec b s)) = outer s"
  "outer (init_reset mc s) = outer s"
  "outer (snd (iotc_cleanup_mqtt env s)) = outer s"
  by (simp_all add: prepare_credentials_def create_client_def init_reset_def iotc_cleanup_mqtt_def
      case_prod_unfold Let_def outer_strlen outer_base)

lemma outer_init: "outer (snd (iotc_mqtt_client_init env nb c s)) = outer s"
  by (simp add: iotc_mqtt_client_init_def case_prod_unfold Let_def outer_base outer_strlen
      outer_stages outer_subscribe outer_connect split: option.split)

lemma outer_publish: "outer (snd (iotc_mqtt_client_publish env tp pl q s)) = outer s"
  by (simp add: iotc_mqtt_client_publish_def case_prod_unfold Let_def outer_strlen outer_base)

section \<open>The consumer of the queue\<close>

text \<open>
  What becomes of a message: it is handed to iotc-c-lib, and a callback of the application is called.
\<close>

datatype c2d_effect = Processed string | App_command nat "string option" | App_ota nat

definition c2d_events :: "sdk_event list \<Rightarrow> c2d_effect list" where
  "c2d_events es = concat (map (\<lambda>e. case e of
     C2d_process_event m \<Rightarrow> [Processed m] | Command_callback n c \<Rightarrow> [App_command n c]
   | Ota_callback n \<Rightarrow> [App_ota n] | _ \<Rightarrow> []) es)"

lemma c2d_events_emit [simp]: "c2d_events (log (sdk_emit e s)) = c2d_events (log s) @ c2d_events [e]"
  by (simp add: c2d_events_def log_sdk_emit)

text \<open>What a call of iotc-c-lib makes of that, when the command callback in the configuration is \<open>cmd\<close>.\<close>

fun call_effect :: "nat option \<Rightarrow> c2d_call \<Rightarrow> c2d_effect list" where
  "call_effect cmd (Call_command On_command_intercept c) = map (\<lambda>n. App_command n c) (opt_list cmd)"
| "call_effect cmd (Call_command (User_command n) c) = [App_command n c]"
| "call_effect cmd (Call_ota n) = [App_ota n]"
| "call_effect cmd (Call_send tp js) = []"

definition c2d_response :: "iotcl_lib \<Rightarrow> held_config \<Rightarrow> string \<Rightarrow> c2d_effect list" where
  "c2d_response lib h m = Processed m # concat (map (call_effect (h_cmd_cb h)) (lib_c2d_calls lib m))"

text \<open>The calls that do not return: the interceptor with the qualification command.\<close>

definition qualification_call :: "c2d_call \<Rightarrow> bool" where
  "qualification_call c \<longleftrightarrow> (\<exists>cmd host. c = Call_command On_command_intercept (Some cmd)
     \<and> c_string cmd = QUALIFICATION_START_PREFIX_CMD @ host)"

definition qualifies :: "iotcl_lib \<Rightarrow> string \<Rightarrow> bool" where
  "qualifies lib m \<longleftrightarrow> (\<exists>c \<in> set (lib_c2d_calls lib m). qualification_call c)"

text \<open>The loop has no way out: no call of it has a result.\<close>

lemma qualification_loop_None: "qualification_loop env nb lib api last_connected s = None"
proof (rule ccontr)
  assume "qualification_loop env nb lib api last_connected s \<noteq> None"
  then obtain u where "qualification_loop env nb lib api last_connected s = Some u" by blast
  then show False
    by (rule qualification_loop.raw_induct[where P = "\<lambda>_ _ _ _ _ _ _. False", rotated])
      (auto simp: Let_def bind_eq_Some_conv split: if_splits)
qed

lemma qualification_start_None: "iotc_qualification_start env nb lib api host s = None"
  by (simp add: iotc_qualification_start_def qualification_loop_None Let_def bind_eq_None_conv)

text \<open>
  The interceptor never returns to iotc-c-lib from the qualification command, and returns from every other
  command with nothing changed but the notification of the application.
\<close>

lemma sdk_qualification_blocks:
  "on_command_intercept env nb lib api command s =
     (if \<exists>cmd host. command = Some cmd \<and> c_string cmd = QUALIFICATION_START_PREFIX_CMD @ host then None
      else Some (case h_cmd_cb (config s) of
                   Some cb \<Rightarrow> sdk_emit (Command_callback cb command) s | None \<Rightarrow> s))"
proof (cases command)
  case None
  show ?thesis unfolding None by (simp add: on_command_intercept_def Let_def)
next
  case (Some cmd)
  have "take (length QUALIFICATION_START_PREFIX_CMD) (c_string cmd) = QUALIFICATION_START_PREFIX_CMD
    \<longleftrightarrow> (\<exists>host. c_string cmd = QUALIFICATION_START_PREFIX_CMD @ host)"
    by (metis append_eq_conv_conj append_take_drop_id)
  then show ?thesis
    unfolding Some by (auto simp: on_command_intercept_def Let_def qualification_start_None split: option.split)
qed

text \<open>A call that returns touches neither queue nor memory, and leaves the trace \<open>call_effect\<close>.\<close>

definition c2d_frame :: "'q sdk_state \<Rightarrow> 'q sdk_state \<Rightarrow> bool" where
  "c2d_frame s t \<longleftrightarrow> heap t = heap s \<and> next_addr t = next_addr s \<and> sdk_base.more t = sdk_base.more s
     \<and> faults (log t) = faults (log s)"

lemma c2d_frame_trans: "c2d_frame s t \<Longrightarrow> c2d_frame t u \<Longrightarrow> c2d_frame s u"
  by (simp add: c2d_frame_def)

lemma c2d_frame_config: "c2d_frame s t \<Longrightarrow> config t = config s"
  by (intro config_more more_mqtt(8) more_mq(4)) (simp add: c2d_frame_def)

lemma send_frame_c2d:
  "c2d_frame s (iotconnect_sdk_mqtt_send_cb env (Some tp) (Some js) s)"
  "c2d_events (log (iotconnect_sdk_mqtt_send_cb env (Some tp) (Some js) s)) = c2d_events (log s)"
  by (simp_all add: iotconnect_sdk_mqtt_send_cb_def iotc_mqtt_client_publish_def c_strlen_def c2d_frame_def
      call_def Let_def case_prod_unfold) (simp_all add: c2d_events_def)

lemma run_call_outcome:
  "if qualification_call c then run_c2d_call env nb lib api c s = None
   else \<exists>t. run_c2d_call env nb lib api c s = Some t \<and> c2d_frame s t
     \<and> c2d_events (log t) = c2d_events (log s) @ call_effect (h_cmd_cb (config s)) c"
proof (cases c)
  case (Call_command cb command)
  show ?thesis
    unfolding Call_command
    by (cases cb) (auto simp: run_c2d_call_def qualification_call_def sdk_qualification_blocks c2d_events_def opt_list_def
        log_sdk_emit c2d_frame_def faults_Cons split: option.split)
next
  case (Call_ota n)
  then show ?thesis
    by (simp add: run_c2d_call_def qualification_call_def c2d_events_def log_sdk_emit c2d_frame_def
      faults_Cons)
next
  case (Call_send tp js)
  then show ?thesis by (simp add: run_c2d_call_def qualification_call_def send_frame_c2d)
qed

lemma run_calls_outcome:
  "if \<exists>c \<in> set cs. qualification_call c then run_c2d_calls env nb lib api cs s = None
   else \<exists>t. run_c2d_calls env nb lib api cs s = Some t \<and> c2d_frame s t
     \<and> c2d_events (log t) = c2d_events (log s) @ concat (map (call_effect (h_cmd_cb (config s))) cs)"
proof (induction cs arbitrary: s)
  case Nil
  show ?case by (simp add: c2d_frame_def)
next
  case (Cons c cs)
  show ?case
  proof (cases "qualification_call c")
    case True
    then show ?thesis using run_call_outcome[of c env nb lib api s] by simp
  next
    case False
    then obtain u where u: "run_c2d_call env nb lib api c s = Some u" "c2d_frame s u"
        "c2d_events (log u) = c2d_events (log s) @ call_effect (h_cmd_cb (config s)) c"
      using run_call_outcome[of c env nb lib api s] by auto
    have r: "run_c2d_calls env nb lib api (c # cs) s = run_c2d_calls env nb lib api cs u" using u(1) by simp
    show ?thesis
      unfolding r using Cons.IH[of u] False c2d_frame_trans[OF u(2)] c2d_frame_config[OF u(2)] u(3)
      by (auto split: if_splits)
  qed
qed

text \<open>The SDK consumes its messages as the queue expects.\<close>

interpretation c2d_sink: message_consumer "invoke_sdk env nb lib api" On_mqtt_mq_message
  c2d_events "\<lambda>s x. c2d_response lib (config s) (snd x)" "\<lambda>x. qualifies lib (snd x)"
  for env nb lib api
proof unfold_locales
  fix tp pl :: string and s :: "'a sdk_state"
  let ?e = "on_mqtt_mq_message tp pl s"
  note o = run_calls_outcome[of "lib_c2d_calls lib pl" env nb lib api ?e]
  show "invoke_sdk env nb lib api On_mqtt_mq_message tp pl s = None" if "qualifies lib (snd (tp, pl))"
    using o that by (simp add: invoke_sdk_def qualifies_def)
  assume "\<not> qualifies lib (snd (tp, pl))"
  then obtain t where t: "invoke_sdk env nb lib api On_mqtt_mq_message tp pl s = Some t" "c2d_frame ?e t"
      "c2d_events (log t) = c2d_events (log ?e)
         @ concat (map (call_effect (h_cmd_cb (config ?e))) (lib_c2d_calls lib pl))"
    using o by (auto simp: invoke_sdk_def qualifies_def split: if_splits)
  have e: "c2d_frame s ?e" "c2d_events (log ?e) = c2d_events (log s) @ [Processed pl]"
    by (simp_all add: on_mqtt_mq_message_def c2d_frame_def) (simp add: c2d_events_def log_sdk_emit)
  note f = c2d_frame_trans[OF e(1) t(2)]
  have "c2d_events (log t) = c2d_events (log s) @ c2d_response lib (config s) (snd (tp, pl))"
    using t(3) e(2) c2d_frame_config[OF e(1)] by (simp add: c2d_response_def)
  moreover have "sdk_base.more t = sdk_base.more s" using f by (simp add: c2d_frame_def)
  ultimately show "\<exists>t. invoke_sdk env nb lib api On_mqtt_mq_message tp pl s = Some t
      \<and> c2d_events (log t) = c2d_events (log s) @ c2d_response lib (config s) (snd (tp, pl))
      \<and> cy_queue t = cy_queue s \<and> client_msg_cb t = client_msg_cb s
      \<and> is_initialized t = is_initialized s \<and> mq_state.more t = mq_state.more s
      \<and> (\<forall>a. heap s a \<noteq> None \<longrightarrow> heap t a = heap s a) \<and> faults (log t) = faults (log s)
      \<and> (heap_ok s \<longrightarrow> heap_ok t)"
    using t(1) f more_mq[of t s] by (auto simp: c2d_frame_def heap_ok_def)
next
  fix s t :: "'a sdk_state"
  assume "mq_state.more t = mq_state.more s"
  then have "config t = config s" by (intro config_more more_mqtt(8))
  then show "(\<lambda>x. c2d_response lib (config t) (snd x)) = (\<lambda>x. c2d_response lib (config s) (snd x))" by (simp add: c2d_response_def)
qed (simp add: c2d_events_def quiet_event_def split: sdk_event.splits)

lemma c2d_events_alloc [simp]: "c2d_events (log (snd (alloc env bs s))) = c2d_events (log s)"
  by (simp add: alloc_def Let_def) (simp add: c2d_events_def)

lemma c2d_events_free [simp]: "c2d_events (log (c_free a s)) = c2d_events (log s)"
  by (simp add: c_free_def Let_def) (simp add: c2d_events_def)

lemma c2d_events_destroy [simp]:
  "c2d_events (log (snd (iotc_mq_destroy_message m s))) = c2d_events (log s)"
  by (simp add: iotc_mq_destroy_message_def Let_def split: option.split)

lemma c2d_events_create [simp]:
  "c2d_events (log (snd (snd (iotc_mq_create_message env tp bs n s)))) = c2d_events (log s)"
  by (simp add: iotc_mq_create_message_def iotcl_strdup_def case_prod_unfold Let_def split: option.split)
    (simp add: c2d_events_def)

lemma c2d_events_inbound [simp]:
  "c2d_events (log (iotc_mq_on_mqtt_inbound_message env api tp bs n s)) = c2d_events (log s)"
  by (simp add: iotc_mq_on_mqtt_inbound_message_def case_prod_unfold Let_def split: option.split)

end
