(* ===== verification/SdkSession.thy ===== *)
theory SdkSession
  imports SdkDispatch
begin

text \<open>
  The SDK in operation: what each public function and each event of the MQTT library does to the
  state that the modules share, and a step relation over all of them with its invariant.
\<close>

section \<open>Inbound messages and the queue\<close>

lemma create_more: "sdk_base.more (snd (snd (iotc_mq_create_message env tp bs n s))) = sdk_base.more s"
  by (simp add: iotc_mq_create_message_def case_prod_unfold Let_def)

lemma inbound_more [simp]:
  "mq_state.more (iotc_mq_on_mqtt_inbound_message env api tp bs n s) = mq_state.more s"
  "is_initialized (iotc_mq_on_mqtt_inbound_message env api tp bs n s) = is_initialized s"
  by (simp_all add: iotc_mq_on_mqtt_inbound_message_def case_prod_unfold Let_def
      more_mq[OF create_more] more_mq[OF destroy_more] split: option.split)

text \<open>Whatever is queued by an inbound message lives in blocks that were free before.\<close>

lemma inbound_queue:
  assumes "queue_laws api items cap" and "mq_ok items cap s" and "n \<le> length bs"
    and t_def: "t = iotc_mq_on_mqtt_inbound_message env api (Some tp) (Some bs) n s"
  shows "queued items t = queued items s
    \<or> (\<exists>m. queued items t = queued items s @ [m] \<and> (\<forall>a \<in> set (msg_blocks m). heap s a = None))"
proof (cases "n = 0 \<or> client_msg_cb s = None")
  case True
  then show ?thesis by (auto simp: t_def iotc_mq_on_mqtt_inbound_message_def)
next
  case False
  obtain ok m u where c: "iotc_mq_create_message env (Some tp) bs n s = (ok, m, u)"
    by (metis prod_cases3)
  have hs: "heap_ok s" using assms(2) by (simp add: mq_ok_def)
  note u = create_spec[OF hs assms(3) c]
  have q: "cy_queue u = cy_queue s" using u more_mq[of u s] by simp
  show ?thesis
  proof (cases ok)
    case False
    then show ?thesis using \<open>\<not> (n = 0 \<or> client_msg_cb s = None)\<close> c q
      by (simp add: t_def iotc_mq_on_mqtt_inbound_message_def queued_def)
  next
    case True
    obtain xs where xs: "items (cy_queue s) = Some xs" using assms(2) by (auto simp: mq_ok_def)
    obtain r q' where r: "cy_rtos_put_queue api m IOTC_MQ_PUT_TIMEOUT (cy_queue s) = (r, q')" by fastforce
    have t: "cy_queue t = q'"
      using False True c q r
      by (auto simp: t_def iotc_mq_on_mqtt_inbound_message_def more_mq(1)[OF destroy_more] Let_def)
    have "\<forall>a \<in> set (msg_blocks m). heap s a = None"
      using u True hs by (auto simp: msg_blocks_def heap_ok_def)
    then show ?thesis
      using queue_put[OF assms(1) xs r] xs by (auto simp: queued_def t split: if_splits)
  qed
qed

text \<open>The memory that does not belong to the queue.\<close>

definition mq_rest ::
    "('q \<Rightarrow> mq_msg list option) \<Rightarrow> ('q, 'z) mq_state_scheme \<Rightarrow> addr \<rightharpoonup> string" where
  "mq_rest items s = heap s |` (- set (mq_blocks items s))"

text \<open>\<open>mq_grows s t\<close>: queued blocks stay queued, and what has been added was free memory.\<close>

definition mq_grows ::
    "('q \<Rightarrow> mq_msg list option) \<Rightarrow> ('q, 'z) mq_state_scheme \<Rightarrow> ('q, 'z) mq_state_scheme \<Rightarrow> bool" where
  "mq_grows items s t \<longleftrightarrow>
     set (mq_blocks items s) \<subseteq> set (mq_blocks items t)
     \<and> (\<forall>a \<in> set (mq_blocks items t). a \<in> set (mq_blocks items s) \<or> heap s a = None)"

lemma inbound_rest:
  assumes "queue_laws api items cap" and "mq_ok items cap s" and "n \<le> length bs"
    and t: "t = iotc_mq_on_mqtt_inbound_message env api (Some tp) (Some bs) n s"
  shows "mq_ok items cap t \<and> faults (log t) = faults (log s) \<and> client_msg_cb t = client_msg_cb s
    \<and> cap (cy_queue t) = cap (cy_queue s) \<and> mq_rest items t = mq_rest items s \<and> mq_grows items s t
    \<and> (\<forall>a. heap s a \<noteq> None \<longrightarrow> heap t a = heap s a)"
proof (cases "n = 0 \<or> client_msg_cb s = None")
  case True
  then have "t = s" by (auto simp: t iotc_mq_on_mqtt_inbound_message_def)
  then show ?thesis using assms(2) by (simp add: mq_grows_def)
next
  case False
  then have n: "client_msg_cb s \<noteq> None" "0 < n" by simp_all
  note e = inbound_effect[OF assms(1,2) n assms(3) t]
  have g: "mq_grows items s t"
    using inbound_queue[OF assms] by (auto simp: mq_grows_def mq_blocks_def)
  have "mq_rest items t = mq_rest items s"
  proof
    fix x
    show "mq_rest items t x = mq_rest items s x"
    proof (cases "x \<in> set (mq_blocks items t)")
      case True
      then show ?thesis using g by (auto simp: mq_rest_def mq_grows_def restrict_map_def)
    next
      case x: False
      moreover have "heap t x = heap s x"
      proof (cases "heap s x")
        case None
        then have "x \<notin> dom (heap s)" by blast
        moreover have "dom (heap t) \<subseteq> dom (heap s) \<union> set (mq_blocks items t)" using e by auto
        ultimately have "x \<notin> dom (heap t)" using x by blast
        then show ?thesis using None by (simp add: domIff)
      next
        case (Some y)
        then show ?thesis using e by auto
      qed
      ultimately show ?thesis using g by (auto simp: mq_rest_def mq_grows_def restrict_map_def)
    qed
  qed
  then show ?thesis using e g by blast
qed

section \<open>Events\<close>

lemma mq_ok_more:
  "heap t = heap s \<Longrightarrow> next_addr t = next_addr s \<Longrightarrow> cy_queue t = cy_queue s \<Longrightarrow>
   mq_ok items cap t = mq_ok items cap s \<and> mq_blocks items t = mq_blocks items s
   \<and> mq_contents items t = mq_contents items s \<and> mq_rest items t = mq_rest items s"
  using msg_heap_cong[of t s]
  by (simp add: mq_ok_def mq_blocks_def mq_contents_def mq_rest_def queued_def heap_ok_def)

text \<open>A temporary block that is not queued comes and goes.\<close>

lemma mq_ok_alloc:
  assumes "mq_ok items cap s" and "alloc env bs s = (Some a, u)"
  shows "mq_ok items cap u" "mq_contents items u = mq_contents items s"
    "mq_blocks items u = mq_blocks items s" "heap u = (heap s)(a \<mapsto> bs)" "heap s a = None"
    "cy_queue u = cy_queue s" "a \<notin> set (mq_blocks items s)"
    "mq_rest items u = (mq_rest items s)(a \<mapsto> bs)"
proof -
  have h: "heap_ok s" using assms(1) by (simp add: mq_ok_def)
  show u: "heap u = (heap s)(a \<mapsto> bs)" using assms(2) by (cases rule: alloc_cases) auto
  show a: "heap s a = None"
    using alloc_cases[OF assms(2)] heap_ok_fresh[OF h] by blast
  show b: "a \<notin> set (mq_blocks items s)" using mq_ok_blocks_live[OF assms(1)] a by blast
  show q: "cy_queue u = cy_queue s" using more_mq(1)[OF more_alloc, of env bs s] assms(2) by simp
  have "heap_ok u" using heap_ok_alloc[OF h, of env bs] assms(2) by simp
  moreover have "heap u x = heap s x" if "x \<in> set (mq_blocks items s)" for x
    using that b by (auto simp: u)
  ultimately have "mq_ok items cap u \<and> mq_contents items u = mq_contents items s"
    using mq_ok_frame[OF assms(1) _ q] by blast
  then show "mq_ok items cap u" "mq_contents items u = mq_contents items s" by simp_all
  show b': "mq_blocks items u = mq_blocks items s" by (simp add: mq_blocks_def queued_def q)
  show "mq_rest items u = (mq_rest items s)(a \<mapsto> bs)"
    using b by (auto simp: mq_rest_def b' u restrict_map_def)
qed

lemma mq_ok_free:
  assumes "mq_ok items cap s" and "heap s a \<noteq> None" and "a \<notin> set (mq_blocks items s)"
  shows "mq_ok items cap (c_free a s)" "mq_contents items (c_free a s) = mq_contents items s"
    "mq_blocks items (c_free a s) = mq_blocks items s" "heap (c_free a s) = (heap s)(a := None)"
    "faults (log (c_free a s)) = faults (log s)" "mq_rest items (c_free a s) = (mq_rest items s)(a := None)"
proof -
  show f: "heap (c_free a s) = (heap s)(a := None)" "faults (log (c_free a s)) = faults (log s)"
    using free_live[OF assms(2)] by simp_all
  have "heap_ok (c_free a s)" using assms(1) by (simp add: heap_ok_free mq_ok_def)
  moreover have "heap (c_free a s) x = heap s x" if "x \<in> set (mq_blocks items s)" for x
    using that assms(3) by (auto simp: f)
  ultimately have "mq_ok items cap (c_free a s) \<and> mq_contents items (c_free a s) = mq_contents items s"
    using mq_ok_frame[OF assms(1), of "c_free a s"] by simp
  then show "mq_ok items cap (c_free a s)" "mq_contents items (c_free a s) = mq_contents items s" by simp_all
  show b: "mq_blocks items (c_free a s) = mq_blocks items s" by (simp add: mq_blocks_def queued_def)
  show "mq_rest items (c_free a s) = (mq_rest items s)(a := None)"
    using assms(3) by (auto simp: mq_rest_def b f restrict_map_def)
qed

text \<open>
  A message from the broker while the SDK's own callback is installed: the copy of the topic comes and
  goes, the rest is what the queue does with the message.
\<close>

definition received :: "received_msg \<Rightarrow> mqtt_event" where
  "received r = CY_MQTT_EVENT_TYPE_SUBSCRIPTION_MESSAGE_RECEIVE r"

lemma event_accepted:
  assumes "queue_laws api items cap" and "mq_ok items cap s"
    and "mqtt_inbound_msg_cb s = Some On_mqtt_c2d_message" and "\<not> is_disconnect_requested s"
    and a: "alloc env (r_topic r @ [CHR 0x00]) s = (Some a, u)"
  defines "v \<equiv> on_mqtt_c2d_message env api (c_string (r_topic r @ r_topic_tail r)) (r_payload r) u"
  defines "t \<equiv> (c_free a v)\<lparr>is_disconnect_requested := False\<rparr>"
  shows "mqtt_event_callback env (invoke_inbound env api) (received r) s = Some t"
    and "mq_ok items cap t" and "mq_contents items t = mq_contents items v"
    and "mq_rest items t = mq_rest items s" and "mq_grows items s t"
    and "faults (log t) = faults (log s)" and "cap (cy_queue t) = cap (cy_queue s)"
    and "client_msg_cb t = client_msg_cb s" and "is_initialized t = is_initialized s"
    and "mqtt_inbound_msg_cb t = mqtt_inbound_msg_cb s" and "iotcl_mc t = iotcl_mc s"
    and "mqtt_state.more t = mqtt_state.more s" and "c2d_events (log t) = c2d_events (log s)"
proof -
  note u = mq_ok_alloc[OF assms(2) a]
  have um: "client_msg_cb u = client_msg_cb s" "mq_state.more u = mq_state.more s"
      "is_initialized u = is_initialized s"
    using more_mq[OF more_alloc, of env "r_topic r @ [CHR 0x00]" s] a by simp_all
  have uf: "faults (log u) = faults (log s)" using a by (cases rule: alloc_cases) auto
  have v: "v = iotc_mq_on_mqtt_inbound_message env api (Some (c_string (r_topic r @ r_topic_tail r)))
      (Some (r_payload r)) (length (r_payload r)) u"
    by (simp add: v_def on_mqtt_c2d_message_def)
  note e = inbound_rest[OF assms(1) u(1) order_refl v]
  have live: "heap v a \<noteq> None" using e u(4) by simp
  have new: "a \<notin> set (mq_blocks items v)"
    using e u(3,4,7) by (auto simp: mq_grows_def)
  have okv: "mq_ok items cap v" using e by simp
  note f = mq_ok_free[OF okv live new]
  have same: "heap t = heap (c_free a v)" "next_addr t = next_addr (c_free a v)"
      "cy_queue t = cy_queue (c_free a v)"
    by (simp_all add: t_def)
  note m = mq_ok_more[OF same]
  show "mqtt_event_callback env (invoke_inbound env api) (received r) s = Some t"
    using assms(3,4) a by (simp add: received_def mqtt_event_callback_def invoke_inbound_def t_def v_def)
  show "mq_ok items cap t" "mq_contents items t = mq_contents items v" using m f by simp_all
  show "mq_rest items t = mq_rest items s"
  proof -
    have "mq_rest items s a = None" using u(5) by (simp add: mq_rest_def restrict_map_def)
    then show ?thesis using m f(6) u(8) e by (auto simp: fun_eq_iff)
  qed
  show "mq_grows items s t"
    using e m f u by (auto simp: mq_grows_def split: if_splits)
  show "faults (log t) = faults (log s)" "cap (cy_queue t) = cap (cy_queue s)"
    "client_msg_cb t = client_msg_cb s" "is_initialized t = is_initialized s"
    using e f um uf u(6) same by (simp_all add: t_def v)
  have "mq_state.more v = mq_state.more s" by (simp add: v um)
  note vm = more_mqtt[OF this]
  show "mqtt_inbound_msg_cb t = mqtt_inbound_msg_cb s" "iotcl_mc t = iotcl_mc s"
    "mqtt_state.more t = mqtt_state.more s"
    using vm more_mqtt(8)[OF more_mq(4)[OF more_free], of a v] by (simp_all add: t_def)
  have "c2d_events (log u) = c2d_events (log s)"
    using c2d_events_alloc[of env "r_topic r @ [CHR 0x00]" s] a by simp
  then show "c2d_events (log t) = c2d_events (log s)" by (simp add: t_def v)
qed

section \<open>One step of the SDK\<close>

definition callbacks_ok :: "('q, 'z) mqtt_state_scheme \<Rightarrow> bool" where
  "callbacks_ok s \<longleftrightarrow>
     (mqtt_inbound_msg_cb s = None \<or> mqtt_inbound_msg_cb s = Some On_mqtt_c2d_message)
     \<and> (client_msg_cb s = None \<or> client_msg_cb s = Some On_mqtt_mq_message)"

text \<open>
  What every operation of a running SDK preserves. Only polling (\<open>polls\<close>) adds to the memory that
  belongs to nobody.
\<close>

definition preserves ::
    "bool \<Rightarrow> ('q \<Rightarrow> mq_msg list option) \<Rightarrow> ('q \<Rightarrow> nat)
       \<Rightarrow> ('q, 'z) mqtt_state_scheme \<Rightarrow> ('q, 'z) mqtt_state_scheme \<Rightarrow> bool" where
  "preserves polls items cap s t \<longleftrightarrow>
     mq_ok items cap t \<and> cap (cy_queue t) = cap (cy_queue s)
     \<and> (if polls then mq_rest items s \<subseteq>\<^sub>m mq_rest items t else mq_rest items t = mq_rest items s)
     \<and> (\<forall>a \<in> set (mq_blocks items t). a \<in> set (mq_blocks items s) \<or> heap s a = None)
     \<and> faults (log t) = faults (log s) \<and> is_initialized t = is_initialized s \<and> iotcl_mc t = iotcl_mc s
     \<and> mqtt_state.more t = mqtt_state.more s \<and> callbacks_ok t"

lemma preserves_polls: "preserves False items cap s t \<Longrightarrow> preserves polls items cap s t"
  by (simp add: preserves_def)

lemma preserves_outer:
  assumes "mq_ok items cap s" and "outer t = outer s" and "faults (log t) = faults (log s)"
    and "callbacks_ok t"
  shows "preserves False items cap s t"
  using assms outer_fields[OF assms(2)] mq_ok_more[of t s items cap] by (simp add: preserves_def)

lemma event_preserves:
  assumes "queue_laws api items cap" and "mq_ok items cap s" and "callbacks_ok s"
  shows "\<exists>t. mqtt_event_callback env (invoke_inbound env api) e s = Some t \<and> preserves False items cap s t
     \<and> c2d_events (log t) = c2d_events (log s)"
proof (cases e)
  case CY_MQTT_EVENT_TYPE_DISCONNECT
  then show ?thesis
    using assms(2,3)
    by (auto simp: event_disconnect intro!: preserves_outer split: option.split status_cb.split)
      (auto simp: outer_base callbacks_ok_def c2d_events_def)
next
  case (CY_MQTT_EVENT_TYPE_SUBSCRIPTION_MESSAGE_RECEIVE r)
  let ?s0 = "s\<lparr>is_disconnect_requested := False\<rparr>"
  have keep: "preserves False items cap s ?s0 \<and> c2d_events (log ?s0) = c2d_events (log s)"
    using assms(2,3) by (auto intro!: preserves_outer simp: outer_base callbacks_ok_def)
  obtain p u where a: "alloc env (r_topic r @ [CHR 0x00]) s = (p, u)" by fastforce
  consider "mqtt_inbound_msg_cb s = None \<or> is_disconnect_requested s"
    | "mqtt_inbound_msg_cb s = Some On_mqtt_c2d_message" "\<not> is_disconnect_requested s" "p = None"
    | b where "mqtt_inbound_msg_cb s = Some On_mqtt_c2d_message" "\<not> is_disconnect_requested s" "p = Some b"
    using assms(3) by (cases p) (auto simp: callbacks_ok_def)
  then show ?thesis
  proof cases
    case 1
    then show ?thesis
      using keep CY_MQTT_EVENT_TYPE_SUBSCRIPTION_MESSAGE_RECEIVE
      by (auto simp: mqtt_event_callback_def split: option.split)
  next
    case 2
    have "preserves False items cap s u"
      using assms(2,3) a 2(3) alloc_cases[OF a] mqtt_alloc_frame[of env "r_topic r @ [CHR 0x00]" s]
        more_mq[OF more_alloc, of env "r_topic r @ [CHR 0x00]" s]
        more_mqtt(8)[OF more_mq(4)[OF more_alloc], of env "r_topic r @ [CHR 0x00]" s]
      by (intro preserves_outer) (auto simp: outer_def callbacks_ok_def)
    then show ?thesis
      using 2 a c2d_events_alloc[of env "r_topic r @ [CHR 0x00]" s]
        CY_MQTT_EVENT_TYPE_SUBSCRIPTION_MESSAGE_RECEIVE
      by (auto simp: mqtt_event_callback_def)
  next
    case 3
    note e = event_accepted[OF assms(1,2) 3(1,2) a[unfolded 3(3)]]
    show ?thesis
      unfolding CY_MQTT_EVENT_TYPE_SUBSCRIPTION_MESSAGE_RECEIVE received_def[symmetric]
      by (rule exI, rule conjI, rule e(1))
        (use e assms(3) 3(1) in \<open>simp add: preserves_def callbacks_ok_def mq_grows_def\<close>)
  qed
next
  case CY_MQTT_EVENT_TYPE_OTHER
  then show ?thesis
    using assms(2,3) by (auto simp: mqtt_event_callback_def intro!: preserves_outer)
qed

lemma poll_preserves:
  fixes s :: "'q sdk_state"
  assumes "queue_laws api items cap" and "mq_ok items cap s" and "callbacks_ok s" and "timeout_ms \<noteq> 0"
    and "iotconnect_sdk_poll_inbound_mq env nb lib api timeout_ms s = Some t"
  shows "preserves True items cap s t"
proof (cases "client_msg_cb s")
  case None
  then show ?thesis
    using assms(2,3,5) by (simp add: iotconnect_sdk_poll_inbound_mq_def iotc_mq_process_def preserves_def)
next
  case (Some cb)
  then have cb: "client_msg_cb s = Some On_mqtt_mq_message" using assms(3) by (simp add: callbacks_ok_def)
  have t: "mq_ok items cap t" "items (cy_queue t) = Some []" "client_msg_cb t = Some On_mqtt_mq_message"
      "cap (cy_queue t) = cap (cy_queue s)" "is_initialized t = is_initialized s"
      "mq_state.more t = mq_state.more s" "faults (log t) = faults (log s)"
      "\<forall>a. heap s a \<noteq> None \<longrightarrow> heap t a = heap s a"
    using c2d_sink.process_outcome[OF assms(1,2,4) cb, of lib env nb api] assms(5)
    by (auto simp: iotconnect_sdk_poll_inbound_mq_def c2d_sink.served_def split: if_splits)
  have b: "mq_blocks items t = []" using t(2) by (simp add: mq_blocks_def queued_def)
  have "mq_rest items s \<subseteq>\<^sub>m mq_rest items t"
    using t(8) by (fastforce simp: mq_rest_def b map_le_def restrict_map_def dom_def split: if_splits)
  then show ?thesis
    using t b more_mqtt[OF t(6)] assms(3) by (simp add: preserves_def callbacks_ok_def)
qed

lemma disconnect_preserves:
  assumes "queue_laws api items cap" and "mq_ok items cap s"
  shows "\<exists>r t. iotconnect_sdk_disconnect env api s = Some (r, t) \<and> preserves False items cap s t
    \<and> client_down t \<and> items (cy_queue t) = Some [] \<and> client_msg_cb t = None"
proof -
  obtain r t where t: "iotconnect_sdk_disconnect env api s = Some (r, t)" "mq_ok items cap t"
      "items (cy_queue t) = Some []" "heap t = heap s |` (- set (mq_blocks items s))"
      "faults (log t) = faults (log s)" "client_down t" "client_msg_cb t = None"
      "is_initialized t = is_initialized s" "mqtt_state.more t = mqtt_state.more s"
      "cap (cy_queue t) = cap (cy_queue s)" "iotcl_mc t = iotcl_mc s"
    using disconnect_effect[OF assms, of env] by blast
  have b: "mq_blocks items t = []" using t(3) by (simp add: mq_blocks_def queued_def)
  have "mq_rest items t = mq_rest items s" using t(4) by (simp add: mq_rest_def b restrict_map_def)
  then have "preserves False items cap s t"
    using t b by (simp add: preserves_def callbacks_ok_def client_down_def)
  then show ?thesis using t by blast
qed

text \<open>
  Every pointer that connecting takes the length of is there: what a successful identity
  request and a complete X.509 configuration provide.
\<close>

definition connectable :: "'q sdk_state \<Rightarrow> bool" where
  "connectable s \<longleftrightarrow>
     (case iotcl_mc s of
        Some mc \<Rightarrow> mc_host mc \<noteq> None \<and> mc_client_id mc \<noteq> None \<and> mc_sub_c2d mc \<noteq> None
      | None \<Rightarrow> False)
     \<and> device_cert (h_x509_config (config s)) \<noteq> None \<and> device_key (h_x509_config (config s)) \<noteq> None"

lemma faults_strlen: "p \<noteq> None \<Longrightarrow> faults (log (snd (c_strlen p s))) = faults (log s)"
  by (auto simp: c_strlen_def)

lemma faults_subscribe:
  "mc_sub_c2d mc \<noteq> None \<Longrightarrow> faults (log (snd (mqtt_subscribe env mc q s))) = faults (log s)"
proof -
  have "faults (log (snd (subscribe_loop env topic q n r s))) = faults (log s)"
    for topic n r and s :: "('a, 'b) mqtt_state_scheme"
    by (rule subscribe_retry.loop_inv[where P = "\<lambda>t. faults (log t) = faults (log s)"]) simp_all
  then show "mc_sub_c2d mc \<noteq> None \<Longrightarrow> faults (log (snd (mqtt_subscribe env mc q s))) = faults (log s)"
    by (simp add: mqtt_subscribe_def case_prod_unfold Let_def faults_strlen)
qed

lemma faults_connect:
  "mc_client_id mc \<noteq> None \<Longrightarrow> faults (log (snd (mqtt_connect env nb mc s))) = faults (log s)"
proof -
  have "faults (log (snd (connect_loop env nb info n r s))) = faults (log s)"
    for info n r and s :: "('a, 'b) mqtt_state_scheme"
    by (rule connect_retry.loop_inv[where P = "\<lambda>t. faults (log t) = faults (log s)"]) simp_all
  then show "mc_client_id mc \<noteq> None \<Longrightarrow> faults (log (snd (mqtt_connect env nb mc s))) = faults (log s)"
    by (simp add: mqtt_connect_def case_prod_unfold Let_def faults_strlen)
qed

lemma faults_stages:
  "device_cert (mqtt_x509_config c) \<noteq> None \<Longrightarrow> device_key (mqtt_x509_config c) \<noteq> None \<Longrightarrow>
     faults (log (snd (prepare_credentials mc c ca n s))) = faults (log s)"
  "faults (log (snd (create_client env sec b s))) = faults (log s)"
  "faults (log (init_reset mc s)) = faults (log s)"
  by (simp_all add: prepare_credentials_def create_client_def init_reset_def case_prod_unfold Let_def faults_strlen)

lemma faults_client_init:
  assumes "iotcl_mc s = Some mc" and "mc_host mc \<noteq> None" and "mc_client_id mc \<noteq> None"
    and "mc_sub_c2d mc \<noteq> None" and "device_cert (mqtt_x509_config c) \<noteq> None"
    and "device_key (mqtt_x509_config c) \<noteq> None"
  shows "faults (log (snd (iotc_mqtt_client_init env nb c s))) = faults (log s)"
  using assms
  by (simp add: iotc_mqtt_client_init_def case_prod_unfold Let_def faults_strlen faults_stages
      faults_subscribe faults_connect split: option.split)

definition callback_in :: "inbound_cb option set \<Rightarrow> ('q, 'z) mqtt_state_scheme \<Rightarrow> bool" where
  "callback_in cbs s \<longleftrightarrow> mqtt_inbound_msg_cb s \<in> cbs"

lemma callback_in_stages:
  "callback_in cbs (snd (call env c s)) = callback_in cbs s"
  "callback_in cbs (snd (c_strlen p s)) = callback_in cbs s"
  "callback_in cbs (snd (prepare_credentials mc c' ca n s)) = callback_in cbs s"
  "callback_in cbs (snd (create_client env sec b s)) = callback_in cbs s"
  "callback_in cbs (snd (mqtt_connect env nb mc s)) = callback_in cbs s"
  "callback_in cbs (snd (mqtt_subscribe env mc q s)) = callback_in cbs s"
  "callback_in cbs (s\<lparr>is_mqtt_initialized := i\<rparr>) = callback_in cbs s"
  "callback_in cbs (s\<lparr>is_connected := i, client_status_cb := st, mqtt_inbound_msg_cb := cb\<rparr>) = (cb \<in> cbs)"
  "None \<in> cbs \<Longrightarrow> callback_in cbs (snd (iotc_cleanup_mqtt env s))"
  "None \<in> cbs \<Longrightarrow> callback_in cbs s \<Longrightarrow> callback_in cbs (init_reset mc s)"
  by (simp_all add: callback_in_def create_client_def case_prod_unfold Let_def init_reset_def cleanup_clears)

lemma init_callback:
  "None \<in> cbs \<Longrightarrow> mqtt_inbound_cb c \<in> cbs \<Longrightarrow> callback_in cbs s \<Longrightarrow>
   callback_in cbs (snd (iotc_mqtt_client_init env nb c s))"
  by (simp add: iotc_mqtt_client_init_def case_prod_unfold Let_def callback_in_stages split: option.split)

lemma preserves_more_outer:
  "preserves False items cap s t \<Longrightarrow> cb = None \<or> cb = Some On_mqtt_mq_message \<Longrightarrow>
   preserves False items cap s (t\<lparr>client_msg_cb := cb\<rparr>)"
  using mq_ok_more[of "t\<lparr>client_msg_cb := cb\<rparr>" t items cap] by (auto simp: preserves_def callbacks_ok_def)

lemma connect_preserves:
  assumes "mq_ok items cap s" and "callbacks_ok s" and "connectable s"
  shows "preserves False items cap s (snd (iotconnect_sdk_connect env nb s))"
proof -
  let ?c = "connect_config (config s)" let ?u = "snd (iotc_mqtt_client_init env nb ?c s)"
  obtain mc where mc: "iotcl_mc s = Some mc" "mc_host mc \<noteq> None" "mc_client_id mc \<noteq> None"
      "mc_sub_c2d mc \<noteq> None"
    and x: "device_cert (mqtt_x509_config ?c) \<noteq> None" "device_key (mqtt_x509_config ?c) \<noteq> None"
    using assms(3) by (auto simp: connectable_def connect_config_def split: option.splits)
  have "callbacks_ok ?u"
    using init_callback[of "{None, Some On_mqtt_c2d_message}" ?c s env nb] assms(2)
      outer_fields[OF outer_init, of env nb ?c s]
    by (auto simp: callbacks_ok_def callback_in_def connect_config_def)
  then have "preserves False items cap s ?u"
    using assms(1) outer_init[of env nb ?c s] faults_client_init[OF mc x, of env nb]
    by (intro preserves_outer) simp_all
  moreover have "preserves False items cap s s" using assms(1,2) by (simp add: preserves_def)
  ultimately show ?thesis
    by (simp add: iotconnect_sdk_connect_def case_prod_unfold Let_def iotc_mq_register_def
        preserves_more_outer)
qed

lemma send_preserves:
  assumes "mq_ok items cap s" and "callbacks_ok s"
  shows "preserves False items cap s (iotconnect_sdk_mqtt_send_cb env (Some tp) (Some js) s)"
proof -
  let ?t = "snd (iotc_mqtt_client_publish env (Some tp) (Some js) (h_qos (config s)) s)"
  have "faults (log ?t) = faults (log s)" "mqtt_inbound_msg_cb ?t = mqtt_inbound_msg_cb s"
    by (simp_all add: iotc_mqtt_client_publish_def case_prod_unfold Let_def faults_strlen)
  moreover have o: "outer ?t = outer s" by (rule outer_publish)
  ultimately show ?thesis
    using assms outer_fields[OF o] unfolding iotconnect_sdk_mqtt_send_cb_def
    by (intro preserves_outer) (simp_all add: callbacks_ok_def)
qed

section \<open>Sessions of the SDK\<close>

text \<open>
  The steps of a running SDK: the public functions and the events of the MQTT library, in any order.
  \<open>polls\<close> says whether the application polls at all.
\<close>

inductive sdk_step ::
    "sdk_env \<Rightarrow> bool \<Rightarrow> iotcl_lib \<Rightarrow> 'q rtos_queue_api \<Rightarrow> bool \<Rightarrow> 'q sdk_state \<Rightarrow> 'q sdk_state \<Rightarrow> bool"
  for env nb lib api polls where
  sdk_connects: "sdk_step env nb lib api polls s (snd (iotconnect_sdk_connect env nb s))"
| sdk_event_occurs: "mqtt_event_callback env (invoke_inbound env api) e s = Some t \<Longrightarrow> sdk_step env nb lib api polls s t"
| sdk_polls: "polls \<Longrightarrow> timeout_ms \<noteq> 0 \<Longrightarrow> iotconnect_sdk_poll_inbound_mq env nb lib api timeout_ms s = Some t \<Longrightarrow>
     sdk_step env nb lib api polls s t"
| sdk_sends: "sdk_step env nb lib api polls s (iotconnect_sdk_mqtt_send_cb env (Some tp) (Some js) s)"
| sdk_disconnects: "iotconnect_sdk_disconnect env api s = Some (r, t) \<Longrightarrow> sdk_step env nb lib api polls s t"

text \<open>
  The invariant: a live queue for \<open>n\<close> messages, the copies of the configuration in memory of their own, the
  memory \<open>h0\<close> from before untouched, and no fault since \<open>fs\<close>. Without polling, the memory of the SDK is
  exactly the queued messages and the copies.
\<close>

definition sdk_inv ::
    "bool \<Rightarrow> ('q \<Rightarrow> mq_msg list option) \<Rightarrow> ('q \<Rightarrow> nat) \<Rightarrow> nat \<Rightarrow> (addr \<rightharpoonup> string) \<Rightarrow> string list
       \<Rightarrow> 'q sdk_state \<Rightarrow> bool" where
  "sdk_inv polls items cap n h0 fs s \<longleftrightarrow>
     sdk_ok items cap s \<and> cap (cy_queue s) = n \<and> callbacks_ok s \<and> connectable s \<and> faults (log s) = fs
     \<and> (let own = mq_rest items s |` (- set (cfg_blocks (config s)))
        in if polls then h0 \<subseteq>\<^sub>m own else own = h0)"

lemma sdk_step_preserves:
  assumes "queue_laws api items cap" and "mq_ok items cap s" and "callbacks_ok s" and "connectable s"
    and "sdk_step env nb lib api polls s t"
  shows "preserves polls items cap s t"
  using assms(5)
proof cases
  case sdk_connects
  then show ?thesis using connect_preserves[OF assms(2-4)] preserves_polls by blast
next
  case (sdk_event_occurs e)
  then show ?thesis using event_preserves[OF assms(1-3), of env e] preserves_polls by auto
next
  case (sdk_polls timeout)
  then show ?thesis using poll_preserves[OF assms(1-3) sdk_polls(2,3)] by simp
next
  case (sdk_sends tp js)
  then show ?thesis using send_preserves[OF assms(2,3)] preserves_polls by blast
next
  case (sdk_disconnects r)
  then show ?thesis using disconnect_preserves[OF assms(1,2), of env] preserves_polls by auto
qed

lemma cfg_rest:
  "sdk_ok items cap s \<longleftrightarrow> mq_ok items cap s \<and> is_initialized s \<and> distinct (cfg_blocks (config s))
     \<and> (\<forall>a \<in> set (cfg_blocks (config s)). mq_rest items s a \<noteq> None)"
  by (auto simp: sdk_ok_def mq_rest_def restrict_map_def split: if_splits)

lemma map_le_restrict: "f \<subseteq>\<^sub>m g \<Longrightarrow> h \<subseteq>\<^sub>m f |` A \<Longrightarrow> h \<subseteq>\<^sub>m g |` A"
proof -
  assume f: "f \<subseteq>\<^sub>m g" and h: "h \<subseteq>\<^sub>m f |` A"
  have "h x = (g |` A) x" if "x \<in> dom h" for x
  proof -
    have x: "h x = (f |` A) x" using h that by (auto simp: map_le_def)
    then have "x \<in> dom f" "x \<in> A" using that by (auto simp: restrict_map_def dom_def split: if_splits)
    then show ?thesis using f x by (simp add: map_le_def)
  qed
  then show "h \<subseteq>\<^sub>m g |` A" by (auto simp: map_le_def)
qed

lemma sdk_inv_step:
  assumes "queue_laws api items cap" and "sdk_inv polls items cap n h0 fs s"
    and "sdk_step env nb lib api polls s t"
  shows "sdk_inv polls items cap n h0 fs t"
proof -
  have p: "preserves polls items cap s t"
    using sdk_step_preserves[OF assms(1) _ _ _ assms(3)] assms(2) by (simp add: sdk_inv_def sdk_ok_def)
  have c: "config t = config s" using p by (intro config_more) (simp add: preserves_def)
  have r: "mq_rest items t a \<noteq> None" if "mq_rest items s a \<noteq> None" for a
    using p that by (auto simp: preserves_def map_le_def dom_def split: if_splits)
  have "sdk_ok items cap t"
    using p assms(2) c r by (simp add: cfg_rest sdk_inv_def preserves_def)
  moreover have "connectable t = connectable s" using p c by (simp add: connectable_def preserves_def)
  moreover have "if polls then h0 \<subseteq>\<^sub>m mq_rest items t |` (- set (cfg_blocks (config t)))
      else mq_rest items t |` (- set (cfg_blocks (config t))) = h0"
    using p assms(2) c map_le_restrict[of "mq_rest items s" "mq_rest items t" h0 "- set (cfg_blocks (config s))"]
    by (cases polls) (simp_all add: preserves_def sdk_inv_def Let_def)
  ultimately show ?thesis
    using assms(2) p by (cases polls) (simp_all add: sdk_inv_def preserves_def Let_def)
qed

end
