(* ===== verification/SdkTheorems.thy ===== *)
theory SdkTheorems
  imports SdkSession
begin

text \<open>
  The properties of the SDK, \<open>source/iotconnect.c\<close>, that span its modules: what initialising leaves
  behind, sessions, the way of a message, and device qualification.
\<close>

section \<open>Initialising\<close>

text \<open>The state in which the identity protocol of \<open>iotconnect_sdk_init\<close> ends, and its status.\<close>

definition identified ::
    "sdk_env \<Rightarrow> iotcl_lib \<Rightarrow> 'q rtos_queue_api \<Rightarrow> IotConnectClientConfig \<Rightarrow> 'q sdk_state \<Rightarrow> c_int \<times> 'q sdk_state" where
  "identified env lib api c s =
     run_http_identity env lib (c_connection_type c) (the (c_duid c)) (the (c_cpid c)) (the (c_env c))
       (snd (call env (Iotcl_init (c_verbose c) (client_config lib c (the (c_cpid c)) (the (c_duid c))))
         (held_state env api c s)))"

lemma init_cases:
  assumes "heap_ok s" and "fst (cy_rtos_init_queue api (c_mq_max_messages c) (cy_queue s)) = CY_RSLT_SUCCESS"
  shows "iotconnect_sdk_init env lib api c s =
    (if \<not> config_valid c then fail_deinit env api (env_code env IOTCL_ERR_MISSING_VALUE) (held_state env api c s)
     else if c_mq_max_messages c = 0 then Some (env_code env IOTCL_ERR_CONFIG_ERROR, held_state env api c s)
     else if fst (identified env lib api c s) \<noteq> IOTCL_SUCCESS
     then fail_deinit env api (fst (identified env lib api c s)) (snd (identified env lib api c s))
     else Some (0, snd (identified env lib api c s)))"
proof -
  have "fst (iotc_mq_init api (c_mq_max_messages c) (hold_config env c s)) = CY_RSLT_SUCCESS"
    using assms hold_cy_queue[OF assms(1), of env c] by (simp add: iotc_mq_init_def case_prod_unfold Let_def)
  then show ?thesis
    unfolding iotconnect_sdk_init_def case_prod_unfold Let_def held_state_def[symmetric] identified_def
    by (auto simp: config_valid_def split: option.split)
qed

lemma identified_keeps:
  fixes lib :: iotcl_lib
  assumes "codes_ok env" and "sdk_ok items cap (held_state env api c s)"
  defines "u \<equiv> snd (identified env lib api c s)"
  shows "sdk_ok items cap u" "mq_blocks items u = mq_blocks items (held_state env api c s)"
    "queued items u = queued items (held_state env api c s)"
    "cy_queue u = cy_queue (held_state env api c s)" "config u = config (held_state env api c s)"
    "heap u = heap (held_state env api c s)" "faults (log u) = faults (log (held_state env api c s))"
    "is_connected u = is_connected (held_state env api c s)"
    "client_msg_cb u = client_msg_cb (held_state env api c s)"
    "mqtt_inbound_msg_cb u = mqtt_inbound_msg_cb (held_state env api c s)"
proof -
  let ?v = "snd (call env (Iotcl_init (c_verbose c) (client_config lib c (the (c_cpid c)) (the (c_duid c))))
      (held_state env api c s))"
  have v: "sdk_ok items cap ?v" using assms(2) by simp
  have g: "config ?v = config (held_state env api c s)" by (rule config_more) simp
  have q: "mq_blocks items ?v = mq_blocks items (held_state env api c s)"
    "queued items ?v = queued items (held_state env api c s)"
    by (simp_all add: mq_blocks_def queued_def)
  note k = identity_keeps[OF assms(1) v, of lib "c_connection_type c" "the (c_duid c)" "the (c_cpid c)"
      "the (c_env c)", folded identified_def, folded u_def]
  show "sdk_ok items cap u" "mq_blocks items u = mq_blocks items (held_state env api c s)"
    "queued items u = queued items (held_state env api c s)"
    "cy_queue u = cy_queue (held_state env api c s)" "config u = config (held_state env api c s)"
    "heap u = heap (held_state env api c s)" "faults (log u) = faults (log (held_state env api c s))"
    "is_connected u = is_connected (held_state env api c s)"
    "client_msg_cb u = client_msg_cb (held_state env api c s)"
    "mqtt_inbound_msg_cb u = mqtt_inbound_msg_cb (held_state env api c s)"
    using k g q by (simp_all add: queued_def)
qed

text \<open>What the outcome of \<open>iotconnect_sdk_init\<close> is, for every status.\<close>

definition init_result ::
    "('q \<Rightarrow> mq_msg list option) \<Rightarrow> ('q \<Rightarrow> nat) \<Rightarrow> IotConnectClientConfig \<Rightarrow> 'q sdk_state \<Rightarrow> c_int
       \<Rightarrow> 'q sdk_state \<Rightarrow> bool" where
  "init_result items cap c s st t \<longleftrightarrow>
     (if st = IOTCL_SUCCESS then
        sdk_ok items cap t \<and> queued items t = [] \<and> cap (cy_queue t) = c_mq_max_messages c
        \<and> config_valid c \<and> config_copied c t \<and> iotcl_mc t \<noteq> None
        \<and> heap t |` (- set (cfg_blocks (config t))) = heap s
        \<and> client_msg_cb t = client_msg_cb s \<and> mqtt_inbound_msg_cb t = mqtt_inbound_msg_cb s
      else
        heap t = heap s \<and> items (cy_queue t) = None \<and> \<not> is_initialized t
        \<and> config t = zero_config \<and> iotcl_mc t = None)"




lemma config_copied_cong:
  "config t = config s \<Longrightarrow> heap t = heap s \<Longrightarrow> config_copied c t = config_copied c s"
  by (simp only: config_copied_def)

lemma init_outcome_all:
  assumes "queue_laws api items cap" and "codes_ok env" and "heap_ok s" and "\<not> is_connected s"
    and "fst (cy_rtos_init_queue api (c_mq_max_messages c) (cy_queue s)) = CY_RSLT_SUCCESS"
    and "0 < c_mq_max_messages c"
  shows "\<exists>st t. iotconnect_sdk_init env lib api c s = Some (st, t)
    \<and> faults (log t) = faults (log s) \<and> init_result items cap c s st t"
proof -
  let ?h = "held_state env api c s" let ?u = "snd (identified env lib api c s)"
  note h = hold_config_effect[OF assms(3), of env c]
  note ok = held_state_ok[OF assms(1,3,5), of env]
  note k = identified_keeps[OF assms(2) ok(1), of lib]
  note f = held_state_fields[where env = env and api = api and c = c and s = s]
  have conn: "\<not> is_connected ?h" "\<not> is_connected ?u" using assms(4) h f k by simp_all
  have rest: "heap ?h |` (- set (cfg_blocks (config ?h))) = heap s" using h f by simp
  then have rest': "heap ?u |` (- set (cfg_blocks (config ?u))) = heap s" using k by simp
  have fl: "faults (log ?h) = faults (log s)" "faults (log ?u) = faults (log s)" using h f k by simp_all
  have fail: "\<exists>st t. fail_deinit env api e v = Some (st, t) \<and> faults (log t) = faults (log s)
      \<and> init_result items cap c s st t"
    if "e \<noteq> IOTCL_SUCCESS" and "v = ?h \<or> v = ?u" for e v
  proof -
    have v: "sdk_ok items cap v" "mq_blocks items v = []" "\<not> is_connected v"
        "heap v |` (- set (cfg_blocks (config v))) = heap s" "faults (log v) = faults (log s)"
      using that(2) ok k conn rest rest' fl by auto
    from fail_deinit_held[OF assms(1) v(1-4), of env e] v(5) that(1) show ?thesis
      by (auto simp: init_result_def)
  qed
  show ?thesis
  proof (cases "config_valid c \<and> fst (identified env lib api c s) = IOTCL_SUCCESS")
    case True
    have "iotcl_mc ?u \<noteq> None"
      using True identity_mc[of env lib _ _ _ _ "snd (call env (Iotcl_init (c_verbose c)
          (client_config lib c (the (c_cpid c)) (the (c_duid c)))) ?h)"]
      by (simp add: identified_def)
    moreover have "config_copied c ?u"
      using h f(9)[of c] config_copied_cong[OF k(5,6)] by simp
    moreover have "queued items ?u = []" using k ok(2) by (simp add: mq_contents_def)
    ultimately have "init_result items cap c s 0 ?u"
      using True k ok h f rest' by (simp add: init_result_def)
    then show ?thesis
      using True assms(6) fl by (simp add: init_cases[OF assms(3,5)])
  next
    case False
    then show ?thesis
      using fail[of "env_code env IOTCL_ERR_MISSING_VALUE" ?h] fail[of "fst (identified env lib api c s)" ?u]
        assms(2,6) by (auto simp: init_cases[OF assms(3,5)] codes_ok_def)
  qed
qed

lemma init_queue_refused:
  assumes "heap_ok s" and "fst (cy_rtos_init_queue api (c_mq_max_messages c) (cy_queue s)) \<noteq> CY_RSLT_SUCCESS"
  shows "iotconnect_sdk_init env lib api c s =
    Some (fst (cy_rtos_init_queue api (c_mq_max_messages c) (cy_queue s)), held_state env api c s)"
proof -
  have "fst (iotc_mq_init api (c_mq_max_messages c) (hold_config env c s))
      = fst (cy_rtos_init_queue api (c_mq_max_messages c) (cy_queue s))"
    using hold_cy_queue[OF assms(1), of env c] by (simp add: iotc_mq_init_def case_prod_unfold Let_def)
  then show ?thesis using assms(2) by (auto simp: iotconnect_sdk_init_def case_prod_unfold Let_def held_state_def)
qed



section \<open>When the identity protocol succeeds\<close>

text \<open>An environment in which nothing goes wrong, whose server answers with JSON.\<close>

definition good_env :: "sdk_env \<Rightarrow> bool" where
  "good_env env \<longleftrightarrow>
     (\<forall>l c. env_ret env l c = CY_RSLT_SUCCESS) \<and> (\<forall>l n. env_alloc env l n)
     \<and> (\<forall>l. CHR ''{'' \<in> set (c_string (env_http_body env l)))"

lemma good_call: "good_env env \<Longrightarrow> fst (call env c s) = CY_RSLT_SUCCESS"
  by (simp add: good_env_def call_def Let_def)

lemma good_connect: "good_env env \<Longrightarrow> 0 < n \<Longrightarrow> fst (http_connect_loop env n r s) = CY_RSLT_SUCCESS"
  by (cases n) (simp_all add: case_prod_unfold good_call)

text \<open>A response that passes the check.\<close>

definition good_response :: "addr option \<Rightarrow> 'z sdk_base_scheme \<Rightarrow> bool" where
  "good_response d t \<longleftrightarrow> (\<exists>a bs. d = Some a \<and> heap t a = Some bs \<and> CHR ''{'' \<in> set (c_string bs))"

lemma good_alloc:
  "good_env env \<Longrightarrow>
   good_response (fst (alloc env (env_http_body env l @ [CHR 0x00]) s)) (snd (alloc env (env_http_body env l @ [CHR 0x00]) s))"
  by (simp add: alloc_def Let_def good_env_def good_response_def c_string_snoc)

lemma good_response_cleanup: "good_response d (snd (http_cleanup_disconnect env t)) = good_response d t"
  by (simp add: good_response_def)

lemma good_exchange:
  "good_env env \<Longrightarrow> good_response (fst (http_exchange env path b s)) (snd (http_exchange env path b s))"
  by (simp add: http_exchange_def case_prod_unfold Let_def good_call good_alloc)

lemma good_get:
  assumes "good_env env"
  shows "good_response (fst (snd (http_get env lib s))) (snd (snd (http_get env lib s)))"
proof -
  have "good_response (fst (snd (http_connected_request env path b s))) (snd (snd (http_connected_request env path b s)))"
    for path b and s :: "'a sdk_base_scheme"
    using good_exchange[OF assms]
    by (simp add: http_connected_request_def case_prod_unfold Let_def good_connect[OF assms]
        IOTC_HTTP_CONNECT_MAX_RETRIES_def good_response_cleanup)
  then show ?thesis
    by (simp add: http_get_def iotconnect_https_request_def case_prod_unfold Let_def good_call[OF assms])
qed

lemma good_validate:
  "good_response d t \<Longrightarrow> fst (validate_response env d t) = IOTCL_SUCCESS"
  by (auto simp: good_response_def validate_response_def read_block_def)

lemma good_configure:
  assumes "good_env env" and "good_response d t"
  shows "fst (configure_identity env lib ct d t) = IOTCL_SUCCESS"
  by (simp add: configure_identity_def case_prod_unfold Let_def good_validate[OF assms(2)] good_call[OF assms(1)])

lemma identity_succeeds:
  assumes "good_env env" and "ct \<noteq> IOTC_CT_UNDEFINED"
  shows "fst (run_http_identity env lib ct duid cpid en s) = IOTCL_SUCCESS"
proof -
  have u: "fst (discovery_url env ct cpid en s) = IOTCL_SUCCESS"
    using assms by (cases ct) (simp_all add: discovery_url_def good_call)
  have i: "fst (identity_request env lib ct duid d t) = IOTCL_SUCCESS" for d and t :: "('a, 'b) mqtt_state_scheme"
    by (simp add: identity_request_def case_prod_unfold Let_def good_call[OF assms(1)]
        good_configure[OF assms(1) good_get[OF assms(1)]])
  show ?thesis
    by (simp add: run_http_identity_def discovery_response_def case_prod_unfold Let_def u i
        good_validate[OF good_get[OF assms(1)]] good_call[OF assms(1)])
qed

section \<open>The running SDK as a transition system\<close>

lemma init_establishes:
  assumes "init_result items cap c s0 IOTCL_SUCCESS s" and "callbacks_ok s0" and "connectable s"
  shows "sdk_inv polls items cap (c_mq_max_messages c) (heap s0) (faults (log s)) s"
proof -
  have "mq_rest items s = heap s" using assms(1) by (simp add: init_result_def mq_rest_def mq_blocks_def restrict_map_def)
  then show ?thesis
    using assms by (simp add: init_result_def sdk_inv_def callbacks_ok_def Let_def)
qed

interpretation sdk_system: transition_system
  "\<lambda>s. queue_laws api items cap \<and> sdk_inv polls items cap n h0 fs s"
  "sdk_step env nb lib api polls" "\<lambda>s. queue_laws api items cap \<longrightarrow> sdk_inv polls items cap n h0 fs s"
  for env nb lib api polls items cap n h0 fs
  by unfold_locales (blast, blast intro: sdk_inv_step)

text \<open>Everything between a successful \<open>iotconnect_sdk_init\<close> and \<open>iotconnect_sdk_deinit\<close>.\<close>

lemma session_inv:
  assumes "queue_laws api items cap" and "init_result items cap c s0 IOTCL_SUCCESS s"
    and "callbacks_ok s0" and "connectable s" and "(sdk_step env nb lib api polls)\<^sup>*\<^sup>* s t"
  shows "sdk_inv polls items cap (c_mq_max_messages c) (heap s0) (faults (log s)) t"
  using sdk_system.inv_reachable[of api items cap polls "c_mq_max_messages c" "heap s0" "faults (log s)" s env nb lib t]
    init_establishes[OF assms(2-4), of polls] assms(1,5) by blast

lemma session_closed:
  assumes "queue_laws api items cap" and "sdk_inv polls items cap n h0 fs t"
  shows "\<exists>u. iotconnect_sdk_deinit env api t = Some u \<and> faults (log u) = fs
    \<and> (if polls then h0 \<subseteq>\<^sub>m heap u else heap u = h0)
    \<and> items (cy_queue u) = None \<and> config u = zero_config \<and> \<not> is_connected u"
proof -
  have t: "sdk_ok items cap t" "faults (log t) = fs" using assms(2) by (simp_all add: sdk_inv_def)
  obtain u where u: "iotconnect_sdk_deinit env api t = Some u"
      "heap u = heap t |` (- (set (mq_blocks items t) \<union> set (cfg_blocks (config t))))"
      "faults (log u) = faults (log t)" "items (cy_queue u) = None" "config u = zero_config" "\<not> is_connected u"
    using sdk_deinit_effect[OF assms(1) t(1), of env] by auto
  have "heap u = mq_rest items t |` (- set (cfg_blocks (config t)))"
    using u(2) by (auto simp: mq_rest_def restrict_map_def fun_eq_iff)
  then show ?thesis using u t assms(2) by (simp add: sdk_inv_def Let_def)
qed

section \<open>A concrete SDK\<close>

definition sdk_example_env :: sdk_env where
  "sdk_example_env =
     \<lparr>env_code = \<lambda>_. 5, env_ret = \<lambda>_ _. 0, env_alloc = \<lambda>_ _. True, env_mqtt_handle = \<lambda>_. Some 1, env_rand = \<lambda>_. 0,
      env_http_body = \<lambda>_. ''{}''\<rparr>"

definition sdk_example_lib :: iotcl_lib where
  "sdk_example_lib =
     \<lparr>lib_url_hostname = \<lambda>_. ''host'', lib_url_resource = \<lambda>_. ''/'',
      lib_identity_mqtt = \<lambda>_. \<lparr>mc_host = Some ''broker'', mc_client_id = Some ''id'', mc_username = Some ''user'',
        mc_sub_c2d = Some ''c2d'', mc_pub_rpt = Some ''rpt'', mc_pub_ack = Some ''ack''\<rparr>,
      lib_telemetry = \<lambda>_. Some (''rpt'', ''{}''),
      lib_c2d_calls = (\<lambda>m. if m = ''command'' then [Call_command On_command_intercept (Some ''reboot''), Call_send ''ack'' ''{}'']
        else if m = ''qualify'' then [Call_command On_command_intercept (Some ''aws-qualification-start host'')]
        else []), lib_ticks = \<lambda>_. 0, lib_tick_period_ms = 1,
      IOTC_AWS_DEVICE_QUALIFICATION = True\<rparr>"

definition sdk_example_config :: IotConnectClientConfig where
  "sdk_example_config =
     iotconnect_sdk_init_config\<lparr>c_env := Some ''poc'', c_cpid := Some ''cpid'', c_duid := Some ''duid'',
       c_connection_type := IOTC_CT_AWS,
       c_x509_config := \<lparr>server_ca_cert = None, device_cert = Some ''cert'', device_key = Some ''key'',
         device_key_size = 0\<rparr>\<rparr>"

definition sdk_example :: "(nat \<times> mq_msg list) option sdk_state" where
  "sdk_example =
     \<lparr>log = [], heap = Map.empty, next_addr = 1, cy_queue = None, is_initialized = False,
      client_msg_cb = None, mqtt_connection = None, is_connected = False,
      is_disconnect_requested = False, is_mqtt_initialized = False, mqtt_inbound_msg_cb = None,
      client_status_cb = None, iotcl_mc = None, config = zero_config\<rparr>"

lemma sdk_example_facts:
  "codes_ok sdk_example_env" "good_env sdk_example_env" "heap_ok sdk_example" "\<not> is_connected sdk_example"
  "fst (cy_rtos_init_queue list_queue (c_mq_max_messages sdk_example_config) (cy_queue sdk_example)) = CY_RSLT_SUCCESS"
  "0 < c_mq_max_messages sdk_example_config" "config_valid sdk_example_config" "callbacks_ok sdk_example"
  "c_mq_max_messages sdk_example_config = 4" "log sdk_example = []" "heap sdk_example = Map.empty"
  "handles_ok sdk_example_env" "env_alloc sdk_example_env = (\<lambda>_ _. True)"
  by (simp_all add: codes_ok_def sdk_example_env_def good_env_def c_string_def heap_ok_def sdk_example_def
      list_queue_def sdk_example_config_def iotconnect_sdk_init_config_def config_valid_def callbacks_ok_def
      handles_ok_def)

text \<open>Initialising succeeds, and the result is ready to connect.\<close>

lemma sdk_example_init:
  obtains s where "iotconnect_sdk_init sdk_example_env sdk_example_lib list_queue sdk_example_config sdk_example = Some (0, s)"
    "init_result list_items list_cap sdk_example_config sdk_example IOTCL_SUCCESS s"
    "faults (log s) = []" "s = snd (identified sdk_example_env sdk_example_lib list_queue sdk_example_config sdk_example)"
proof -
  note f = sdk_example_facts
  let ?u = "identified sdk_example_env sdk_example_lib list_queue sdk_example_config sdk_example"
  have "fst ?u = IOTCL_SUCCESS"
    unfolding identified_def by (rule identity_succeeds[OF f(2)]) (simp add: sdk_example_config_def)
  then have i: "iotconnect_sdk_init sdk_example_env sdk_example_lib list_queue sdk_example_config sdk_example
      = Some (0, snd ?u)"
    using f by (simp add: init_cases[OF f(3,5)])
  obtain st t where o: "iotconnect_sdk_init sdk_example_env sdk_example_lib list_queue sdk_example_config sdk_example
      = Some (st, t)" "faults (log t) = faults (log sdk_example)"
      "init_result list_items list_cap sdk_example_config sdk_example st t"
    using init_outcome_all[OF list_queue_laws f(1,3,4,5,6), of sdk_example_lib] by blast
  show ?thesis using that[of "snd ?u"] i o f(10) by simp
qed

lemma sdk_example_connectable:
  "connectable (snd (identified sdk_example_env sdk_example_lib list_queue sdk_example_config sdk_example))"
proof -
  note f = sdk_example_facts
  let ?h = "held_state sdk_example_env list_queue sdk_example_config sdk_example"
  let ?u = "identified sdk_example_env sdk_example_lib list_queue sdk_example_config sdk_example"
  have s: "fst ?u = IOTCL_SUCCESS"
    unfolding identified_def by (rule identity_succeeds[OF f(2)]) (simp add: sdk_example_config_def)
  have "mqtt_configured sdk_example_lib IOTC_CT_AWS (snd ?u)"
    using identity_configured[OF s[unfolded identified_def]]
    by (simp add: identified_def sdk_example_config_def)
  moreover have "config (snd ?u) = config ?h"
    by (rule identified_keeps(5)[OF f(1) held_state_ok(1)[OF list_queue_laws f(3,5)]])
  moreover have "h_x509_config (config ?h) = c_x509_config sdk_example_config"
    using hold_config_effect[OF f(3), of sdk_example_env sdk_example_config] by (simp add: held_state_fields)
  ultimately show ?thesis
    by (auto simp: connectable_def mqtt_configured_def identity_mqtt_def sdk_example_lib_def sdk_example_config_def)
qed

section \<open>The SDK as a bounded buffer\<close>

text \<open>
  What the SDK promises about inbound messages: a buffer of payloads for \<open>n\<close> messages, and the
  list of what becomes of those that are polled: each is handed to iotc-c-lib, which answers it with calls of
  the application (\<open>respond\<close>). The program, below, is the event callback, the queue, the poll, the library's
  calls and the interceptor.
\<close>

datatype inbound_op = Receive received_msg | Poll nat

fun buffer_step ::
    "nat \<Rightarrow> (string \<Rightarrow> 'e list) \<Rightarrow> inbound_op \<Rightarrow> string list \<times> 'e list \<Rightarrow> string list \<times> 'e list" where
  "buffer_step n respond (Receive r) (q, out) = (if length q < n then q @ [r_payload r] else q, out)"
| "buffer_step n respond (Poll ms) (q, out) = ([], out @ concat (map respond q))"

fun sdk_run ::
    "sdk_env \<Rightarrow> bool \<Rightarrow> iotcl_lib \<Rightarrow> 'q rtos_queue_api \<Rightarrow> inbound_op list \<Rightarrow> 'q sdk_state
       \<Rightarrow> 'q sdk_state option" where
  "sdk_run env nb lib api [] s = Some s"
| "sdk_run env nb lib api (Receive r # ops) s =
     Option.bind (mqtt_event_callback env (invoke_inbound env api) (received r) s) (sdk_run env nb lib api ops)"
| "sdk_run env nb lib api (Poll ms # ops) s =
     Option.bind (iotconnect_sdk_poll_inbound_mq env nb lib api ms s) (sdk_run env nb lib api ops)"

definition buffer_of ::
    "('q \<Rightarrow> mq_msg list option) \<Rightarrow> ('q, 'z) mqtt_state_scheme \<Rightarrow> string list \<times> c2d_effect list" where
  "buffer_of items s = (map snd (mq_contents items s), c2d_events (log s))"

text \<open>Connected, both callbacks in place, no disconnect under way.\<close>

definition listening ::
    "('q \<Rightarrow> mq_msg list option) \<Rightarrow> ('q \<Rightarrow> nat) \<Rightarrow> nat \<Rightarrow> ('q, 'z) mqtt_state_scheme \<Rightarrow> bool" where
  "listening items cap n s \<longleftrightarrow>
     mq_ok items cap s \<and> cap (cy_queue s) = n \<and> mqtt_inbound_msg_cb s = Some On_mqtt_c2d_message
     \<and> client_msg_cb s = Some On_mqtt_mq_message \<and> \<not> is_disconnect_requested s"

fun op_ok :: "iotcl_lib \<Rightarrow> inbound_op \<Rightarrow> bool" where
  "op_ok lib (Receive r) = (r_payload r \<noteq> [] \<and> \<not> qualifies lib (r_payload r))"
| "op_ok lib (Poll ms) = (ms \<noteq> 0)"

lemma receive_refines:
  assumes "queue_laws api items cap" and "listening items cap n s" and "env_alloc env = (\<lambda>_ _. True)"
    and "r_payload r \<noteq> []"
  shows "\<exists>t. mqtt_event_callback env (invoke_inbound env api) (received r) s = Some t \<and> listening items cap n t
    \<and> mqtt_state.more t = mqtt_state.more s
    \<and> buffer_of items t = buffer_step n respond (Receive r) (buffer_of items s)"
proof -
  have l: "mq_ok items cap s" "mqtt_inbound_msg_cb s = Some On_mqtt_c2d_message" "\<not> is_disconnect_requested s"
    "cap (cy_queue s) = n" "client_msg_cb s = Some On_mqtt_mq_message"
    using assms(2) by (simp_all add: listening_def)
  obtain a u where a: "alloc env (r_topic r @ [CHR 0x00]) s = (Some a, u)"
    using assms(3) by (simp add: alloc_def Let_def)
  note e = event_accepted[OF assms(1) l(1-3) a]
  note u = mq_ok_alloc[OF l(1) a]
  have uc: "client_msg_cb u \<noteq> None"
    using more_mq(3)[OF more_alloc, of env "r_topic r @ [CHR 0x00]" s] a l(5) by simp
  let ?v = "on_mqtt_c2d_message env api (c_string (r_topic r @ r_topic_tail r)) (r_payload r) u"
  have "mq_contents items ?v = (if length (mq_contents items u) < cap (cy_queue u)
      then mq_contents items u @ [(c_string (c_string (r_topic r @ r_topic_tail r)), r_payload r)]
      else mq_contents items u)"
    unfolding on_mqtt_c2d_message_def
    by (rule inbound_accepts[OF assms(1) u(1) uc assms(4,3) refl])
  then have c: "map snd (mq_contents items ?v) = fst (buffer_step n respond (Receive r) (buffer_of items s))"
    using u l(4) by (simp add: buffer_of_def)
  let ?t = "(c_free a ?v)\<lparr>is_disconnect_requested := False\<rparr>"
  have "buffer_of items ?t = buffer_step n respond (Receive r) (buffer_of items s)"
    using e(3,13) c by (simp add: buffer_of_def)
  moreover have "listening items cap n ?t"
    using e l by (simp add: listening_def)
  ultimately show ?thesis using e(1,12) by blast
qed

text \<open>A poll blocks for ever exactly when a queued message makes the library start the qualification.\<close>

lemma poll_refines:
  fixes s :: "'q sdk_state"
  assumes "queue_laws api items cap" and "listening items cap n s" and "ms \<noteq> 0"
  shows "if \<exists>p \<in> set (fst (buffer_of items s)). qualifies lib p
      then iotconnect_sdk_poll_inbound_mq env nb lib api ms s = None
      else \<exists>t. iotconnect_sdk_poll_inbound_mq env nb lib api ms s = Some t \<and> listening items cap n t
        \<and> config t = config s \<and> faults (log t) = faults (log s)
        \<and> (\<forall>a. heap s a \<noteq> None \<longrightarrow> heap t a = heap s a)
        \<and> buffer_of items t = buffer_step n (c2d_response lib (config s)) (Poll ms) (buffer_of items s)"
proof -
  have l: "mq_ok items cap s" "client_msg_cb s = Some On_mqtt_mq_message"
    using assms(2) by (simp_all add: listening_def)
  note o = c2d_sink.process_outcome[OF assms(1) l(1) assms(3) l(2), of lib env nb api]
  have b: "(\<exists>p \<in> set (fst (buffer_of items s)). qualifies lib p) \<longleftrightarrow> (\<exists>x \<in> set (mq_contents items s). qualifies lib (snd x))"
    by (auto simp: buffer_of_def)
  have r: "listening items cap n t \<and> config t = config s
      \<and> buffer_of items t = buffer_step n (c2d_response lib (config s)) (Poll ms) (buffer_of items s)"
    if "c2d_sink.served lib items cap s t" for t
  proof -
    have t: "mq_state.more t = mq_state.more s" using that by (simp add: c2d_sink.served_def)
    have "mq_contents items t = []" using that by (simp add: c2d_sink.served_def mq_contents_def queued_def)
    moreover have "config t = config s" by (rule config_more[OF more_mqtt(8)[OF t]])
    ultimately show ?thesis
      using that assms(2) more_mqtt[OF t]
      by (simp add: listening_def buffer_of_def c2d_sink.served_def comp_def)
  qed
  show ?thesis
  proof (cases "\<exists>x \<in> set (mq_contents items s). qualifies lib (snd x)")
    case True
    then show ?thesis using o by (simp only: b iotconnect_sdk_poll_inbound_mq_def if_True)
  next
    case False
    then obtain t where t: "iotc_mq_process api (invoke_sdk env nb lib api) ms s = Some t"
        "c2d_sink.served lib items cap s t"
      using o by (simp only: if_False) blast
    have "faults (log t) = faults (log s) \<and> (\<forall>a. heap s a \<noteq> None \<longrightarrow> heap t a = heap s a)"
      using t(2) unfolding c2d_sink.served_def by blast
    with r[OF t(2)] t(1) False show ?thesis
      by (simp only: b iotconnect_sdk_poll_inbound_mq_def if_False) blast
  qed
qed

text \<open>One operation, then any number.\<close>

lemma op_refines:
  fixes s :: "'q sdk_state"
  assumes "queue_laws api items cap" and "env_alloc env = (\<lambda>_ _. True)" and "listening items cap n s"
    and "op_ok lib op" and "\<forall>p \<in> set (fst (buffer_of items s)). \<not> qualifies lib p"
  shows "\<exists>u. sdk_run env nb lib api (op # ops) s = sdk_run env nb lib api ops u \<and> listening items cap n u
    \<and> config u = config s \<and> (\<forall>p \<in> set (fst (buffer_of items u)). \<not> qualifies lib p)
    \<and> buffer_of items u = buffer_step n (c2d_response lib (config s)) op (buffer_of items s)"
proof (cases op)
  case (Receive r)
  obtain u where u: "mqtt_event_callback env (invoke_inbound env api) (received r) s = Some u"
      "listening items cap n u" "mqtt_state.more u = mqtt_state.more s"
      "buffer_of items u = buffer_step n (c2d_response lib (config s)) (Receive r) (buffer_of items s)"
    using receive_refines[OF assms(1,3,2), of r] assms(4) Receive by auto
  have "\<forall>p \<in> set (fst (buffer_of items u)). \<not> qualifies lib p"
    using u(4) assms(4,5) Receive by (cases "buffer_of items s") auto
  then show ?thesis using u config_more[OF u(3)] Receive by (intro exI[of _ u]) simp
next
  case (Poll ms)
  then have "ms \<noteq> 0" using assms(4) by simp
  from poll_refines[OF assms(1,3) this, of lib env nb] assms(5) Poll show ?thesis
    by (cases "buffer_of items s") auto
qed

lemma run_refines:
  fixes s :: "'q sdk_state"
  assumes "queue_laws api items cap" and "env_alloc env = (\<lambda>_ _. True)"
  shows "listening items cap n s \<Longrightarrow> \<forall>op \<in> set ops. op_ok lib op \<Longrightarrow>
    \<forall>p \<in> set (fst (buffer_of items s)). \<not> qualifies lib p \<Longrightarrow>
    \<exists>t. sdk_run env nb lib api ops s = Some t \<and> listening items cap n t
      \<and> buffer_of items t = fold (buffer_step n (c2d_response lib (config s))) ops (buffer_of items s)"
proof (induction ops arbitrary: s)
  case (Cons op ops)
  have "op_ok lib op" "\<forall>op \<in> set ops. op_ok lib op" using Cons.prems(2) by simp_all
  note o = op_refines[OF assms Cons.prems(1) this(1) Cons.prems(3), of nb ops]
  then obtain u where u: "sdk_run env nb lib api (op # ops) s = sdk_run env nb lib api ops u"
      "listening items cap n u" "config u = config s" "\<forall>p \<in> set (fst (buffer_of items u)). \<not> qualifies lib p"
      "buffer_of items u = buffer_step n (c2d_response lib (config s)) op (buffer_of items s)"
    by blast
  from Cons.IH[OF u(2) \<open>\<forall>op \<in> set ops. op_ok lib op\<close> u(4)] show ?case by (simp add: u)
qed simp

definition sdk_example_listener :: "(nat \<times> mq_msg list) option sdk_state" where
  "sdk_example_listener =
     sdk_example\<lparr>cy_queue := Some (2, []), is_initialized := True, client_msg_cb := Some On_mqtt_mq_message,
       mqtt_inbound_msg_cb := Some On_mqtt_c2d_message, config := zero_config\<lparr>h_cmd_cb := Some 9\<rparr>\<rparr>"

definition sdk_example_message :: "string \<Rightarrow> inbound_op" where
  "sdk_example_message payload = Receive \<lparr>r_topic = ''t'', r_topic_tail = [], r_payload = payload\<rparr>"

lemma sdk_example_listening:
  "listening list_items list_cap 2 sdk_example_listener"
  "buffer_of list_items sdk_example_listener = ([], [])"
  "h_cmd_cb (config sdk_example_listener) = Some 9"
  by (simp_all add: sdk_example_listener_def listening_def sdk_example_def mq_ok_def heap_ok_def queued_def
      mq_blocks_def list_items_def list_cap_def buffer_of_def mq_contents_def c2d_events_def)

lemma sdk_example_c2d:
  "qualifies sdk_example_lib ''qualify''" "\<not> qualifies sdk_example_lib ''command''"
  "\<not> qualifies sdk_example_lib ''text''"
  "h_cmd_cb h = Some 9 \<Longrightarrow>
     c2d_response sdk_example_lib h ''command'' = [Processed ''command'', App_command 9 (Some ''reboot'')]"
  "c2d_response sdk_example_lib h ''text'' = [Processed ''text'']"
  by (simp_all add: qualifies_def qualification_call_def sdk_example_lib_def c_string_def c2d_response_def
      QUALIFICATION_START_PREFIX_CMD_def opt_list_def)

section \<open>Properties\<close>



text \<open>
  The two early errors of \<open>iotconnect_sdk_init\<close>, a queue that cannot be created and a queue size of
  0, return without \<open>iotconnect_sdk_deinit\<close>, which every other error path calls: the copies of the three
  strings stay allocated, and the next call overwrites the only pointers to them.
\<close>

theorem sdk_early_errors_leak:
  assumes "heap_ok s" and "codes_ok env" and "env_alloc env = (\<lambda>_ _. True)" and "config_valid c"
    and "fst (cy_rtos_init_queue api (c_mq_max_messages c) (cy_queue s)) \<noteq> CY_RSLT_SUCCESS
      \<or> c_mq_max_messages c = 0"
  shows "\<exists>st t. iotconnect_sdk_init env lib api c s = Some (st, t) \<and> st \<noteq> IOTCL_SUCCESS
    \<and> length (cfg_blocks (config t)) = 3 \<and> distinct (cfg_blocks (config t))
    \<and> (\<forall>a \<in> set (cfg_blocks (config t)). heap s a = None \<and> heap t a \<noteq> None)"
proof -
  let ?h = "held_state env api c s"
  obtain st where i: "iotconnect_sdk_init env lib api c s = Some (st, ?h)" "st \<noteq> IOTCL_SUCCESS"
  proof (cases "fst (cy_rtos_init_queue api (c_mq_max_messages c) (cy_queue s)) = CY_RSLT_SUCCESS")
    case True
    then show ?thesis using that init_cases[OF assms(1) True] assms(2,4,5) by (auto simp: codes_ok_def)
  next
    case False
    then show ?thesis using that init_queue_refused[OF assms(1) False, of env lib] by simp
  qed
  have "length (cfg_blocks (config ?h)) = 3"
    using assms(3,4)
    by (auto simp: held_state_fields hold_config_def cfg_blocks_def opt_list_def case_prod_unfold Let_def
        config_valid_def iotcl_strdup_def alloc_def)
  then show ?thesis
    using i hold_config_effect[OF assms(1), of env c] by (auto simp: held_state_fields)
qed

lemma sdk_early_errors_leak_witness:
  "\<exists>st t. iotconnect_sdk_init sdk_example_env sdk_example_lib list_queue
        (sdk_example_config\<lparr>c_mq_max_messages := 0\<rparr>) sdk_example = Some (st, t)
    \<and> st \<noteq> IOTCL_SUCCESS \<and> length (cfg_blocks (config t)) = 3"
proof -
  note f = sdk_example_facts
  have v: "config_valid (sdk_example_config\<lparr>c_mq_max_messages := 0\<rparr>)"
    using f(7) by (simp add: config_valid_def)
  have "fst (cy_rtos_init_queue list_queue (c_mq_max_messages (sdk_example_config\<lparr>c_mq_max_messages := 0\<rparr>))
      (cy_queue sdk_example)) \<noteq> CY_RSLT_SUCCESS \<or> c_mq_max_messages (sdk_example_config\<lparr>c_mq_max_messages := 0\<rparr>) = 0"
    by simp
  from sdk_early_errors_leak[OF f(3,1,13) v this] show ?thesis by blast
qed

text \<open>
  C3: a session of the SDK is memory-safe in every interleaving. After a successful initialisation that yields
  complete credentials, whatever sequence of connects, disconnects, sends, polls (with the callbacks and
  acknowledgements that iotc-c-lib makes while it processes the messages) and
  events of the MQTT library (messages and connection losses at any moment) follows: the queue
  never exceeds its size, every queued pointer and every copy of the configuration is live and belongs to one
  owner, nothing has been freed twice and no null pointer has been read, and the memory of the rest
  of the program is as it was.
\<close>

theorem sdk_session_invariant:
  assumes "queue_laws api items cap" and "codes_ok env" and "heap_ok s0" and "\<not> is_connected s0"
    and "fst (cy_rtos_init_queue api (c_mq_max_messages c) (cy_queue s0)) = CY_RSLT_SUCCESS"
    and "0 < c_mq_max_messages c" and "callbacks_ok s0"
    and "iotconnect_sdk_init env lib api c s0 = Some (0, s)" and "connectable s"
    and "(sdk_step env nb lib api True)\<^sup>*\<^sup>* s t"
  shows "sdk_ok items cap t \<and> length (queued items t) \<le> c_mq_max_messages c
    \<and> faults (log t) = faults (log s0) \<and> heap s0 \<subseteq>\<^sub>m heap t
    \<and> dom (heap s0) \<inter> (set (mq_blocks items t) \<union> set (cfg_blocks (config t))) = {}"
proof -
  from init_outcome_all[OF assms(1-6), of lib] assms(8)
  have s: "init_result items cap c s0 IOTCL_SUCCESS s" "faults (log s) = faults (log s0)" by simp_all
  have i: "sdk_inv True items cap (c_mq_max_messages c) (heap s0) (faults (log s0)) t"
    using session_inv[OF assms(1) s(1) assms(7,9,10)] s(2) by simp
  have le: "heap s0 \<subseteq>\<^sub>m mq_rest items t |` (- set (cfg_blocks (config t)))"
    using i by (simp add: sdk_inv_def Let_def)
  have sub: "heap t a = heap s0 a \<and> a \<notin> set (mq_blocks items t) \<and> a \<notin> set (cfg_blocks (config t))"
    if "a \<in> dom (heap s0)" for a
  proof -
    have "heap s0 a = (mq_rest items t |` (- set (cfg_blocks (config t)))) a" using le that by (simp add: map_le_def)
    then show ?thesis using that by (auto simp: mq_rest_def restrict_map_def split: if_splits)
  qed
  have "heap s0 \<subseteq>\<^sub>m heap t" using sub by (auto simp: map_le_def)
  moreover have "dom (heap s0) \<inter> (set (mq_blocks items t) \<union> set (cfg_blocks (config t))) = {}"
    using sub by blast
  ultimately show ?thesis using i by (auto simp: sdk_inv_def sdk_ok_def mq_ok_def)
qed

lemma sdk_session_invariant_witness:
  "\<exists>s. iotconnect_sdk_init sdk_example_env sdk_example_lib list_queue sdk_example_config sdk_example = Some (0, s)
    \<and> sdk_ok list_items list_cap (snd (iotconnect_sdk_connect sdk_example_env False s))"
proof -
  note f = sdk_example_facts
  obtain s where s: "iotconnect_sdk_init sdk_example_env sdk_example_lib list_queue sdk_example_config sdk_example
      = Some (0, s)" "connectable s"
    by (rule sdk_example_init) (use sdk_example_connectable in auto)
  have "(sdk_step sdk_example_env False sdk_example_lib list_queue True)\<^sup>*\<^sup>* s (snd (iotconnect_sdk_connect sdk_example_env False s))"
    by (rule r_into_rtranclp, rule sdk_connects)
  from sdk_session_invariant[OF list_queue_laws f(1,3,4,5,6,8) s this] s(1) show ?thesis by blast
qed

text \<open>
  C2: \<open>iotconnect_sdk_deinit\<close> ends every session cleanly. In any state that a session can reach, it
  returns, frees nothing twice, destroys the queue and zeroes the configuration; if the application never
  polled, the memory is exactly what it was before \<open>iotconnect_sdk_init\<close>, and otherwise no block of
  the rest of the program is lost.
\<close>

theorem sdk_session_closed:
  assumes "queue_laws api items cap" and "codes_ok env" and "heap_ok s0" and "\<not> is_connected s0"
    and "fst (cy_rtos_init_queue api (c_mq_max_messages c) (cy_queue s0)) = CY_RSLT_SUCCESS"
    and "0 < c_mq_max_messages c" and "callbacks_ok s0"
    and "iotconnect_sdk_init env lib api c s0 = Some (0, s)" and "connectable s"
    and "(sdk_step env nb lib api polls)\<^sup>*\<^sup>* s t"
  shows "\<exists>u. iotconnect_sdk_deinit env api t = Some u \<and> faults (log u) = faults (log s0)
    \<and> (if polls then heap s0 \<subseteq>\<^sub>m heap u else heap u = heap s0)
    \<and> items (cy_queue u) = None \<and> config u = zero_config \<and> \<not> is_connected u"
proof -
  from init_outcome_all[OF assms(1-6), of lib] assms(8)
  have s: "init_result items cap c s0 IOTCL_SUCCESS s" "faults (log s) = faults (log s0)" by simp_all
  from session_closed[OF assms(1) session_inv[OF assms(1) s(1) assms(7,9,10)], of env] s(2)
  show ?thesis by simp
qed

lemma sdk_session_closed_witness:
  "\<exists>s u. iotconnect_sdk_init sdk_example_env sdk_example_lib list_queue sdk_example_config sdk_example = Some (0, s)
    \<and> iotconnect_sdk_deinit sdk_example_env list_queue (snd (iotconnect_sdk_connect sdk_example_env False s)) = Some u
    \<and> heap u = Map.empty \<and> faults (log u) = []"
proof -
  note f = sdk_example_facts
  obtain s where s: "iotconnect_sdk_init sdk_example_env sdk_example_lib list_queue sdk_example_config sdk_example
      = Some (0, s)" "connectable s"
    by (rule sdk_example_init) (use sdk_example_connectable in auto)
  have "(sdk_step sdk_example_env False sdk_example_lib list_queue False)\<^sup>*\<^sup>* s (snd (iotconnect_sdk_connect sdk_example_env False s))"
    by (rule r_into_rtranclp, rule sdk_connects)
  from sdk_session_closed[OF list_queue_laws f(1,3,4,5,6,8) s this] s(1) f(10,11) show ?thesis by auto
qed

text \<open>
  C1: the inbound path refines a bounded buffer. With both callbacks installed and memory available, for every
  interleaving of messages from the MQTT library and polls by the application, none of them the qualification
  command, the program runs to its end, and what is queued and what has become of the messages are at every
  moment the queue and the output of the abstract buffer: payloads in order, each handed to iotc-c-lib once and
  answered with its calls of the application, dropped only while the queue is full.
\<close>

theorem sdk_refines_buffer:
  assumes "queue_laws api items cap" and "env_alloc env = (\<lambda>_ _. True)" and "listening items cap n s"
    and "\<forall>op \<in> set ops. op_ok lib op" and "\<forall>p \<in> set (fst (buffer_of items s)). \<not> qualifies lib p"
  shows "\<exists>t. sdk_run env nb lib api ops s = Some t
    \<and> buffer_of items t = fold (buffer_step n (c2d_response lib (config s))) ops (buffer_of items s)"
  using run_refines[OF assms(1-5)] by blast

lemma sdk_refines_buffer_witness:
  "\<exists>t. sdk_run sdk_example_env False sdk_example_lib list_queue
        [sdk_example_message ''text'', sdk_example_message ''command'', sdk_example_message ''text'', Poll 5,
         sdk_example_message ''text''] sdk_example_listener = Some t
     \<and> buffer_of list_items t
         = ([''text''], [Processed ''text'', Processed ''command'', App_command 9 (Some ''reboot'')])"
proof -
  have ok: "\<forall>op \<in> set [sdk_example_message ''text'', sdk_example_message ''command'', sdk_example_message ''text'',
         Poll 5, sdk_example_message ''text'']. op_ok sdk_example_lib op"
    by (simp add: sdk_example_message_def sdk_example_c2d)
  have "\<forall>p \<in> set (fst (buffer_of list_items sdk_example_listener)). \<not> qualifies sdk_example_lib p"
    by (simp add: sdk_example_listening)
  from sdk_refines_buffer[OF list_queue_laws sdk_example_facts(13) sdk_example_listening(1) ok this, of False]
  show ?thesis
    by (simp add: sdk_example_listening sdk_example_message_def sdk_example_c2d)
qed

text \<open>
  C31: polling returns unless it must not. A poll with a nonzero timeout of a connected SDK blocks for ever
  exactly when a queued message makes iotc-c-lib call the interceptor with the qualification command; otherwise
  it returns with the queue served, the memory of everybody else untouched and nothing freed twice.
\<close>

theorem sdk_poll_outcome:
  assumes "queue_laws api items cap" and "listening items cap n s" and "ms \<noteq> 0"
  shows "if \<exists>p \<in> set (fst (buffer_of items s)). qualifies lib p
    then iotconnect_sdk_poll_inbound_mq env nb lib api ms s = None
    else \<exists>t. iotconnect_sdk_poll_inbound_mq env nb lib api ms s = Some t \<and> listening items cap n t
      \<and> faults (log t) = faults (log s) \<and> (\<forall>a. heap s a \<noteq> None \<longrightarrow> heap t a = heap s a)
      \<and> buffer_of items t = ([], snd (buffer_of items s)
          @ concat (map (c2d_response lib (config s)) (fst (buffer_of items s))))"
  using poll_refines[OF assms, of lib env nb] by (cases "buffer_of items s") (auto split: if_splits)

lemma sdk_poll_outcome_witness:
  "\<exists>t. sdk_run sdk_example_env False sdk_example_lib list_queue [sdk_example_message ''command''] sdk_example_listener = Some t
     \<and> iotconnect_sdk_poll_inbound_mq sdk_example_env False sdk_example_lib list_queue 5 t \<noteq> None"
proof -
  have ok: "\<forall>op \<in> set [sdk_example_message ''command'']. op_ok sdk_example_lib op"
    by (simp add: sdk_example_message_def sdk_example_c2d)
  have "\<forall>p \<in> set (fst (buffer_of list_items sdk_example_listener)). \<not> qualifies sdk_example_lib p"
    by (simp add: sdk_example_listening)
  from run_refines[OF list_queue_laws sdk_example_facts(13) sdk_example_listening(1) ok this, of False]
  obtain t where t: "sdk_run sdk_example_env False sdk_example_lib list_queue [sdk_example_message ''command'']
      sdk_example_listener = Some t" "listening list_items list_cap 2 t" "buffer_of list_items t = ([''command''], [])"
    by (auto simp: sdk_example_listening sdk_example_message_def)
  have "(5 :: nat) \<noteq> 0" by simp
  from sdk_poll_outcome[OF list_queue_laws t(2) this, of sdk_example_lib sdk_example_env False] t(1,3) show ?thesis
    by (auto simp: sdk_example_c2d)
qed

text \<open>
  \<open>iotconnect_sdk_deinit\<close> closes the MQTT session only if the SDK is connected at that moment. After
  the broker has dropped the connection it leaves the client handle, the initialised MQTT library and
  both callbacks behind, while the queue that the inbound callback writes to is destroyed.
\<close>

theorem sdk_deinit_after_drop:
  assumes "queue_laws api items cap" and "sdk_ok items cap s" and "mqtt_connection s = Some h"
    and "mqtt_inbound_msg_cb s = Some cb" and "is_mqtt_initialized s"
    and "mqtt_event_callback env (invoke_inbound env api) CY_MQTT_EVENT_TYPE_DISCONNECT s = Some t"
  shows "\<exists>u. iotconnect_sdk_deinit env api t = Some u \<and> mqtt_connection u = Some h
    \<and> mqtt_inbound_msg_cb u = Some cb \<and> is_mqtt_initialized u \<and> items (cy_queue u) = None"
proof -
  have mq: "mq_ok items cap s" using assms(2) by (simp add: sdk_ok_def)
  have t: "heap t = heap s" "next_addr t = next_addr s" "cy_queue t = cy_queue s" "is_initialized t = is_initialized s"
      "mqtt_connection t = Some h" "mqtt_inbound_msg_cb t = Some cb" "is_mqtt_initialized t" "\<not> is_connected t"
      "config t = config s"
    using assms(3-6) by (auto simp: event_disconnect split: option.splits status_cb.splits)
  have "sdk_ok items cap t"
    using mq_ok_more[OF t(1-3), of items cap] assms(2) t by (simp add: sdk_ok_def)
  from sdk_deinit_effect[OF assms(1) this, of env] t show ?thesis by auto
qed

lemma sdk_deinit_after_drop_witness:
  "\<exists>u. iotconnect_sdk_deinit sdk_example_env list_queue
      (sdk_example\<lparr>cy_queue := Some (2, []), is_initialized := True, mqtt_connection := Some 1,
         is_mqtt_initialized := True, mqtt_inbound_msg_cb := Some On_mqtt_c2d_message\<rparr>) = Some u
    \<and> mqtt_connection u = Some 1"
proof -
  let ?s = "sdk_example\<lparr>cy_queue := Some (2, []), is_initialized := True, mqtt_connection := Some 1,
      is_mqtt_initialized := True, mqtt_inbound_msg_cb := Some On_mqtt_c2d_message\<rparr>"
  have "sdk_ok list_items list_cap ?s"
    by (simp add: sdk_ok_def sdk_example_def mq_ok_def heap_ok_def queued_def mq_blocks_def list_items_def
        list_cap_def cfg_blocks_def zero_config_def opt_list_def)
  moreover have "mqtt_connection ?s = Some 1" "mqtt_inbound_msg_cb ?s = Some On_mqtt_c2d_message"
      "is_mqtt_initialized ?s"
    by simp_all
  moreover have "mqtt_event_callback sdk_example_env (invoke_inbound sdk_example_env list_queue)
      CY_MQTT_EVENT_TYPE_DISCONNECT ?s = Some ?s"
    by (simp add: event_disconnect sdk_example_def)
  ultimately show ?thesis using sdk_deinit_after_drop[OF list_queue_laws] by blast
qed

text \<open>
  C30: the identity protocol borrows memory only. Whatever the server answers and whichever call fails,
  every response block is freed exactly once and memory is as it was before. On success the log shows the
  request of the identity: after the URL was built for the device, a request for that URL, the body that the server
  sent in answer to it, and this text, up to its first NUL, given to iotc-c-lib, which accepted it; and the MQTT
  configuration is the one that this text stands for, for AWS without its user name.
\<close>

theorem sdk_identity_outcome:
  assumes "codes_ok env" and "heap_ok s" and "run_http_identity env lib ct duid cpid en s = (st, t)"
  shows "heap t = heap s \<and> faults (log t) = faults (log s) \<and> cy_queue t = cy_queue s
    \<and> (st = IOTCL_SUCCESS \<longrightarrow> (\<exists>es body. log t = log s @ es \<and> identity_answer env lib duid (log s) es body
        \<and> iotcl_mc t = Some
          (if ct = IOTC_CT_AWS then (lib_identity_mqtt lib (c_string body))\<lparr>mc_username := None\<rparr>
           else lib_identity_mqtt lib (c_string body))))"
proof -
  have h: "id_frame s t" "heap t = heap s"
    using identity_holds[OF assms(1,2), of lib ct duid cpid en] assms(3) by (simp_all add: holding_def)
  have "\<exists>es b. log t = log s @ es \<and> identity_answer env lib duid (log s) es b
      \<and> iotcl_mc t = Some (identity_mqtt lib ct (c_string b))" if "st = IOTCL_SUCCESS"
    by (rule identity_exact[OF assms(1,2) assms(3)[unfolded that]])
  then show ?thesis
    using h id_frame_fields(1)[OF h(1)] unfolding identity_mqtt_def id_frame_def by blast
qed

lemma sdk_identity_outcome_witness:
  "\<exists>t mc. run_http_identity sdk_example_env sdk_example_lib IOTC_CT_AWS ''duid'' ''cpid'' ''poc'' sdk_example
       = (IOTCL_SUCCESS, t)
    \<and> heap t = Map.empty \<and> iotcl_mc t = Some mc \<and> mc_username mc = None"
proof -
  note f = sdk_example_facts
  let ?r = "run_http_identity sdk_example_env sdk_example_lib IOTC_CT_AWS ''duid'' ''cpid'' ''poc'' sdk_example"
  have "fst ?r = IOTCL_SUCCESS" by (rule identity_succeeds[OF f(2)]) simp
  then have r: "?r = (IOTCL_SUCCESS, snd ?r)" by (metis prod.collapse)
  from sdk_identity_outcome[OF f(1,3) r] r f(11) show ?thesis by auto
qed

text \<open>
  C29: \<open>iotconnect_sdk_connect\<close> of a disconnected SDK with complete credentials either connects, with a
  client handle, the SDK's own inbound callback, the status callback of the application or the default one,
  and the queue's consumer registered, or reports failure with the MQTT client closed; memory,
  queue and configuration are the same afterwards. Connecting while connected changes nothing.
\<close>

theorem sdk_connect_outcome:
  assumes "handles_ok env" and "codes_ok env" and "connectable s"
    and "h_connection_type (config s) = IOTC_CT_AWS \<or> h_connection_type (config s) = IOTC_CT_AZURE"
    and "iotconnect_sdk_connect env nb s = (r, t)"
  shows "(if is_connected s then r \<noteq> 0 \<and> t = s
     else if r = 0 then client_up (connect_config (config s)) t \<and> client_msg_cb t = Some On_mqtt_mq_message
     else client_down t \<and> client_msg_cb t = client_msg_cb s)
    \<and> heap t = heap s \<and> cy_queue t = cy_queue s \<and> config t = config s"
proof (cases "is_connected s")
  case True
  then show ?thesis
    using assms(2,5) by (auto simp: iotconnect_sdk_connect_def iotc_mqtt_client_is_connected_def codes_ok_def)
next
  case False
  let ?c = "connect_config (config s)"
  obtain r' u where u: "iotc_mqtt_client_init env nb ?c s = (r', u)" by fastforce
  have mc: "iotcl_mc s \<noteq> None" using assms(3) by (auto simp: connectable_def split: option.splits)
  have ca: "select_root_ca ?c \<noteq> None"
    using assms(4) by (auto simp: select_root_ca_def connect_config_def split: option.split)
  have o: "if r' = CY_RSLT_SUCCESS then client_up ?c u else client_down u"
    using init_outcome[OF _ mc ca u] assms(1) by (simp add: handles_ok_def)
  have f: "heap u = heap s" "cy_queue u = cy_queue s" "client_msg_cb u = client_msg_cb s"
    "mqtt_state.more u = mqtt_state.more s"
    using outer_fields[OF outer_init, of env nb ?c s] u by simp_all
  have c: "config (u\<lparr>client_msg_cb := cb\<rparr>) = config s" "config u = config s" for cb
    using config_more[OF f(4)] by simp_all
  have rt: "(r, t) = (if r' \<noteq> CY_RSLT_SUCCESS then (env_code env IOTCL_ERR_FAILED, u)
      else (0, u\<lparr>client_msg_cb := Some On_mqtt_mq_message\<rparr>))"
    using assms(5) False u
    by (auto simp: iotconnect_sdk_connect_def iotc_mqtt_client_is_connected_def iotc_mq_register_def
        split: if_splits)
  show ?thesis
    using rt o f c False assms(2)
    by (auto simp: codes_ok_def client_up_def client_down_def split: if_splits)
qed

lemma sdk_connect_outcome_witness:
  "\<exists>s :: (nat \<times> mq_msg list) option sdk_state. connectable s
    \<and> (is_connected (snd (iotconnect_sdk_connect sdk_example_env False s))
     \<longleftrightarrow> fst (iotconnect_sdk_connect sdk_example_env False s) = 0)"
proof -
  note f = sdk_example_facts
  let ?u = "snd (identified sdk_example_env sdk_example_lib list_queue sdk_example_config sdk_example)"
  have ok: "sdk_ok list_items list_cap (held_state sdk_example_env list_queue sdk_example_config sdk_example)"
    by (rule held_state_ok(1)[OF list_queue_laws f(3,5)])
  have u: "\<not> is_connected ?u" "h_connection_type (config ?u) = IOTC_CT_AWS"
    using identified_keeps[OF f(1) ok, of sdk_example_lib] f(4)
      hold_config_effect[OF f(3), of sdk_example_env sdk_example_config]
    by (simp_all add: held_state_fields) (simp add: sdk_example_config_def)
  have ct: "h_connection_type (config ?u) = IOTC_CT_AWS \<or> h_connection_type (config ?u) = IOTC_CT_AZURE"
    using u(2) by simp
  obtain r t where e: "iotconnect_sdk_connect sdk_example_env False ?u = (r, t)" by fastforce
  have "is_connected t \<longleftrightarrow> r = 0"
    using sdk_connect_outcome[OF f(12,1) sdk_example_connectable ct e] u(1)
    by (auto simp: client_up_def client_down_def split: if_splits)
  with sdk_example_connectable
  have "connectable ?u \<and> (is_connected (snd (iotconnect_sdk_connect sdk_example_env False ?u))
      \<longleftrightarrow> fst (iotconnect_sdk_connect sdk_example_env False ?u) = 0)"
    by (simp add: e)
  then show ?thesis by (rule exI)
qed

text \<open>The result of \<open>iotcl_init\<close> plays no part in the result of the initialisation.\<close>

lemma sdk_init_ignores_library:
  assumes "heap_ok s" and "config_valid c" and "0 < c_mq_max_messages c"
    and "fst (cy_rtos_init_queue api (c_mq_max_messages c) (cy_queue s)) = CY_RSLT_SUCCESS"
    and "fst (call env (Iotcl_init (c_verbose c) (client_config lib c (the (c_cpid c)) (the (c_duid c))))
      (held_state env api c s)) \<noteq> IOTCL_SUCCESS"
    and "fst (identified env lib api c s) = IOTCL_SUCCESS"
  shows "\<exists>t. iotconnect_sdk_init env lib api c s = Some (IOTCL_SUCCESS, t)"
  using assms by (simp add: init_cases)

end
