(* ===== verification/MqttMqThreadProps.thy ===== *)
theory MqttMqThreadProps
  imports MqttMqThreads
begin

text \<open>
  Properties of the two threads of the message queue: without interruption they are the functions of the
  module, and what a disconnect leaves behind when a message is on its way.
\<close>

section \<open>Without interruption\<close>













section \<open>Disconnecting while a message is on its way\<close>

text \<open>A message that the MQTT thread has let in, and that may yet reach the queue.\<close>

definition passing :: "inbound_pc \<Rightarrow> nat" where
  "passing p = (case p of In_checked tp bs n \<Rightarrow> 1 | In_created m \<Rightarrow> 1 | _ \<Rightarrow> 0)"

text \<open>
  How far the flushes of a disconnect have come: before the callback is dropped anything may be queued, and after
  the last flush at most the one message that was let in before.
\<close>

definition disconnecting :: "('q \<Rightarrow> mq_msg list option) \<Rightarrow> ('q, 'z) mq_threads \<Rightarrow> bool" where
  "disconnecting items x \<longleftrightarrow> (case x of (p, c, s) \<Rightarrow>
     items (cy_queue s) \<noteq> None
     \<and> (c \<in> {App_run disconnect_commands, App_run [Clear_callback, Flush]}
        \<or> (\<exists>m. c = App_destroy m disconnect_commands)
        \<or> client_msg_cb s = None \<and>
            (c = App_run [Flush] \<or> (\<exists>m. c = App_destroy m [Flush])
             \<or> c \<in> {App_run [], App_idle} \<and> length (queued items s) + passing p \<le> 1)))"

lemma inbound_passing:
  assumes "queue_laws api items cap" and "items (cy_queue s) \<noteq> None" and "inbound_step env api p s = (p', t)"
  shows "items (cy_queue t) \<noteq> None \<and> client_msg_cb t = client_msg_cb s
    \<and> (client_msg_cb s = None \<longrightarrow> length (queued items t) + passing p' \<le> length (queued items s) + passing p)"
proof (cases p)
  case (In_checked tp bs n)
  obtain ok m where c: "iotc_mq_create_message env (Some tp) bs n s = (ok, m, t)"
    and p': "p' = (if ok then In_created m else In_idle)"
    using assms(3) In_checked by (auto split: prod.splits if_splits)
  have "sdk_base.more (snd (snd (iotc_mq_create_message env (Some tp) bs n s))) = sdk_base.more s"
    by (simp add: iotc_mq_create_message_def case_prod_unfold Let_def)
  from more_mq[OF this] show ?thesis using c assms(2) In_checked p' by (simp add: queued_def passing_def)
next
  case (In_created m)
  obtain r q where r: "cy_rtos_put_queue api m IOTC_MQ_PUT_TIMEOUT (cy_queue s) = (r, q)" by fastforce
  obtain xs where xs: "items (cy_queue s) = Some xs" using assms(2) by blast
  show ?thesis
    using queue_put[OF assms(1) xs r] xs assms(3) r In_created
    by (auto simp: Let_def queued_def passing_def split: if_splits)
next
  case (In_rejected m)
  then show ?thesis using assms(2,3) more_mq[OF destroy_more[of m s]] by (auto simp: queued_def passing_def)
qed (use assms in \<open>auto simp: passing_def split: if_splits\<close>)

lemma flush_step:
  assumes "queue_laws api items cap" and "items (cy_queue s) \<noteq> None"
    and "app_step api invoke (App_run (Flush # cs)) s = Some (c', t)"
  shows "items (cy_queue t) \<noteq> None \<and> client_msg_cb t = client_msg_cb s
    \<and> ((\<exists>m. c' = App_destroy m (Flush # cs)) \<or> c' = App_run cs \<and> queued items t = [])"
proof -
  obtain r m q where g: "cy_rtos_get_queue api 1 (cy_queue s) = Some (r, m, q)"
    using assms(3) by (cases "cy_rtos_get_queue api 1 (cy_queue s)") auto
  then show ?thesis
    using get_cases[OF assms(1,2) g] assms(3) by (auto simp: Let_def split: if_splits)
qed

lemma destroy_step:
  assumes "items (cy_queue s) \<noteq> None" and "app_step api invoke (App_destroy m cs) s = Some (c', t)"
  shows "items (cy_queue t) \<noteq> None \<and> client_msg_cb t = client_msg_cb s \<and> c' = App_run cs"
  using assms more_mq[OF destroy_more[of m s]] by auto

lemma disconnecting_app:
  assumes "queue_laws api items cap" and "disconnecting items (p, c, s)" and "app_step api invoke c s = Some (c', t)"
  shows "disconnecting items (p, c', t)"
proof -
  have live: "items (cy_queue s) \<noteq> None" using assms(2) by (simp add: disconnecting_def)
  have p: "passing p \<le> 1" by (simp add: passing_def split: inbound_pc.split)
  consider (first) "c = App_run (Flush # [Clear_callback, Flush])" | (clear) "c = App_run [Clear_callback, Flush]"
    | (drop) m where "c = App_destroy m (Flush # [Clear_callback, Flush])"
    | (last) "c = App_run (Flush # [])" "client_msg_cb s = None"
    | (drop_last) m where "c = App_destroy m (Flush # [])" "client_msg_cb s = None"
    | (finished) "c \<in> {App_run [], App_idle}" "client_msg_cb s = None" "length (queued items s) + passing p \<le> 1"
    using assms(2) by (auto simp: disconnecting_def disconnect_commands_def deregister_commands_def)
  then show ?thesis
  proof cases
    case first
    then show ?thesis using flush_step[OF assms(1) live, of invoke "[Clear_callback, Flush]" c' t] assms(3)
      by (auto simp: disconnecting_def disconnect_commands_def deregister_commands_def)
  next
    case clear
    then show ?thesis using live assms(3) by (auto simp: disconnecting_def)
  next
    case drop
    then show ?thesis using destroy_step[of items s api invoke m _ c' t] live assms(3)
      by (auto simp: disconnecting_def disconnect_commands_def deregister_commands_def)
  next
    case last
    then show ?thesis using flush_step[OF assms(1) live, of invoke "[]" c' t] assms(3) p
      by (auto simp: disconnecting_def)
  next
    case drop_last
    then show ?thesis using destroy_step[of items s api invoke m _ c' t] live assms(3)
      by (auto simp: disconnecting_def)
  next
    case finished
    then show ?thesis using live assms(3) by (auto simp: disconnecting_def)
  qed
qed

lemma disconnecting_move:
  assumes "queue_laws api items cap" and "disconnecting items x" and "thread_move env api invoke x ks y"
  shows "disconnecting items y"
  using assms(3)
proof cases
  case (message_arrives n bs c s tp)
  then show ?thesis using assms(2) by (auto simp: disconnecting_def passing_def)
next
  case (inbound_moves p s p' t c)
  have "items (cy_queue s) \<noteq> None" using assms(2) inbound_moves(1) by (simp add: disconnecting_def)
  from inbound_passing[OF assms(1) this inbound_moves(4)] assms(2) inbound_moves(1,3) show ?thesis
    by (auto simp: disconnecting_def)
next
  case (app_moves c s c' t p)
  then show ?thesis using disconnecting_app[OF assms(1) _ app_moves(4), of p] assms(2) by simp
qed

interpretation disconnect_system: transition_system
  "\<lambda>x. items (cy_queue (snd (snd x))) \<noteq> None \<and> fst (snd x) = App_run disconnect_commands"
  "\<lambda>x y. \<exists>ks. thread_move env api invoke x ks y" "\<lambda>x. queue_laws api items cap \<longrightarrow> disconnecting items x"
  for env api invoke items cap
  by unfold_locales (simp add: disconnecting_def case_prod_unfold, blast intro: disconnecting_move)

text \<open>A schedule, to run the threads on an example: what arrives or begins, and whose turn it is.\<close>

datatype thread_turn = Message string string nat | Mqtt_thread | Begin_process nat | App_thread

fun run_turns ::
    "sdk_env \<Rightarrow> 'q rtos_queue_api
       \<Rightarrow> (inbound_cb \<Rightarrow> string \<Rightarrow> string \<Rightarrow> ('q, 'z) mq_state_scheme \<Rightarrow> ('q, 'z) mq_state_scheme option)
       \<Rightarrow> thread_turn list \<Rightarrow> ('q, 'z) mq_threads
       \<Rightarrow> ((string \<times> string) mq_label list \<times> ('q, 'z) mq_threads) option" where
  "run_turns env api invoke [] x = Some ([], x)"
| "run_turns env api invoke (Message topic message n # ts) (p, c, s) =
     (if p = In_idle \<and> n \<le> length message
      then map_option (apfst ((@) [Arrived (c_string topic, take n message)]))
             (run_turns env api invoke ts (In_called topic message n, c, s))
      else None)"
| "run_turns env api invoke (Mqtt_thread # ts) (p, c, s) =
     (case inbound_step env api p s of (p', t) \<Rightarrow>
        map_option (apfst ((@) (inbound_label api p s))) (run_turns env api invoke ts (p', c, t)))"
| "run_turns env api invoke (Begin_process timeout_ms # ts) (p, c, s) =
     (if c = App_idle then run_turns env api invoke ts (p, App_process timeout_ms, s) else None)"
| "run_turns env api invoke (App_thread # ts) (p, c, s) =
     Option.bind (app_step api invoke c s) (\<lambda>r.
        map_option (apfst ((@) (app_label c s))) (run_turns env api invoke ts (p, fst r, snd r)))"

lemma thread_run_Cons:
  assumes "thread_run env api invoke cb y ls z" and "thread_step env api invoke cb x ks y"
  shows "thread_run env api invoke cb x (ks @ ls) z"
  using assms
proof (induction y ls z rule: thread_run.induct)
  case (run_refl y)
  then show ?case using thread_run.run_step[OF thread_run.run_refl] by fastforce
next
  case (run_step y ls z js w)
  then show ?case using thread_run.run_step[of env api invoke cb x "ks @ ls" z js w] by simp
qed

lemma run_turns_run:
  "run_turns env api invoke ts x = Some (ls, y) \<Longrightarrow> thread_run env api invoke cb x ls y"
proof (induction env api invoke ts x arbitrary: ls rule: run_turns.induct)
  case (1 env api invoke x)
  then show ?case by (simp add: run_refl)
next
  case (2 env api invoke tp bs n ts p c s)
  then show ?case
    using thread_run_Cons[OF _ threads_move[OF message_arrives[of n bs]]] by (fastforce split: if_splits)
next
  case (3 env api invoke ts p c s)
  obtain p' t where i: "inbound_step env api p s = (p', t)" by fastforce
  with 3 show ?case using thread_run_Cons[OF _ threads_move[OF inbound_moves[OF i]]] by fastforce
next
  case (4 env api invoke ms ts p c s)
  then show ?case using thread_run_Cons[OF _ app_begins_call[OF begins_process]] by (fastforce split: if_splits)
next
  case (5 env api invoke ts p c s)
  then obtain c' t where a: "app_step api invoke c s = Some (c', t)" by (auto simp: bind_eq_Some_conv)
  with 5 show ?case using thread_run_Cons[OF _ threads_move[OF app_moves[OF a]]] by fastforce
qed

lemma run_turns_moves:
  "run_turns env api invoke ts x = Some (ls, y) \<Longrightarrow> \<forall>t \<in> set ts. \<forall>ms. t \<noteq> Begin_process ms \<Longrightarrow>
   (\<lambda>x y. \<exists>ks. thread_move env api invoke x ks y)\<^sup>*\<^sup>* x y"
proof (induction env api invoke ts x arbitrary: ls rule: run_turns.induct)
  case (2 env api invoke tp bs n ts p c s)
  have "\<exists>ks. thread_move env api invoke (In_idle, c, s) ks (In_called tp bs n, c, s)" if "n \<le> length bs"
    using message_arrives[OF that] by blast
  with 2 show ?case by (auto intro: converse_rtranclp_into_rtranclp split: if_splits)
next
  case (3 env api invoke ts p c s)
  obtain p' t where i: "inbound_step env api p s = (p', t)" by fastforce
  have "\<exists>ks. thread_move env api invoke (p, c, s) ks (p', c, t)" using inbound_moves[OF i] by blast
  with 3 i show ?case by (auto intro: converse_rtranclp_into_rtranclp)
next
  case (5 env api invoke ts p c s)
  then obtain c' t where a: "app_step api invoke c s = Some (c', t)" by (auto simp: bind_eq_Some_conv)
  have "\<exists>ks. thread_move env api invoke (p, c, s) ks (p, c', t)" using app_moves[OF a] by blast
  with 5 a show ?case by (auto intro: converse_rtranclp_into_rtranclp)
qed simp_all

section \<open>Properties\<close>


text \<open>
  C23: a disconnect that runs while messages arrive leaves at most one of them. Whatever the two threads do between
  its start and its end, the callback is dropped and the queue and the MQTT thread together hold at most
  one message; the bound is reached, when the MQTT thread has let the message in before the callback was
  dropped and queues it after the last flush. That message is delivered in the next session.
\<close>

theorem mq_threads_disconnect:
  assumes "queue_laws api items cap" and "items (cy_queue s) \<noteq> None"
    and "(\<lambda>x y. \<exists>ks. thread_move env api invoke x ks y)\<^sup>*\<^sup>* (p, App_run disconnect_commands, s) (p', App_idle, t)"
  shows "client_msg_cb t = None \<and> length (queued items t) + passing p' \<le> 1"
  using disconnect_system.inv_reachable[of items "(p, App_run disconnect_commands, s)" env api invoke "(p', App_idle, t)" cap]
    assms by (auto simp: disconnecting_def disconnect_commands_def deregister_commands_def)

lemma mq_threads_disconnect_witness:
  "\<exists>ls t. run_turns mq_example_env list_queue record_message
        [Mqtt_thread, Mqtt_thread, App_thread, App_thread, App_thread, App_thread, Mqtt_thread]
        (In_called ''a'' ''one'' 3, App_run disconnect_commands, mq_example) = Some (ls, In_idle, App_idle, t)
     \<and> length (queued list_items t) = 1 \<and> client_msg_cb t = None
     \<and> length (queued list_items t) + passing In_idle \<le> 1"
proof -
  let ?turns = "[Mqtt_thread, Mqtt_thread, App_thread, App_thread, App_thread, App_thread, Mqtt_thread]"
  obtain ls t where t: "run_turns mq_example_env list_queue record_message ?turns
        (In_called ''a'' ''one'' 3, App_run disconnect_commands, mq_example) = Some (ls, In_idle, App_idle, t)"
      "length (queued list_items t) = 1"
    by (simp add: disconnect_commands_def deregister_commands_def mq_example_def mq_example_env_def list_queue_def
        iotc_mq_create_message_def iotcl_strdup_def alloc_def sdk_emit_def c_string_def Let_def queued_def list_items_def)
  have "list_items (cy_queue mq_example) \<noteq> None" using mq_example_ok(1) by (simp add: mq_ok_def)
  moreover have "\<forall>t \<in> set ?turns. \<forall>ms. t \<noteq> Begin_process ms" by simp
  ultimately show ?thesis using mq_threads_disconnect[OF list_queue_laws _ run_turns_moves[OF t(1)]] t by blast
qed
end
