(* ===== verification/MqttClientThreads.thy ===== *)
theory MqttClientThreads
  imports MqttClientProps
begin

text \<open>
  The MQTT client between two threads. The library calls \<open>mqtt_event_callback\<close> of \<open>source/iotc_mqtt_client.c\<close> in a thread
  of its own, while the application is in \<open>iotc_mqtt_client_init\<close> or \<open>iotc_mqtt_client_disconnect\<close>. The static
  variables they share are not protected by a lock. Here each function is a sequence of small steps: a step reads or
  writes one of the variables that both threads use, or makes one call of the library.
\<close>

section \<open>The event callback\<close>

text \<open>
  Where the callback is: called, past the write of \<open>is_connected\<close>, past the test of \<open>status_cb\<close>, past the test of
  \<open>mqtt_inbound_msg_cb\<close>, past that of \<open>is_disconnect_requested\<close>, with a copy of the topic, back from the
  application's callback, and before the last assignment. A pointer that is tested and then called is read twice.
\<close>

datatype event_pc =
    Ev_idle
  | Ev_called mqtt_event
  | Ev_dropped
  | Ev_notify
  | Ev_registered received_msg
  | Ev_wanted received_msg
  | Ev_copied received_msg addr
  | Ev_returned addr
  | Ev_reset

fun event_step ::
    "sdk_env
       \<Rightarrow> (inbound_cb \<Rightarrow> string \<Rightarrow> string \<Rightarrow> ('q, 'z) mqtt_state_scheme \<Rightarrow> ('q, 'z) mqtt_state_scheme option)
       \<Rightarrow> event_pc \<Rightarrow> ('q, 'z) mqtt_state_scheme \<Rightarrow> (event_pc \<times> ('q, 'z) mqtt_state_scheme) option" where
  "event_step env invoke Ev_idle s = Some (Ev_idle, s)"
| "event_step env invoke (Ev_called CY_MQTT_EVENT_TYPE_DISCONNECT) s = Some (Ev_dropped, s\<lparr>is_connected := False\<rparr>)"
| "event_step env invoke (Ev_called (CY_MQTT_EVENT_TYPE_SUBSCRIPTION_MESSAGE_RECEIVE r)) s =
     Some (if mqtt_inbound_msg_cb s \<noteq> None then Ev_registered r else Ev_reset, s)"
| "event_step env invoke (Ev_called CY_MQTT_EVENT_TYPE_OTHER) s = Some (Ev_idle, s)"
| "event_step env invoke Ev_dropped s = Some (if client_status_cb s \<noteq> None then Ev_notify else Ev_idle, s)"
| "event_step env invoke Ev_notify s =
     Some (Ev_idle,
       case client_status_cb s of
         Some cb \<Rightarrow> call_status_cb cb IOTC_CS_MQTT_DISCONNECTED s
       | None \<Rightarrow> sdk_emit (Fault ''call through a null pointer'') s)"
| "event_step env invoke (Ev_registered r) s =
     Some (if \<not> is_disconnect_requested s then Ev_wanted r else Ev_reset, s)"
| "event_step env invoke (Ev_wanted r) s =
     (case alloc env (r_topic r @ [CHR 0x00]) s of
        (None, s) \<Rightarrow> Some (Ev_idle, s)
      | (Some topic_str, s) \<Rightarrow> Some (Ev_copied r topic_str, s))"
| "event_step env invoke (Ev_copied r topic_str) s =
     (case mqtt_inbound_msg_cb s of
        Some cb \<Rightarrow>
          Option.bind (invoke cb (c_string (r_topic r @ r_topic_tail r)) (r_payload r) s)
            (\<lambda>s. Some (Ev_returned topic_str, s))
      | None \<Rightarrow> Some (Ev_returned topic_str, sdk_emit (Fault ''call through a null pointer'') s))"
| "event_step env invoke (Ev_returned topic_str) s = Some (Ev_reset, c_free topic_str s)"
| "event_step env invoke Ev_reset s = Some (Ev_idle, s\<lparr>is_disconnect_requested := False\<rparr>)"

section \<open>The functions of the application thread\<close>

text \<open>
  What is left of a function is a list of commands. \<open>Try_connect\<close> and \<open>Try_subscribe\<close> are the heads of the two retry loops,
  with the number of attempts left; \<open>Return\<close> is the \<open>return result\<close> after a cleanup, whose own value is dropped.
\<close>

datatype client_command =
    Set_connected bool
  | Set_disconnect_requested bool
  | Set_inbound "inbound_cb option"
  | Set_status "status_cb option"
  | Lib_init
  | Lib_create iotcl_mqtt_config IotConnectMqttConfig
  | Lib_register
  | Connect iotcl_mqtt_config
  | Try_connect connect_info nat
  | Wait_connect connect_info nat
  | Subscribe iotcl_mqtt_config
  | Try_subscribe string nat
  | Wait_subscribe string nat
  | Cleanup_client
  | Lib_disconnect
  | Lib_delete
  | Cleanup_library
  | Return cy_rslt

definition cleanup_commands :: "client_command list" where
  "cleanup_commands =
     [Set_connected False, Cleanup_client, Cleanup_library, Set_inbound None, Set_status None]"

definition client_disconnect_commands :: "client_command list" where
  "client_disconnect_commands = Set_disconnect_requested True # cleanup_commands"

definition client_init_commands :: "iotcl_mqtt_config \<Rightarrow> IotConnectMqttConfig \<Rightarrow> client_command list" where
  "client_init_commands mc c =
     (if mc_sub_c2d mc = None then [Set_inbound None] else [])
     @ [Set_status None, Set_connected False, Set_disconnect_requested False,
        Lib_init, Lib_create mc c, Lib_register, Connect mc, Subscribe mc,
        Set_connected True, Set_status (mqtt_status_cb c), Set_inbound (mqtt_inbound_cb c)]"

text \<open>The local \<open>result\<close> or \<open>ret\<close>, and the commands that are left.\<close>

type_synonym client_pc = "cy_rslt \<times> client_command list"

definition client_init_begin :: "sdk_env \<Rightarrow> IotConnectMqttConfig \<Rightarrow> ('q, 'z) mqtt_state_scheme \<Rightarrow> client_pc" where
  "client_init_begin env c s =
     (case iotcl_mc s of
        None \<Rightarrow> (env_code env CY_RSLT_MODULE_MQTT_ERROR, [])
      | Some mc \<Rightarrow> (CY_RSLT_SUCCESS, client_init_commands mc c))"

text \<open>After an error: \<open>iotc_cleanup_mqtt(); return result;\<close>\<close>

definition check_result :: "cy_rslt \<Rightarrow> client_command list \<Rightarrow> client_pc" where
  "check_result result cs =
     (if result \<noteq> CY_RSLT_SUCCESS then (CY_RSLT_SUCCESS, cleanup_commands @ [Return result]) else (result, cs))"

text \<open>\<open>ret = ret == CY_RSLT_SUCCESS ? result : CY_RSLT_SUCCESS\<close>\<close>

definition next_ret :: "cy_rslt \<Rightarrow> cy_rslt \<Rightarrow> cy_rslt" where
  "next_ret ret result = (if ret = CY_RSLT_SUCCESS then result else CY_RSLT_SUCCESS)"

fun command_step ::
    "sdk_env \<Rightarrow> bool \<Rightarrow> client_command \<Rightarrow> cy_rslt \<Rightarrow> client_command list \<Rightarrow> ('q, 'z) mqtt_state_scheme
       \<Rightarrow> client_pc \<times> ('q, 'z) mqtt_state_scheme" where
  "command_step env nb (Set_connected b) r cs s = ((r, cs), s\<lparr>is_connected := b\<rparr>)"
| "command_step env nb (Set_disconnect_requested b) r cs s = ((r, cs), s\<lparr>is_disconnect_requested := b\<rparr>)"
| "command_step env nb (Set_inbound cb) r cs s = ((r, cs), s\<lparr>mqtt_inbound_msg_cb := cb\<rparr>)"
| "command_step env nb (Set_status cb) r cs s = ((r, cs), s\<lparr>client_status_cb := cb\<rparr>)"
| "command_step env nb Lib_init r cs s =
     (case call env Cy_mqtt_init s of (result, s) \<Rightarrow>
        (check_result result cs, if result = CY_RSLT_SUCCESS then s\<lparr>is_mqtt_initialized := True\<rparr> else s))"
| "command_step env nb (Lib_create mc c) r cs s =
     (let (host_len, s) = c_strlen (mc_host mc) s;
          broker = \<lparr>broker_hostname = take host_len (case mc_host mc of Some h \<Rightarrow> h | None \<Rightarrow> []),
                    broker_port = 8883\<rparr>
      in case select_root_ca c of
           None \<Rightarrow> ((env_code env CY_RSLT_MODULE_MQTT_BADARG, []), s)
         | Some ca \<Rightarrow>
             (let (sec, s) = prepare_credentials mc c ca host_len s;
                  (result, s) = create_client env sec broker s
              in (check_result result cs, s)))"
| "command_step env nb Lib_register r cs s =
     (case call env (Cy_mqtt_register_event_callback (mqtt_connection s)) s of (result, s) \<Rightarrow>
        (check_result result cs, s))"
| "command_step env nb (Connect mc) r cs s =
     (let (client_id_len, s) = c_strlen (mc_client_id mc) s;
          (username_len, s) = (if mc_username mc \<noteq> None then c_strlen (mc_username mc) s else (0, s));
          info = \<lparr>ci_client_id = take client_id_len (case mc_client_id mc of Some i \<Rightarrow> i | None \<Rightarrow> []),
                  ci_username = mc_username mc, ci_username_len = username_len,
                  ci_clean_session = True, ci_keep_alive_sec = 55\<rparr>
      in ((CY_RSLT_SUCCESS, Try_connect info IOTC_MAX_MQTT_CONN_RETRIES # cs), s))"
| "command_step env nb (Try_connect info 0) r cs s = (check_result r cs, s)"
| "command_step env nb (Try_connect info (Suc n)) r cs s =
     (case call env (Cy_mqtt_connect (mqtt_connection s) info) s of (result, s) \<Rightarrow>
        (if result = CY_RSLT_SUCCESS then (result, cs) else (result, Wait_connect info n # cs), s))"
| "command_step env nb (Wait_connect info n) r cs s =
     ((r, Try_connect info n # cs), sdk_emit (Rtos_delay (connect_backoff env nb s)) s)"
| "command_step env nb (Subscribe mc) r cs s =
     (let (topic_len, s) = c_strlen (mc_sub_c2d mc) s;
          topic = take topic_len (case mc_sub_c2d mc of Some t \<Rightarrow> t | None \<Rightarrow> [])
      in ((1, Try_subscribe topic MAX_SUBSCRIBE_RETRIES # cs), s))"
| "command_step env nb (Try_subscribe topic 0) r cs s = (check_result r cs, s)"
| "command_step env nb (Try_subscribe topic (Suc n)) r cs s =
     (case call env (Cy_mqtt_subscribe (mqtt_connection s) topic 1) s of (result, s) \<Rightarrow>
        (if result = CY_RSLT_SUCCESS then (result, cs) else (result, Wait_subscribe topic n # cs), s))"
| "command_step env nb (Wait_subscribe topic n) r cs s =
     ((r, Try_subscribe topic n # cs), sdk_emit (Rtos_delay MQTT_SUBSCRIBE_RETRY_INTERVAL_MS) s)"
| "command_step env nb Cleanup_client r cs s =
     ((r, if mqtt_connection s \<noteq> None then Lib_disconnect # Lib_delete # cs else cs), s)"
| "command_step env nb Lib_disconnect r cs s =
     (case call env (Cy_mqtt_disconnect (mqtt_connection s)) s of (result, s) \<Rightarrow>
        (if result \<noteq> CY_RSLT_SUCCESS then (next_ret r result, Set_disconnect_requested False # cs) else (r, cs), s))"
| "command_step env nb Lib_delete r cs s =
     (case call env (Cy_mqtt_delete (mqtt_connection s)) s of (result, s) \<Rightarrow>
        ((next_ret r result, cs), s\<lparr>mqtt_connection := None\<rparr>))"
| "command_step env nb Cleanup_library r cs s =
     (if is_mqtt_initialized s
      then (case call env Cy_mqtt_deinit s of (result, s) \<Rightarrow>
              ((next_ret r result, cs), s\<lparr>is_mqtt_initialized := False\<rparr>))
      else ((r, cs), s))"
| "command_step env nb (Return v) r cs s = ((v, cs), s)"

section \<open>One thread alone\<close>

text \<open>A thread that is not interrupted runs until its function is over.\<close>

inductive client_alone ::
    "sdk_env \<Rightarrow> bool \<Rightarrow> client_pc \<times> ('q, 'z) mqtt_state_scheme \<Rightarrow> client_pc \<times> ('q, 'z) mqtt_state_scheme \<Rightarrow> bool"
  for env nb where
  "client_alone env nb ((r, k # cs), s) (command_step env nb k r cs s)"

inductive event_alone ::
    "sdk_env
       \<Rightarrow> (inbound_cb \<Rightarrow> string \<Rightarrow> string \<Rightarrow> ('q, 'z) mqtt_state_scheme \<Rightarrow> ('q, 'z) mqtt_state_scheme option)
       \<Rightarrow> event_pc \<times> ('q, 'z) mqtt_state_scheme \<Rightarrow> event_pc \<times> ('q, 'z) mqtt_state_scheme \<Rightarrow> bool"
  for env invoke where
  "p \<noteq> Ev_idle \<Longrightarrow> event_step env invoke p s = Some x \<Longrightarrow> event_alone env invoke (p, s) x"

inductive_cases client_aloneE: "client_alone env nb (c, s) x"
inductive_cases event_aloneE: "event_alone env invoke (p, s) x"

lemma client_alone_Cons:
  "(client_alone env nb)\<^sup>*\<^sup>* ((r, k # cs), s) ((v, []), t)
     \<longleftrightarrow> (client_alone env nb)\<^sup>*\<^sup>* (command_step env nb k r cs s) ((v, []), t)"
  by (auto elim: converse_rtranclpE client_aloneE intro: converse_rtranclp_into_rtranclp client_alone.intros)

lemma client_alone_Nil:
  "(client_alone env nb)\<^sup>*\<^sup>* ((r, []), s) ((v, []), t) \<longleftrightarrow> r = v \<and> s = t"
  by (auto elim: converse_rtranclpE client_aloneE)

lemma event_alone_moves:
  "p \<noteq> Ev_idle \<Longrightarrow> (event_alone env invoke)\<^sup>*\<^sup>* (p, s) (Ev_idle, t)
     \<longleftrightarrow> (\<exists>x. event_step env invoke p s = Some x \<and> (event_alone env invoke)\<^sup>*\<^sup>* x (Ev_idle, t))"
proof
  assume p: "p \<noteq> Ev_idle"
  assume "(event_alone env invoke)\<^sup>*\<^sup>* (p, s) (Ev_idle, t)"
  from this p show "\<exists>x. event_step env invoke p s = Some x \<and> (event_alone env invoke)\<^sup>*\<^sup>* x (Ev_idle, t)"
    by (cases rule: converse_rtranclpE) (auto elim!: event_aloneE)
qed (blast intro: converse_rtranclp_into_rtranclp event_alone.intros)

lemma event_alone_idle: "(event_alone env invoke)\<^sup>*\<^sup>* (Ev_idle, s) (Ev_idle, t) \<longleftrightarrow> s = t"
  by (auto elim: converse_rtranclpE event_aloneE)

lemmas client_alone_simps = client_alone_Cons client_alone_Nil
lemmas event_alone_simps = event_alone_moves event_alone_idle

lemma event_alone_callback:
  "(event_alone env invoke)\<^sup>*\<^sup>* (Ev_called e, s) (Ev_idle, t) \<longleftrightarrow> mqtt_event_callback env invoke e s = Some t"
proof (cases e)
  case CY_MQTT_EVENT_TYPE_DISCONNECT
  then show ?thesis by (auto simp: event_alone_simps mqtt_event_callback_def Let_def split: option.split)
next
  case (CY_MQTT_EVENT_TYPE_SUBSCRIPTION_MESSAGE_RECEIVE r)
  obtain p u where a: "alloc env (r_topic r @ [CHR 0x00]) s = (p, u)" by fastforce
  have "mqtt_inbound_msg_cb u = mqtt_inbound_msg_cb s"
    using mqtt_alloc_frame[of env "r_topic r @ [CHR 0x00]" s] a by simp
  then show ?thesis
    using CY_MQTT_EVENT_TYPE_SUBSCRIPTION_MESSAGE_RECEIVE a
    by (auto simp: event_alone_simps mqtt_event_callback_def bind_eq_Some_conv split: option.split)
next
  case CY_MQTT_EVENT_TYPE_OTHER
  then show ?thesis by (simp add: event_alone_simps mqtt_event_callback_def)
qed

lemma cleanup_alone:
  "(client_alone env nb)\<^sup>*\<^sup>* ((CY_RSLT_SUCCESS, cleanup_commands @ cs), s) ((v, []), t)
     \<longleftrightarrow> (client_alone env nb)\<^sup>*\<^sup>* ((fst (iotc_cleanup_mqtt env s), cs), snd (iotc_cleanup_mqtt env s)) ((v, []), t)"
  by (simp add: cleanup_commands_def client_alone_simps iotc_cleanup_mqtt_def next_ret_def case_prod_unfold Let_def)

lemma disconnect_alone:
  "(client_alone env nb)\<^sup>*\<^sup>* ((CY_RSLT_SUCCESS, client_disconnect_commands), s) ((v, []), t)
     \<longleftrightarrow> iotc_mqtt_client_disconnect env s = (v, t)"
  using cleanup_alone[of env nb "[]" "s\<lparr>is_disconnect_requested := True\<rparr>" v t]
  by (simp add: client_disconnect_commands_def client_alone_simps iotc_mqtt_client_disconnect_def prod_eq_iff)

lemma check_alone:
  "(client_alone env nb)\<^sup>*\<^sup>* (check_result r cs, s) ((v, []), t)
     \<longleftrightarrow> (if r \<noteq> CY_RSLT_SUCCESS then v = r \<and> t = snd (iotc_cleanup_mqtt env s)
         else (client_alone env nb)\<^sup>*\<^sup>* ((r, cs), s) ((v, []), t))"
  by (auto simp: check_result_def cleanup_alone client_alone_simps)

lemma connect_alone:
  "(client_alone env nb)\<^sup>*\<^sup>* ((r, Try_connect info n # cs), s) ((v, []), t)
     \<longleftrightarrow> (client_alone env nb)\<^sup>*\<^sup>* (check_result (fst (connect_loop env nb info n r s)) cs,
           snd (connect_loop env nb info n r s)) ((v, []), t)"
  by (induction n arbitrary: r s) (simp_all add: client_alone_simps case_prod_unfold check_result_def)

lemma subscribe_alone:
  "(client_alone env nb)\<^sup>*\<^sup>* ((r, Try_subscribe topic n # cs), s) ((v, []), t)
     \<longleftrightarrow> (client_alone env nb)\<^sup>*\<^sup>* (check_result (fst (subscribe_loop env topic 1 n r s)) cs,
           snd (subscribe_loop env topic 1 n r s)) ((v, []), t)"
  by (induction n arbitrary: r s) (simp_all add: client_alone_simps case_prod_unfold check_result_def)

lemma register_alone:
  "(client_alone env nb)\<^sup>*\<^sup>* ((r, Connect mc # cs), s) ((v, []), t)
     \<longleftrightarrow> (client_alone env nb)\<^sup>*\<^sup>* (check_result (fst (mqtt_connect env nb mc s)) cs, snd (mqtt_connect env nb mc s))
           ((v, []), t)"
  "(client_alone env nb)\<^sup>*\<^sup>* ((r, Subscribe mc # cs), s) ((v, []), t)
     \<longleftrightarrow> (client_alone env nb)\<^sup>*\<^sup>* (check_result (fst (mqtt_subscribe env mc 1 s)) cs, snd (mqtt_subscribe env mc 1 s))
           ((v, []), t)"
  by (simp_all add: client_alone_Cons[of env nb r "Connect mc"] client_alone_Cons[of env nb r "Subscribe mc"]
      connect_alone subscribe_alone mqtt_connect_def mqtt_subscribe_def
      case_prod_unfold Let_def)

lemmas assign_alone = client_alone_Cons[where k = "Set_connected b" for b] client_alone_Cons[where k = "Set_status cb" for cb]
  client_alone_Cons[where k = "Set_inbound cb" for cb]

lemma created_alone:
  "(client_alone env nb)\<^sup>*\<^sup>* ((r, [Lib_register, Connect mc, Subscribe mc, Set_connected True, Set_status st, Set_inbound cb]), s)
       ((v, []), t)
     \<longleftrightarrow> (let (result, s) = call env (Cy_mqtt_register_event_callback (mqtt_connection s)) s
         in if result \<noteq> CY_RSLT_SUCCESS then (result, snd (iotc_cleanup_mqtt env s))
            else let (result, s) = mqtt_connect env nb mc s
                 in if result \<noteq> CY_RSLT_SUCCESS then (result, snd (iotc_cleanup_mqtt env s))
                    else let (result, s) = mqtt_subscribe env mc 1 s
                         in if result \<noteq> CY_RSLT_SUCCESS then (result, snd (iotc_cleanup_mqtt env s))
                            else (result, s\<lparr>is_connected := True, client_status_cb := st, mqtt_inbound_msg_cb := cb\<rparr>))
       = (v, t)"
  by (auto simp: client_alone_Cons[where k = Lib_register] check_alone register_alone assign_alone client_alone_Nil
      case_prod_unfold Let_def simp del: One_nat_def)

lemma init_alone:
  "(client_alone env nb)\<^sup>*\<^sup>* (client_init_begin env c s, s) ((v, []), t) \<longleftrightarrow> iotc_mqtt_client_init env nb c s = (v, t)"
proof (cases "iotcl_mc s")
  case None
  then show ?thesis by (auto simp: client_init_begin_def client_alone_simps iotc_mqtt_client_init_def)
next
  case (Some mc)
  let ?tail = "[Lib_register, Connect mc, Subscribe mc,
      Set_connected True, Set_status (mqtt_status_cb c), Set_inbound (mqtt_inbound_cb c)]"
  have reset: "(client_alone env nb)\<^sup>*\<^sup>* (client_init_begin env c s, s) ((v, []), t)
      \<longleftrightarrow> (client_alone env nb)\<^sup>*\<^sup>* ((CY_RSLT_SUCCESS, Lib_init # Lib_create mc c # ?tail), init_reset mc s) ((v, []), t)"
    using Some by (simp add: client_init_begin_def client_init_commands_def client_alone_simps init_reset_def Let_def)
  have create: "(client_alone env nb)\<^sup>*\<^sup>* ((r, Lib_create mc c # ?tail), u) ((v, []), t)
      \<longleftrightarrow> (client_alone env nb)\<^sup>*\<^sup>* (command_step env nb (Lib_create mc c) r ?tail u) ((v, []), t)" for r u
    by (rule client_alone_Cons)
  have init: "(client_alone env nb)\<^sup>*\<^sup>* ((r, Lib_init # Lib_create mc c # ?tail), u) ((v, []), t)
      \<longleftrightarrow> (client_alone env nb)\<^sup>*\<^sup>* (command_step env nb Lib_init r (Lib_create mc c # ?tail) u) ((v, []), t)" for r u
    by (rule client_alone_Cons)
  show ?thesis
    unfolding reset init iotc_mqtt_client_init_def Some option.case
    by (cases "select_root_ca c")
      (auto simp: create check_alone created_alone client_alone_Nil case_prod_unfold Let_def
        simp del: One_nat_def split: if_splits)
qed

end
