(* ===== verification/MqttClientThreadProps.thy ===== *)
theory MqttClientThreadProps
  imports MqttClientThreads
begin

text \<open>
  Properties of the two threads of the MQTT client: what holds in every interleaving, what goes wrong in some of
  them, and where that comes from.
\<close>

section \<open>Interleaving\<close>

text \<open>
  Every interleaving of the small steps: the library may call back at any moment, also while no client exists or
  one is being deleted, and the application may call every function at any moment, also \<open>iotc_mqtt_client_init\<close> while a
  client is open. With \<open>excl\<close> only those interleavings are meant in which no pointer to a callback is cleared while the event
  callback is running; the code does nothing to ensure this.
\<close>

type_synonym ('q, 'z) client_threads = "event_pc \<times> client_pc \<times> ('q, 'z) mqtt_state_scheme"

definition clears_callback :: "client_command \<Rightarrow> bool" where
  "clears_callback k \<longleftrightarrow> k = Set_inbound None \<or> k = Set_status None"

inductive client_move ::
    "sdk_env \<Rightarrow> bool
       \<Rightarrow> (inbound_cb \<Rightarrow> string \<Rightarrow> string \<Rightarrow> ('q, 'z) mqtt_state_scheme \<Rightarrow> ('q, 'z) mqtt_state_scheme option)
       \<Rightarrow> bool \<Rightarrow> ('q, 'z) client_threads \<Rightarrow> ('q, 'z) client_threads \<Rightarrow> bool"
  for env nb invoke excl where
  event_arrives: "client_move env nb invoke excl (Ev_idle, c, s) (Ev_called e, c, s)"
| event_moves: "p \<noteq> Ev_idle \<Longrightarrow> event_step env invoke p s = Some (p', t) \<Longrightarrow>
     client_move env nb invoke excl (p, c, s) (p', c, t)"
| client_moves: "excl \<and> clears_callback k \<longrightarrow> p = Ev_idle \<Longrightarrow> command_step env nb k r cs s = (c, t) \<Longrightarrow>
     client_move env nb invoke excl (p, (r, k # cs), s) (p, c, t)"
| client_initialises: "client_move env nb invoke excl (p, (r, []), s) (p, client_init_begin env c s, s)"
| client_disconnects:
     "client_move env nb invoke excl (p, (r, []), s) (p, (CY_RSLT_SUCCESS, client_disconnect_commands), s)"
| client_publishes:
     "client_move env nb invoke excl (p, (r, []), s) (p, (r, []), snd (iotc_mqtt_client_publish env tp pl qos s))"
| client_configured: "client_move env nb invoke excl (p, (r, []), s) (p, (r, []), s\<lparr>iotcl_mc := mc\<rparr>)"

section \<open>The commands that are left\<close>

text \<open>A client is deleted only after the test for its handle, which no other command can undo in between.\<close>

fun deletes_once :: "client_command list \<Rightarrow> bool" where
  "deletes_once [] = True"
| "deletes_once (k # cs) = ((k = Lib_delete \<or> k = Cleanup_client \<longrightarrow> Lib_delete \<notin> set cs) \<and> deletes_once cs)"

definition commands_ok :: "client_command list \<Rightarrow> ('q, 'z) mqtt_state_scheme \<Rightarrow> bool" where
  "commands_ok cs s \<longleftrightarrow> deletes_once cs \<and> (Lib_delete \<in> set cs \<longrightarrow> mqtt_connection s \<noteq> None)"

lemma commands_ok_cleanup:
  "commands_ok [] s" "commands_ok (cleanup_commands @ [Return v]) s" "commands_ok client_disconnect_commands s"
  "commands_ok (client_init_commands mc c) s" "commands_ok (snd (client_init_begin env c s)) s"
  by (auto simp: commands_ok_def cleanup_commands_def client_disconnect_commands_def client_init_commands_def
      client_init_begin_def split: option.split)

lemma commands_ok_check: "commands_ok cs s \<Longrightarrow> commands_ok (snd (check_result r cs)) s"
  by (simp add: check_result_def commands_ok_cleanup)

lemma create_keeps_handle:
  "handles_ok env \<Longrightarrow> mqtt_connection s \<noteq> None \<Longrightarrow> mqtt_connection (snd (create_client env sec b s)) \<noteq> None"
  by (simp add: create_client_def case_prod_unfold Let_def handles_ok_def)

lemma command_keeps_handle:
  assumes "handles_ok env" and "k \<noteq> Lib_delete" and "mqtt_connection s \<noteq> None"
  shows "mqtt_connection (snd (command_step env nb k r cs s)) \<noteq> None"
proof -
  have cred: "mqtt_connection (snd (prepare_credentials mc c ca n u)) = mqtt_connection u"
    for mc c ca n and u :: "('a, 'b) mqtt_state_scheme"
    by (simp add: prepare_credentials_def case_prod_unfold Let_def)
  show ?thesis
    using assms
    by (induction env nb k r cs s rule: command_step.induct)
      (simp_all add: case_prod_unfold Let_def create_keeps_handle cred del: not_None_eq split: option.split)
qed

lemma commands_step:
  assumes "handles_ok env" and "commands_ok (k # cs) s"
  shows "commands_ok (snd (fst (command_step env nb k r cs s))) (snd (command_step env nb k r cs s))"
proof -
  let ?t = "snd (command_step env nb k r cs s)"
  have rest: "commands_ok cs ?t"
    using assms command_keeps_handle[OF assms(1), of k s nb r cs] by (auto simp: commands_ok_def)
  have more: "commands_ok (j # cs) ?t" if "j \<noteq> Lib_delete" "j \<noteq> Cleanup_client" for j
    using rest that by (simp add: commands_ok_def)
  show ?thesis
  proof (cases "k = Cleanup_client")
    case True
    then show ?thesis using assms(2) by (auto simp: commands_ok_def)
  next
    case False
    then show ?thesis
      using rest more
      by (cases "(env, nb, k, r, cs, s)" rule: command_step.cases)
        (auto simp: case_prod_unfold Let_def commands_ok_cleanup intro: commands_ok_check split: option.splits)
  qed
qed

text \<open>The writes of the other thread do not matter.\<close>

definition own_vars where
  "own_vars s = (mqtt_connection s, is_mqtt_initialized s, client_status_cb s, mqtt_inbound_msg_cb s)"

lemma commands_ok_cong: "own_vars t = own_vars s \<Longrightarrow> commands_ok cs t = commands_ok cs s"
  by (simp add: commands_ok_def own_vars_def)

section \<open>The invariant\<close>

definition topic_copy :: "event_pc \<Rightarrow> addr list" where
  "topic_copy p = (case p of Ev_copied r a \<Rightarrow> [a] | Ev_returned a \<Rightarrow> [a] | _ \<Rightarrow> [])"

lemma topic_copy_simps [simp]:
  "topic_copy Ev_idle = []" "topic_copy (Ev_called e) = []" "topic_copy Ev_dropped = []" "topic_copy Ev_notify = []"
  "topic_copy (Ev_registered r) = []" "topic_copy (Ev_wanted r) = []" "topic_copy (Ev_copied r a) = [a]"
  "topic_copy (Ev_returned a) = [a]" "topic_copy Ev_reset = []"
  by (simp_all add: topic_copy_def)

text \<open>A pointer that the event callback has tested is still there when it is called.\<close>

definition event_ok :: "event_pc \<Rightarrow> ('q, 'z) mqtt_state_scheme \<Rightarrow> bool" where
  "event_ok p s \<longleftrightarrow>
     (case p of
        Ev_notify \<Rightarrow> client_status_cb s \<noteq> None
      | Ev_registered r \<Rightarrow> mqtt_inbound_msg_cb s \<noteq> None
      | Ev_wanted r \<Rightarrow> mqtt_inbound_msg_cb s \<noteq> None
      | Ev_copied r a \<Rightarrow> mqtt_inbound_msg_cb s \<noteq> None
      | _ \<Rightarrow> True)"

text \<open>The faults there can be: a string that the configuration lacks, and a pointer that was cleared after its test.\<close>

definition thread_faults :: "bool \<Rightarrow> string set" where
  "thread_faults excl =
     insert ''strlen of a null pointer'' (if excl then {} else {''call through a null pointer''})"

definition client_mem :: "bool \<Rightarrow> (addr \<rightharpoonup> string) \<Rightarrow> string set \<Rightarrow> event_pc \<Rightarrow> ('q, 'z) mqtt_state_scheme \<Rightarrow> bool" where
  "client_mem excl h0 fs p s \<longleftrightarrow> heap_ok s \<and> (\<forall>a. h0 a \<noteq> None \<longrightarrow> heap s a = h0 a \<and> a \<notin> set (topic_copy p))
     \<and> (\<forall>a \<in> set (topic_copy p). heap s a \<noteq> None)
     \<and> set (faults (log s)) \<subseteq> thread_faults excl \<union> fs"

definition client_inv :: "bool \<Rightarrow> (addr \<rightharpoonup> string) \<Rightarrow> string set \<Rightarrow> ('q, 'z) client_threads \<Rightarrow> bool" where
  "client_inv excl h0 fs x \<longleftrightarrow> (case x of (p, (r, cs), s) \<Rightarrow>
     client_mem excl h0 fs p s \<and> (excl \<longrightarrow> event_ok p s) \<and> commands_ok cs s \<and> mqtt_accounted s)"

section \<open>The invariant is kept\<close>

lemma command_frame:
  "heap (snd (command_step env nb k r cs s)) = heap s"
  "next_addr (snd (command_step env nb k r cs s)) = next_addr s"
  "set (faults (log (snd (command_step env nb k r cs s)))) \<subseteq> insert ''strlen of a null pointer'' (set (faults (log s)))"
proof -
  have strlen: "heap (snd (c_strlen q u)) = heap u \<and> next_addr (snd (c_strlen q u)) = next_addr u
      \<and> set (faults (log (snd (c_strlen q u)))) \<subseteq> insert ''strlen of a null pointer'' (set (faults (log u)))"
    for q and u :: "('a, 'b) mqtt_state_scheme"
    by (auto simp: c_strlen_def split: option.split)
  have cred: "heap (snd (prepare_credentials mc c ca n u)) = heap u
      \<and> next_addr (snd (prepare_credentials mc c ca n u)) = next_addr u
      \<and> set (faults (log (snd (prepare_credentials mc c ca n u)))) \<subseteq> insert ''strlen of a null pointer'' (set (faults (log u)))"
    for mc c ca n and u :: "('a, 'b) mqtt_state_scheme"
    using strlen[of "device_cert (mqtt_x509_config c)" u]
      strlen[of "device_key (mqtt_x509_config c)" "snd (c_strlen (device_cert (mqtt_x509_config c)) u)"]
    by (auto simp: prepare_credentials_def case_prod_unfold Let_def)
  have create: "heap (snd (create_client env sec b u)) = heap u \<and> next_addr (snd (create_client env sec b u)) = next_addr u
      \<and> faults (log (snd (create_client env sec b u))) = faults (log u)" for sec b and u :: "('a, 'b) mqtt_state_scheme"
    by (simp add: create_client_def case_prod_unfold Let_def)
  show "heap (snd (command_step env nb k r cs s)) = heap s" "next_addr (snd (command_step env nb k r cs s)) = next_addr s"
    "set (faults (log (snd (command_step env nb k r cs s)))) \<subseteq> insert ''strlen of a null pointer'' (set (faults (log s)))"
    using strlen cred create
    by (induction env nb k r cs s rule: command_step.induct)
      (auto simp: case_prod_unfold Let_def split: option.split; blast)+
qed

text \<open>Commands that leave the four variables, the resources and the status of the callbacks alone.\<close>

definition neutral_command :: "client_command \<Rightarrow> bool" where
  "neutral_command k \<longleftrightarrow> (case k of
     Set_connected b \<Rightarrow> True | Set_disconnect_requested b \<Rightarrow> True | Lib_register \<Rightarrow> True | Connect mc \<Rightarrow> True
   | Try_connect i n \<Rightarrow> True | Wait_connect i n \<Rightarrow> True | Subscribe mc \<Rightarrow> True | Try_subscribe t n \<Rightarrow> True
   | Wait_subscribe t n \<Rightarrow> True | Cleanup_client \<Rightarrow> True | Lib_disconnect \<Rightarrow> True | Return v \<Rightarrow> True | _ \<Rightarrow> False)"

lemma neutral_frame:
  assumes "neutral_command k"
  shows "own_vars (snd (command_step env nb k r cs s)) = own_vars s
    \<and> mqtt_accounted (snd (command_step env nb k r cs s)) = mqtt_accounted s"
proof -
  have own: "own_vars (u\<lparr>is_connected := b\<rparr>) = own_vars u" "own_vars (u\<lparr>is_disconnect_requested := b\<rparr>) = own_vars u"
    "own_vars (snd (c_strlen q u)) = own_vars u" "own_vars (snd (call env c u)) = own_vars u"
    "own_vars (sdk_emit e u) = own_vars u" for env b q c e and u :: "('a, 'b) mqtt_state_scheme"
    by (simp_all add: own_vars_def)
  have bal: "mqtt_accounted (snd (call env c u)) = mqtt_accounted u"
    if "\<forall>sec b. c \<noteq> Cy_mqtt_create sec b" "\<forall>h. c \<noteq> Cy_mqtt_delete h" "c \<noteq> Cy_mqtt_init" "c \<noteq> Cy_mqtt_deinit"
    for env c and u :: "('a, 'b) mqtt_state_scheme"
    using that by (intro mqtt_accounted_neutral; cases c) (simp_all add: resource_defs ledger_event_def)
  have delay: "mqtt_accounted (sdk_emit (Rtos_delay d) u) = mqtt_accounted u" for d and u :: "('a, 'b) mqtt_state_scheme"
    by (rule mqtt_accounted_neutral) (simp_all add: resource_defs)
  show ?thesis
    using assms by (induction env nb k r cs s rule: command_step.induct)
      (simp_all add: neutral_command_def own bal delay case_prod_unfold Let_def)
qed

lemma event_ok_cong: "own_vars t = own_vars s \<Longrightarrow> event_ok p t = event_ok p s"
  by (cases p) (simp_all add: event_ok_def own_vars_def)

lemma event_ok_idle [simp]: "event_ok Ev_idle s"
  by (simp add: event_ok_def)

lemma command_callbacks:
  "mqtt_inbound_msg_cb (snd (command_step env nb k r cs s)) = (case k of Set_inbound v \<Rightarrow> v | _ \<Rightarrow> mqtt_inbound_msg_cb s)"
  "client_status_cb (snd (command_step env nb k r cs s)) = (case k of Set_status v \<Rightarrow> v | _ \<Rightarrow> client_status_cb s)"
  by (induction env nb k r cs s rule: command_step.induct)
    (simp_all add: case_prod_unfold Let_def create_client_def split: option.split)

lemma command_event_ok:
  assumes "event_ok p s" and "clears_callback k \<longrightarrow> p = Ev_idle"
  shows "event_ok p (snd (command_step env nb k r cs s))"
  using assms
  by (cases p; cases k) (auto simp: event_ok_def command_callbacks clears_callback_def simp del: command_step.simps)

lemma null_call_accounted: "mqtt_accounted (sdk_emit (Fault m) s) = mqtt_accounted s"
  by (rule mqtt_accounted_neutral) (simp_all add: resource_defs)

text \<open>The calls that open and close.\<close>

lemma command_accounted:
  assumes "handles_ok env" and "mqtt_accounted s" and "k = Lib_delete \<longrightarrow> mqtt_connection s \<noteq> None"
  shows "mqtt_accounted (snd (command_step env nb k r cs s))"
proof (cases "neutral_command k")
  case True
  from neutral_frame[OF this, of env nb r cs s] assms(2) show ?thesis by simp
next
  case False
  show ?thesis
  proof (cases k)
    case (Set_inbound v)
    then show ?thesis using assms(2) by (simp add: mqtt_accounted_def)
  next
    case (Set_status v)
    then show ?thesis using assms(2) by (simp add: mqtt_accounted_def)
  next
    case Lib_init
    then show ?thesis using mqtt_accounted_start[OF assms(2), of env] by (simp add: case_prod_unfold)
  next
    case (Lib_create mc c)
    have "mqtt_accounted (snd (create_client env sec b u))" if "mqtt_accounted u"
      for sec b and u :: "('a, 'b) mqtt_state_scheme"
      using mqtt_accounted_create[OF that] assms(1) by (simp add: handles_ok_def)
    then show ?thesis using assms(2) by (simp add: Lib_create case_prod_unfold Let_def split: option.split)
  next
    case Lib_delete
    then show ?thesis
      using assms(2,3) by (auto simp: case_prod_unfold mqtt_accounted_def resource_defs ledger_event_def)
  next
    case Cleanup_library
    then show ?thesis
      using assms(2) by (auto simp: case_prod_unfold mqtt_accounted_def resource_defs ledger_event_def)
  qed (use False in \<open>simp_all add: neutral_command_def\<close>)
qed

lemma command_keeps:
  assumes "handles_ok env" and "client_inv excl h0 fs (p, (r, k # cs), s)"
    and "excl \<and> clears_callback k \<longrightarrow> p = Ev_idle" and "command_step env nb k r cs s = (c, t)"
  shows "client_inv excl h0 fs (p, c, t)"
proof -
  obtain r' cs' where c: "c = (r', cs')" by fastforce
  have t: "t = snd (command_step env nb k r cs s)" "cs' = snd (fst (command_step env nb k r cs s))"
    using assms(4) by (simp_all add: c)
  have i: "client_mem excl h0 fs p s" "excl \<longrightarrow> event_ok p s" "commands_ok (k # cs) s" "mqtt_accounted s"
    using assms(2) by (simp_all add: client_inv_def)
  have "client_mem excl h0 fs p t"
    using i(1) command_frame[of env nb k r cs s] by (auto simp: client_mem_def heap_ok_def thread_faults_def t)
  moreover have "k = Lib_delete \<longrightarrow> mqtt_connection s \<noteq> None" using i(3) by (auto simp: commands_ok_def)
  ultimately show ?thesis
    using commands_step[OF assms(1) i(3), of nb r] command_accounted[OF assms(1) i(4), of k nb r cs]
      command_event_ok[of p s k env nb r cs] i(2) assms(3)
    by (simp add: client_inv_def c t)
qed

lemma client_mem_quiet:
  "client_mem excl h0 fs p s \<Longrightarrow> heap t = heap s \<Longrightarrow> next_addr t = next_addr s \<Longrightarrow> topic_copy p' = topic_copy p \<Longrightarrow>
   set (faults (log t)) \<subseteq> thread_faults excl \<union> set (faults (log s)) \<Longrightarrow> client_mem excl h0 fs p' t"
  by (auto simp: client_mem_def heap_ok_def)

lemma copy_mem:
  assumes "client_mem excl h0 fs (Ev_wanted r) s" and "alloc env bs s = (p, t)"
  shows "client_mem excl h0 fs (case p of None \<Rightarrow> Ev_idle | Some a \<Rightarrow> Ev_copied r a) t"
proof -
  have s: "heap_ok s" "\<And>a. h0 a \<noteq> None \<Longrightarrow> heap s a = h0 a" "set (faults (log s)) \<subseteq> thread_faults excl \<union> fs"
    using assms(1) by (simp_all add: client_mem_def)
  have "heap_ok t" using heap_ok_alloc[OF s(1), of env bs] assms(2) by simp
  moreover have "h0 (next_addr s) = None" using heap_ok_fresh[OF s(1)] s(2)[of "next_addr s"] by (cases "h0 (next_addr s)") auto
  ultimately show ?thesis using assms(2) s by (auto simp: client_mem_def elim!: alloc_cases)
qed

lemma free_mem:
  assumes "client_mem excl h0 fs (Ev_returned a) s"
  shows "client_mem excl h0 fs Ev_reset (c_free a s)"
proof -
  have s: "heap_ok s" "\<And>b. h0 b \<noteq> None \<Longrightarrow> heap s b = h0 b \<and> b \<noteq> a" "heap s a \<noteq> None"
      "set (faults (log s)) \<subseteq> thread_faults excl \<union> fs"
    using assms by (simp_all add: client_mem_def)
  then show ?thesis using free_live[OF s(3)] heap_ok_free[OF s(1), of a] by (simp add: client_mem_def)
qed

section \<open>The callback of the application\<close>

text \<open>
  What the client relies on: the inbound callback leaves the variables of the client and its library resources alone,
  and writes and frees no memory but its own.
\<close>

locale message_receiver =
  fixes invoke :: "inbound_cb \<Rightarrow> string \<Rightarrow> string \<Rightarrow> ('q, 'z) mqtt_state_scheme \<Rightarrow> ('q, 'z) mqtt_state_scheme option"
  assumes receive_vars: "invoke cb tp pl s = Some t \<Longrightarrow> own_vars t = own_vars s \<and> mqtt_accounted t = mqtt_accounted s"
    and receive_mem: "heap_ok s \<Longrightarrow> invoke cb tp pl s = Some t \<Longrightarrow>
          heap_ok t \<and> faults (log t) = faults (log s) \<and> (\<forall>a. heap s a \<noteq> None \<longrightarrow> heap t a = heap s a)"
begin

lemma receive_copied:
  assumes "client_mem excl h0 fs (Ev_copied r a) s" and "invoke cb tp pl s = Some t"
  shows "client_mem excl h0 fs (Ev_returned a) t"
proof -
  have s: "heap_ok s" "\<And>b. h0 b \<noteq> None \<Longrightarrow> heap s b = h0 b \<and> b \<noteq> a" "heap s a \<noteq> None"
      "set (faults (log s)) \<subseteq> thread_faults excl \<union> fs"
    using assms(1) by (simp_all add: client_mem_def)
  from receive_mem[OF s(1) assms(2)] have t: "heap_ok t" "faults (log t) = faults (log s)"
      "\<And>b. heap s b \<noteq> None \<Longrightarrow> heap t b = heap s b"
    by simp_all
  have "heap t b = h0 b" if "h0 b \<noteq> None" for b using s(2)[OF that] t(3)[of b] that by simp
  then show ?thesis using s(2,3,4) t(1,2) t(3)[of a] by (simp add: client_mem_def)
qed

lemma event_keeps:
  assumes "client_inv excl h0 fs (p, c, s)" and "p \<noteq> Ev_idle" and "event_step env invoke p s = Some (p', t)"
  shows "client_inv excl h0 fs (p', c, t)"
proof -
  obtain r cs where c: "c = (r, cs)" by fastforce
  have i: "client_mem excl h0 fs p s" "excl \<longrightarrow> event_ok p s" "commands_ok cs s" "mqtt_accounted s"
    using assms(1) by (simp_all add: client_inv_def c)
  have keep: "client_inv excl h0 fs (q, c, u)"
    if "own_vars u = own_vars s" "mqtt_accounted u = mqtt_accounted s" "client_mem excl h0 fs q u" "excl \<longrightarrow> event_ok q s" for q u
    using i that commands_ok_cong[of u s cs] event_ok_cong[of u s q] by (simp add: client_inv_def c)
  show ?thesis
  proof (cases p)
    case (Ev_wanted r)
    obtain a u where a: "alloc env (r_topic r @ [CHR 0x00]) s = (a, u)" by fastforce
    have "own_vars u = own_vars s" "mqtt_accounted u = mqtt_accounted s"
      using a mqtt_alloc_frame[of env "r_topic r @ [CHR 0x00]" s] balanced_frame(6)[of env "r_topic r @ [CHR 0x00]" s]
      by (simp_all add: own_vars_def)
    then show ?thesis
      using assms(3) Ev_wanted a i(2) copy_mem[OF i(1)[unfolded Ev_wanted] a]
      by (auto simp: event_ok_def intro!: keep split: option.splits)
  next
    case (Ev_returned a)
    then show ?thesis
      using assms(3) free_mem[of excl h0 fs a s] i(1) by (auto simp: own_vars_def event_ok_def intro!: keep)
  next
    case (Ev_copied r a)
    show ?thesis
    proof (cases "mqtt_inbound_msg_cb s")
      case None
      with Ev_copied i(2) have "\<not> excl" by (auto simp: event_ok_def)
      have e: "p' = Ev_returned a" "t = sdk_emit (Fault ''call through a null pointer'') s"
        using assms(3) Ev_copied None by simp_all
      have "client_mem excl h0 fs p' t"
        by (rule client_mem_quiet[OF i(1)]) (use \<open>\<not> excl\<close> Ev_copied in \<open>auto simp: e thread_faults_def\<close>)
      then show ?thesis using \<open>\<not> excl\<close> by (intro keep) (simp_all add: e own_vars_def null_call_accounted)
    next
      case (Some cb)
      obtain u where u: "invoke cb (c_string (r_topic r @ r_topic_tail r)) (r_payload r) s = Some u"
          "p' = Ev_returned a" "t = u"
        using assms(3) Ev_copied Some by (auto simp: bind_eq_Some_conv)
      show ?thesis
        unfolding u(2,3)
        by (rule keep) (use receive_vars[OF u(1)] receive_copied[OF i(1)[unfolded Ev_copied] u(1)] in \<open>simp_all add: event_ok_def\<close>)
    qed
  next
    case Ev_notify
    show ?thesis
    proof (cases "client_status_cb s")
      case None
      with Ev_notify i(2) have "\<not> excl" by (auto simp: event_ok_def)
      have e: "p' = Ev_idle" "t = sdk_emit (Fault ''call through a null pointer'') s"
        using assms(3) Ev_notify None by simp_all
      have "client_mem excl h0 fs p' t"
        by (rule client_mem_quiet[OF i(1)]) (use \<open>\<not> excl\<close> Ev_notify in \<open>auto simp: e thread_faults_def\<close>)
      then show ?thesis using \<open>\<not> excl\<close> by (intro keep) (simp_all add: e own_vars_def null_call_accounted)
    next
      case (Some cb)
      then show ?thesis
        using assms(3) Ev_notify
        by (cases cb) (auto simp: call_status_cb_def default_on_connection_status_def own_vars_def intro!: keep client_mem_quiet[OF i(1)])
    qed
  next
    case (Ev_called e)
    then show ?thesis
      using assms(3)
      by (cases e) (auto simp: own_vars_def event_ok_def intro!: keep client_mem_quiet[OF i(1)])
  next
    case (Ev_registered r)
    then show ?thesis
      using assms(3) i(2)
      by (auto simp: event_ok_def intro!: keep client_mem_quiet[OF i(1)])
  qed (use assms(2,3) in \<open>auto simp: own_vars_def event_ok_def intro!: keep client_mem_quiet[OF i(1)]\<close>)
qed

lemma client_inv_move:
  assumes "handles_ok env" and "client_inv excl h0 fs x" and "client_move env nb invoke excl x y"
  shows "client_inv excl h0 fs y"
  using assms(3)
proof cases
  case (event_arrives c s e)
  then show ?thesis using assms(2) client_mem_quiet[of excl h0 fs Ev_idle s s "Ev_called e"]
    by (auto simp: client_inv_def event_ok_def)
next
  case (event_moves p s p' t c)
  then show ?thesis using event_keeps assms(2) by blast
next
  case (client_moves k p r cs s c t)
  then show ?thesis using command_keeps[OF assms(1)] assms(2) by blast
next
  case (client_initialises p r s c)
  then show ?thesis using assms(2) commands_ok_cleanup(5)[of env c s]
    by (cases "client_init_begin env c s") (simp add: client_inv_def)
next
  case (client_disconnects p r s)
  then show ?thesis using assms(2) by (simp add: client_inv_def commands_ok_cleanup)
next
  case (client_publishes p r s tp pl qos)
  let ?t = "snd (iotc_mqtt_client_publish env tp pl qos s)"
  have quiet: "heap ?t = heap s" "next_addr ?t = next_addr s" "own_vars ?t = own_vars s"
      "set (faults (log ?t)) \<subseteq> thread_faults excl \<union> set (faults (log s))"
    by (auto simp: iotc_mqtt_client_publish_def case_prod_unfold Let_def own_vars_def c_strlen_def thread_faults_def
        split: option.split)
  show ?thesis
    using assms(2) client_publishes client_mem_quiet[of excl h0 fs p s ?t p] quiet event_ok_cong[OF quiet(3), of p]
    by (simp add: client_inv_def commands_ok_cong[OF quiet(3)])
next
  case (client_configured p r s mc)
  let ?t = "s\<lparr>iotcl_mc := mc\<rparr>"
  have quiet: "own_vars ?t = own_vars s" by (simp add: own_vars_def)
  show ?thesis
    using assms(2) client_configured client_mem_quiet[of excl h0 fs p s ?t p] event_ok_cong[OF quiet, of p]
    by (auto simp: client_inv_def commands_ok_cong[OF quiet])
qed

lemma client_inv_run:
  assumes "handles_ok env" and "heap_ok s" and "mqtt_accounted s"
    and "(client_move env nb invoke excl)\<^sup>*\<^sup>* (Ev_idle, (r, []), s) x"
  shows "client_inv excl (heap s) (set (faults (log s))) x"
  using assms(4)
proof (induction rule: rtranclp_induct)
  case base
  show ?case using assms(2,3) by (auto simp: client_inv_def client_mem_def commands_ok_cleanup)
next
  case (step y z)
  then show ?case using client_inv_move[OF assms(1)] by blast
qed

end

interpretation recording_receiver: message_receiver record_message
  by unfold_locales (auto simp: record_message_def own_vars_def)

section \<open>Runs of the threads\<close>

text \<open>A thread that moves while the other one stays where it is.\<close>

lemma client_runs:
  assumes "(client_alone env nb)\<^sup>*\<^sup>* (c, s) (d, t)" and "p = Ev_idle \<or> \<not> excl"
  shows "(client_move env nb invoke excl)\<^sup>*\<^sup>* (p, c, s) (p, d, t)"
  using assms(1)
proof (induction "(d, t)" arbitrary: d t rule: rtranclp_induct)
  case (step y)
  obtain e u where y: "y = (e, u)" by fastforce
  from step(2) have "client_move env nb invoke excl (p, e, u) (p, d, t)"
    using assms(2) by (auto simp: y elim!: client_alone.cases intro!: client_moves)
  then show ?case using step(3)[OF y] by (rule rtranclp.rtrancl_into_rtrancl[rotated])
qed simp

lemma event_runs:
  assumes "(event_alone env invoke)\<^sup>*\<^sup>* (p, s) (q, t)"
  shows "(client_move env nb invoke excl)\<^sup>*\<^sup>* (p, c, s) (q, c, t)"
  using assms
proof (induction "(q, t)" arbitrary: q t rule: rtranclp_induct)
  case (step y)
  obtain o' u where y: "y = (o', u)" by fastforce
  from step(2) have "client_move env nb invoke excl (o', c, u) (q, c, t)"
    by (auto simp: y elim!: event_alone.cases intro!: event_moves)
  then show ?case using step(3)[OF y] by (rule rtranclp.rtrancl_into_rtrancl[rotated])
qed simp


lemma event_forward:
  "p \<noteq> Ev_idle \<Longrightarrow> event_step env invoke p s = Some x \<Longrightarrow> (event_alone env invoke)\<^sup>*\<^sup>* x z \<Longrightarrow>
   (event_alone env invoke)\<^sup>*\<^sup>* (p, s) z"
  by (rule converse_rtranclp_into_rtranclp, rule event_alone.intros)








lemma disconnect_faults:
  "faults (log (snd (iotc_mqtt_client_disconnect env s))) = faults (log s)"
  "heap (snd (iotc_mqtt_client_disconnect env s)) = heap s"
  by (simp_all add: iotc_mqtt_client_disconnect_def iotc_cleanup_mqtt_def case_prod_unfold Let_def)

text \<open>A message that is wanted, up to the copy of its topic.\<close>

lemma event_copies:
  fixes r :: received_msg
  assumes "mqtt_inbound_msg_cb s \<noteq> None" "\<not> is_disconnect_requested s"
    and "alloc env (r_topic r @ [CHR 0x00]) s = (Some a, u)"
  shows "(event_alone env invoke)\<^sup>*\<^sup>* (Ev_called (CY_MQTT_EVENT_TYPE_SUBSCRIPTION_MESSAGE_RECEIVE r), s) (Ev_copied r a, u)"
  by (rule event_forward, simp, simp add: assms, rule event_forward, simp, simp add: assms, rule event_forward, simp,
      simp add: assms, simp)

section \<open>Properties\<close>



text \<open>
  C28: a disconnect can pull the callback from under a message. Nothing keeps it from clearing the pointers while the
  event callback runs: for every connected client and every message whose topic can be copied there is an interleaving in which the event
  callback has tested \<open>mqtt_inbound_msg_cb\<close>, the disconnect runs to its end and clears it, and the null pointer is called.
\<close>

theorem mqtt_disconnect_race:
  fixes r :: received_msg
  assumes "client_up c s" and "mqtt_inbound_cb c \<noteq> None" and "heap_ok s"
    and "env_alloc env (log s) (Suc (length (r_topic r)))"
  shows "\<exists>v t. (client_move env nb invoke False)\<^sup>*\<^sup>* (Ev_idle, (w, []), s) (Ev_idle, (v, []), t)
    \<and> faults (log t) = faults (log s) @ [''call through a null pointer'']"
proof -
  let ?move = "client_move env nb invoke False"
  let ?e = "CY_MQTT_EVENT_TYPE_SUBSCRIPTION_MESSAGE_RECEIVE r" and ?d = "(CY_RSLT_SUCCESS, client_disconnect_commands)"
  obtain u where a: "alloc env (r_topic r @ [CHR 0x00]) s = (Some (next_addr s), u)"
    using assms(4) by (simp add: alloc_def Let_def)
  have u: "heap u (next_addr s) \<noteq> None" "faults (log u) = faults (log s)" using a by (auto elim: alloc_cases)
  obtain v x where x: "iotc_mqtt_client_disconnect env u = (v, x)" by fastforce
  have down: "mqtt_inbound_msg_cb x = None" "faults (log x) = faults (log u)" "heap x = heap u"
    using disconnect_faults[of env u] cleanup_clears[of env "u\<lparr>is_disconnect_requested := True\<rparr>"] x
    by (simp_all add: iotc_mqtt_client_disconnect_def)
  let ?y = "sdk_emit (Fault ''call through a null pointer'') x"
  let ?t = "(c_free (next_addr s) ?y)\<lparr>is_disconnect_requested := False\<rparr>"
  have cb: "mqtt_inbound_msg_cb s \<noteq> None" "\<not> is_disconnect_requested s" using assms(1,2) by (simp_all add: client_up_def)
  have begins: "?move\<^sup>*\<^sup>* (Ev_idle, (w, []), s) (Ev_called ?e, ?d, s)"
    by (rule converse_rtranclp_into_rtranclp, rule client_disconnects, rule r_into_rtranclp, rule event_arrives)
  have cleared: "?move\<^sup>*\<^sup>* (Ev_copied r (next_addr s), ?d, u) (Ev_copied r (next_addr s), (v, []), x)"
    by (rule client_runs) (simp_all add: disconnect_alone x)
  have called: "(event_alone env invoke)\<^sup>*\<^sup>* (Ev_copied r (next_addr s), x) (Ev_idle, ?t)"
    by (simp add: event_alone_simps down)
  have "?move\<^sup>*\<^sup>* (Ev_idle, (w, []), s) (Ev_idle, (v, []), ?t)"
    using begins event_runs[OF event_copies[OF cb a]] cleared event_runs[OF called] by (meson rtranclp_trans)
  moreover have "faults (log ?t) = faults (log s) @ [''call through a null pointer'']"
    using free_live[of ?y "next_addr s"] u down by simp
  ultimately show ?thesis by blast
qed

section \<open>Witnesses\<close>




lemma mqtt_disconnect_race_witness:
  "\<exists>(s :: (nat \<times> mq_msg list) option mqtt_state) t v. client_up mqtt_example_config s
    \<and> (client_move mq_example_env False record_message False)\<^sup>*\<^sup>* (Ev_idle, (0, []), s) (Ev_idle, (v, []), t)
    \<and> faults (log t) = faults (log s) @ [''call through a null pointer'']"
proof -
  obtain s :: "(nat \<times> mq_msg list) option mqtt_state" where s: "client_up mqtt_example_config s" "heap_ok s"
  proof -
    let ?s = "mqtt_example\<lparr>is_connected := True, mqtt_connection := Some 1, is_mqtt_initialized := True,
      mqtt_inbound_msg_cb := Some (User_inbound 1), client_status_cb := Some (User_status 1)\<rparr>"
    show ?thesis
      by (rule that[of ?s]) (simp_all add: client_up_def mqtt_example_def mqtt_example_config_def heap_ok_def)
  qed
  let ?r = "\<lparr>r_topic = ''t'', r_topic_tail = [], r_payload = ''m''\<rparr>"
  have "mqtt_inbound_cb mqtt_example_config \<noteq> None" "env_alloc mq_example_env (log s) (Suc (length (r_topic ?r)))"
    by (simp_all add: mqtt_example_config_def mq_example_env_def)
  from mqtt_disconnect_race[OF s(1) this(1) s(2) this(2), of False record_message 0] s(1) show ?thesis by blast
qed

end
