(* ===== verification/SdkThreads.thy ===== *)
theory SdkThreads
  imports SdkTheorems MqttMqThreadProps MqttClientThreadProps
begin

text \<open>
  The thread of the MQTT library and the thread of the application that polls the SDK: memory safety and
  the order of the messages in every interleaving of their steps.
\<close>

section \<open>An example\<close>

lemma sdk_example_listener_ok:
  "mq_ok list_items list_cap sdk_example_listener"
  "client_msg_cb sdk_example_listener \<in> {None, Some On_mqtt_mq_message}"
  "mq_contents list_items sdk_example_listener = []" "c2d_events (log sdk_example_listener) = []"
  using sdk_example_listening(1,2) by (simp_all add: listening_def buffer_of_def)

text \<open>The poll holds the first message in its hand while the second is being copied.\<close>

definition sdk_example_turns :: "thread_turn list" where
  "sdk_example_turns =
     [Message ''t'' ''command'' 7, Mqtt_thread, Mqtt_thread, Mqtt_thread, Begin_process 5, App_thread, App_thread,
      Message ''t'' ''text'' 4, Mqtt_thread, Mqtt_thread, App_thread]"

lemma sdk_example_interleaving:
  obtains ls p c t where "thread_run sdk_example_env list_queue (invoke_sdk sdk_example_env False sdk_example_lib list_queue)
      On_mqtt_mq_message (In_idle, App_idle, sdk_example_listener) ls (p, c, t)"
    and "delivered ls = [(''t'', ''command'')]" and "in_flight p \<noteq> []"
proof -
  have "\<exists>ls p c t. run_turns sdk_example_env list_queue (invoke_sdk sdk_example_env False sdk_example_lib list_queue)
      sdk_example_turns (In_idle, App_idle, sdk_example_listener) = Some (ls, p, c, t)
    \<and> delivered ls = [(''t'', ''command'')] \<and> in_flight p \<noteq> []"
    by (simp add: sdk_example_turns_def sdk_example_listener_def sdk_example_def sdk_example_env_def list_queue_def
        iotc_mq_create_message_def iotcl_strdup_def alloc_def sdk_emit_def c_string_def Let_def
        inbound_label_def app_label_def delivered_def msg_content_def call_client_def read_block_def invoke_sdk_def sdk_example_lib_def
        on_mqtt_mq_message_def run_c2d_call_def sdk_qualification_blocks QUALIFICATION_START_PREFIX_CMD_def
        iotconnect_sdk_mqtt_send_cb_def iotc_mqtt_client_publish_def call_def c_strlen_def)
  then show ?thesis using that run_turns_run by blast
qed

section \<open>The MQTT client and the SDK's inbound callback\<close>





section \<open>Properties\<close>

text \<open>
  C4: the queue is safe between the two threads. However the steps of the MQTT thread, which delivers messages, and of
  the application thread, which registers, polls, flushes and disconnects, interleave: the queue never exceeds
  its size, every block in the queue or in the hands of a thread is live and has one owner, nothing is freed
  twice and no null pointer is called, and the memory of the rest of the program is as it was.
\<close>

theorem sdk_threads_safe:
  fixes s t :: "'q sdk_state"
  assumes "queue_laws api items cap" and "mq_ok items cap s" and "client_msg_cb s \<in> {None, Some On_mqtt_mq_message}"
    and "thread_run env api (invoke_sdk env nb lib api) On_mqtt_mq_message (In_idle, App_idle, s) ls (p, c, t)"
  shows "length (queued items t) \<le> cap (cy_queue s)
    \<and> distinct (blocks (owned items (p, c, t))) \<and> (\<forall>m \<in> set (owned items (p, c, t)). msg_ok t m)
    \<and> faults (log t) = faults (log s)
    \<and> heap s |` (- set (mq_blocks items s)) \<subseteq>\<^sub>m heap t |` (- set (blocks (owned items (p, c, t))))"
proof -
  let ?h0 = "heap s |` (- set (mq_blocks items s))"
  have h0: "\<forall>a. ?h0 a \<noteq> None \<longrightarrow> heap s a = ?h0 a \<and> a \<notin> set (mq_blocks items s)"
    by (simp add: restrict_map_def)
  have i: "mem_inv items cap (cap (cy_queue s)) ?h0 (faults (log s)) (p, c, t)"
    using c2d_sink.threads_inv_run[OF assms(1-3) h0 assms(4)] by (simp add: c2d_sink.threads_inv_def)
  have "\<forall>a. ?h0 a \<noteq> None \<longrightarrow> heap t a = ?h0 a \<and> a \<notin> set (blocks (owned items (p, c, t)))"
    using i unfolding mem_inv_def by simp
  then have "?h0 \<subseteq>\<^sub>m heap t |` (- set (blocks (owned items (p, c, t))))"
    by (auto simp: map_le_def dom_def restrict_map_def split: if_splits)
  then show ?thesis using i by (simp add: mem_inv_def)
qed

lemma sdk_threads_safe_witness:
  "\<exists>ls p c t. thread_run sdk_example_env list_queue (invoke_sdk sdk_example_env False sdk_example_lib list_queue)
      On_mqtt_mq_message (In_idle, App_idle, sdk_example_listener) ls (p, c, t)
    \<and> in_flight p \<noteq> [] \<and> (\<forall>m \<in> set (in_flight p). msg_ok t m)"
proof -
  obtain ls p c t where r: "thread_run sdk_example_env list_queue
      (invoke_sdk sdk_example_env False sdk_example_lib list_queue)
      On_mqtt_mq_message (In_idle, App_idle, sdk_example_listener) ls (p, c, t)" "in_flight p \<noteq> []"
    by (rule sdk_example_interleaving)
  have "\<forall>m \<in> set (in_flight p). msg_ok t m"
    using sdk_threads_safe[OF list_queue_laws sdk_example_listener_ok(1,2) r(1)] by (simp add: owned_def)
  with r show ?thesis by blast
qed

text \<open>
  C5: messages keep their order between the two threads. In every interleaving, what was queued and what the queue
  accepted since are, in order, what has been delivered or flushed followed by what is in hand and what is
  queued; the accepted messages are some of those that arrived, in the order of their arrival; and iotc-c-lib and
  the callbacks of the application have seen exactly the delivered ones.
\<close>

theorem sdk_threads_order:
  fixes s t :: "'q sdk_state"
  assumes "queue_laws api items cap" and "mq_ok items cap s" and "client_msg_cb s \<in> {None, Some On_mqtt_mq_message}"
    and "thread_run env api (invoke_sdk env nb lib api) On_mqtt_mq_message (In_idle, App_idle, s) ls (p, c, t)"
  shows "mq_contents items s @ accepted ls = taken ls @ map (msg_content t) (in_hand c) @ mq_contents items t
    \<and> subseq (accepted ls) (arrived ls)
    \<and> c2d_events (log t) = c2d_events (log s) @ concat (map (c2d_response lib (config s) \<circ> snd) (delivered ls))"
proof -
  have "\<forall>a. Map.empty a \<noteq> None \<longrightarrow> heap s a = Map.empty a \<and> a \<notin> set (mq_blocks items s)" by simp
  from c2d_sink.threads_inv_run[OF assms(1-3) this assms(4)]
  have "order_inv items (mq_contents items s) ls (p, c, t)"
    "c2d_events (log t) = c2d_events (log s) @ concat (map (\<lambda>x. c2d_response lib (config s) (snd x)) (delivered ls))"
    by (simp_all add: c2d_sink.threads_inv_def)
  then show ?thesis
    by (auto simp: order_inv_def mq_contents_def comp_def intro: subseq_drop)
qed

lemma sdk_threads_order_witness:
  "\<exists>ls p c t. thread_run sdk_example_env list_queue (invoke_sdk sdk_example_env False sdk_example_lib list_queue)
      On_mqtt_mq_message (In_idle, App_idle, sdk_example_listener) ls (p, c, t)
    \<and> c2d_events (log t) = [Processed ''command'', App_command 9 (Some ''reboot'')]"
proof -
  obtain ls p c t where r: "thread_run sdk_example_env list_queue
      (invoke_sdk sdk_example_env False sdk_example_lib list_queue)
      On_mqtt_mq_message (In_idle, App_idle, sdk_example_listener) ls (p, c, t)"
      "delivered ls = [(''t'', ''command'')]"
    by (rule sdk_example_interleaving)
  from sdk_threads_order[OF list_queue_laws sdk_example_listener_ok(1,2) r(1)] r(2)
  have "c2d_events (log t) = [Processed ''command'', App_command 9 (Some ''reboot'')]"
    using sdk_example_c2d(4)[OF sdk_example_listening(3)] by (simp add: sdk_example_listener_ok(4))
  with r(1) show ?thesis by blast
qed




end
