(* ===== verification/Ota.thy ===== *)
theory Ota
  imports SdkBase
begin

text \<open>
  Over-the-air updates, \<open>source/iotc_ota.c\<close>: the static parameters of the OTA agent, the callback
  that the agent calls on every event, and the functions that start, await and clean up an update.

  The agent is a task of a library. What it does while the application task runs or waits is an argument: the
  list of callbacks that it makes. The callback data are what the agent passes; text that the code only
  prints is left out, but not the dereference of a pointer in the printing.
\<close>

section \<open>The agent's callback data\<close>

datatype cy_ota_cb_reason =
    CY_OTA_LAST_REASON | CY_OTA_REASON_SUCCESS | CY_OTA_REASON_FAILURE | CY_OTA_REASON_STATE_CHANGE

datatype cy_ota_agent_state =
    CY_OTA_STATE_NOT_INITIALIZED | CY_OTA_STATE_EXITING | CY_OTA_STATE_INITIALIZING
  | CY_OTA_STATE_AGENT_STARTED | CY_OTA_STATE_AGENT_WAITING | CY_OTA_STATE_START_UPDATE
  | CY_OTA_STATE_JOB_CONNECT | CY_OTA_STATE_JOB_DOWNLOAD | CY_OTA_STATE_JOB_DISCONNECT
  | CY_OTA_STATE_JOB_PARSE | CY_OTA_STATE_JOB_REDIRECT | CY_OTA_STATE_DATA_CONNECT
  | CY_OTA_STATE_DATA_DOWNLOAD | CY_OTA_STATE_DATA_DISCONNECT | CY_OTA_STATE_RESULT_CONNECT
  | CY_OTA_STATE_RESULT_SEND | CY_OTA_STATE_RESULT_RESPONSE | CY_OTA_STATE_RESULT_DISCONNECT
  | CY_OTA_STATE_OTA_COMPLETE | CY_OTA_STATE_STORAGE_OPEN | CY_OTA_STATE_STORAGE_WRITE
  | CY_OTA_STATE_STORAGE_CLOSE | CY_OTA_STATE_VERIFY | CY_OTA_STATE_RESULT_REDIRECT | CY_OTA_NUM_STATES

datatype cy_ota_callback_results = CY_OTA_CB_RSLT_OTA_CONTINUE | CY_OTA_CB_RSLT_OTA_STOP

record cy_ota_cb_struct =
  reason :: cy_ota_cb_reason
  ota_agt_state :: cy_ota_agent_state
  cb_host_name :: "string option"
  cb_port :: nat
  cb_file :: "string option"
  cb_json_doc :: "string option"

section \<open>State\<close>

definition APP_ID :: nat where "APP_ID = 0"
definition HTTP_SERVER_PORT :: nat where "HTTP_SERVER_PORT = 443"

text \<open>
  The static variables: of \<open>ota_agent_params\<close> and \<open>ota_network_params\<close> the fields that the code
  changes.
\<close>

record ota_state = sdk_base +
  app_task_handle :: "nat option"
  last_session_result :: cy_rslt
  cb_func :: "ota_cb option"
  http_file :: "addr option"
  http_host_name :: "addr option"
  ota_root_ca :: "root_ca option"
  ota_root_ca_size :: nat

text \<open>
  What the code reads from the OTA library and the RTOS: the last error, an error as text, the general error
  code, the size of the certificates, and the handle of the running task.
\<close>

record ota_lib =
  cy_ota_get_last_error :: "sdk_event list \<Rightarrow> cy_rslt"
  cy_ota_get_error_string :: "cy_rslt \<Rightarrow> string"
  CY_RSLT_OTA_ERROR_GENERAL :: cy_rslt
  sizeof_root_ca :: "root_ca \<Rightarrow> nat"
  xTaskGetCurrentTaskHandle :: "sdk_event list \<Rightarrow> nat"

definition ota_initial :: "ota_lib \<Rightarrow> (addr \<rightharpoonup> string) \<Rightarrow> addr \<Rightarrow> ota_state" where
  "ota_initial lib h n =
     \<lparr>log = [], heap = h, next_addr = n, app_task_handle = None,
      last_session_result = CY_RSLT_OTA_ERROR_GENERAL lib, cb_func = None, http_file = None,
      http_host_name = None, ota_root_ca = None, ota_root_ca_size = 0\<rparr>"

section \<open>The callback\<close>

text \<open>A pointer that is printed with \<open>%s\<close>.\<close>

definition printf_string :: "string option \<Rightarrow> 'z sdk_base_scheme \<Rightarrow> 'z sdk_base_scheme" where
  "printf_string p s = (case p of None \<Rightarrow> sdk_emit (Fault ''printf of a null string'') s | Some t \<Rightarrow> s)"

definition xTaskNotifyGive :: "nat option \<Rightarrow> 'z sdk_base_scheme \<Rightarrow> 'z sdk_base_scheme" where
  "xTaskNotifyGive h s =
     (case h of None \<Rightarrow> sdk_emit (Fault ''notification of a null task handle'') s
              | Some t \<Rightarrow> sdk_emit (Notify_give t) s)"

text \<open>
  The branch \<open>CY_OTA_STATE_JOB_CONNECT\<close>: \<open>||\<close> evaluates \<open>strlen\<close> only when the server is given, and the
  text is printed in the error case too.
\<close>

definition ota_job_connect ::
    "cy_ota_cb_struct \<Rightarrow> ota_state \<Rightarrow> cy_ota_callback_results \<times> ota_state" where
  "ota_job_connect d s =
     (let (bad, s) =
            (if cb_host_name d = None \<or> cb_port d = 0 then (True, s)
             else (let (n, s) = c_strlen (cb_file d) s in (n = 0, s)));
          result = (if bad then CY_OTA_CB_RSLT_OTA_STOP else CY_OTA_CB_RSLT_OTA_CONTINUE);
          s = printf_string (cb_host_name d) s;
          s = printf_string (cb_file d) s
      in (result, s))"

definition iotc_ota_callback ::
    "ota_lib \<Rightarrow> cy_ota_cb_struct option \<Rightarrow> ota_state \<Rightarrow> cy_ota_callback_results \<times> ota_state" where
  "iotc_ota_callback lib cb_data s =
     (case cb_data of
        None \<Rightarrow> (CY_OTA_CB_RSLT_OTA_STOP, s)
      | Some d \<Rightarrow>
          (case reason d of
             CY_OTA_REASON_STATE_CHANGE \<Rightarrow>
               (case ota_agt_state d of
                  CY_OTA_STATE_JOB_CONNECT \<Rightarrow> ota_job_connect d s
                | CY_OTA_STATE_JOB_DOWNLOAD \<Rightarrow> (CY_OTA_CB_RSLT_OTA_CONTINUE, printf_string (cb_file d) s)
                | CY_OTA_STATE_JOB_PARSE \<Rightarrow> (CY_OTA_CB_RSLT_OTA_CONTINUE, snd (c_strlen (cb_json_doc d) s))
                | CY_OTA_STATE_DATA_CONNECT \<Rightarrow>
                    (CY_OTA_CB_RSLT_OTA_CONTINUE, printf_string (cb_host_name d) s)
                | CY_OTA_STATE_DATA_DOWNLOAD \<Rightarrow>
                    (let (n, s) = c_strlen (cb_json_doc d) s
                     in (CY_OTA_CB_RSLT_OTA_CONTINUE, printf_string (cb_file d) s))
                | CY_OTA_STATE_RESULT_CONNECT \<Rightarrow>
                    (CY_OTA_CB_RSLT_OTA_CONTINUE, printf_string (cb_host_name d) s)
                | CY_OTA_STATE_RESULT_SEND \<Rightarrow>
                    (CY_OTA_CB_RSLT_OTA_CONTINUE, printf_string (cb_json_doc d) s)
                | CY_OTA_STATE_OTA_COMPLETE \<Rightarrow>
                    (let s = s\<lparr>last_session_result := cy_ota_get_last_error lib (log s)\<rparr>;
                         s = xTaskNotifyGive (app_task_handle s) s
                     in (CY_OTA_CB_RSLT_OTA_STOP, s))
                | _ \<Rightarrow> (CY_OTA_CB_RSLT_OTA_CONTINUE, s))
           | _ \<Rightarrow> (CY_OTA_CB_RSLT_OTA_CONTINUE, s)))"

section \<open>The public functions\<close>

definition iotc_ota_init :: "sdk_env \<Rightarrow> ota_state \<Rightarrow> cy_rslt \<times> ota_state" where
  "iotc_ota_init env s = call env Cy_ota_storage_init s"

definition iotc_ota_storage_validated :: "sdk_env \<Rightarrow> ota_state \<Rightarrow> cy_rslt \<times> ota_state" where
  "iotc_ota_storage_validated env s = call env (Cy_ota_storage_image_validate APP_ID) s"

definition iotc_ota_cleanup :: "ota_state \<Rightarrow> ota_state" where
  "iotc_ota_cleanup s =
     (let s = s\<lparr>cb_func := None\<rparr>;
          s = (case http_file s of Some a \<Rightarrow> (c_free a s)\<lparr>http_file := None\<rparr> | None \<Rightarrow> s)
      in case http_host_name s of Some a \<Rightarrow> (c_free a s)\<lparr>http_host_name := None\<rparr> | None \<Rightarrow> s)"

text \<open>From the assumption of a failure to the end; the certificate has been chosen.\<close>

definition ota_launch ::
    "sdk_env \<Rightarrow> ota_lib \<Rightarrow> root_ca \<Rightarrow> string \<Rightarrow> string \<Rightarrow> ota_cb option \<Rightarrow> ota_state \<Rightarrow> cy_rslt \<times> ota_state" where
  "ota_launch env lib ca host path usr_ota_cb s =
     (let s = s\<lparr>last_session_result := CY_RSLT_OTA_ERROR_GENERAL lib\<rparr>;
          s = iotc_ota_cleanup s;
          cb = (case usr_ota_cb of Some f \<Rightarrow> f | None \<Rightarrow> Iotc_ota_callback);
          s = s\<lparr>cb_func := Some cb\<rparr>;
          (file, s) = iotcl_strdup env (Some path) s;
          s = s\<lparr>http_file := file\<rparr>;
          (host_name, s) = iotcl_strdup env (Some host) s;
          s = s\<lparr>http_host_name := host_name\<rparr>;
          (result, s) =
            call env (Cy_ota_agent_start ca (ota_root_ca_size s) HTTP_SERVER_PORT file host_name cb) s
      in if result \<noteq> CY_RSLT_SUCCESS then (result, iotc_ota_cleanup s) else (result, s))"

definition iotc_ota_start ::
    "sdk_env \<Rightarrow> ota_lib \<Rightarrow> IotConnectConnectionType \<Rightarrow> string option \<Rightarrow> string option \<Rightarrow> ota_cb option
       \<Rightarrow> ota_state \<Rightarrow> cy_rslt \<times> ota_state" where
  "iotc_ota_start env lib connection_type host path usr_ota_cb s =
     (case (path, host) of
        (Some p, Some h) \<Rightarrow>
          (let use_ca = (\<lambda>ca. ota_launch env lib ca h p usr_ota_cb
                 (s\<lparr>ota_root_ca := Some ca, ota_root_ca_size := sizeof_root_ca lib ca\<rparr>))
           in case connection_type of
                IOTC_CT_AWS \<Rightarrow> use_ca IOTCL_AMAZON_ROOT_CA1
              | IOTC_CT_AZURE \<Rightarrow> use_ca IOTCL_CERT_DIGICERT_GLOBAL_ROOT_G2
              | IOTC_CT_UNDEFINED \<Rightarrow> (-2, s))
      | _ \<Rightarrow> (-1, s))"

text \<open>A callback of the agent: to the function it was started with.\<close>

definition agent_callback :: "ota_lib \<Rightarrow> ota_cb \<Rightarrow> cy_ota_cb_struct option \<Rightarrow> ota_state \<Rightarrow> ota_state" where
  "agent_callback lib cb d s =
     (case cb of
        Iotc_ota_callback \<Rightarrow> snd (iotc_ota_callback lib d s)
      | User_ota n \<Rightarrow> sdk_emit (Ota_callback n) s)"

text \<open>
  \<open>early\<close>: the callbacks of the agent before the task has stored its handle; \<open>waiting\<close>: those while it
  waits in \<open>ulTaskNotifyTake\<close>, which ends with a notification or after the time given.
\<close>

definition OTA_WAIT_MS :: nat where "OTA_WAIT_MS = 60 * 60 * 1000"

definition iotc_ota_run ::
    "sdk_env \<Rightarrow> ota_lib \<Rightarrow> cy_ota_cb_struct option list \<Rightarrow> cy_ota_cb_struct option list
       \<Rightarrow> IotConnectConnectionType \<Rightarrow> string option \<Rightarrow> string option \<Rightarrow> ota_cb option
       \<Rightarrow> ota_state \<Rightarrow> cy_rslt \<times> ota_state" where
  "iotc_ota_run env lib early waiting connection_type host path usr_ota_cb s =
     (let (result, s) = iotc_ota_start env lib connection_type host path usr_ota_cb s
      in if result \<noteq> CY_RSLT_SUCCESS then (result, s)
         else
           (let cb = (case usr_ota_cb of Some f \<Rightarrow> f | None \<Rightarrow> Iotc_ota_callback);
                s = fold (agent_callback lib cb) early s;
                s = s\<lparr>app_task_handle := Some (xTaskGetCurrentTaskHandle lib (log s))\<rparr>;
                s = fold (agent_callback lib cb) waiting s;
                s = sdk_emit (Notify_take OTA_WAIT_MS) s
            in (result, iotc_ota_cleanup s)))"

definition iotc_ota_get_download_status :: "ota_state \<Rightarrow> cy_rslt" where
  "iotc_ota_get_download_status s = last_session_result s"

definition iotc_ota_get_download_error_string :: "ota_lib \<Rightarrow> ota_state \<Rightarrow> string option" where
  "iotc_ota_get_download_error_string lib s =
     (if last_session_result s \<noteq> CY_RSLT_SUCCESS
      then Some (cy_ota_get_error_string lib (last_session_result s)) else None)"

definition iotc_ota_system_reset :: "ota_state \<Rightarrow> ota_state" where
  "iotc_ota_system_reset s = sdk_emit System_reset s"

end
