(* ===== verification/OtaProps.thy ===== *)
theory OtaProps
  imports Ota
begin

text \<open>
  Lemmas and properties of the OTA module: who owns the copies of the URL, what the agent is told, when the
  waiting task is notified, and the status that the application reads.
\<close>

section \<open>Ownership of the URL copies\<close>

definition ota_blocks :: "ota_state \<Rightarrow> addr list" where
  "ota_blocks s = opt_list (http_file s) @ opt_list (http_host_name s)"

definition ota_ok :: "ota_state \<Rightarrow> bool" where
  "ota_ok s \<longleftrightarrow> heap_ok s \<and> distinct (ota_blocks s) \<and> (\<forall>a \<in> set (ota_blocks s). heap s a \<noteq> None)"

text \<open>The memory that the module does not own.\<close>

definition ota_rest :: "ota_state \<Rightarrow> addr \<rightharpoonup> string" where
  "ota_rest s = heap s |` (- set (ota_blocks s))"

definition double_frees :: "sdk_event list \<Rightarrow> nat" where
  "double_frees es = count_if (\<lambda>m. m = ''free of a block that is not live'') (faults es)"

lemma double_frees_frame [simp]:
  "double_frees (log (sdk_emit e s)) = double_frees (log s)
     + (case e of Fault m \<Rightarrow> if m = ''free of a block that is not live'' then 1 else 0 | _ \<Rightarrow> 0)"
  "double_frees (log (snd (call env c s))) = double_frees (log s)"
  by (simp_all add: double_frees_def split: sdk_event.split)

lemma more_ota:
  fixes s t :: ota_state
  assumes "sdk_base.more t = sdk_base.more s"
  shows "app_task_handle t = app_task_handle s" "last_session_result t = last_session_result s"
    "cb_func t = cb_func s" "http_file t = http_file s" "http_host_name t = http_host_name s"
    "ota_root_ca t = ota_root_ca s" "ota_root_ca_size t = ota_root_ca_size s"
proof -
  obtain l h n a r c f g ca z where s: "s = \<lparr>log = l, heap = h, next_addr = n, app_task_handle = a,
      last_session_result = r, cb_func = c, http_file = f, http_host_name = g, ota_root_ca = ca,
      ota_root_ca_size = z\<rparr>" by (cases s)
  obtain l' h' n' a' r' c' f' g' ca' z' where t: "t = \<lparr>log = l', heap = h', next_addr = n', app_task_handle = a',
      last_session_result = r', cb_func = c', http_file = f', http_host_name = g', ota_root_ca = ca',
      ota_root_ca_size = z'\<rparr>" by (cases t)
  have "a' = a \<and> r' = r \<and> c' = c \<and> f' = f \<and> g' = g \<and> ca' = ca \<and> z' = z"
    using assms unfolding s t by (simp only: sdk_base.select_convs ota_state.ext_inject simp_thms)
  then show "app_task_handle t = app_task_handle s" "last_session_result t = last_session_result s"
    "cb_func t = cb_func s" "http_file t = http_file s" "http_host_name t = http_host_name s"
    "ota_root_ca t = ota_root_ca s" "ota_root_ca_size t = ota_root_ca_size s"
    unfolding s t by (simp_all only: ota_state.select_convs)
qed

lemmas ota_emit_frame [simp] = more_ota[OF sdk_emit_frame(3)]
lemmas ota_call_frame [simp] = more_ota[OF call_frame(3)]
lemmas ota_free_frame [simp] = more_ota[OF more_free]
lemmas ota_strdup_frame [simp] = more_ota[OF more_strdup]
lemmas ota_alloc_frame [simp] = more_ota[OF more_alloc]

lemma ota_frame:
  "heap t = heap s \<Longrightarrow> next_addr t = next_addr s \<Longrightarrow> http_file t = http_file s \<Longrightarrow>
   http_host_name t = http_host_name s \<Longrightarrow>
   ota_ok t = ota_ok s \<and> ota_rest t = ota_rest s \<and> ota_blocks t = ota_blocks s"
  by (simp add: ota_ok_def ota_rest_def ota_blocks_def heap_ok_def)

section \<open>Cleaning up\<close>

lemma free_field:
  fixes s :: "'z sdk_base_scheme"
  assumes "heap_ok s" and "heap s a \<noteq> None"
  shows "heap_ok (c_free a s)" "heap (c_free a s) = (heap s)(a := None)"
    "faults (log (c_free a s)) = faults (log s)"
  using assms free_live[OF assms(2)] by (simp_all add: heap_ok_free)

lemma cleanup_effect:
  assumes "ota_ok s"
  shows "ota_ok (iotc_ota_cleanup s)" "ota_blocks (iotc_ota_cleanup s) = []"
    "heap (iotc_ota_cleanup s) = ota_rest s" "ota_rest (iotc_ota_cleanup s) = ota_rest s"
    "faults (log (iotc_ota_cleanup s)) = faults (log s)" "cb_func (iotc_ota_cleanup s) = None"
    "http_file (iotc_ota_cleanup s) = None" "http_host_name (iotc_ota_cleanup s) = None"
    "app_task_handle (iotc_ota_cleanup s) = app_task_handle s"
    "last_session_result (iotc_ota_cleanup s) = last_session_result s"
    "ota_root_ca_size (iotc_ota_cleanup s) = ota_root_ca_size s"
proof -
  have h: "heap_ok s" using assms by (simp add: ota_ok_def)
  let ?u = "case http_file s of Some a \<Rightarrow> (c_free a (s\<lparr>cb_func := None\<rparr>))\<lparr>http_file := None\<rparr> | None \<Rightarrow> s\<lparr>cb_func := None\<rparr>"
  have u: "heap_ok ?u" "heap ?u = heap s |` (- set (opt_list (http_file s)))"
      "faults (log ?u) = faults (log s)" "http_file ?u = None" "http_host_name ?u = http_host_name s"
      "cb_func ?u = None" "app_task_handle ?u = app_task_handle s"
      "last_session_result ?u = last_session_result s" "ota_root_ca_size ?u = ota_root_ca_size s"
    using assms free_field[of "s\<lparr>cb_func := None\<rparr>"]
    by (auto simp: ota_ok_def ota_blocks_def opt_list_def heap_ok_def restrict_map_def split: option.split)
  let ?t = "case http_host_name ?u of Some a \<Rightarrow> (c_free a ?u)\<lparr>http_host_name := None\<rparr> | None \<Rightarrow> ?u"
  have c: "iotc_ota_cleanup s = ?t" by (simp add: iotc_ota_cleanup_def Let_def cong: option.case_cong)
  have live: "heap ?u a \<noteq> None" if "http_host_name s = Some a" for a
    using assms that by (auto simp: u(2) ota_ok_def ota_blocks_def opt_list_def restrict_map_def split: option.splits)
  have t: "heap_ok ?t" "heap ?t = heap ?u |` (- set (opt_list (http_host_name s)))"
      "faults (log ?t) = faults (log ?u)" "http_file ?t = None" "http_host_name ?t = None"
      "cb_func ?t = None" "app_task_handle ?t = app_task_handle s"
      "last_session_result ?t = last_session_result s" "ota_root_ca_size ?t = ota_root_ca_size s"
    using u live free_field[OF u(1)]
    by (auto simp: opt_list_def heap_ok_def restrict_map_def split: option.split)
  show h': "heap (iotc_ota_cleanup s) = ota_rest s"
    unfolding c t(2) u(2) by (auto simp: ota_rest_def ota_blocks_def restrict_map_def)
  show b: "ota_blocks (iotc_ota_cleanup s) = []" unfolding c by (simp only: ota_blocks_def t opt_list_def) simp
  show "ota_ok (iotc_ota_cleanup s)" using t(1) b by (simp add: ota_ok_def c)
  show "ota_rest (iotc_ota_cleanup s) = ota_rest s"
    unfolding ota_rest_def[of "iotc_ota_cleanup s"] b h' by (simp add: restrict_map_def)
  show "faults (log (iotc_ota_cleanup s)) = faults (log s)" "cb_func (iotc_ota_cleanup s) = None"
    "http_file (iotc_ota_cleanup s) = None" "http_host_name (iotc_ota_cleanup s) = None"
    "app_task_handle (iotc_ota_cleanup s) = app_task_handle s"
    "last_session_result (iotc_ota_cleanup s) = last_session_result s"
    "ota_root_ca_size (iotc_ota_cleanup s) = ota_root_ca_size s"
    unfolding c using t u by simp_all
qed

text \<open>The blocks are freed in the order of the two fields, and nothing else is logged.\<close>

lemma cleanup_log:
  assumes "ota_ok s"
  shows "log (iotc_ota_cleanup s) = log s @ map Free (ota_blocks s)"
    "ota_root_ca (iotc_ota_cleanup s) = ota_root_ca s"
  using assms
  by (auto simp: iotc_ota_cleanup_def c_free_def ota_ok_def ota_blocks_def opt_list_def log_sdk_emit Let_def
      split: option.splits)

section \<open>Starting\<close>

text \<open>A copy that is stored in a field which held nothing: \<open>None\<close> when memory is short.\<close>

definition copied :: "string \<Rightarrow> addr option \<Rightarrow> ota_state \<Rightarrow> bool" where
  "copied str p t \<longleftrightarrow> (\<forall>a. p = Some a \<longrightarrow> heap t a = Some (c_string str @ [CHR 0x00]))"

lemma store_copy:
  assumes "ota_ok s" and "iotcl_strdup env (Some str) s = (p, u)"
    and "heap t = heap u" and "next_addr t = next_addr u"
    and "set (ota_blocks t) = set (opt_list p) \<union> set (ota_blocks s)"
    and "distinct (ota_blocks t) \<longleftrightarrow> set (opt_list p) \<inter> set (ota_blocks s) = {}"
  shows "ota_ok t" "ota_rest t = ota_rest s" "copied str p t" "faults (log u) = faults (log s)"
    "\<forall>a. heap s a \<noteq> None \<longrightarrow> heap t a = heap s a"
proof -
  have s: "heap_ok s" "\<forall>a \<in> set (ota_blocks s). heap s a \<noteq> None" using assms(1) by (simp_all add: ota_ok_def)
  have fresh: "heap s (next_addr s) = None" by (rule heap_ok_fresh[OF s(1)])
  have hu: "heap_ok t"
    using heap_ok_strdup[OF s(1), of env "Some str"] assms(2-4) by (simp add: heap_ok_def)
  have al: "alloc env (c_string str @ [CHR 0x00]) s = (p, u)" using assms(2) by (simp add: iotcl_strdup_def)
  then show "faults (log u) = faults (log s)" by (cases rule: alloc_cases) auto
  from al have "(p = None \<and> heap u = heap s)
      \<or> (p = Some (next_addr s) \<and> heap u = (heap s)(next_addr s \<mapsto> c_string str @ [CHR 0x00]))"
    by (cases rule: alloc_cases) auto
  then show "ota_ok t" "ota_rest t = ota_rest s" "copied str p t"
    "\<forall>a. heap s a \<noteq> None \<longrightarrow> heap t a = heap s a"
    using s fresh hu assms(3,5,6)
    by (auto simp: ota_ok_def ota_rest_def copied_def opt_list_def restrict_map_def fun_eq_iff)
qed

lemma strdup_fields:
  fixes s :: ota_state
  assumes "iotcl_strdup env v s = (p, u)"
  shows "app_task_handle u = app_task_handle s" "last_session_result u = last_session_result s"
    "cb_func u = cb_func s" "http_file u = http_file s" "http_host_name u = http_host_name s"
  using more_ota[of u s] more_strdup[of env v s] assms by simp_all

lemma strdup_log:
  "iotcl_strdup env (Some str) s = (p, u) \<Longrightarrow> log u = log s @ [Alloc (Suc (length (c_string str))) (p \<noteq> None)]"
  by (auto simp: iotcl_strdup_def alloc_def Let_def log_sdk_emit split: if_splits)

text \<open>The two copies that a launch makes.\<close>

lemma copies_stored:
  assumes "ota_ok s" "ota_blocks s = []" "http_host_name s = None"
    and d2: "iotcl_strdup env (Some path) s = (fp, u2)" and s2: "s2 = u2\<lparr>http_file := fp\<rparr>"
    and d3: "iotcl_strdup env (Some host) s2 = (hn, u3)" and s3: "s3 = u3\<lparr>http_host_name := hn\<rparr>"
  shows "ota_ok s3" "ota_rest s3 = ota_rest s" "copied path fp s3" "copied host hn s3"
    "http_file s3 = fp" "http_host_name s3 = hn" "faults (log s3) = faults (log s)" "cb_func s3 = cb_func s"
    "app_task_handle s3 = app_task_handle s" "last_session_result s3 = last_session_result s"
    "log s3 = log s @ [Alloc (Suc (length (c_string path))) (fp \<noteq> None), Alloc (Suc (length (c_string host))) (hn \<noteq> None)]"
proof -
  note u2 = strdup_fields[OF d2] and u3 = strdup_fields[OF d3]
  have e2: "heap s2 = heap u2" "next_addr s2 = next_addr u2"
      "set (ota_blocks s2) = set (opt_list fp) \<union> set (ota_blocks s)"
      "distinct (ota_blocks s2) \<longleftrightarrow> set (opt_list fp) \<inter> set (ota_blocks s) = {}"
    using u2 assms(2,3) by (auto simp: s2 ota_blocks_def opt_list_def split: option.split)
  note k2 = store_copy[OF assms(1) d2 e2]
  have e3: "heap s3 = heap u3" "next_addr s3 = next_addr u3"
      "set (ota_blocks s3) = set (opt_list hn) \<union> set (ota_blocks s2)"
      "distinct (ota_blocks s3) \<longleftrightarrow> set (opt_list hn) \<inter> set (ota_blocks s2) = {}"
    using u2 u3 assms(3) by (auto simp: s3 s2 ota_blocks_def opt_list_def split: option.split)
  note k3 = store_copy[OF k2(1) d3 e3]
  have live: "heap s2 a \<noteq> None" if "fp = Some a" for a using k2(3) that by (auto simp: copied_def)
  show "copied path fp s3" using k2(3) k3(5) live by (auto simp: copied_def)
  show "ota_ok s3" "ota_rest s3 = ota_rest s" "copied host hn s3" using k2 k3 by simp_all
  show "http_file s3 = fp" "http_host_name s3 = hn" "cb_func s3 = cb_func s"
    "app_task_handle s3 = app_task_handle s" "last_session_result s3 = last_session_result s"
    using u2 u3 by (simp_all add: s2 s3)
  have "faults (log s2) = faults (log u2)" "faults (log s3) = faults (log u3)" by (simp_all add: s2 s3)
  then show "faults (log s3) = faults (log s)" using k2(4) k3(4) by simp
  show "log s3 = log s @ [Alloc (Suc (length (c_string path))) (fp \<noteq> None), Alloc (Suc (length (c_string host))) (hn \<noteq> None)]"
    using strdup_log[OF d2] strdup_log[OF d3] by (simp add: s2 s3)
qed

text \<open>
  The end of a launch, in full: the call of the agent with its place in the log, its result, and the state on
  both outcomes. \<open>launched\<close> is a specification, written without the functions of the module.
\<close>

definition launched ::
    "sdk_env \<Rightarrow> ota_lib \<Rightarrow> root_ca \<Rightarrow> string \<Rightarrow> string \<Rightarrow> ota_cb \<Rightarrow> ota_state \<Rightarrow> cy_rslt \<Rightarrow> ota_state \<Rightarrow> bool" where
  "launched env lib ca host path cb s r t \<longleftrightarrow>
     (\<exists>file name l.
        let start = Cy_ota_agent_start ca (sizeof_root_ca lib ca) 443 file name cb
        in l = log s @ map Free (ota_blocks s)
               @ [Alloc (Suc (length (c_string path))) (file \<noteq> None), Alloc (Suc (length (c_string host))) (name \<noteq> None)]
         \<and> r = env_ret env l start
         \<and> ota_root_ca t = Some ca
         \<and> (if r = CY_RSLT_SUCCESS
            then log t = l @ [Ret start r] \<and> cb_func t = Some cb \<and> http_file t = file \<and> http_host_name t = name
              \<and> copied path file t \<and> copied host name t
            else log t = l @ [Ret start r] @ map Free (opt_list file @ opt_list name)
              \<and> cb_func t = None \<and> http_file t = None \<and> http_host_name t = None))"

lemma launched_cong:
  "log s' = log s \<Longrightarrow> ota_blocks s' = ota_blocks s \<Longrightarrow>
   launched env lib ca host path cb s' r t = launched env lib ca host path cb s r t"
  by (simp only: launched_def)

lemma launch_effect:
  assumes "ota_ok s" and "ota_launch env lib ca host path usr s = (r, t)"
  shows "ota_ok t" "ota_rest t = ota_rest s" "faults (log t) = faults (log s)"
    "app_task_handle t = app_task_handle s" "last_session_result t = CY_RSLT_OTA_ERROR_GENERAL lib"
    "if r = CY_RSLT_SUCCESS
     then cb_func t = Some (case usr of Some f \<Rightarrow> f | None \<Rightarrow> Iotc_ota_callback)
       \<and> copied path (http_file t) t \<and> copied host (http_host_name t) t
     else ota_blocks t = [] \<and> cb_func t = None"
    "ota_root_ca s = Some ca \<Longrightarrow> ota_root_ca_size s = sizeof_root_ca lib ca \<Longrightarrow>
     launched env lib ca host path (case usr of Some f \<Rightarrow> f | None \<Rightarrow> Iotc_ota_callback) s r t"
proof -
  let ?s0 = "s\<lparr>last_session_result := CY_RSLT_OTA_ERROR_GENERAL lib\<rparr>"
  have f0: "ota_ok ?s0" "ota_rest ?s0 = ota_rest s" using assms(1) ota_frame[of ?s0 s] by simp_all
  note c = cleanup_effect[OF f0(1)]
  let ?cb = "case usr of Some f \<Rightarrow> f | None \<Rightarrow> Iotc_ota_callback"
  define s1 where "s1 = (iotc_ota_cleanup ?s0)\<lparr>cb_func := Some ?cb\<rparr>"
  have b1: "ota_blocks s1 = []" "http_host_name s1 = None" using c(2,8) by (simp_all add: s1_def ota_blocks_def)
  have o1: "ota_ok s1" "ota_rest s1 = ota_rest s"
    using ota_frame[of s1 "iotc_ota_cleanup ?s0"] c(1,4) f0(2) by (simp_all add: s1_def)
  have v1: "cb_func s1 = Some ?cb" "app_task_handle s1 = app_task_handle s"
      "last_session_result s1 = CY_RSLT_OTA_ERROR_GENERAL lib" "faults (log s1) = faults (log s)"
    using c by (simp_all add: s1_def)
  obtain fp u2 where d2: "iotcl_strdup env (Some path) s1 = (fp, u2)" by fastforce
  define s2 where "s2 = u2\<lparr>http_file := fp\<rparr>"
  obtain hn u3 where d3: "iotcl_strdup env (Some host) s2 = (hn, u3)" by fastforce
  define s3 where "s3 = u3\<lparr>http_host_name := hn\<rparr>"
  note k = copies_stored[OF o1(1) b1 d2 s2_def d3 s3_def, unfolded o1(2) v1]
  have "ota_blocks ?s0 = ota_blocks s" by (simp add: ota_blocks_def)
  then have l1: "log s1 = log s @ map Free (ota_blocks s)" "ota_root_ca s1 = ota_root_ca s"
      "ota_root_ca_size s1 = ota_root_ca_size s"
    using cleanup_log[OF f0(1)] c(11) by (simp_all add: s1_def)
  have u2: "sdk_base.more u2 = sdk_base.more s1" using more_strdup[of env "Some path" s1] by (simp add: d2)
  have u3: "sdk_base.more u3 = sdk_base.more s2" using more_strdup[of env "Some host" s2] by (simp add: d3)
  have ca3: "ota_root_ca s3 = ota_root_ca s" "ota_root_ca_size s3 = ota_root_ca_size s"
    using more_ota(6,7)[OF u2] more_ota(6,7)[OF u3] l1 by (simp_all add: s2_def s3_def)
  let ?c = "Cy_ota_agent_start ca (ota_root_ca_size s3) HTTP_SERVER_PORT fp hn ?cb"
  let ?v = "snd (call env ?c s3)"
  have v: "ota_ok ?v" "ota_rest ?v = ota_rest s" "copied path fp ?v" "copied host hn ?v"
    using ota_frame[of ?v s3] k(1-4) by (simp_all add: copied_def)
  have l: "ota_launch env lib ca host path usr s =
      (if fst (call env ?c s3) \<noteq> CY_RSLT_SUCCESS then (fst (call env ?c s3), iotc_ota_cleanup ?v)
       else (fst (call env ?c s3), ?v))"
    by (simp only: ota_launch_def Let_def s1_def[symmetric] d2 s2_def[symmetric] d3 s3_def[symmetric]
        case_prod_unfold fst_conv snd_conv)
  note cv = cleanup_effect[OF v(1)]
  have vf: "app_task_handle ?v = app_task_handle s" "last_session_result ?v = CY_RSLT_OTA_ERROR_GENERAL lib"
    "cb_func ?v = Some ?cb" "http_file ?v = fp" "http_host_name ?v = hn" "faults (log ?v) = faults (log s)"
    using k(5-10) by simp_all
  show "ota_ok t" "ota_rest t = ota_rest s" "faults (log t) = faults (log s)"
    "app_task_handle t = app_task_handle s" "last_session_result t = CY_RSLT_OTA_ERROR_GENERAL lib"
    "if r = CY_RSLT_SUCCESS then cb_func t = Some ?cb \<and> copied path (http_file t) t \<and> copied host (http_host_name t) t
     else ota_blocks t = [] \<and> cb_func t = None"
    using assms(2) l cv v vf by (auto split: if_splits)
  have b: "ota_blocks ?v = opt_list fp @ opt_list hn" by (simp only: ota_blocks_def vf)
  have lv: "log ?v = log s3 @ [Ret ?c (env_ret env (log s3) ?c)]" "fst (call env ?c s3) = env_ret env (log s3) ?c"
    by (simp_all add: call_def log_sdk_emit Let_def)
  show "launched env lib ca host path ?cb s r t"
    if "ota_root_ca s = Some ca" "ota_root_ca_size s = sizeof_root_ca lib ca"
    unfolding launched_def Let_def
    using assms(2) l cv(6-8) cleanup_log[OF v(1)] v(3,4) vf lv b k(11) l1(1) ca3 that
    by (intro exI[of _ fp] exI[of _ hn] exI[of _ "log s3"]) (auto simp: HTTP_SERVER_PORT_def split: if_splits)
qed

section \<open>Callbacks\<close>

definition notifications :: "sdk_event list \<Rightarrow> nat list" where
  "notifications es = concat (map (\<lambda>e. case e of Notify_give h \<Rightarrow> [h] | _ \<Rightarrow> []) es)"

lemma notifications_emit [simp]:
  "notifications (log (sdk_emit e s)) = notifications (log s) @ notifications [e]"
  by (simp add: notifications_def log_sdk_emit)

lemma notifications_single [simp]: "notifications [e] = (case e of Notify_give h \<Rightarrow> [h] | _ \<Rightarrow> [])"
  by (simp add: notifications_def)

lemma notifications_call [simp]: "notifications (log (snd (call env c s))) = notifications (log s)"
  by (simp add: call_def Let_def)

lemma notifications_free [simp]: "notifications (log (c_free a s)) = notifications (log s)"
  by (simp add: c_free_def Let_def)

lemma notifications_strdup [simp]:
  "notifications (log (snd (iotcl_strdup env v s))) = notifications (log s)"
  by (simp add: iotcl_strdup_def alloc_def Let_def split: option.split)

lemma notifications_cleanup [simp]: "notifications (log (iotc_ota_cleanup s)) = notifications (log s)"
  by (simp add: iotc_ota_cleanup_def Let_def split: option.split)

lemma notifications_launch [simp]:
  "notifications (log (snd (ota_launch env lib ca host path usr s))) = notifications (log s)"
  by (simp add: ota_launch_def Let_def case_prod_unfold)

text \<open>The update has ended.\<close>

definition completes :: "cy_ota_cb_struct option \<Rightarrow> bool" where
  "completes d \<longleftrightarrow>
     (case d of Some c \<Rightarrow> reason c = CY_OTA_REASON_STATE_CHANGE \<and> ota_agt_state c = CY_OTA_STATE_OTA_COMPLETE
      | None \<Rightarrow> False)"

text \<open>The connection data of the job are unusable.\<close>

definition bad_job :: "cy_ota_cb_struct option \<Rightarrow> bool" where
  "bad_job d \<longleftrightarrow>
     (case d of Some c \<Rightarrow> reason c = CY_OTA_REASON_STATE_CHANGE \<and> ota_agt_state c = CY_OTA_STATE_JOB_CONNECT
          \<and> (cb_host_name c = None \<or> cb_port c = 0 \<or> (case cb_file c of Some f \<Rightarrow> c_string f = [] | None \<Rightarrow> True))
      | None \<Rightarrow> False)"

lemma printf_frame [simp]:
  fixes s :: ota_state
  shows "heap (printf_string p s) = heap s" "next_addr (printf_string p s) = next_addr s"
    "sdk_base.more (printf_string p s) = sdk_base.more s"
    "notifications (log (printf_string p s)) = notifications (log s)"
    "double_frees (log (printf_string p s)) = double_frees (log s)"
  by (simp_all add: printf_string_def double_frees_def split: option.split)

lemmas ota_printf_frame [simp] = more_ota[OF printf_frame(3)]

lemma ota_strlen_frame [simp]:
  fixes s :: ota_state
  shows "sdk_base.more (snd (c_strlen p s)) = sdk_base.more s"
    "heap (snd (c_strlen p s)) = heap s" "next_addr (snd (c_strlen p s)) = next_addr s"
    "notifications (log (snd (c_strlen p s))) = notifications (log s)"
    "double_frees (log (snd (c_strlen p s))) = double_frees (log s)"
  by (simp_all add: c_strlen_def double_frees_def split: option.split)

lemmas ota_strlen_fields [simp] = more_ota[OF ota_strlen_frame(1)]

lemma notify_frame [simp]:
  fixes s :: ota_state
  shows "heap (xTaskNotifyGive h s) = heap s" "next_addr (xTaskNotifyGive h s) = next_addr s"
    "sdk_base.more (xTaskNotifyGive h s) = sdk_base.more s"
    "notifications (log (xTaskNotifyGive h s)) = notifications (log s) @ opt_list h"
    "double_frees (log (xTaskNotifyGive h s)) = double_frees (log s)"
  by (simp_all add: xTaskNotifyGive_def opt_list_def double_frees_def split: option.split)

lemmas ota_notify_frame [simp] = more_ota[OF notify_frame(3)]

text \<open>The callback is memoryless but for the end of the update.\<close>

lemma callback_effect:
  "heap (snd (iotc_ota_callback lib d s)) = heap s"
  "next_addr (snd (iotc_ota_callback lib d s)) = next_addr s"
  "http_file (snd (iotc_ota_callback lib d s)) = http_file s"
  "http_host_name (snd (iotc_ota_callback lib d s)) = http_host_name s"
  "cb_func (snd (iotc_ota_callback lib d s)) = cb_func s"
  "app_task_handle (snd (iotc_ota_callback lib d s)) = app_task_handle s"
  "double_frees (log (snd (iotc_ota_callback lib d s))) = double_frees (log s)"
  "last_session_result (snd (iotc_ota_callback lib d s))
     = (if completes d then cy_ota_get_last_error lib (log s) else last_session_result s)"
  "notifications (log (snd (iotc_ota_callback lib d s)))
     = notifications (log s) @ (if completes d then opt_list (app_task_handle s) else [])"
  by (simp_all add: iotc_ota_callback_def ota_job_connect_def completes_def case_prod_unfold Let_def
      split: option.split cy_ota_cb_reason.split cy_ota_agent_state.split)

lemma callback_value:
  "fst (iotc_ota_callback lib d s)
     = (if d = None \<or> completes d \<or> bad_job d then CY_OTA_CB_RSLT_OTA_STOP else CY_OTA_CB_RSLT_OTA_CONTINUE)"
  by (auto simp: iotc_ota_callback_def ota_job_connect_def completes_def bad_job_def c_strlen_def
      case_prod_unfold Let_def split: option.split cy_ota_cb_reason.split cy_ota_agent_state.split)

text \<open>Faults are never forgotten.\<close>

lemma callback_faults: "set (faults (log s)) \<subseteq> set (faults (log (agent_callback lib cb d s)))"
  by (auto simp: agent_callback_def iotc_ota_callback_def ota_job_connect_def printf_string_def c_strlen_def
      xTaskNotifyGive_def case_prod_unfold Let_def
      split: ota_cb.split option.split cy_ota_cb_reason.split cy_ota_agent_state.split)

lemma agent_callbacks_faults: "set (faults (log s)) \<subseteq> set (faults (log (fold (agent_callback lib cb) ds s)))"
proof (induction ds arbitrary: s)
  case (Cons d ds)
  then show ?case using callback_faults[of s lib cb d] by fastforce
qed simp

lemma cleanup_faults: "set (faults (log s)) \<subseteq> set (faults (log (iotc_ota_cleanup s)))"
  by (auto simp: iotc_ota_cleanup_def c_free_def Let_def split: option.split)

section \<open>Start and run\<close>

lemma start_effect:
  assumes "ota_ok s" and "iotc_ota_start env lib ct host path usr s = (r, t)"
  shows "(host = None \<or> path = None) \<and> r = -1 \<and> t = s
    \<or> host \<noteq> None \<and> path \<noteq> None \<and> ct = IOTC_CT_UNDEFINED \<and> r = -2 \<and> t = s
    \<or> (\<exists>ca h p. host = Some h \<and> path = Some p \<and> ct \<noteq> IOTC_CT_UNDEFINED
        \<and> ca = (if ct = IOTC_CT_AWS then IOTCL_AMAZON_ROOT_CA1 else IOTCL_CERT_DIGICERT_GLOBAL_ROOT_G2)
        \<and> ota_launch env lib ca h p usr (s\<lparr>ota_root_ca := Some ca, ota_root_ca_size := sizeof_root_ca lib ca\<rparr>) = (r, t))"
  using assms(2)
  by (auto simp: iotc_ota_start_def Let_def split: option.splits IotConnectConnectionType.splits)

lemma launch_with_ca:
  assumes "ota_ok s"
    and "ota_launch env lib ca host path usr (s\<lparr>ota_root_ca := c, ota_root_ca_size := z\<rparr>) = (r, t)"
  shows "ota_ok t" "ota_rest t = ota_rest s" "faults (log t) = faults (log s)"
    "app_task_handle t = app_task_handle s" "last_session_result t = CY_RSLT_OTA_ERROR_GENERAL lib"
    "notifications (log t) = notifications (log s)"
    "if r = CY_RSLT_SUCCESS
     then cb_func t = Some (case usr of Some f \<Rightarrow> f | None \<Rightarrow> Iotc_ota_callback)
       \<and> copied path (http_file t) t \<and> copied host (http_host_name t) t
     else ota_blocks t = [] \<and> cb_func t = None"
    "c = Some ca \<Longrightarrow> z = sizeof_root_ca lib ca \<Longrightarrow>
     launched env lib ca host path (case usr of Some f \<Rightarrow> f | None \<Rightarrow> Iotc_ota_callback) s r t"
proof -
  let ?s = "s\<lparr>ota_root_ca := c, ota_root_ca_size := z\<rparr>"
  have f: "ota_ok ?s" "ota_rest ?s = ota_rest s" using assms(1) ota_frame[of ?s s] by simp_all
  show "ota_ok t" "ota_rest t = ota_rest s" "faults (log t) = faults (log s)"
    "app_task_handle t = app_task_handle s" "last_session_result t = CY_RSLT_OTA_ERROR_GENERAL lib"
    "if r = CY_RSLT_SUCCESS
     then cb_func t = Some (case usr of Some f \<Rightarrow> f | None \<Rightarrow> Iotc_ota_callback)
       \<and> copied path (http_file t) t \<and> copied host (http_host_name t) t
     else ota_blocks t = [] \<and> cb_func t = None"
    using launch_effect[OF f(1) assms(2)] f(2) by simp_all
  show "notifications (log t) = notifications (log s)"
    using notifications_launch[of env lib ca host path usr ?s] assms(2) by simp
  have b: "ota_blocks ?s = ota_blocks s" "log ?s = log s" by (simp_all add: ota_blocks_def)
  show "launched env lib ca host path (case usr of Some f \<Rightarrow> f | None \<Rightarrow> Iotc_ota_callback) s r t"
    if "c = Some ca" "z = sizeof_root_ca lib ca"
    using launch_effect(7)[OF f(1) assms(2)] that launched_cong[OF b(2,1)] by simp
qed

definition ota_keeps :: "ota_state \<Rightarrow> ota_state \<Rightarrow> bool" where
  "ota_keeps s t \<longleftrightarrow> ota_ok t \<and> ota_rest t = ota_rest s \<and> double_frees (log t) = double_frees (log s)"

lemma start_keeps:
  assumes "ota_ok s"
  shows "ota_keeps s (snd (iotc_ota_start env lib ct host path usr s))"
proof -
  obtain r t where "iotc_ota_start env lib ct host path usr s = (r, t)" by fastforce
  from start_effect[OF assms this] this show ?thesis
    using assms launch_with_ca(1-3)[OF assms] by (auto simp: ota_keeps_def double_frees_def)
qed

lemma agent_callbacks_effect:
  "ota_ok s \<Longrightarrow> ota_keeps s (fold (agent_callback lib cb) ds s)
    \<and> ota_blocks (fold (agent_callback lib cb) ds s) = ota_blocks s
    \<and> app_task_handle (fold (agent_callback lib cb) ds s) = app_task_handle s"
proof (induction ds arbitrary: s)
  case Nil
  then show ?case by (simp add: ota_keeps_def)
next
  case (Cons d ds)
  let ?u = "agent_callback lib cb d s"
  have f: "heap ?u = heap s" "next_addr ?u = next_addr s" "http_file ?u = http_file s"
      "http_host_name ?u = http_host_name s" "app_task_handle ?u = app_task_handle s"
      "double_frees (log ?u) = double_frees (log s)"
    by (simp_all add: agent_callback_def callback_effect split: ota_cb.split)
  with Cons show ?case using ota_frame[OF f(1-4)] by (simp add: ota_keeps_def)
qed

text \<open>
  The events with which the default callback tells of the end of an update: the notification of the stored
  task, or the fault of a notification through a handle that was never stored.
\<close>

definition end_event :: "sdk_event \<Rightarrow> bool" where
  "end_event e \<longleftrightarrow>
     (case e of Notify_give h \<Rightarrow> True | Fault m \<Rightarrow> m = ''notification of a null task handle'' | _ \<Rightarrow> False)"

definition no_end :: "sdk_event list \<Rightarrow> bool" where
  "no_end es \<longleftrightarrow> list_all (\<lambda>e. \<not> end_event e) es"

lemma no_end_simps [simp]:
  "no_end []" "no_end (e # es) \<longleftrightarrow> \<not> end_event e \<and> no_end es" "no_end (es @ fs) \<longleftrightarrow> no_end es \<and> no_end fs"
  by (simp_all add: no_end_def)

text \<open>
  Where the status was read. \<open>status_read\<close>: the log has a last such event since \<open>l0\<close>, and the status is
  the error of the agent just before it; \<open>status_kept\<close>: there is none, and the status is still \<open>r0\<close>.
\<close>

definition status_read :: "ota_lib \<Rightarrow> sdk_event list \<Rightarrow> ota_state \<Rightarrow> bool" where
  "status_read lib l0 t \<longleftrightarrow>
     (\<exists>l e l'. log t = l0 @ l @ e # l' \<and> end_event e \<and> no_end l'
        \<and> last_session_result t = cy_ota_get_last_error lib (l0 @ l))"

definition status_kept :: "sdk_event list \<Rightarrow> cy_rslt \<Rightarrow> ota_state \<Rightarrow> bool" where
  "status_kept l0 r0 t \<longleftrightarrow> (\<exists>l'. log t = l0 @ l' \<and> no_end l') \<and> last_session_result t = r0"

definition status_at :: "ota_lib \<Rightarrow> sdk_event list \<Rightarrow> cy_rslt \<Rightarrow> bool \<Rightarrow> ota_state \<Rightarrow> bool" where
  "status_at lib l0 r0 q t \<longleftrightarrow> (if q then status_read lib l0 t else status_kept l0 r0 t)"

lemma status_at_extend:
  assumes "status_at lib l0 r0 q t" "log u = log t @ es" "no_end es"
    "last_session_result u = last_session_result t"
  shows "status_at lib l0 r0 q u"
  using assms by (cases q) (fastforce simp: status_at_def status_read_def status_kept_def)+

lemma status_at_log:
  "status_at lib l0 r0 q t \<Longrightarrow> \<exists>run. log t = l0 @ run
     \<and> (if q then \<exists>l e l'. run = l @ e # l' \<and> end_event e \<and> no_end l'
            \<and> iotc_ota_get_download_status t = cy_ota_get_last_error lib (l0 @ l)
        else no_end run \<and> iotc_ota_get_download_status t = r0)"
  by (cases q) (fastforce simp: status_at_def status_read_def status_kept_def iotc_ota_get_download_status_def)+

lemma callback_status:
  "if completes d then \<exists>e. log (snd (iotc_ota_callback lib d s)) = log s @ [e] \<and> end_event e
   else \<exists>es. log (snd (iotc_ota_callback lib d s)) = log s @ es \<and> no_end es"
  by (auto simp: iotc_ota_callback_def ota_job_connect_def completes_def printf_string_def c_strlen_def
      xTaskNotifyGive_def end_event_def log_sdk_emit case_prod_unfold Let_def
      split: option.split cy_ota_cb_reason.split cy_ota_agent_state.split)

lemma agent_callback_status:
  "completes d \<Longrightarrow> cb = Iotc_ota_callback \<Longrightarrow> \<exists>l'. log s = l0 @ l' \<Longrightarrow>
     status_read lib l0 (agent_callback lib cb d s)"
proof -
  assume a: "completes d" "cb = Iotc_ota_callback" "\<exists>l'. log s = l0 @ l'"
  then obtain e l' where "log (snd (iotc_ota_callback lib d s)) = l0 @ l' @ e # []" "end_event e" "log s = l0 @ l'"
    using callback_status[of d lib s] by auto
  moreover have "last_session_result (snd (iotc_ota_callback lib d s)) = cy_ota_get_last_error lib (log s)"
    using a(1) by (simp add: callback_effect)
  ultimately show ?thesis
    unfolding status_read_def agent_callback_def a(2) ota_cb.case by (intro exI[of _ l'] exI[of _ e] exI[of _ "[]"]) simp
qed

lemma agent_callback_no_end:
  assumes "\<not> (cb = Iotc_ota_callback \<and> completes d)"
  shows "\<exists>es. log (agent_callback lib cb d s) = log s @ es \<and> no_end es
    \<and> last_session_result (agent_callback lib cb d s) = last_session_result s"
proof (cases cb)
  case Iotc_ota_callback
  then show ?thesis using assms callback_status[of d lib s] by (simp add: agent_callback_def callback_effect)
next
  case (User_ota n)
  then show ?thesis by (simp add: agent_callback_def log_sdk_emit end_event_def)
qed

text \<open>What the application will read: the error at the last completion, if the default callback saw one.\<close>

lemma agent_callbacks_status:
  "status_at lib l0 r0 q s \<Longrightarrow>
   status_at lib l0 r0 (q \<or> cb = Iotc_ota_callback \<and> (\<exists>d \<in> set ds. completes d)) (fold (agent_callback lib cb) ds s)"
proof (induction ds arbitrary: q s)
  case (Cons d ds)
  have l: "\<exists>l'. log s = l0 @ l'"
    using Cons.prems by (cases q) (auto simp: status_at_def status_read_def status_kept_def)
  let ?q = "q \<or> cb = Iotc_ota_callback \<and> completes d"
  have "status_at lib l0 r0 ?q (agent_callback lib cb d s)"
  proof (cases "cb = Iotc_ota_callback \<and> completes d")
    case True
    then show ?thesis using agent_callback_status[OF _ _ l] by (simp add: status_at_def)
  next
    case False
    then obtain es where "log (agent_callback lib cb d s) = log s @ es" "no_end es"
        "last_session_result (agent_callback lib cb d s) = last_session_result s"
      using agent_callback_no_end by blast
    moreover have "?q = q" using False by auto
    ultimately show ?thesis using status_at_extend[OF Cons.prems] by simp
  qed
  from Cons.IH[OF this] have "status_at lib l0 r0 (?q \<or> cb = Iotc_ota_callback \<and> (\<exists>d \<in> set ds. completes d))
      (fold (agent_callback lib cb) (d # ds) s)" by simp
  moreover have eq: "(?q \<or> cb = Iotc_ota_callback \<and> (\<exists>d \<in> set ds. completes d))
      = (q \<or> cb = Iotc_ota_callback \<and> (\<exists>d \<in> set (d # ds). completes d))" by auto
  ultimately show ?case by (simp only: eq)
qed simp

lemma agent_callbacks_notify:
  "notifications (log (fold (agent_callback lib cb) ds s)) = notifications (log s)
     @ (if cb = Iotc_ota_callback
        then concat (map (\<lambda>d. if completes d then opt_list (app_task_handle s) else []) ds) else [])"
  by (induction ds arbitrary: s)
    (simp_all add: agent_callback_def callback_effect split: ota_cb.split cong: if_cong)

text \<open>A successful run in one formula.\<close>

definition the_callback :: "ota_cb option \<Rightarrow> ota_cb" where
  "the_callback usr = (case usr of Some f \<Rightarrow> f | None \<Rightarrow> Iotc_ota_callback)"

lemma run_cases:
  assumes "iotc_ota_start env lib ct host path usr s = (r, u)"
  shows "iotc_ota_run env lib early waiting ct host path usr s =
    (if r \<noteq> CY_RSLT_SUCCESS then (r, u)
     else (r, iotc_ota_cleanup (sdk_emit (Notify_take OTA_WAIT_MS)
       (fold (agent_callback lib (the_callback usr)) waiting
         ((fold (agent_callback lib (the_callback usr)) early u)
            \<lparr>app_task_handle := Some (xTaskGetCurrentTaskHandle lib
               (log (fold (agent_callback lib (the_callback usr)) early u)))\<rparr>)))))"
  using assms by (simp add: iotc_ota_run_def the_callback_def Let_def)

lemma run_keeps:
  assumes "ota_ok s" and "iotc_ota_run env lib early waiting ct host path usr s = (r, t)"
  shows "ota_keeps s t" "r = CY_RSLT_SUCCESS \<Longrightarrow> ota_blocks t = [] \<and> heap t = ota_rest s"
proof -
  obtain r' u where u: "iotc_ota_start env lib ct host path usr s = (r', u)" by fastforce
  have k: "ota_keeps s u" using start_keeps[OF assms(1), of env lib ct host path usr] u by simp
  let ?cb = "the_callback usr" let ?v = "fold (agent_callback lib ?cb) early u"
  have v: "ota_keeps u ?v" using agent_callbacks_effect[of u lib ?cb early] k by (simp add: ota_keeps_def)
  let ?w = "?v\<lparr>app_task_handle := Some (xTaskGetCurrentTaskHandle lib (log ?v))\<rparr>"
  have w: "ota_keeps s ?w" using v k ota_frame[of ?w ?v] by (simp add: ota_keeps_def)
  let ?x = "fold (agent_callback lib ?cb) waiting ?w" let ?y = "sdk_emit (Notify_take OTA_WAIT_MS) ?x"
  have x: "ota_keeps s ?x"
    using agent_callbacks_effect[of ?w lib ?cb waiting] w by (simp add: ota_keeps_def)
  then have y: "ota_keeps s ?y" using ota_frame[of ?y ?x] by (simp add: ota_keeps_def)
  then have ok: "ota_ok ?y" by (simp add: ota_keeps_def)
  note c = cleanup_effect[OF ok]
  have "ota_keeps s (iotc_ota_cleanup ?y)" using c y by (simp add: ota_keeps_def double_frees_def)
  then show "ota_keeps s t" using assms(2) run_cases[OF u, of early waiting] k by (simp split: if_splits)
  show "ota_blocks t = [] \<and> heap t = ota_rest s" if "r = CY_RSLT_SUCCESS"
    using that assms(2) run_cases[OF u, of early waiting] c y by (auto simp: ota_keeps_def split: if_splits)
qed

section \<open>The module as a transition system\<close>

inductive ota_step :: "sdk_env \<Rightarrow> ota_lib \<Rightarrow> ota_state \<Rightarrow> ota_state \<Rightarrow> bool" for env lib where
  ota_starts: "ota_step env lib s (snd (iotc_ota_start env lib ct host path usr s))"
| ota_runs: "ota_step env lib s (snd (iotc_ota_run env lib early waiting ct host path usr s))"
| ota_cleans: "ota_step env lib s (iotc_ota_cleanup s)"
| ota_called_back: "ota_step env lib s (snd (iotc_ota_callback lib d s))"
| ota_inits: "ota_step env lib s (snd (iotc_ota_init env s))"
| ota_validates: "ota_step env lib s (snd (iotc_ota_storage_validated env s))"
| ota_resets: "ota_step env lib s (iotc_ota_system_reset s)"

lemma ota_frame_keeps:
  "ota_ok s \<Longrightarrow> heap t = heap s \<Longrightarrow> next_addr t = next_addr s \<Longrightarrow> http_file t = http_file s \<Longrightarrow>
   http_host_name t = http_host_name s \<Longrightarrow> double_frees (log t) = double_frees (log s) \<Longrightarrow> ota_keeps s t"
  using ota_frame[of t s] by (simp add: ota_keeps_def)

lemma ota_step_keeps:
  assumes "ota_ok s" and "ota_step env lib s t"
  shows "ota_keeps s t"
  using assms(2)
proof cases
  case (ota_starts ct host path usr)
  then show ?thesis using start_keeps[OF assms(1)] by simp
next
  case (ota_runs early waiting ct host path usr)
  then show ?thesis using run_keeps(1)[OF assms(1)] by (metis prod.collapse)
next
  case ota_cleans
  then show ?thesis using cleanup_effect[OF assms(1)] by (simp add: ota_keeps_def double_frees_def)
qed (auto intro!: ota_frame_keeps[OF assms(1)]
  simp: callback_effect iotc_ota_init_def iotc_ota_storage_validated_def iotc_ota_system_reset_def)

interpretation ota_system: transition_system
  "\<lambda>s. \<exists>h n. heap_ok (ota_initial lib h n) \<and> s = ota_initial lib h n \<and> h = h0" "ota_step env lib"
  "\<lambda>s. ota_ok s \<and> ota_rest s = h0 \<and> double_frees (log s) = 0" for env lib h0
proof unfold_locales
  show "ota_ok s \<and> ota_rest s = h0 \<and> double_frees (log s) = 0"
    if "\<exists>h n. heap_ok (ota_initial lib h n) \<and> s = ota_initial lib h n \<and> h = h0" for s
    using that
    by (auto simp: ota_initial_def ota_ok_def ota_blocks_def opt_list_def ota_rest_def double_frees_def restrict_map_def)
  show "ota_ok t \<and> ota_rest t = h0 \<and> double_frees (log t) = 0"
    if "ota_ok s \<and> ota_rest s = h0 \<and> double_frees (log s) = 0" "ota_step env lib s t" for s t
    using that ota_step_keeps[of s env lib t] by (auto simp: ota_keeps_def)
qed

section \<open>A concrete update\<close>

definition ota_example_env :: sdk_env where
  "ota_example_env =
     \<lparr>env_code = \<lambda>_. 5, env_ret = \<lambda>_ _. 0, env_alloc = \<lambda>_ _. True, env_mqtt_handle = \<lambda>_. Some 1, env_rand = \<lambda>_. 0,
      env_http_body = \<lambda>_. []\<rparr>"

definition ota_example_lib :: ota_lib where
  "ota_example_lib =
     \<lparr>cy_ota_get_last_error = \<lambda>_. 0, cy_ota_get_error_string = \<lambda>_. ''error'', CY_RSLT_OTA_ERROR_GENERAL = 9,
      sizeof_root_ca = \<lambda>_. 1000, xTaskGetCurrentTaskHandle = \<lambda>_. 3\<rparr>"

definition ota_example :: ota_state where
  "ota_example = ota_initial ota_example_lib Map.empty 1"

definition ota_complete :: "cy_ota_cb_struct option" where
  "ota_complete =
     Some \<lparr>reason = CY_OTA_REASON_STATE_CHANGE, ota_agt_state = CY_OTA_STATE_OTA_COMPLETE, cb_host_name = Some ''h'',
       cb_port = 443, cb_file = Some ''f'', cb_json_doc = Some ''{}''\<rparr>"

lemma ota_example_facts:
  "ota_ok ota_example" "heap_ok ota_example" "completes ota_complete" "app_task_handle ota_example = None"
  "notifications (log ota_example) = []" "ota_rest ota_example = Map.empty" "log ota_example = []"
  by (simp_all add: ota_example_def ota_initial_def ota_ok_def heap_ok_def ota_blocks_def opt_list_def
      completes_def ota_complete_def ota_rest_def notifications_def restrict_map_def)

lemma ota_example_start:
  obtains u where "iotc_ota_start ota_example_env ota_example_lib IOTC_CT_AWS (Some h) (Some p) usr ota_example
    = (CY_RSLT_SUCCESS, u)"
proof -
  have "fst (ota_launch ota_example_env ota_example_lib ca h p usr s) = CY_RSLT_SUCCESS" for ca s
    by (simp add: ota_launch_def Let_def case_prod_unfold) (simp add: call_def ota_example_env_def Let_def)
  then have "fst (iotc_ota_start ota_example_env ota_example_lib IOTC_CT_AWS (Some h) (Some p) usr ota_example)
      = CY_RSLT_SUCCESS"
    by (simp add: iotc_ota_start_def Let_def)
  then show ?thesis using that by (metis prod.collapse)
qed

section \<open>Properties\<close>

text \<open>
  C11: the copies of the URL have one owner. In every state that starts, runs, cleanups and callbacks in any
  order can reach from the start of the program, the two pointers are null or point to distinct
  live blocks, nothing has been freed twice, and \<open>iotc_ota_cleanup\<close> gives back exactly the memory
  that was there before the first update.
\<close>

theorem ota_memory_invariant:
  assumes "heap_ok (ota_initial lib h n)" and "(ota_step env lib)\<^sup>*\<^sup>* (ota_initial lib h n) t"
  shows "distinct (ota_blocks t) \<and> (\<forall>a \<in> set (ota_blocks t). heap t a \<noteq> None)
    \<and> double_frees (log t) = 0 \<and> heap (iotc_ota_cleanup t) = h
    \<and> http_file (iotc_ota_cleanup t) = None \<and> http_host_name (iotc_ota_cleanup t) = None"
proof -
  have t: "ota_ok t \<and> ota_rest t = h \<and> double_frees (log t) = 0"
    using ota_system.inv_reachable[of lib "ota_initial lib h n" h env t] assms by blast
  with cleanup_effect[of t] show ?thesis by (simp add: ota_ok_def)
qed

lemma ota_memory_invariant_witness:
  "heap (iotc_ota_cleanup (snd (iotc_ota_start ota_example_env ota_example_lib IOTC_CT_AWS (Some ''host'')
     (Some ''/file'') None ota_example))) = Map.empty"
proof -
  have h: "heap_ok (ota_initial ota_example_lib Map.empty 1)"
    using ota_example_facts(2) by (simp add: ota_example_def)
  have "(ota_step ota_example_env ota_example_lib)\<^sup>*\<^sup>* (ota_initial ota_example_lib Map.empty 1)
      (snd (iotc_ota_start ota_example_env ota_example_lib IOTC_CT_AWS (Some ''host'') (Some ''/file'') None ota_example))"
    unfolding ota_example_def by (rule r_into_rtranclp, rule ota_starts)
  from ota_memory_invariant[OF h this] show ?thesis by blast
qed

text \<open>
  C33: what the callback decides. It asks the agent to stop exactly when there are no data, when the
  update has ended, or when the job has no server, no port or an empty file name; it changes the status and
  notifies the stored task exactly at the end of the update; and it never touches memory.
\<close>

theorem ota_callback_decision:
  "(fst (iotc_ota_callback lib d s) = CY_OTA_CB_RSLT_OTA_STOP \<longleftrightarrow> d = None \<or> completes d \<or> bad_job d)
   \<and> last_session_result (snd (iotc_ota_callback lib d s))
       = (if completes d then cy_ota_get_last_error lib (log s) else last_session_result s)
   \<and> notifications (log (snd (iotc_ota_callback lib d s)))
       = notifications (log s) @ (if completes d then opt_list (app_task_handle s) else [])
   \<and> heap (snd (iotc_ota_callback lib d s)) = heap s"
  by (simp add: callback_value callback_effect)

text \<open>
  C34: \<open>iotc_ota_start\<close> on every input. Without host or path it returns -1 and without a known connection
  type -2, and changes nothing. Otherwise the copies of the previous update are freed, path and host are copied
  in that order, and the agent is started once, with the Amazon root certificate for AWS and the DigiCert
  one for Azure, its size, port 443, the two copies (null where memory was short) and the callback of the
  application or else the default one. The result is the agent's. When it is success, the module holds the
  copies and the callback; when not, both copies are freed and the module holds nothing. The status
  is a failure either way, and no other memory changes.
\<close>

theorem ota_start_outcome:
  assumes "ota_ok s" and "iotc_ota_start env lib ct host path usr s = (r, t)"
  shows "if host = None \<or> path = None then r = -1 \<and> t = s
    else if ct = IOTC_CT_UNDEFINED then r = -2 \<and> t = s
    else launched env lib (if ct = IOTC_CT_AWS then IOTCL_AMAZON_ROOT_CA1 else IOTCL_CERT_DIGICERT_GLOBAL_ROOT_G2)
        (the host) (the path) (case usr of Some f \<Rightarrow> f | None \<Rightarrow> Iotc_ota_callback) s r t
      \<and> iotc_ota_get_download_status t = CY_RSLT_OTA_ERROR_GENERAL lib
      \<and> ota_ok t \<and> ota_rest t = ota_rest s
      \<and> (r \<noteq> CY_RSLT_SUCCESS \<longrightarrow> heap t = ota_rest s)"
proof -
  have h: "heap t = ota_rest s" if "ota_rest t = ota_rest s" "ota_blocks t = []"
    using that by (simp add: ota_rest_def restrict_map_def)
  from start_effect[OF assms] show ?thesis
  proof (elim disjE exE conjE)
    fix ca h p
    assume a: "host = Some h" "path = Some p" "ct \<noteq> IOTC_CT_UNDEFINED"
      "ca = (if ct = IOTC_CT_AWS then IOTCL_AMAZON_ROOT_CA1 else IOTCL_CERT_DIGICERT_GLOBAL_ROOT_G2)"
      "ota_launch env lib ca h p usr (s\<lparr>ota_root_ca := Some ca, ota_root_ca_size := sizeof_root_ca lib ca\<rparr>) = (r, t)"
    note l = launch_with_ca[OF assms(1) a(5)]
    have "r \<noteq> CY_RSLT_SUCCESS \<longrightarrow> heap t = ota_rest s" using l(2,7) h by auto
    then show ?thesis using a(1-4) l(1,2,5) l(8)[OF refl refl] by (simp add: iotc_ota_get_download_status_def)
  qed auto
qed

lemma ota_start_outcome_witness:
  "\<exists>t. iotc_ota_start ota_example_env ota_example_lib IOTC_CT_AWS (Some ''host'') (Some ''/file'') None ota_example
       = (CY_RSLT_SUCCESS, t)
     \<and> ota_root_ca t = Some IOTCL_AMAZON_ROOT_CA1 \<and> iotc_ota_get_download_status t = 9"
proof -
  obtain u where u: "iotc_ota_start ota_example_env ota_example_lib IOTC_CT_AWS (Some ''host'') (Some ''/file'') None
      ota_example = (CY_RSLT_SUCCESS, u)"
    by (rule ota_example_start)
  from ota_start_outcome[OF ota_example_facts(1) u] u show ?thesis
    by (auto simp: ota_example_lib_def launched_def Let_def)
qed

text \<open>
  C35: the status after a run that started. When the default callback saw the update end, the status is
  the error that the agent had at the last such callback: in the log of the run, just before the last event that
  tells of an end, which is the notification of the task or the fault of a missing handle. Otherwise it
  is the general failure and there is no such event: in particular an application that passes its own
  callback reads a failure after every update, with nobody notified and the full hour waited. The memory of the
  URL is freed in every case, also when the update has not ended.
\<close>

theorem ota_run_status:
  assumes "ota_ok s"
    and "iotc_ota_run env lib early waiting ct host path usr s = (CY_RSLT_SUCCESS, t)"
  shows "\<exists>run. log t = log (snd (iotc_ota_start env lib ct host path usr s)) @ run
    \<and> (if usr \<in> {None, Some Iotc_ota_callback} \<and> (\<exists>d \<in> set (early @ waiting). completes d)
       then \<exists>l e l'. run = l @ e # l' \<and> end_event e \<and> no_end l'
         \<and> iotc_ota_get_download_status t
             = cy_ota_get_last_error lib (log (snd (iotc_ota_start env lib ct host path usr s)) @ l)
       else no_end run \<and> iotc_ota_get_download_status t = CY_RSLT_OTA_ERROR_GENERAL lib)
    \<and> (usr \<notin> {None, Some Iotc_ota_callback} \<longrightarrow> notifications (log t) = notifications (log s))
    \<and> ota_blocks t = [] \<and> heap t = ota_rest s"
proof -
  obtain r u where u: "iotc_ota_start env lib ct host path usr s = (r, u)" by fastforce
  have r: "r = CY_RSLT_SUCCESS"
    using assms(2) run_cases[OF u, of early waiting] by (simp split: if_splits)
  have st: "last_session_result u = CY_RSLT_OTA_ERROR_GENERAL lib" "notifications (log u) = notifications (log s)"
      "ota_ok u"
    using start_effect[OF assms(1) u] launch_with_ca[OF assms(1)] r by fastforce+
  let ?cb = "the_callback usr" let ?v = "fold (agent_callback lib ?cb) early u"
  let ?w = "?v\<lparr>app_task_handle := Some (xTaskGetCurrentTaskHandle lib (log ?v))\<rparr>"
  let ?x = "fold (agent_callback lib ?cb) waiting ?w" let ?y = "sdk_emit (Notify_take OTA_WAIT_MS) ?x"
  have t: "t = iotc_ota_cleanup ?y" using assms(2) run_cases[OF u, of early waiting] r by simp
  have "ota_ok ?v" using agent_callbacks_effect[OF st(3), of lib ?cb early] by (simp add: ota_keeps_def)
  then have "ota_ok ?w" using ota_frame[of ?w ?v] by simp
  then have "ota_ok ?x" using agent_callbacks_effect[of ?w lib ?cb waiting] by (simp add: ota_keeps_def)
  then have y: "ota_ok ?y" using ota_frame[of ?y ?x] by simp
  have cb: "?cb = Iotc_ota_callback \<longleftrightarrow> usr \<in> {None, Some Iotc_ota_callback}"
    by (simp add: the_callback_def split: option.split)
  let ?P = "status_at lib (log u) (CY_RSLT_OTA_ERROR_GENERAL lib)"
  let ?e = "?cb = Iotc_ota_callback \<and> (\<exists>d \<in> set early. completes d)"
  have "?P False u" using st(1) by (simp add: status_at_def status_kept_def)
  from agent_callbacks_status[OF this, of ?cb early] have v: "?P ?e ?v" by simp
  have "log ?w = log ?v @ []" "last_session_result ?w = last_session_result ?v" by simp_all
  from status_at_extend[OF v this(1) no_end_simps(1) this(2)] have "?P ?e ?w" .
  from agent_callbacks_status[OF this, of ?cb waiting]
  have x: "?P (?e \<or> ?cb = Iotc_ota_callback \<and> (\<exists>d \<in> set waiting. completes d)) ?x" .
  let ?q = "?cb = Iotc_ota_callback \<and> (\<exists>d \<in> set (early @ waiting). completes d)"
  have "(?e \<or> ?cb = Iotc_ota_callback \<and> (\<exists>d \<in> set waiting. completes d)) = ?q" by auto
  note x = x[unfolded this]
  have lt: "log t = log ?x @ Notify_take OTA_WAIT_MS # map Free (ota_blocks ?y)"
    using cleanup_log(1)[OF y] by (simp add: t log_sdk_emit)
  have "no_end (map Free as)" for as by (induction as) (simp_all add: end_event_def)
  then have ne: "no_end (Notify_take OTA_WAIT_MS # map Free (ota_blocks ?y))" by (simp add: end_event_def)
  have "last_session_result t = last_session_result ?x" using cleanup_effect(10)[OF y] by (simp add: t)
  from status_at_extend[OF x lt ne this] have pt: "?P ?q t" .
  have n: "usr \<notin> {None, Some Iotc_ota_callback} \<longrightarrow> notifications (log t) = notifications (log s)"
    using cb st(2) by (simp add: t agent_callbacks_notify)
  note res = status_at_log[OF pt]
  show ?thesis using res n run_keeps(2)[OF assms] unfolding cb u snd_conv by blast
qed

lemma ota_run_status_witness:
  "\<exists>t. iotc_ota_run ota_example_env ota_example_lib [] [ota_complete] IOTC_CT_AWS (Some ''host'') (Some ''/file'')
        (Some (User_ota 1)) ota_example = (CY_RSLT_SUCCESS, t)
     \<and> iotc_ota_get_download_status t = 9 \<and> notifications (log t) = []"
proof -
  obtain u where "iotc_ota_start ota_example_env ota_example_lib IOTC_CT_AWS (Some ''host'') (Some ''/file'')
      (Some (User_ota 1)) ota_example = (CY_RSLT_SUCCESS, u)"
    by (rule ota_example_start)
  then obtain t where t: "iotc_ota_run ota_example_env ota_example_lib [] [ota_complete] IOTC_CT_AWS (Some ''host'')
      (Some ''/file'') (Some (User_ota 1)) ota_example = (CY_RSLT_SUCCESS, t)"
    by (simp add: run_cases)
  from ota_run_status[OF ota_example_facts(1) t] t ota_example_facts(5)
  show ?thesis by (auto simp: ota_example_lib_def)
qed

text \<open>
  \<open>iotc_ota_run\<close> stores the task handle only after the agent has been started. An update that ends
  before that is notified to nobody: on the first run through a null handle, and the task then
  waits although the update is over.
\<close>

theorem ota_early_completion:
  assumes "ota_ok s" and "app_task_handle s = None" and "usr = None" and "completes d"
    and "\<forall>d' \<in> set waiting. \<not> completes d'"
    and "iotc_ota_run env lib [d] waiting ct host path usr s = (CY_RSLT_SUCCESS, t)"
  shows "notifications (log t) = notifications (log s)
    \<and> ''notification of a null task handle'' \<in> set (faults (log t))"
proof -
  obtain r u where u: "iotc_ota_start env lib ct host path usr s = (r, u)" by fastforce
  have r: "r = CY_RSLT_SUCCESS"
    using assms(6) run_cases[OF u, of "[d]" waiting] by (simp split: if_splits)
  have st: "app_task_handle u = None" "notifications (log u) = notifications (log s)" "ota_ok u"
    using start_effect[OF assms(1) u] launch_with_ca[OF assms(1)] r assms(2) by fastforce+
  let ?v = "agent_callback lib Iotc_ota_callback d u"
  let ?w = "?v\<lparr>app_task_handle := Some (xTaskGetCurrentTaskHandle lib (log ?v))\<rparr>"
  let ?x = "fold (agent_callback lib Iotc_ota_callback) waiting ?w"
  have t: "t = iotc_ota_cleanup (sdk_emit (Notify_take OTA_WAIT_MS) ?x)"
    using assms(3,6) run_cases[OF u, of "[d]" waiting] r by (simp add: the_callback_def)
  have n: "notifications (log ?x) = notifications (log s)"
    using assms(4,5) st
    by (auto simp: agent_callbacks_notify agent_callback_def callback_effect opt_list_def concat_eq_Nil_conv)
  have "''notification of a null task handle'' \<in> set (faults (log ?v))"
    using assms(4) st(1)
    by (auto simp: agent_callback_def iotc_ota_callback_def completes_def xTaskNotifyGive_def Let_def
        split: option.splits)
  moreover have "set (faults (log a)) \<subseteq> set (faults (log (fold (agent_callback lib cb) ds a)))" for cb ds a
    by (rule agent_callbacks_faults)
  ultimately have "''notification of a null task handle'' \<in> set (faults (log ?x))" by fastforce
  then have "''notification of a null task handle'' \<in> set (faults (log t))"
    using t cleanup_faults by fastforce
  then show ?thesis using n t by simp
qed

lemma ota_early_completion_witness:
  "\<exists>t. iotc_ota_run ota_example_env ota_example_lib [ota_complete] [] IOTC_CT_AWS (Some ''host'') (Some ''/file'')
        None ota_example = (CY_RSLT_SUCCESS, t)
     \<and> notifications (log t) = []"
proof -
  obtain u where "iotc_ota_start ota_example_env ota_example_lib IOTC_CT_AWS (Some ''host'') (Some ''/file'')
      None ota_example = (CY_RSLT_SUCCESS, u)"
    by (rule ota_example_start)
  then obtain t where t: "iotc_ota_run ota_example_env ota_example_lib [ota_complete] [] IOTC_CT_AWS (Some ''host'')
      (Some ''/file'') None ota_example = (CY_RSLT_SUCCESS, t)"
    by (simp add: run_cases)
  have "\<forall>d' \<in> set []. \<not> completes d'" by simp
  from ota_early_completion[OF ota_example_facts(1,4) refl ota_example_facts(3) this t] t ota_example_facts(5)
  show ?thesis by simp
qed

end
