(* ===== verification/Gencert.thy ===== *)
theory Gencert
  imports Prelude
begin

text \<open>
  Credentials generated on the device, \<open>source/iotc_gencert.c\<close>: a key pair, and a certificate signed with
  it. The work is done by mbedTLS, whose calls are the events of a log; a result of a call that can
  fail is a parameter. What a call that writes PEM leaves in the buffer of the caller, \<open>key_pem\<close> and
  \<open>cert_pem\<close>, is a parameter too, on success and on failure.
\<close>

section \<open>Build options\<close>

definition IOTC_GENCRT_NOT_BEFORE :: string where "IOTC_GENCRT_NOT_BEFORE = ''20240101000000''"
definition IOTC_GENCRT_NOT_AFTER :: string where "IOTC_GENCRT_NOT_AFTER = ''21240101000000''"
definition IOTC_GENCRT_SUBJECT_NAME :: string where
  "IOTC_GENCRT_SUBJECT_NAME = ''CN=IoTConnectDevCert,O=Avnet,C=US''"

section \<open>Calls of mbedTLS\<close>

text \<open>The contexts on the stack of the three functions.\<close>

datatype mbedtls_ctx = Key_ctx | Entropy_ctx | Key_drbg_ctx | Serial_ctx | Cert_drbg_ctx | Crt_ctx

text \<open>The calls that return a status. The random generator is the context that is passed along.\<close>

datatype mbedtls_call =
    Mbedtls_pk_setup mbedtls_ctx
  | Mbedtls_ctr_drbg_seed mbedtls_ctx mbedtls_ctx
  | Mbedtls_ecp_gen_key mbedtls_ctx mbedtls_ctx
  | Mbedtls_pk_write_key_pem mbedtls_ctx nat
  | Mbedtls_x509write_crt_set_subject_name mbedtls_ctx string
  | Mbedtls_x509write_crt_set_issuer_name mbedtls_ctx string
  | Mbedtls_x509write_crt_set_serial_raw mbedtls_ctx u64 nat
  | Mbedtls_x509write_crt_set_validity mbedtls_ctx string string
  | Mbedtls_x509write_crt_set_basic_constraints mbedtls_ctx nat nat
  | Mbedtls_x509write_crt_pem mbedtls_ctx nat mbedtls_ctx

datatype gencert_event =
    Mbed_init mbedtls_ctx
  | Mbed_free mbedtls_ctx
  | Mbed_ret mbedtls_call c_int
  | Mbed_set_subject_key mbedtls_ctx mbedtls_ctx
  | Mbed_set_issuer_key mbedtls_ctx mbedtls_ctx
  | Mbed_set_version_3 mbedtls_ctx
  | Mbed_set_md_sha256 mbedtls_ctx

text \<open>
  \<open>gc_buf\<close> gives the bytes of the caller's buffer after a PEM call, from the result of the call and the
  bytes before it. Nothing is said of a failing call, which may have used the buffer for the DER form.
\<close>

record gencert_env =
  gc_ret :: "gencert_event list \<Rightarrow> mbedtls_call \<Rightarrow> c_int"
  gc_buf :: "gencert_event list \<Rightarrow> mbedtls_call \<Rightarrow> c_int \<Rightarrow> u8 list \<Rightarrow> u8 list"
  Cy_SysLib_GetUniqueId :: u64

record gencert_state =
  gc_log :: "gencert_event list"
  key_pem :: "u8 list"
  cert_pem :: "u8 list"

definition gc_emit :: "gencert_event \<Rightarrow> gencert_state \<Rightarrow> gencert_state" where
  "gc_emit e s = s\<lparr>gc_log := gc_log s @ [e]\<rparr>"

definition gc_call :: "gencert_env \<Rightarrow> mbedtls_call \<Rightarrow> gencert_state \<Rightarrow> c_int \<times> gencert_state" where
  "gc_call env c s = (let r = gc_ret env (gc_log s) c in (r, gc_emit (Mbed_ret c r) s))"

text \<open>The two calls that write PEM also change the buffer they are given.\<close>

definition gc_write_key :: "gencert_env \<Rightarrow> mbedtls_call \<Rightarrow> gencert_state \<Rightarrow> c_int \<times> gencert_state" where
  "gc_write_key env c s =
     (let (r, t) = gc_call env c s in (r, t\<lparr>key_pem := gc_buf env (gc_log s) c r (key_pem s)\<rparr>))"

definition gc_write_cert :: "gencert_env \<Rightarrow> mbedtls_call \<Rightarrow> gencert_state \<Rightarrow> c_int \<times> gencert_state" where
  "gc_write_cert env c s =
     (let (r, t) = gc_call env c s in (r, t\<lparr>cert_pem := gc_buf env (gc_log s) c r (cert_pem s)\<rparr>))"

section \<open>The functions\<close>

text \<open>The label \<open>exit\<close> of \<open>generate_selfsigned_cert\<close>.\<close>

definition cert_exit :: "c_int \<Rightarrow> gencert_state \<Rightarrow> c_int \<times> gencert_state" where
  "cert_exit ret s =
     (ret, gc_emit (Mbed_free Crt_ctx) (gc_emit (Mbed_free Cert_drbg_ctx) (gc_emit (Mbed_free Serial_ctx) s)))"

text \<open>From the serial number to the end.\<close>

definition cert_contents :: "gencert_env \<Rightarrow> nat \<Rightarrow> gencert_state \<Rightarrow> c_int \<times> gencert_state" where
  "cert_contents env buf_len s =
     (let (ret, s) = gc_call env (Mbedtls_x509write_crt_set_serial_raw Crt_ctx (Cy_SysLib_GetUniqueId env) 8) s
      in if ret \<noteq> 0 then cert_exit ret s else
      let (ret, s) = gc_call env (Mbedtls_x509write_crt_set_validity Crt_ctx IOTC_GENCRT_NOT_BEFORE IOTC_GENCRT_NOT_AFTER) s
      in if ret \<noteq> 0 then cert_exit ret s else
      let (ret, s) = gc_call env (Mbedtls_x509write_crt_set_basic_constraints Crt_ctx 1 0) s
      in if ret \<noteq> 0 then cert_exit ret s else
      let (ret, s) = gc_write_cert env (Mbedtls_x509write_crt_pem Crt_ctx buf_len Cert_drbg_ctx) s
      in if ret \<noteq> 0 then cert_exit ret s else cert_exit ret s)"

definition generate_selfsigned_cert :: "gencert_env \<Rightarrow> nat \<Rightarrow> gencert_state \<Rightarrow> c_int \<times> gencert_state" where
  "generate_selfsigned_cert env buf_len s =
     (let s = gc_emit (Mbed_init Serial_ctx) s;
          s = gc_emit (Mbed_init Cert_drbg_ctx) s;
          s = gc_emit (Mbed_init Crt_ctx) s;
          s = gc_emit (Mbed_set_subject_key Crt_ctx Key_ctx) s;
          s = gc_emit (Mbed_set_issuer_key Crt_ctx Key_ctx) s;
          (ret, s) = gc_call env (Mbedtls_x509write_crt_set_subject_name Crt_ctx IOTC_GENCRT_SUBJECT_NAME) s
      in if ret \<noteq> 0 then cert_exit ret s else
      let (ret, s) = gc_call env (Mbedtls_x509write_crt_set_issuer_name Crt_ctx IOTC_GENCRT_SUBJECT_NAME) s
      in if ret \<noteq> 0 then cert_exit ret s else
      let s = gc_emit (Mbed_set_version_3 Crt_ctx) s;
          s = gc_emit (Mbed_set_md_sha256 Crt_ctx) s
      in cert_contents env buf_len s)"

text \<open>The label \<open>exit\<close> of \<open>make_key\<close>.\<close>

definition key_exit :: "c_int \<Rightarrow> gencert_state \<Rightarrow> c_int \<times> gencert_state" where
  "key_exit ret s = (ret, gc_emit (Mbed_free Key_drbg_ctx) (gc_emit (Mbed_free Entropy_ctx) s))"

definition make_key :: "gencert_env \<Rightarrow> nat \<Rightarrow> gencert_state \<Rightarrow> c_int \<times> gencert_state" where
  "make_key env buf_len s =
     (let s = gc_emit (Mbed_init Entropy_ctx) s;
          s = gc_emit (Mbed_init Key_drbg_ctx) s;
          (ret, s) = gc_call env (Mbedtls_pk_setup Key_ctx) s
      in if ret \<noteq> 0 then key_exit ret s else
      let (ret, s) = gc_call env (Mbedtls_ctr_drbg_seed Key_drbg_ctx Entropy_ctx) s
      in if ret \<noteq> 0 then key_exit ret s else
      let (ret, s) = gc_call env (Mbedtls_ecp_gen_key Key_ctx Key_drbg_ctx) s
      in if ret \<noteq> 0 then key_exit ret s else
      let (ret, s) = gc_write_key env (Mbedtls_pk_write_key_pem Key_ctx buf_len) s
      in if ret \<noteq> 0 then key_exit ret s else key_exit ret s)"

definition iotc_x509_generate_credentials ::
    "gencert_env \<Rightarrow> nat \<Rightarrow> nat \<Rightarrow> gencert_state \<Rightarrow> c_int \<times> gencert_state" where
  "iotc_x509_generate_credentials env cert_buffer_size key_buffer_size s =
     (let s = gc_emit (Mbed_init Key_ctx) s;
          (ret, s) = make_key env key_buffer_size s
      in if ret \<noteq> 0 then (ret, s) else
      let (ret, s) = generate_selfsigned_cert env cert_buffer_size s
      in if ret \<noteq> 0 then (ret, s) else (0, s))"

section \<open>The sequence of the calls\<close>

text \<open>The calls with their results in a log.\<close>

definition results_of :: "gencert_event list \<Rightarrow> (mbedtls_call \<times> c_int) list" where
  "results_of es = concat (map (\<lambda>e. case e of Mbed_ret c r \<Rightarrow> [(c, r)] | _ \<Rightarrow> []) es)"

definition key_calls :: "nat \<Rightarrow> mbedtls_call list" where
  "key_calls n =
     [Mbedtls_pk_setup Key_ctx, Mbedtls_ctr_drbg_seed Key_drbg_ctx Entropy_ctx,
      Mbedtls_ecp_gen_key Key_ctx Key_drbg_ctx, Mbedtls_pk_write_key_pem Key_ctx n]"

definition cert_calls :: "u64 \<Rightarrow> nat \<Rightarrow> mbedtls_call list" where
  "cert_calls uid n =
     [Mbedtls_x509write_crt_set_subject_name Crt_ctx IOTC_GENCRT_SUBJECT_NAME,
      Mbedtls_x509write_crt_set_issuer_name Crt_ctx IOTC_GENCRT_SUBJECT_NAME,
      Mbedtls_x509write_crt_set_serial_raw Crt_ctx uid 8,
      Mbedtls_x509write_crt_set_validity Crt_ctx IOTC_GENCRT_NOT_BEFORE IOTC_GENCRT_NOT_AFTER,
      Mbedtls_x509write_crt_set_basic_constraints Crt_ctx 1 0,
      Mbedtls_x509write_crt_pem Crt_ctx n Cert_drbg_ctx]"

text \<open>
  \<open>stops_first cs rs ret\<close>: the results \<open>rs\<close> are those of an initial part of \<open>cs\<close> that ends at the first
  error, which is \<open>ret\<close>; without an error it is all of \<open>cs\<close> and \<open>ret\<close> is 0.
\<close>

fun stops_first :: "mbedtls_call list \<Rightarrow> (mbedtls_call \<times> c_int) list \<Rightarrow> c_int \<Rightarrow> bool" where
  "stops_first [] rs ret \<longleftrightarrow> rs = [] \<and> ret = 0"
| "stops_first (c # cs) [] ret \<longleftrightarrow> False"
| "stops_first (c # cs) ((c', r) # rs) ret \<longleftrightarrow>
     c' = c \<and> (if r \<noteq> 0 then rs = [] \<and> ret = r else stops_first cs rs ret)"

section \<open>Lemmas\<close>

lemma results_emit [simp]: "results_of (gc_log (gc_emit e s)) = results_of (gc_log s) @ results_of [e]"
  by (simp add: results_of_def gc_emit_def)

lemma results_single [simp]: "results_of [e] = (case e of Mbed_ret c r \<Rightarrow> [(c, r)] | _ \<Rightarrow> [])"
  by (simp add: results_of_def)

lemma results_call [simp]:
  "results_of (gc_log (snd (gc_call env c s))) = results_of (gc_log s) @ [(c, fst (gc_call env c s))]"
  by (simp add: gc_call_def Let_def)

lemma results_write [simp]:
  "results_of (gc_log (snd (gc_write_key env c s))) = results_of (gc_log s) @ [(c, fst (gc_write_key env c s))]"
  "results_of (gc_log (snd (gc_write_cert env c s))) = results_of (gc_log s) @ [(c, fst (gc_write_cert env c s))]"
  by (simp_all add: gc_write_key_def gc_write_cert_def Let_def case_prod_unfold)

lemma results_exit [simp]:
  "results_of (gc_log (snd (cert_exit ret s))) = results_of (gc_log s)" "fst (cert_exit ret s) = ret"
  "results_of (gc_log (snd (key_exit ret s))) = results_of (gc_log s)" "fst (key_exit ret s) = ret"
  by (simp_all add: cert_exit_def key_exit_def)

lemma stops_first_extend:
  "stops_first cs rs ret \<Longrightarrow> ret \<noteq> 0 \<Longrightarrow> stops_first (cs @ cs') rs ret"
  by (induction cs rs ret rule: stops_first.induct) (simp_all split: if_splits)

lemma stops_first_append:
  "stops_first cs rs 0 \<Longrightarrow> stops_first cs' rs' ret \<Longrightarrow> stops_first (cs @ cs') (rs @ rs') ret"
  by (induction cs rs "0 :: c_int" rule: stops_first.induct) (simp_all split: if_splits)

text \<open>Without an error every call was made and returned 0.\<close>

lemma stops_first_zero: "stops_first cs rs 0 \<Longrightarrow> rs = map (\<lambda>c. (c, 0)) cs"
  by (induction cs rs "0 :: c_int" rule: stops_first.induct) (simp_all split: if_splits)


text \<open>Each function makes its calls in order and stops at the first error.\<close>

definition makes :: "mbedtls_call list \<Rightarrow> gencert_state \<Rightarrow> c_int \<times> gencert_state \<Rightarrow> bool" where
  "makes cs s rt \<longleftrightarrow>
     (\<exists>rs. results_of (gc_log (snd rt)) = results_of (gc_log s) @ rs \<and> stops_first cs rs (fst rt))"

lemma makes_append:
  "makes cs s (0, t) \<Longrightarrow> makes cs' t rt \<Longrightarrow> makes (cs @ cs') s rt"
  "makes cs s (ret, t) \<Longrightarrow> ret \<noteq> 0 \<Longrightarrow> makes (cs @ cs') s (ret, t)"
  by (auto simp: makes_def intro: stops_first_append stops_first_extend)

lemma makes_frame:
  "results_of (gc_log t) = results_of (gc_log s) \<Longrightarrow> makes cs t rt = makes cs s rt"
  by (simp add: makes_def)

lemma key_makes: "makes (key_calls n) s (make_key env n s)"
  by (simp add: makes_def make_key_def key_calls_def Let_def case_prod_unfold)

lemma cert_makes:
  "makes (cert_calls (Cy_SysLib_GetUniqueId env) n) s (generate_selfsigned_cert env n s)"
  by (simp add: makes_def generate_selfsigned_cert_def cert_contents_def cert_calls_def Let_def case_prod_unfold)

lemma credentials_make:
  "makes (key_calls m @ cert_calls (Cy_SysLib_GetUniqueId env) n) s (iotc_x509_generate_credentials env n m s)"
proof -
  let ?s = "gc_emit (Mbed_init Key_ctx) s"
  obtain r t where k: "make_key env m ?s = (r, t)" by fastforce
  have mk: "makes (key_calls m) s (r, t)" using key_makes[of m ?s env] by (simp add: k makes_def)
  obtain r' u where c: "generate_selfsigned_cert env n t = (r', u)" by fastforce
  have mc: "makes (cert_calls (Cy_SysLib_GetUniqueId env) n) t (r', u)" using cert_makes[of env n t] by (simp add: c)
  show ?thesis
  proof (cases "r = 0")
    case True
    then show ?thesis
      using makes_append(1)[OF mk[unfolded True] mc]
      by (cases "r' = 0") (simp_all add: iotc_x509_generate_credentials_def k c Let_def)
  next
    case False
    then show ?thesis
      using makes_append(2)[OF mk] by (simp add: iotc_x509_generate_credentials_def k Let_def)
  qed
qed

text \<open>How often a context has been initialised and not freed.\<close>

instantiation mbedtls_ctx :: enum
begin

definition enum_mbedtls_ctx where
  "enum_mbedtls_ctx = [Key_ctx, Entropy_ctx, Key_drbg_ctx, Serial_ctx, Cert_drbg_ctx, Crt_ctx]"

definition enum_all_mbedtls_ctx where
  "enum_all_mbedtls_ctx P \<longleftrightarrow> list_all P (enum_class.enum :: mbedtls_ctx list)"

definition enum_ex_mbedtls_ctx where
  "enum_ex_mbedtls_ctx P \<longleftrightarrow> list_ex P (enum_class.enum :: mbedtls_ctx list)"

instance
proof
  show univ: "(UNIV :: mbedtls_ctx set) = set enum_class.enum"
    by (auto simp: enum_mbedtls_ctx_def intro: mbedtls_ctx.exhaust)
  show "distinct (enum_class.enum :: mbedtls_ctx list)" by (simp add: enum_mbedtls_ctx_def)
  show "enum_class.enum_all P \<longleftrightarrow> Ball UNIV P" for P :: "mbedtls_ctx \<Rightarrow> bool"
    using univ by (auto simp: enum_all_mbedtls_ctx_def list_all_iff)
  show "enum_class.enum_ex P \<longleftrightarrow> Bex UNIV P" for P :: "mbedtls_ctx \<Rightarrow> bool"
    using univ by (auto simp: enum_ex_mbedtls_ctx_def list_ex_iff)
qed

end

definition open_ctx :: "mbedtls_ctx \<Rightarrow> gencert_event list \<Rightarrow> int" where
  "open_ctx c es = int (count_if (\<lambda>e. e = Mbed_init c) es) - int (count_if (\<lambda>e. e = Mbed_free c) es)"

lemma open_emit [simp]:
  "open_ctx c (gc_log (gc_emit e s)) =
     open_ctx c (gc_log s) + (if e = Mbed_init c then 1 else 0) - (if e = Mbed_free c then 1 else 0)"
  by (simp add: open_ctx_def gc_emit_def)

lemma open_call [simp]: "open_ctx c (gc_log (snd (gc_call env d s))) = open_ctx c (gc_log s)"
  by (simp add: gc_call_def Let_def)

lemma open_write [simp]:
  "open_ctx c (gc_log (snd (gc_write_key env d s))) = open_ctx c (gc_log s)"
  "open_ctx c (gc_log (snd (gc_write_cert env d s))) = open_ctx c (gc_log s)"
  by (simp_all add: gc_write_key_def gc_write_cert_def case_prod_unfold Let_def)

lemma open_exit:
  "open_ctx c (gc_log (snd (cert_exit ret s)))
     = open_ctx c (gc_log s) - (if c \<in> {Serial_ctx, Cert_drbg_ctx, Crt_ctx} then 1 else 0)"
  "open_ctx c (gc_log (snd (key_exit ret s)))
     = open_ctx c (gc_log s) - (if c \<in> {Entropy_ctx, Key_drbg_ctx} then 1 else 0)"
  by (auto simp: cert_exit_def key_exit_def)

lemma open_contents:
  "open_ctx c (gc_log (snd (cert_contents env n s)))
     = open_ctx c (gc_log s) - (if c \<in> {Serial_ctx, Cert_drbg_ctx, Crt_ctx} then 1 else 0)"
  by (simp add: cert_contents_def Let_def case_prod_unfold open_exit)

lemma open_functions:
  "open_ctx c (gc_log (snd (generate_selfsigned_cert env n s))) = open_ctx c (gc_log s)"
  "open_ctx c (gc_log (snd (make_key env n s))) = open_ctx c (gc_log s)"
  by (auto simp: generate_selfsigned_cert_def make_key_def Let_def case_prod_unfold open_exit open_contents)

















section \<open>Properties\<close>


definition gencert_example_env :: gencert_env where
  "gencert_example_env = \<lparr>gc_ret = \<lambda>_ _. 0, gc_buf = \<lambda>_ c r b. if r = 0 then [80, 69, 77] else b, Cy_SysLib_GetUniqueId = 7\<rparr>"

definition gencert_example :: gencert_state where
  "gencert_example = \<lparr>gc_log = [], key_pem = [], cert_pem = []\<rparr>"

lemma gencert_example_call: "fst (gc_call gencert_example_env c s) = 0"
  by (simp add: gc_call_def gencert_example_env_def Let_def)

lemma gencert_example_write:
  "fst (gc_write_key gencert_example_env c s) = 0" "fst (gc_write_cert gencert_example_env c s) = 0"
  by (simp_all add: gc_write_key_def gc_write_cert_def case_prod_unfold Let_def gencert_example_call)

lemma gencert_example_result:
  obtains t where "iotc_x509_generate_credentials gencert_example_env 1000 1000 gencert_example = (0, t)"
proof -
  have "fst (iotc_x509_generate_credentials gencert_example_env 1000 1000 gencert_example) = 0"
    by (simp add: iotc_x509_generate_credentials_def make_key_def generate_selfsigned_cert_def cert_contents_def
        Let_def case_prod_unfold gencert_example_call gencert_example_write)
  then show ?thesis using that by (metis prod.collapse)
qed


text \<open>
  C13: on every path, successful or not, each context that the functions initialise is freed exactly once,
  except the key: its context is initialised and never freed, so every call leaves the key and its
  memory behind.
\<close>

theorem gencert_contexts:
  "open_ctx c (gc_log (snd (iotc_x509_generate_credentials env n m s)))
     = open_ctx c (gc_log s) + (if c = Key_ctx then 1 else 0)"
  by (auto simp: iotc_x509_generate_credentials_def Let_def case_prod_unfold open_functions)

text \<open>The contexts that are still initialised after a log, in a fixed order.\<close>

definition leaked_ctxs :: "gencert_event list \<Rightarrow> mbedtls_ctx list" where
  "leaked_ctxs es = filter (\<lambda>c. open_ctx c es \<noteq> 0) enum_class.enum"

lemma gencert_leaks_the_key:
  assumes "gc_log s = []"
  shows "leaked_ctxs (gc_log (snd (iotc_x509_generate_credentials env n m s))) = [Key_ctx]"
proof -
  have "open_ctx c (gc_log (snd (iotc_x509_generate_credentials env n m s))) = (if c = Key_ctx then 1 else 0)" for c
    using assms by (simp add: iotc_x509_generate_credentials_def Let_def case_prod_unfold open_functions open_ctx_def[of _ "[]"])
  then show ?thesis by (simp add: leaked_ctxs_def enum_mbedtls_ctx_def)
qed

text \<open>
  The certificate is signed with a random generator that was never seeded. A successful call has passed
  the context \<open>Cert_drbg_ctx\<close> to \<open>mbedtls_x509write_crt_pem\<close> and has seeded another one only.
\<close>

theorem gencert_unseeded:
  assumes "iotc_x509_generate_credentials env n m s = (0, t)"
  shows "\<exists>rs. results_of (gc_log t) = results_of (gc_log s) @ rs
    \<and> (Mbedtls_x509write_crt_pem Crt_ctx n Cert_drbg_ctx, 0) \<in> set rs
    \<and> (\<forall>e r. (Mbedtls_ctr_drbg_seed Cert_drbg_ctx e, r) \<notin> set rs)"
proof -
  obtain rs where rs: "results_of (gc_log t) = results_of (gc_log s) @ rs"
      "stops_first (key_calls m @ cert_calls (Cy_SysLib_GetUniqueId env) n) rs 0"
    using credentials_make[of m env n s] assms by (auto simp: makes_def)
  from stops_first_zero[OF rs(2)] rs(1) show ?thesis by (simp add: key_calls_def cert_calls_def)
qed

lemma gencert_unseeded_witness:
  "\<exists>t rs. iotc_x509_generate_credentials gencert_example_env 1000 1000 gencert_example = (0, t)
    \<and> results_of (gc_log t) = rs \<and> (Mbedtls_x509write_crt_pem Crt_ctx 1000 Cert_drbg_ctx, 0) \<in> set rs"
proof -
  obtain t where t: "iotc_x509_generate_credentials gencert_example_env 1000 1000 gencert_example = (0, t)"
    by (rule gencert_example_result)
  have "results_of (gc_log gencert_example) = []" by (simp add: gencert_example_def results_of_def)
  with gencert_unseeded[OF t] t show ?thesis by auto
qed

end
